(* ===== verification/Core_Model.thy ===== *)
theory Core_Model
  imports Prelude
begin

text \<open>
  The shared domain model of \<^verbatim>\<open>pacinet-core/src/model.rs\<close> and the error types of
  \<^verbatim>\<open>pacinet-core/src/error.rs\<close> and \<^verbatim>\<open>pacinet-core/src/fsm/error.rs\<close>: the states of a node
  and their transition table, nodes, policies and their versions, deployment records, counters,
  events, audit entries, templates and webhook deliveries, and the translation of errors into
  gRPC status codes.  The lemmas show that every enumeration survives printing and parsing, that
  parsing ignores ASCII case and accepts nothing else, and what the transition table allows.

  \<open>to_lower\<close> lowers ASCII letters only.  Rust's \<open>to_lowercase\<close> also lowers other letters, but
  none of them lowers to a letter of the words compared here, so the parsers agree.
\<close>

datatype node_state = Registered | Online | Deploying | Active | Error | Offline

fun valid_transitions :: "node_state \<Rightarrow> node_state list" where
  "valid_transitions Registered = [Online, Offline]"
| "valid_transitions Online = [Deploying, Error, Offline]"
| "valid_transitions Deploying = [Active, Error, Offline]"
| "valid_transitions Active = [Deploying, Error, Offline]"
| "valid_transitions Error = [Online, Deploying, Offline]"
| "valid_transitions Offline = [Online]"

definition can_transition_to :: "node_state \<Rightarrow> node_state \<Rightarrow> bool" where
  "can_transition_to s target = List.member (valid_transitions s) target"

fun node_state_to_string :: "node_state \<Rightarrow> string" where
  "node_state_to_string Registered = ''registered''"
| "node_state_to_string Online = ''online''"
| "node_state_to_string Deploying = ''deploying''"
| "node_state_to_string Active = ''active''"
| "node_state_to_string Error = ''error''"
| "node_state_to_string Offline = ''offline''"

definition node_state_from_str :: "string \<Rightarrow> string + node_state" where
  "node_state_from_str s =
     (let l = to_lower s in
      if l = ''registered'' then Inr Registered
      else if l = ''online'' then Inr Online
      else if l = ''deploying'' then Inr Deploying
      else if l = ''active'' then Inr Active
      else if l = ''error'' then Inr Error
      else if l = ''offline'' then Inr Offline
      else Inl (''unknown node state: '' @ s))"

text \<open>The protobuf enumeration of \<^verbatim>\<open>proto/pacinet.proto\<close> and its wire numbers.\<close>

datatype proto_node_state =
    PUnspecified | PRegistered | POnline | PDeploying | PActive | PError | POffline

fun node_state_from_proto :: "proto_node_state \<Rightarrow> node_state" where
  "node_state_from_proto PRegistered = Registered"
| "node_state_from_proto POnline = Online"
| "node_state_from_proto PDeploying = Deploying"
| "node_state_from_proto PActive = Active"
| "node_state_from_proto PError = Error"
| "node_state_from_proto POffline = Offline"
| "node_state_from_proto PUnspecified = Offline"

fun node_state_to_proto :: "node_state \<Rightarrow> proto_node_state" where
  "node_state_to_proto Registered = PRegistered"
| "node_state_to_proto Online = POnline"
| "node_state_to_proto Deploying = PDeploying"
| "node_state_to_proto Active = PActive"
| "node_state_to_proto Error = PError"
| "node_state_to_proto Offline = POffline"

fun proto_node_state_num :: "proto_node_state \<Rightarrow> int" where
  "proto_node_state_num PUnspecified = 0"
| "proto_node_state_num PRegistered = 1"
| "proto_node_state_num POnline = 2"
| "proto_node_state_num PDeploying = 3"
| "proto_node_state_num PActive = 4"
| "proto_node_state_num PError = 5"
| "proto_node_state_num POffline = 6"

definition proto_node_state_of_num :: "int \<Rightarrow> proto_node_state option" where
  "proto_node_state_of_num n =
     List.find (\<lambda>p. proto_node_state_num p = n)
       [PUnspecified, PRegistered, POnline, PDeploying, PActive, PError, POffline]"

record node =
  n_node_id :: string
  n_hostname :: string
  n_agent_address :: string
  n_labels :: "(string, string) hmap"
  n_capabilities :: "(string, string) hmap"
  n_state :: node_state
  n_registered_at :: time
  n_last_heartbeat :: time
  n_pacgate_version :: string
  n_uptime_seconds :: u64
  n_annotations :: "(string, string) hmap"

text \<open>\<open>Node::new\<close>; the clock reading and the fresh UUID are arguments.\<close>

definition node_new :: "string \<Rightarrow> time \<Rightarrow> string \<Rightarrow> string \<Rightarrow> (string, string) hmap \<Rightarrow> string \<Rightarrow> node" where
  "node_new uuid now hostname agent_address labels pacgate_version =
     \<lparr> n_node_id = uuid, n_hostname = hostname, n_agent_address = agent_address,
       n_labels = labels, n_capabilities = [], n_state = Registered,
       n_registered_at = now, n_last_heartbeat = now,
       n_pacgate_version = pacgate_version, n_uptime_seconds = 0, n_annotations = [] \<rparr>"

record policy =
  pol_node_id :: string
  pol_rules_yaml :: string
  pol_policy_hash :: string
  pol_deployed_at :: time
  pol_counters_enabled :: bool
  pol_rate_limit_enabled :: bool
  pol_conntrack_enabled :: bool
  pol_axi_enabled :: bool
  pol_ports :: u32
  pol_target :: string
  pol_dynamic :: bool
  pol_dynamic_entries :: u32
  pol_width :: u32
  pol_ptp :: bool
  pol_rss :: bool
  pol_rss_queues :: u32
  pol_int :: bool
  pol_int_switch_id :: u32

record policy_version =
  pv_version :: u64
  pv_node_id :: string
  pv_rules_yaml :: string
  pv_policy_hash :: string
  pv_deployed_at :: time
  pv_counters_enabled :: bool
  pv_rate_limit_enabled :: bool
  pv_conntrack_enabled :: bool
  pv_axi_enabled :: bool
  pv_ports :: u32
  pv_target :: string
  pv_dynamic :: bool
  pv_dynamic_entries :: u32
  pv_width :: u32
  pv_ptp :: bool
  pv_rss :: bool
  pv_rss_queues :: u32
  pv_int :: bool
  pv_int_switch_id :: u32

datatype deployment_result = Success | AgentFailure | AgentUnreachable | Timeout

fun deployment_result_to_string :: "deployment_result \<Rightarrow> string" where
  "deployment_result_to_string Success = ''success''"
| "deployment_result_to_string AgentFailure = ''agent_failure''"
| "deployment_result_to_string AgentUnreachable = ''agent_unreachable''"
| "deployment_result_to_string Timeout = ''timeout''"

definition deployment_result_from_str :: "string \<Rightarrow> string + deployment_result" where
  "deployment_result_from_str s =
     (let l = to_lower s in
      if l = ''success'' then Inr Success
      else if l = ''agent_failure'' then Inr AgentFailure
      else if l = ''agent_unreachable'' then Inr AgentUnreachable
      else if l = ''timeout'' then Inr Timeout
      else Inl (''unknown deployment result: '' @ s))"

record deployment_record =
  dr_id :: string
  dr_node_id :: string
  dr_policy_version :: u64
  dr_policy_hash :: string
  dr_deployed_at :: time
  dr_result :: deployment_result
  dr_message :: string

record rule_counter =
  rc_rule_name :: string
  rc_match_count :: u64
  rc_byte_count :: u64

record flow_counter =
  fc_flow_key :: string
  fc_packet_count :: u64
  fc_byte_count :: u64
  fc_state :: string

record counter_snapshot =
  cs_node_id :: string
  cs_collected_at :: time
  cs_counters :: "rule_counter list"

record persistent_event =
  pe_id :: string
  pe_event_type :: string
  pe_source :: string
  pe_payload :: string
  pe_timestamp :: time

record audit_entry =
  ae_id :: string
  ae_timestamp :: time
  ae_actor :: string
  ae_action :: string
  ae_resource_type :: string
  ae_resource_id :: string
  ae_details :: string

record policy_template =
  tpl_name :: string
  tpl_description :: string
  tpl_rules_yaml :: string
  tpl_tags :: "string list"
  tpl_created_at :: time
  tpl_updated_at :: time

record webhook_delivery =
  wd_id :: string
  wd_instance_id :: string
  wd_url :: string
  wd_method :: string
  wd_status_code :: "u16 option"
  wd_success :: bool
  wd_duration_ms :: u64
  wd_error :: "string option"
  wd_attempt :: u32
  wd_timestamp :: time

text \<open>
  The errors.  The messages are the \<open>#[error(...)]\<close> formats; a \<open>tonic::Status\<close> is a code with
  the message.
\<close>

datatype fsm_error =
    InvalidDefinition string
  | InstanceNotFound string
  | DefinitionNotFound string
  | InvalidState string
  | NoTransition string
  | AlreadyCompleted
  | ActionError string
  | YamlParse string

fun fsm_error_to_string :: "fsm_error \<Rightarrow> string" where
  "fsm_error_to_string (InvalidDefinition m) = ''invalid FSM definition: '' @ m"
| "fsm_error_to_string (InstanceNotFound m) = ''FSM instance not found: '' @ m"
| "fsm_error_to_string (DefinitionNotFound m) = ''FSM definition not found: '' @ m"
| "fsm_error_to_string (InvalidState m) = ''invalid state: '' @ m"
| "fsm_error_to_string (NoTransition m) = ''no valid transition from current state: '' @ m"
| "fsm_error_to_string AlreadyCompleted = ''FSM instance already completed''"
| "fsm_error_to_string (ActionError m) = ''FSM action error: '' @ m"
| "fsm_error_to_string (YamlParse m) = ''YAML parse error: '' @ m"

datatype pacinet_error =
    NodeNotFound string
  | NodeAlreadyRegistered string
  | DeploymentFailed string
  | PacGateError string
  | EAgentUnreachable string
  | InvalidConfig string
  | InvalidStateTransition string string
  | ConcurrentDeploy string
  | Fsm fsm_error
  | Internal string

fun pacinet_error_to_string :: "pacinet_error \<Rightarrow> string" where
  "pacinet_error_to_string (NodeNotFound m) = ''node not found: '' @ m"
| "pacinet_error_to_string (NodeAlreadyRegistered m) = ''node already registered: '' @ m"
| "pacinet_error_to_string (DeploymentFailed m) = ''deployment failed: '' @ m"
| "pacinet_error_to_string (PacGateError m) = ''pacgate error: '' @ m"
| "pacinet_error_to_string (EAgentUnreachable m) = ''agent unreachable: '' @ m"
| "pacinet_error_to_string (InvalidConfig m) = ''invalid configuration: '' @ m"
| "pacinet_error_to_string (InvalidStateTransition f t) =
     ''invalid state transition from '' @ f @ '' to '' @ t"
| "pacinet_error_to_string (ConcurrentDeploy m) =
     ''concurrent deploy in progress for node: '' @ m"
| "pacinet_error_to_string (Fsm e) = ''FSM error: '' @ fsm_error_to_string e"
| "pacinet_error_to_string (Internal m) = ''internal error: '' @ m"

datatype status_code =
    CNotFound | CAlreadyExists | CFailedPrecondition | CInternal | CUnavailable
  | CInvalidArgument | CAborted

datatype status = Status (st_code: status_code) (st_message: string)

fun pacinet_error_code :: "pacinet_error \<Rightarrow> status_code" where
  "pacinet_error_code (NodeNotFound _) = CNotFound"
| "pacinet_error_code (NodeAlreadyRegistered _) = CAlreadyExists"
| "pacinet_error_code (DeploymentFailed _) = CFailedPrecondition"
| "pacinet_error_code (PacGateError _) = CInternal"
| "pacinet_error_code (EAgentUnreachable _) = CUnavailable"
| "pacinet_error_code (InvalidConfig _) = CInvalidArgument"
| "pacinet_error_code (InvalidStateTransition _ _) = CFailedPrecondition"
| "pacinet_error_code (ConcurrentDeploy _) = CAborted"
| "pacinet_error_code (Fsm e) =
     (case e of
        InstanceNotFound _ \<Rightarrow> CNotFound
      | DefinitionNotFound _ \<Rightarrow> CNotFound
      | AlreadyCompleted \<Rightarrow> CFailedPrecondition
      | InvalidDefinition _ \<Rightarrow> CInvalidArgument
      | YamlParse _ \<Rightarrow> CInvalidArgument
      | _ \<Rightarrow> CInternal)"
| "pacinet_error_code (Internal _) = CInternal"

definition status_from :: "pacinet_error \<Rightarrow> status" where
  "status_from e = Status (pacinet_error_code e) (pacinet_error_to_string e)"

text \<open>\<open>tonic::Status\<close> printed by \<open>Display\<close> is left to that library: an argument where needed.\<close>

subsection \<open>Enumerations: printing, parsing, transitions\<close>

lemma can_transition_to_simps [simp]:
  "can_transition_to s t \<longleftrightarrow> t \<in> set (valid_transitions s)"
  by (simp add: can_transition_to_def)

lemma to_lower_node_state [simp]: "to_lower (node_state_to_string s) = node_state_to_string s"
  by (cases s) (simp_all add: to_lower_def lower_char_def)

lemma node_state_from_str_iff:
  "node_state_from_str s = Inr st \<longleftrightarrow> to_lower s = node_state_to_string st"
  by (cases st) (auto simp: node_state_from_str_def Let_def)

lemma deployment_result_from_str_iff:
  "deployment_result_from_str s = Inr r \<longleftrightarrow> to_lower s = deployment_result_to_string r"
  by (cases r) (auto simp: deployment_result_from_str_def Let_def)

lemma to_lower_deployment_result [simp]:
  "to_lower (deployment_result_to_string s) = deployment_result_to_string s"
  by (cases s) (simp_all add: to_lower_def lower_char_def)

lemma proto_node_state_num_inv [simp]:
  "proto_node_state_of_num (proto_node_state_num p) = Some p"
  by (cases p) (simp_all add: proto_node_state_of_num_def)

lemma node_state_proto_inv [simp]: "node_state_from_proto (node_state_to_proto s) = s"
  by (cases s) simp_all

lemma node_new_simps [simp]:
  "n_node_id (node_new u now h a l v) = u"
  "n_state (node_new u now h a l v) = Registered"
  "n_labels (node_new u now h a l v) = l"
  by (simp_all add: node_new_def)

subsection \<open>Properties\<close>

text \<open>A node state survives both encodings: its name, and only its name in any letter case, parses
  to it, and its number on the wire decodes to it.\<close>

theorem node_state_encodings:
  "(node_state_from_str s = Inr st \<longleftrightarrow> to_lower s = node_state_to_string st) \<and>
   node_state_from_str (node_state_to_string st) = Inr st \<and>
   map_option node_state_from_proto
     (proto_node_state_of_num (proto_node_state_num (node_state_to_proto st))) = Some st"
  by (simp add: node_state_from_str_iff)

lemma one_step: "can_transition_to s t \<Longrightarrow> can_transition_to\<^sup>*\<^sup>* s t"
  by (rule r_into_rtranclp)

text \<open>C40: The transition table of a node: no state leads to itself, none leads back to \<open>Registered\<close>, every
  other state can go \<open>Offline\<close>, only \<open>Deploying\<close> leads to \<open>Active\<close>, and every state can reach it.\<close>

theorem node_lifecycle:
  "\<not> can_transition_to s s \<and> \<not> can_transition_to s Registered \<and>
   (can_transition_to s Offline \<longleftrightarrow> s \<noteq> Offline) \<and>
   (can_transition_to s Active \<longleftrightarrow> s = Deploying) \<and> can_transition_to\<^sup>*\<^sup>* s Active"
proof -
  have "can_transition_to\<^sup>*\<^sup>* Online Deploying" "can_transition_to\<^sup>*\<^sup>* Deploying Active"
    "can_transition_to\<^sup>*\<^sup>* Registered Online" "can_transition_to\<^sup>*\<^sup>* Offline Online"
    "can_transition_to\<^sup>*\<^sup>* Error Deploying"
    by (rule one_step; simp)+
  then have "can_transition_to\<^sup>*\<^sup>* s Active" by (cases s) (auto intro: rtranclp_trans)
  then show ?thesis by (cases s) auto
qed

end
