(* ===== verification/Durations.thy ===== *)
theory Durations
  imports Prelude
begin

text \<open>
  \<open>parse_duration\<close> of \<^verbatim>\<open>pacinet-core/src/fsm/mod.rs\<close>, on the UTF-8 bytes of its argument:
  \<open>trim\<close> drops Unicode white space at both ends, the loop accumulates digits and units, and the
  arithmetic on \<open>u64\<close> wraps around, as it does in the release profile of this workspace (a
  debug build panics there instead).  The result is the number of seconds of the
  \<open>std::time::Duration\<close>.  The lemmas show that a sequence of printed number-and-unit segments
  parses to the sum of the segments whenever the sum fits in 64 bits.
\<close>

text \<open>The UTF-8 encodings of the characters of Unicode's \<open>White_Space\<close> property.\<close>

definition white_space :: "string list" where
  "white_space = map (map char_of)
     ([[9::nat], [10], [11], [12], [13], [32], [194, 133], [194, 160], [225, 154, 128],
       [226, 128, 168], [226, 128, 169], [226, 128, 175], [226, 129, 159], [227, 128, 128]]
      @ map (\<lambda>i. [226, 128, 128 + i]) [0..<11])"

function drop_ws :: "string list \<Rightarrow> string \<Rightarrow> string" where
  "drop_ws ws s =
     (case List.find (\<lambda>w. w \<noteq> [] \<and> starts_with w s) ws of
        None \<Rightarrow> s
      | Some w \<Rightarrow> drop_ws ws (drop (length w) s))"
  by pat_completeness auto
termination
proof (relation "measure (\<lambda>(ws, s). length s)", simp)
  fix ws s w
  assume "List.find (\<lambda>w. w \<noteq> [] \<and> starts_with w s) ws = Some w"
  then have "w \<noteq> []" and "starts_with w s"
    by (auto simp: find_Some_iff)
  then have "s \<noteq> []" and "w \<noteq> []"
    by (auto simp: starts_with_iff)
  then show "((ws, drop (length w) s), ws, s) \<in> measure (\<lambda>(ws, s). length s)"
    by simp
qed

declare drop_ws.simps [simp del]

definition trim :: "string \<Rightarrow> string" where
  "trim s = rev (drop_ws (map rev white_space) (rev (drop_ws white_space s)))"

definition is_ascii_digit :: "char \<Rightarrow> bool" where
  "is_ascii_digit c = (48 \<le> (of_char c :: nat) \<and> (of_char c :: nat) \<le> 57)"

text \<open>The bytes of the first \<open>char\<close> of a string, by its UTF-8 leading byte.\<close>

definition first_char :: "string \<Rightarrow> string" where
  "first_char s =
     (case s of [] \<Rightarrow> []
      | c # _ \<Rightarrow>
          let b = (of_char c :: nat) in
          take (if b < 192 then 1 else if b < 224 then 2 else if b < 240 then 3 else 4) s)"

text \<open>\<open>str::parse::<u64>\<close> on a non-empty string of digits: the only error is overflow.\<close>

definition digits_value :: "string \<Rightarrow> nat" where
  "digits_value s = foldl (\<lambda>n c. 10 * n + (of_char c - 48)) 0 s"

definition parse_u64 :: "string \<Rightarrow> string + u64" where
  "parse_u64 s =
     (if digits_value s < 2 ^ 64 then Inr (word_of_nat (digits_value s))
      else Inl ''number too large to fit in target type'')"

definition unit_seconds :: "char \<Rightarrow> u64 option" where
  "unit_seconds c =
     (if c = CHR ''s'' then Some 1
      else if c = CHR ''m'' then Some 60
      else if c = CHR ''h'' then Some 3600
      else if c = CHR ''d'' then Some 86400
      else None)"

fun duration_loop :: "u64 \<Rightarrow> string \<Rightarrow> string \<Rightarrow> string + (u64 \<times> string)" where
  "duration_loop total_secs current_num [] = Inr (total_secs, current_num)"
| "duration_loop total_secs current_num (ch # rest) =
     (if is_ascii_digit ch then duration_loop total_secs (current_num @ [ch]) rest
      else if current_num = [] then
        Inl (''unexpected '' @ [CHR 0x27] @ first_char (ch # rest) @ [CHR 0x27] @ '' without number'')
      else
        (case parse_u64 current_num of
           Inl e \<Rightarrow> Inl (''invalid number: '' @ e)
         | Inr n \<Rightarrow>
             (case unit_seconds ch of
                Some k \<Rightarrow> duration_loop (total_secs + n * k) [] rest
              | None \<Rightarrow>
                  Inl (''unknown duration unit: '' @ [CHR 0x27] @ first_char (ch # rest) @ [CHR 0x27]))))"

definition parse_duration :: "string \<Rightarrow> string + u64" where
  "parse_duration s0 =
     (let s = trim s0 in
      if s = [] then Inl ''empty duration string''
      else
        (case duration_loop 0 [] s of
           Inl e \<Rightarrow> Inl e
         | Inr (total_secs, current_num) \<Rightarrow>
             if current_num \<noteq> [] then
               Inl (''missing duration unit for '' @ [CHR 0x27] @ current_num @ [CHR 0x27] @
                    '' (use s/m/h/d)'')
             else if total_secs = 0 then Inl ''duration must be greater than 0''
             else Inr total_secs))"

text \<open>
  \<open>chrono::Duration::from_std(d).unwrap_or(chrono::Duration::MAX)\<close>, in nanoseconds:
  \<open>Duration::MAX\<close> is \<open>i64::MAX\<close> milliseconds.
\<close>

definition chrono_duration_max :: time where
  "chrono_duration_max = 9223372036854775807 * 1000000"

definition chrono_from_std :: "u64 \<Rightarrow> time" where
  "chrono_from_std d =
     (if uint d \<le> 9223372036854775 then secs (uint d) else chrono_duration_max)"

text \<open>Segments: a number and a unit, as an operator writes them.\<close>

datatype duration_unit = Seconds | Minutes | Hours | Days

fun unit_char :: "duration_unit \<Rightarrow> char" where
  "unit_char Seconds = CHR ''s''"
| "unit_char Minutes = CHR ''m''"
| "unit_char Hours = CHR ''h''"
| "unit_char Days = CHR ''d''"

fun unit_value :: "duration_unit \<Rightarrow> nat" where
  "unit_value Seconds = 1"
| "unit_value Minutes = 60"
| "unit_value Hours = 3600"
| "unit_value Days = 86400"

definition render_segment :: "nat \<times> duration_unit \<Rightarrow> string" where
  "render_segment sg = show_nat (fst sg) @ [unit_char (snd sg)]"

definition render_duration :: "(nat \<times> duration_unit) list \<Rightarrow> string" where
  "render_duration sgs = concat (map render_segment sgs)"

definition segments_value :: "(nat \<times> duration_unit) list \<Rightarrow> nat" where
  "segments_value sgs = sum_list (map (\<lambda>sg. fst sg * unit_value (snd sg)) sgs)"

subsection \<open>Decimal numerals\<close>

lemma is_ascii_digit_digit_char: "d < 10 \<Longrightarrow> is_ascii_digit (digit_char d)"
  by (simp add: is_ascii_digit_def of_digit_char)

lemma show_nat_digits: "\<forall>c \<in> set (show_nat n). is_ascii_digit c"
proof (induction n rule: show_nat.induct)
  case (1 n)
  then show ?case
    by (subst show_nat.simps) (auto simp: is_ascii_digit_digit_char)
qed

lemma digits_value_snoc: "digits_value (s @ [c]) = 10 * digits_value s + (of_char c - 48)"
  by (simp add: digits_value_def)

lemma digits_value_show_nat [simp]: "digits_value (show_nat n) = n"
proof (induction n rule: show_nat.induct)
  case (1 n)
  show ?case
  proof (cases "n < 10")
    case True
    then show ?thesis
      by (subst show_nat.simps) (simp add: digits_value_def of_digit_char)
  next
    case False
    with 1 show ?thesis
      by (subst show_nat.simps) (simp add: digits_value_snoc of_digit_char)
  qed
qed

lemma parse_u64_show_nat: "n < 2 ^ 64 \<Longrightarrow> parse_u64 (show_nat n) = Inr (word_of_nat n)"
  by (simp add: parse_u64_def)

lemma unit_char_simps [simp]:
  "\<not> is_ascii_digit (unit_char u)"
  "unit_seconds (unit_char u) = Some (word_of_nat (unit_value u))"
  by (cases u; simp add: is_ascii_digit_def unit_seconds_def)+

subsection \<open>The loop on printed segments\<close>

lemma duration_loop_digits:
  "\<forall>c \<in> set ds. is_ascii_digit c \<Longrightarrow>
     duration_loop t num (ds @ rest) = duration_loop t (num @ ds) rest"
  by (induction ds arbitrary: num) auto

lemma duration_loop_segment:
  assumes "n < 2 ^ 64"
  shows "duration_loop t [] (render_segment (n, u) @ rest) =
           duration_loop (t + word_of_nat (n * unit_value u)) [] rest"
  using assms
  by (simp add: render_segment_def duration_loop_digits [OF show_nat_digits] parse_u64_show_nat)

lemma duration_loop_render:
  assumes "\<forall>sg \<in> set sgs. fst sg < 2 ^ 64"
  shows "duration_loop t [] (render_duration sgs) =
           Inr (t + word_of_nat (segments_value sgs), [])"
  using assms
proof (induction sgs arbitrary: t)
  case Nil
  then show ?case by (simp add: render_duration_def segments_value_def)
next
  case (Cons sg sgs)
  obtain n u where sg: "sg = (n, u)" by (cases sg)
  from Cons.prems have n: "n < 2 ^ 64" by (simp add: sg)
  have "render_duration (sg # sgs) = render_segment (n, u) @ render_duration sgs"
    by (simp add: render_duration_def sg)
  with Cons n show ?case
    by (simp add: duration_loop_segment segments_value_def sg add.assoc)
qed

subsection \<open>Trimming\<close>

definition unit_letters :: "char list" where
  "unit_letters = [CHR ''s'', CHR ''m'', CHR ''h'', CHR ''d'']"

lemma white_space_ends:
  "list_all (\<lambda>w. \<not> is_ascii_digit (hd w) \<and> \<not> List.member unit_letters (last w)) white_space"
  by code_simp

lemma white_space_first: "w \<in> set white_space \<Longrightarrow> \<not> is_ascii_digit (hd w)"
  using white_space_ends by (auto simp: list_all_iff)

lemma white_space_last: "w \<in> set white_space \<Longrightarrow> last w \<notin> set unit_letters"
  using white_space_ends by (auto simp: list_all_iff)

lemma drop_ws_id:
  assumes "\<And>w. w \<in> set ws \<Longrightarrow> w \<noteq> [] \<Longrightarrow> hd w \<noteq> c"
  shows "drop_ws ws (c # s) = c # s"
proof -
  have "\<not> (w \<noteq> [] \<and> starts_with w (c # s))" if "w \<in> set ws" for w
    using assms [OF that] by (auto simp: starts_with_iff neq_Nil_conv)
  then have "List.find (\<lambda>w. w \<noteq> [] \<and> starts_with w (c # s)) ws = None"
    by (auto simp: find_None_iff)
  then show ?thesis by (subst drop_ws.simps) simp
qed

lemma trim_id:
  assumes "s \<noteq> []" and "is_ascii_digit (hd s)"
    and "last s \<in> set unit_letters"
  shows "trim s = s"
proof -
  obtain c r where s: "s = c # r" using assms(1) by (cases s) auto
  have "drop_ws white_space s = s"
    unfolding s using assms(2) s by (intro drop_ws_id) (use white_space_first in force)
  moreover obtain d q where rs: "rev s = d # q" using assms(1) by (cases "rev s") auto
  then have "d = last s" by (metis last_rev list.sel(1) rev_rev_ident rev_is_Nil_conv list.distinct(1))
  with assms(3) have "drop_ws (map rev white_space) (d # q) = d # q"
    by (intro drop_ws_id) (use white_space_last in \<open>force simp: hd_rev\<close>)
  ultimately show ?thesis
    by (metis rs rev_rev_ident trim_def)
qed

lemma render_duration_ends:
  assumes "sgs \<noteq> []"
  shows "render_duration sgs \<noteq> []"
    and "is_ascii_digit (hd (render_duration sgs))"
    and "last (render_duration sgs) \<in> set unit_letters"
proof -
  obtain sg r where sgs: "sgs = sg # r" using assms by (cases sgs) auto
  show "render_duration sgs \<noteq> []"
    by (simp add: sgs render_duration_def render_segment_def)
  have "hd (show_nat (fst sg)) \<in> set (show_nat (fst sg))" by simp
  then show "is_ascii_digit (hd (render_duration sgs))"
    using show_nat_digits [of "fst sg"] by (simp add: sgs render_duration_def render_segment_def)
  obtain b sg' where "sgs = b @ [sg']" using assms by (cases sgs rule: rev_cases) auto
  then have "last (render_duration sgs) = unit_char (snd sg')"
    by (simp add: render_duration_def render_segment_def)
  then show "last (render_duration sgs) \<in> set unit_letters"
    by (cases "snd sg'") (simp_all add: unit_letters_def)
qed

lemma trim_render_duration: "sgs \<noteq> [] \<Longrightarrow> trim (render_duration sgs) = render_duration sgs"
  by (rule trim_id) (rule render_duration_ends; assumption)+

lemma parse_duration_nonzero: "parse_duration s = Inr d \<Longrightarrow> d \<noteq> 0"
  by (auto simp: parse_duration_def Let_def split: sum.splits if_splits)

subsection \<open>The language of durations\<close>

text \<open>A segment as it is written: digits, leading zeros allowed, and a unit.\<close>

definition spell_segment :: "string \<times> duration_unit \<Rightarrow> string" where
  "spell_segment sg = fst sg @ [unit_char (snd sg)]"

definition segment_ok :: "string \<times> duration_unit \<Rightarrow> bool" where
  "segment_ok sg \<longleftrightarrow>
     fst sg \<noteq> [] \<and> list_all is_ascii_digit (fst sg) \<and> digits_value (fst sg) < 2 ^ 64"

definition spelled_seconds :: "(string \<times> duration_unit) list \<Rightarrow> nat" where
  "spelled_seconds sgs = sum_list (map (\<lambda>sg. digits_value (fst sg) * unit_value (snd sg)) sgs)"

lemma unit_seconds_Some:
  "unit_seconds c = Some k \<longleftrightarrow> (\<exists>u. c = unit_char u \<and> k = word_of_nat (unit_value u))"
proof
  assume "unit_seconds c = Some k"
  then show "\<exists>u. c = unit_char u \<and> k = word_of_nat (unit_value u)"
    using unit_char_simps(2) [of Seconds] unit_char_simps(2) [of Minutes]
      unit_char_simps(2) [of Hours] unit_char_simps(2) [of Days]
    by (metis option.distinct(1) option.inject unit_char.simps unit_seconds_def)
qed auto

lemma spell_Cons:
  "concat (map spell_segment ((ds, u) # sgs)) = ds @ unit_char u # concat (map spell_segment sgs)"
  "spelled_seconds ((ds, u) # sgs) = digits_value ds * unit_value u + spelled_seconds sgs"
  by (simp_all add: spell_segment_def spelled_seconds_def)

lemma segment_ok_iff:
  "segment_ok (ds, u) \<longleftrightarrow> ds \<noteq> [] \<and> list_all is_ascii_digit ds \<and> digits_value ds < 2 ^ 64"
  by (simp add: segment_ok_def)

lemma duration_loop_spelled:
  "list_all segment_ok sgs \<Longrightarrow>
     duration_loop t [] (concat (map spell_segment sgs)) = Inr (t + word_of_nat (spelled_seconds sgs), [])"
proof (induction sgs arbitrary: t)
  case (Cons sg sgs)
  obtain ds u where sg: "sg = (ds, u)" by (cases sg)
  with Cons.prems have ok: "ds \<noteq> []" "\<forall>c \<in> set ds. is_ascii_digit c" "digits_value ds < 2 ^ 64"
    "list_all segment_ok sgs" by (auto simp: segment_ok_iff list_all_iff)
  have "duration_loop t [] (concat (map spell_segment (sg # sgs))) =
      duration_loop t ds (unit_char u # concat (map spell_segment sgs))"
    unfolding sg spell_Cons using duration_loop_digits [OF ok(2), of t "[]"] by simp
  then show ?case unfolding sg spell_Cons(2)
    using ok Cons.IH [OF ok(4)] by (simp add: parse_u64_def add.assoc)
qed (simp add: spelled_seconds_def)

lemma duration_loop_sound:
  "duration_loop t num s = Inr (t', []) \<Longrightarrow> list_all is_ascii_digit num \<Longrightarrow>
     \<exists>sgs. num @ s = concat (map spell_segment sgs) \<and> list_all segment_ok sgs \<and>
       t' = t + word_of_nat (spelled_seconds sgs)"
proof (induction t num s rule: duration_loop.induct)
  case (1 t num)
  then show ?case by (intro exI [of _ "[]"]) (simp add: spelled_seconds_def)
next
  case (2 t num ch rest)
  show ?case
  proof (cases "is_ascii_digit ch")
    case True
    then show ?thesis using 2 by auto
  next
    case False
    then obtain n k where p: "parse_u64 num = Inr n" "unit_seconds ch = Some k" "num \<noteq> []"
      and loop: "duration_loop (t + n * k) [] rest = Inr (t', [])"
      using 2 by (auto split: sum.splits option.splits if_splits)
    then obtain u where u: "ch = unit_char u" "k = word_of_nat (unit_value u)"
      by (auto simp: unit_seconds_Some)
    from p(1) have n: "n = word_of_nat (digits_value num)" "digits_value num < 2 ^ 64"
      by (auto simp: parse_u64_def split: if_splits)
    from 2(2) [OF False _ p(1,2) loop] p(3) obtain sgs where
      s: "rest = concat (map spell_segment sgs)" "list_all segment_ok sgs"
      "t' = t + n * k + word_of_nat (spelled_seconds sgs)" by auto
    show ?thesis
      by (rule exI [of _ "(num, u) # sgs"], unfold spell_Cons)
        (use s u n p 2(3,4) in \<open>simp add: segment_ok_iff add.assoc\<close>)
  qed
qed

text \<open>C35: \<open>parse_duration\<close> accepts exactly the non-empty sequences of numbers below \<open>2\<^sup>6\<^sup>4\<close> with a unit
  (white space around them is dropped) whose number of seconds, taken modulo \<open>2\<^sup>6\<^sup>4\<close>, is not zero,
  and returns that number.\<close>

theorem parse_duration_language:
  "parse_duration s = Inr d \<longleftrightarrow>
     (\<exists>sgs. trim s = concat (map spell_segment sgs) \<and> list_all segment_ok sgs \<and>
       d = word_of_nat (spelled_seconds sgs) \<and> d \<noteq> 0)"
proof
  assume a: "parse_duration s = Inr d"
  then have "duration_loop 0 [] (trim s) = Inr (d, [])" and "d \<noteq> 0"
    by (auto simp: parse_duration_def Let_def split: sum.splits if_splits)
  then show "\<exists>sgs. trim s = concat (map spell_segment sgs) \<and> list_all segment_ok sgs \<and>
       d = word_of_nat (spelled_seconds sgs) \<and> d \<noteq> 0"
    using duration_loop_sound [of 0 "[]" "trim s" d] by auto
next
  assume "\<exists>sgs. trim s = concat (map spell_segment sgs) \<and> list_all segment_ok sgs \<and>
       d = word_of_nat (spelled_seconds sgs) \<and> d \<noteq> 0"
  then obtain sgs where s: "trim s = concat (map spell_segment sgs)" "list_all segment_ok sgs"
    and d: "d = word_of_nat (spelled_seconds sgs)" "d \<noteq> 0" by blast
  have "trim s \<noteq> []"
  proof
    assume "trim s = []"
    with s(1) have "sgs = []" by (cases sgs) (auto simp: spell_segment_def)
    with d show False by (simp add: spelled_seconds_def)
  qed
  then show "parse_duration s = Inr d"
    using duration_loop_spelled [OF s(2), of 0] s(1) d by (simp add: parse_duration_def Let_def)
qed

text \<open>A duration printed as numbers with units parses back to its number of seconds, unless that is
  zero; nothing is lost as long as the sum fits in 64 bits.\<close>

theorem parse_duration_of_rendered:
  assumes "\<forall>sg \<in> set sgs. fst sg < 2 ^ 64" and "0 < segments_value sgs" and "segments_value sgs < 2 ^ 64"
  shows "\<exists>d. parse_duration (render_duration sgs) = Inr d \<and> unat d = segments_value sgs"
proof -
  have ne: "sgs \<noteq> []" using assms(2) by (auto simp: segments_value_def)
  have u: "unat (word_of_nat (segments_value sgs) :: u64) = segments_value sgs"
    using assms(3) by (simp add: unat_of_nat take_bit_nat_eq_self_iff)
  with assms(2) have "(word_of_nat (segments_value sgs) :: u64) \<noteq> 0" by (metis less_irrefl unat_0)
  then show ?thesis
    using duration_loop_render [OF assms(1), of 0] trim_render_duration [OF ne] render_duration_ends(1) [OF ne] u
    by (simp add: parse_duration_def Let_def)
qed

end
