(* ===== verification/Float64.thy ===== *)
theory Float64
  imports Complex_Main Prelude "HOL-Library.Log_Nat"
begin

text \<open>
  The fragment of IEEE 754 binary64 that the program computes with: casts from integers, \<open>+\<close>,
  \<open>*\<close>, \<open>/\<close> by a finite nonzero value, comparisons, \<open>ceil\<close> and the saturating cast to \<open>usize\<close>.
  A finite value is the rational number it denotes (both zeros are 0, which none of these
  operations can tell apart here, since the code never divides by a zero); every operation
  rounds the exact result to nearest, ties to even, with gradual underflow and overflow to
  infinity.

  The lemmas bound the rounding error, show that rounding is exact on integers below \<open>2 ^ 53\<close>,
  keeps the sign, and that \<open>ceil (n * p / 100)\<close>, the batch size of the rollout engine, is the
  exact integer ceiling for all products below \<open>100 * 2 ^ 45\<close>.
\<close>

datatype f64 = Fin rat | PosInf | NegInf | NaN

definition pow2 :: "int \<Rightarrow> rat" where
  "pow2 e = (if 0 \<le> e then 2 ^ nat e else 1 / 2 ^ nat (- e))"

text \<open>The binary exponent of a positive rational: \<open>pow2 e \<le> q < pow2 (e + 1)\<close>.\<close>

definition exponent2 :: "rat \<Rightarrow> int" where
  "exponent2 q =
     (let (a, b) = quotient_of q;
          e = int (floorlog 2 (nat a)) - int (floorlog 2 (nat b))
      in if pow2 e \<le> q then e else e - 1)"

definition round_half_even :: "rat \<Rightarrow> int" where
  "round_half_even x =
     (let f = \<lfloor>x\<rfloor>; d = x - of_int f in
      if d < 1 / 2 then f else if 1 / 2 < d then f + 1 else if even f then f else f + 1)"

text \<open>The exponent of the last place of the significand that represents \<open>q\<close>.\<close>

definition ulp_exponent :: "rat \<Rightarrow> int" where
  "ulp_exponent q = max (exponent2 \<bar>q\<bar> - 52) (- 1074)"

definition round_rat :: "rat \<Rightarrow> rat" where
  "round_rat q =
     (if q = 0 then 0
      else of_int (round_half_even (q / pow2 (ulp_exponent q))) * pow2 (ulp_exponent q))"

definition fl :: "rat \<Rightarrow> f64" where
  "fl q = (let r = round_rat q in
     if pow2 1024 \<le> r then PosInf else if r \<le> - pow2 1024 then NegInf else Fin r)"

definition f64_of_nat :: "nat \<Rightarrow> f64" where
  "f64_of_nat n = fl (of_nat n)"

definition f64_of_int :: "int \<Rightarrow> f64" where
  "f64_of_int n = fl (of_int n)"

fun f64_add :: "f64 \<Rightarrow> f64 \<Rightarrow> f64" where
  "f64_add NaN _ = NaN"
| "f64_add _ NaN = NaN"
| "f64_add PosInf NegInf = NaN"
| "f64_add NegInf PosInf = NaN"
| "f64_add PosInf _ = PosInf"
| "f64_add _ PosInf = PosInf"
| "f64_add NegInf _ = NegInf"
| "f64_add _ NegInf = NegInf"
| "f64_add (Fin a) (Fin b) = fl (a + b)"

text \<open>\<open>x * y\<close> and \<open>x / y\<close> for a finite \<open>y\<close>, not zero in the division, as the code uses them.\<close>

fun f64_mul_fin :: "f64 \<Rightarrow> rat \<Rightarrow> f64" where
  "f64_mul_fin (Fin a) b = fl (a * b)"
| "f64_mul_fin PosInf b = (if b = 0 then NaN else if b < 0 then NegInf else PosInf)"
| "f64_mul_fin NegInf b = (if b = 0 then NaN else if b < 0 then PosInf else NegInf)"
| "f64_mul_fin NaN b = NaN"

fun f64_div_fin :: "f64 \<Rightarrow> rat \<Rightarrow> f64" where
  "f64_div_fin (Fin a) b = fl (a / b)"
| "f64_div_fin PosInf b = (if b < 0 then NegInf else PosInf)"
| "f64_div_fin NegInf b = (if b < 0 then PosInf else NegInf)"
| "f64_div_fin NaN b = NaN"

text \<open>The general quotient for a divisor other than zero.\<close>

fun f64_div :: "f64 \<Rightarrow> f64 \<Rightarrow> f64" where
  "f64_div a (Fin b) = f64_div_fin a b"
| "f64_div (Fin a) PosInf = Fin 0"
| "f64_div (Fin a) NegInf = Fin 0"
| "f64_div a b = NaN"

text \<open>Comparisons: any comparison with NaN is false.\<close>

fun f64_le :: "f64 \<Rightarrow> f64 \<Rightarrow> bool" where
  "f64_le NaN _ = False"
| "f64_le _ NaN = False"
| "f64_le NegInf _ = True"
| "f64_le _ PosInf = True"
| "f64_le PosInf _ = False"
| "f64_le _ NegInf = False"
| "f64_le (Fin a) (Fin b) = (a \<le> b)"

definition f64_ge :: "f64 \<Rightarrow> f64 \<Rightarrow> bool" where
  "f64_ge a b = f64_le b a"

text \<open>\<open>x.ceil() as usize\<close>: saturating at 0 and at \<open>usize::MAX\<close>, 0 for NaN.\<close>

fun f64_ceil_usize :: "f64 \<Rightarrow> nat" where
  "f64_ceil_usize (Fin q) = min (nat \<lceil>q\<rceil>) (2 ^ 64 - 1)"
| "f64_ceil_usize PosInf = 2 ^ 64 - 1"
| "f64_ceil_usize NegInf = 0"
| "f64_ceil_usize NaN = 0"

subsection \<open>Powers of two and exponents\<close>

lemma pow2_pos [simp]: "0 < pow2 e"
  by (simp add: pow2_def)

lemma pow2_nonzero [simp]: "pow2 e \<noteq> 0"
  using pow2_pos [of e] by linarith

lemma pow2_eq_powi: "pow2 e = 2 powi e"
  by (simp add: pow2_def power_int_def inverse_eq_divide power_one_over)

lemma pow2_mono: "e \<le> f \<Longrightarrow> pow2 e \<le> pow2 f"
  by (simp add: pow2_eq_powi power_int_increasing)

lemma pow2_strict: "e < f \<Longrightarrow> pow2 e < pow2 f"
  by (simp add: pow2_eq_powi power_int_strict_increasing)

lemma pow2_less_iff [simp]: "pow2 e < pow2 f \<longleftrightarrow> e < f"
  by (metis linorder_not_le nle_le order_less_irrefl pow2_mono pow2_strict)

lemma pow2_add: "pow2 (a + b) = pow2 a * pow2 b"
  by (simp add: pow2_eq_powi power_int_add)

lemma pow2_nat: "pow2 (int n) = 2 ^ n"
  by (simp add: pow2_def)

lemma floorlog2_bounds:
  assumes "0 < n"
  shows "2 ^ (floorlog 2 n - 1) \<le> n" and "n < 2 ^ floorlog 2 n" and "0 < floorlog 2 n"
  using assms floorlog_bounds [of n 2] by (auto simp: floorlog_def)


lemma quotient_of_pos:
  assumes "0 < q" and "quotient_of q = (a, b)"
  shows "q = of_int a / of_int b" and "0 < a" and "0 < b"
proof -
  show q: "q = of_int a / of_int b" by (rule quotient_of_div [OF assms(2)])
  show b: "0 < b" by (rule quotient_of_denom_pos [OF assms(2)])
  from assms(1) q b show "0 < a" by (simp add: zero_less_divide_iff)
qed

lemma ratio_bounds:
  assumes "0 < a" and "0 < b"
  defines "e \<equiv> int (floorlog 2 a) - int (floorlog 2 b)"
  shows "pow2 (e - 1) \<le> of_nat a / of_nat b" and "of_nat a / of_nat b < pow2 (e + 1)"
proof -
  let ?la = "floorlog 2 a" and ?lb = "floorlog 2 b"
  note la = floorlog2_bounds [OF assms(1)] and lb = floorlog2_bounds [OF assms(2)]
  have a1: "(2::rat) ^ (?la - 1) \<le> of_nat a" and a2: "(of_nat a :: rat) < 2 ^ ?la"
    using la by (metis of_nat_le_iff of_nat_less_iff of_nat_numeral of_nat_power)+
  have b1: "(2::rat) ^ (?lb - 1) \<le> of_nat b" and b2: "(of_nat b :: rat) < 2 ^ ?lb"
    using lb by (metis of_nat_le_iff of_nat_less_iff of_nat_numeral of_nat_power)+
  have b0: "(0::rat) < of_nat b" using assms(2) by simp
  have "pow2 (e - 1) * of_nat b \<le> pow2 (e - 1) * 2 ^ ?lb"
    using b2 by (simp add: less_imp_le)
  also have "\<dots> = pow2 (e - 1 + int ?lb)"
    by (simp add: pow2_add pow2_nat)
  also have "\<dots> = 2 ^ (?la - 1)"
    using la(3) by (simp add: e_def pow2_def nat_diff_distrib)
  also note a1
  finally show "pow2 (e - 1) \<le> of_nat a / of_nat b"
    using b0 by (simp add: pos_le_divide_eq)
  note a2
  also have "(2::rat) ^ ?la = pow2 (e + 1 + int (?lb - 1))"
    using lb(3) by (simp add: e_def pow2_nat [symmetric] of_nat_diff)
  also have "\<dots> = pow2 (e + 1) * 2 ^ (?lb - 1)"
    by (simp add: pow2_add pow2_nat)
  also have "\<dots> \<le> pow2 (e + 1) * of_nat b"
    using b1 by (simp add: less_imp_le)
  finally show "of_nat a / of_nat b < pow2 (e + 1)"
    using b0 by (simp add: pos_divide_less_eq)
qed

lemma exponent2_bounds:
  assumes "0 < q"
  shows "pow2 (exponent2 q) \<le> q" and "q < pow2 (exponent2 q + 1)"
proof -
  obtain a b where ab: "quotient_of q = (a, b)" by (cases "quotient_of q")
  note q = quotient_of_pos [OF assms ab]
  have "q = of_nat (nat a) / of_nat (nat b)" using q by simp
  then have *: "pow2 (int (floorlog 2 (nat a)) - int (floorlog 2 (nat b)) - 1) \<le> q"
    "q < pow2 (int (floorlog 2 (nat a)) - int (floorlog 2 (nat b)) + 1)"
    using ratio_bounds [of "nat a" "nat b"] q(2,3) by simp_all
  then show "pow2 (exponent2 q) \<le> q" and "q < pow2 (exponent2 q + 1)"
    by (auto simp: exponent2_def ab Let_def)
qed

lemma exponent2_less: "0 < q \<Longrightarrow> q < pow2 k \<Longrightarrow> exponent2 q < k"
  using exponent2_bounds(1) [of q] pow2_less_iff [of "exponent2 q" k] by linarith

subsection \<open>Rounding\<close>

lemma round_half_even_error: "\<bar>of_int (round_half_even x) - x\<bar> \<le> 1 / 2"
  using floor_correct [of x] by (auto simp: round_half_even_def Let_def)

lemma round_half_even_of_int [simp]: "round_half_even (of_int n) = n"
  by (simp add: round_half_even_def)

lemma round_half_even_nonneg: "0 \<le> x \<Longrightarrow> 0 \<le> round_half_even x"
  by (simp add: round_half_even_def Let_def)

lemma round_rat_error: "\<bar>round_rat q - q\<bar> \<le> pow2 (ulp_exponent q) / 2"
proof (cases "q = 0")
  case False
  let ?u = "pow2 (ulp_exponent q)"
  have "round_rat q - q = (of_int (round_half_even (q / ?u)) - q / ?u) * ?u"
    using False by (simp add: round_rat_def algebra_simps)
  then have "\<bar>round_rat q - q\<bar> = \<bar>of_int (round_half_even (q / ?u)) - q / ?u\<bar> * ?u"
    by (simp add: abs_mult less_imp_le)
  also have "\<dots> \<le> 1 / 2 * ?u"
    by (intro mult_right_mono round_half_even_error) (simp add: less_imp_le)
  finally show ?thesis by simp
qed (simp add: round_rat_def less_imp_le)

lemma round_rat_nonneg: "0 \<le> q \<Longrightarrow> 0 \<le> round_rat q"
  by (simp add: round_rat_def round_half_even_nonneg less_imp_le)

lemma ulp_exponent_less:
  "q \<noteq> 0 \<Longrightarrow> \<bar>q\<bar> < pow2 k \<Longrightarrow> - 1021 \<le> k \<Longrightarrow> ulp_exponent q \<le> k - 53"
  using exponent2_less [of "\<bar>q\<bar>" k] by (auto simp: ulp_exponent_def)

lemma round_rat_error_bound:
  assumes "\<bar>q\<bar> < pow2 k" and "- 1021 \<le> k"
  shows "\<bar>round_rat q - q\<bar> \<le> pow2 (k - 54)"
proof (cases "q = 0")
  case False
  have "pow2 (ulp_exponent q) / 2 \<le> pow2 (k - 53) / 2"
    using ulp_exponent_less [OF False assms] pow2_mono by (simp add: divide_right_mono)
  also have "\<dots> = pow2 (k - 54)"
    using pow2_add [of "k - 54" 1] by (simp add: pow2_def)
  finally show ?thesis using round_rat_error [of q] by linarith
qed (simp add: round_rat_def less_imp_le)

lemma of_int_less_pow2_53: "\<bar>n\<bar> < 2 ^ 53 \<Longrightarrow> \<bar>of_int n :: rat\<bar> < pow2 53"
proof -
  assume "\<bar>n\<bar> < 2 ^ 53"
  then have "(of_int \<bar>n\<bar> :: rat) < of_int (2 ^ 53)" by (simp only: of_int_less_iff)
  then show ?thesis by (simp add: pow2_def)
qed

lemma round_rat_int:
  assumes "\<bar>n\<bar> < 2 ^ 53"
  shows "round_rat (of_int n) = of_int n"
proof (cases "n = 0")
  case False
  let ?u = "ulp_exponent (of_int n)"
  have "\<bar>of_int n :: rat\<bar> < pow2 53"
    using assms by (rule of_int_less_pow2_53)
  then have u: "?u \<le> 0"
    using ulp_exponent_less [of "of_int n" 53] False by simp
  then have "(of_int n :: rat) / pow2 ?u = of_int (n * 2 ^ nat (- ?u))"
    by (cases "?u = 0") (simp_all add: pow2_def)
  then have "of_int (round_half_even (of_int n / pow2 ?u)) = (of_int n :: rat) / pow2 ?u"
    by (metis round_half_even_of_int)
  then show ?thesis using False by (simp add: round_rat_def)
qed (simp add: round_rat_def)

lemma fl_small: "\<bar>round_rat q\<bar> < pow2 1024 \<Longrightarrow> fl q = Fin (round_rat q)"
  by (auto simp: fl_def Let_def abs_less_iff)

lemma pow2_53: "pow2 53 < pow2 1024"
  by simp

lemma fl_int: "\<bar>n\<bar> < 2 ^ 53 \<Longrightarrow> fl (of_int n) = Fin (of_int n)"
proof -
  assume n: "\<bar>n\<bar> < 2 ^ 53"
  then have "\<bar>of_int n :: rat\<bar> < pow2 53"
    by (rule of_int_less_pow2_53)
  then have "\<bar>of_int n :: rat\<bar> < pow2 1024"
    using pow2_53 by linarith
  with n show ?thesis by (simp add: fl_small round_rat_int)
qed

lemma f64_of_nat_exact: "n < 2 ^ 53 \<Longrightarrow> f64_of_nat n = Fin (of_nat n)"
  using fl_int [of "int n"] by (simp add: f64_of_nat_def)

lemma fl_nonneg: "0 \<le> q \<Longrightarrow> fl q = PosInf \<or> (\<exists>r. fl q = Fin r \<and> 0 \<le> r)"
  using round_rat_nonneg [of q] pow2_pos [of 1024] by (auto simp: fl_def Let_def)

lemma fl_zero [simp]: "fl 0 = Fin 0"
  using fl_int [of 0] by simp


subsection \<open>The batch size\<close>

lemma round_rat_between:
  assumes "of_int k + 1 / 100 \<le> q" and "q \<le> of_int k + 99 / 100" and "\<bar>q\<bar> < pow2 45"
  shows "of_int k < round_rat q" and "round_rat q < of_int k + 1"
proof -
  have "\<bar>round_rat q - q\<bar> \<le> pow2 (- 9)"
    using round_rat_error_bound [OF assms(3)] by simp
  then have "\<bar>round_rat q - q\<bar> < 1 / 100" by (simp add: pow2_def)
  with assms(1,2) show "of_int k < round_rat q" and "round_rat q < of_int k + 1"
    by linarith+
qed

lemma ceil_div_100:
  assumes "m < 100 * 2 ^ 45"
  shows "f64_ceil_usize (fl (of_nat m / 100)) = (m + 99) div 100"
proof -
  define k j where "k = m div 100" and "j = m mod 100"
  have m: "m = 100 * k + j" and j: "j < 100" by (simp_all add: k_def j_def)
  have q: "(of_nat m / 100 :: rat) = of_nat k + of_nat j / 100" by (simp add: m field_simps)
  have k45: "k < 2 ^ 45" using assms m by simp
  show ?thesis
  proof (cases "j = 0")
    case True
    have "fl (of_nat m / 100) = Fin (of_nat k)"
      using fl_int [of "int k"] k45 by (simp add: q True)
    moreover have "(m + 99) div 100 = k" using True m by simp
    ultimately show ?thesis using k45 by simp
  next
    case False
    let ?q = "of_nat m / 100 :: rat"
    have lo: "of_int (int k) + 1 / 100 \<le> ?q" and hi: "?q \<le> of_int (int k) + 99 / 100"
      using False j by (simp_all add: q)
    have "(of_nat m :: rat) < of_nat (100 * 2 ^ 45)"
      using assms by (simp only: of_nat_less_iff)
    then have "\<bar>?q\<bar> < pow2 45" by (simp add: pow2_def)
    note r = round_rat_between [OF lo hi this]
    have "\<bar>round_rat ?q\<bar> < pow2 1024"
    proof -
      have "(of_nat (k + 1) :: rat) \<le> of_nat (2 ^ 46)"
        using k45 by (simp only: of_nat_le_iff) simp
      then have "(of_nat (k + 1) :: rat) \<le> pow2 46" by (simp add: pow2_def)
      moreover have "pow2 46 < pow2 1024" by simp
      ultimately have "(of_nat (k + 1) :: rat) < pow2 1024" by (rule le_less_trans)
      moreover have "0 \<le> round_rat ?q" by (intro round_rat_nonneg) simp
      ultimately show ?thesis using r by simp
    qed
    then have "fl ?q = Fin (round_rat ?q)" by (rule fl_small)
    moreover have "\<lceil>round_rat ?q\<rceil> = int k + 1" using r by (intro ceiling_unique) simp_all
    moreover have "(m + 99) div 100 = k + 1" using False j m by simp
    ultimately show ?thesis using k45 by simp
  qed
qed

lemma f64_percentage_ceil:
  assumes "n < 2 ^ 53" and "n * p < 100 * 2 ^ 45"
  shows "f64_ceil_usize (f64_div_fin (f64_mul_fin (f64_of_nat n) (of_nat p)) 100) =
           (n * p + 99) div 100"
proof -
  have "n * p < 2 ^ 53" using assms(2) by simp
  then have "int (n * p) < int (2 ^ 53)" by (simp only: of_nat_less_iff)
  then have "\<bar>int (n * p)\<bar> < 2 ^ 53" by simp
  from fl_int [OF this] have "fl (of_nat n * of_nat p) = Fin (of_nat (n * p))"
    by simp
  then have "f64_mul_fin (f64_of_nat n) (of_nat p) = Fin (of_nat (n * p))"
    using assms(1) by (simp add: f64_of_nat_exact)
  then show ?thesis using ceil_div_100 [OF assms(2)] by simp
qed

end
