(* ===== verification/Fsm_Def.thy ===== *)
theory Fsm_Def
  imports Core_Model Durations Float64
begin

text \<open>
  FSM definitions, \<^verbatim>\<open>pacinet-core/src/fsm/definition.rs\<close>: the types an operator's YAML
  document is read into, and \<open>FsmDefinition::validate\<close>.  The YAML reader itself is
  \<open>serde_yaml\<close>, outside the repository.  Durations stay strings here, as in the code, and are
  parsed by \<open>parse_duration\<close> when they are validated and again when they are used.

  The main lemma is \<open>validate_ok_iff\<close>: validation succeeds exactly on the definitions that
  satisfy the declarative condition \<open>fsm_wf\<close>, whatever the iteration order of the state map.
\<close>

datatype fsm_kind = Deployment | AdaptivePolicy

fun fsm_kind_to_string :: "fsm_kind \<Rightarrow> string" where
  "fsm_kind_to_string Deployment = ''deployment''"
| "fsm_kind_to_string AdaptivePolicy = ''adaptive_policy''"

definition fsm_kind_from_str :: "string \<Rightarrow> string + fsm_kind" where
  "fsm_kind_from_str s =
     (let l = to_lower s in
      if l = ''deployment'' then Inr Deployment
      else if l = ''adaptive_policy'' then Inr AdaptivePolicy
      else Inl (''unknown FSM kind: '' @ s))"

record simple_condition =
  sc_all_succeeded :: "bool option"
  sc_any_failed :: "bool option"
  sc_manual :: "bool option"

record counter_condition =
  cc_counter :: string
  cc_rate_above :: "f64 option"
  cc_rate_below :: "f64 option"
  cc_total_above :: "u64 option"
  cc_for_duration :: "string option"
  cc_aggregate :: "string option"
  cc_field :: "string option"

datatype condition_definition =
    Counter counter_condition
  | Simple simple_condition
  | Compound (cmp_and: "condition_definition list option")
      (cmp_or: "condition_definition list option") (cmp_not: "condition_definition option")

record transition_definition =
  td_to :: string
  td_when :: "condition_definition option"
  td_after :: "string option"

record fsm_compile_options =
  fco_counters :: bool
  fco_rate_limit :: bool
  fco_conntrack :: bool
  fco_axi :: bool
  fco_ports :: u32
  fco_target :: string
  fco_dynamic :: bool
  fco_dynamic_entries :: u32
  fco_width :: u32
  fco_ptp :: bool
  fco_rss :: bool
  fco_rss_queues :: u32
  fco_int :: bool
  fco_int_switch_id :: u32

record node_selector =
  ns_label :: "(string, string) hmap"
  ns_limit :: "u32 option"

record deploy_action =
  da_select :: node_selector
  da_batch_percent :: "u32 option"
  da_options :: "fsm_compile_options option"

datatype rollback_target = Previous | Version u64

record rollback_action =
  ra_target :: rollback_target

record basic_auth =
  ba_username :: string
  ba_password :: string

record webhook_config =
  wc_url :: string
  wc_method :: "string option"
  wc_bearer_token :: "string option"
  wc_basic_auth :: "basic_auth option"
  wc_timeout_seconds :: "u64 option"
  wc_max_retries :: "u32 option"
  wc_headers :: "(string, string) hmap"

record alert_action =
  aa_channel :: "string option"
  aa_message :: string
  aa_webhook :: "webhook_config option"

record action_definition =
  ad_deploy :: "deploy_action option"
  ad_rollback :: "rollback_action option"
  ad_alert :: "alert_action option"

definition action_kind :: "action_definition \<Rightarrow> string" where
  "action_kind a =
     (if ad_deploy a \<noteq> None then ''deploy''
      else if ad_rollback a \<noteq> None then ''rollback''
      else if ad_alert a \<noteq> None then ''alert''
      else ''none'')"

record state_definition =
  sd_action :: "action_definition option"
  sd_transitions :: "transition_definition list"
  sd_terminal :: bool

record fsm_definition =
  fd_name :: string
  fd_description :: string
  fd_kind :: fsm_kind
  fd_initial :: string
  fd_states :: "(string, state_definition) hmap"

abbreviation quoted :: "string \<Rightarrow> string" where
  "quoted s \<equiv> CHR 0x27 # s @ [CHR 0x27]"

text \<open>\<open>validate_condition\<close>: the checks of a counter condition, then the recursion.\<close>

definition condition_prefix :: "string \<Rightarrow> nat \<Rightarrow> string" where
  "condition_prefix state_name ti = ''state '' @ quoted state_name @ '' transition '' @ show_nat ti @ '' ''"

definition validate_counter_condition :: "counter_condition \<Rightarrow> string \<Rightarrow> nat \<Rightarrow> fsm_error + unit" where
  "validate_counter_condition cc state_name ti =
     res_bind
       (if cc_rate_above cc = None \<and> cc_rate_below cc = None \<and> cc_total_above cc = None then
          Inl (InvalidDefinition (condition_prefix state_name ti @
            ''counter condition must set at least one of rate_above, rate_below, total_above''))
        else Inr ()) (\<lambda>_.
     res_bind
       (case cc_aggregate cc of
          None \<Rightarrow> Inr ()
        | Some agg \<Rightarrow>
            if agg = ''any'' \<or> agg = ''all'' \<or> agg = ''sum'' then Inr ()
            else Inl (InvalidDefinition (condition_prefix state_name ti @
              ''invalid aggregate mode '' @ quoted agg @ '' (use any/all/sum)''))) (\<lambda>_.
     res_bind
       (case cc_field cc of
          None \<Rightarrow> Inr ()
        | Some field \<Rightarrow>
            if field = ''matches'' \<or> field = ''bytes'' then Inr ()
            else Inl (InvalidDefinition (condition_prefix state_name ti @
              ''invalid field '' @ quoted field @ '' (use matches/bytes)''))) (\<lambda>_.
     case cc_for_duration cc of
       None \<Rightarrow> Inr ()
     | Some dur \<Rightarrow>
         (case parse_duration dur of
            Inr _ \<Rightarrow> Inr ()
          | Inl e \<Rightarrow> Inl (InvalidDefinition (condition_prefix state_name ti @
              ''invalid for_duration '' @ quoted dur @ '': '' @ e))))))"

fun validate_condition :: "condition_definition \<Rightarrow> string \<Rightarrow> nat \<Rightarrow> fsm_error + unit" where
  "validate_condition (Counter cc) state_name ti = validate_counter_condition cc state_name ti"
| "validate_condition (Compound ands ors neg) state_name ti =
     res_bind (case ands of
         None \<Rightarrow> Inr ()
       | Some conditions \<Rightarrow> try_each (\<lambda>c. validate_condition c state_name ti) conditions) (\<lambda>_.
     res_bind (case ors of
         None \<Rightarrow> Inr ()
       | Some conditions \<Rightarrow> try_each (\<lambda>c. validate_condition c state_name ti) conditions) (\<lambda>_.
     case neg of
       None \<Rightarrow> Inr ()
     | Some inner \<Rightarrow> validate_condition inner state_name ti))"
| "validate_condition (Simple _) state_name ti = Inr ()"

text \<open>The body of the first loop of \<open>validate\<close>, for one transition and for one state.\<close>

definition validate_transition ::
    "fsm_definition \<Rightarrow> string \<Rightarrow> transition_definition \<Rightarrow> fsm_error + unit" where
  "validate_transition d state_name tr =
     (if map_of (fd_states d) (td_to tr) = None then
        Inl (InvalidDefinition (''state '' @ quoted state_name @
          '' has transition to unknown state '' @ quoted (td_to tr)))
      else
        (case td_after tr of
           None \<Rightarrow> Inr ()
         | Some after \<Rightarrow>
             (case parse_duration after of
                Inr _ \<Rightarrow> Inr ()
              | Inl e \<Rightarrow> Inl (InvalidDefinition (''state '' @ quoted state_name @
                  '' has invalid duration '' @ quoted after @ '': '' @ e)))))"

definition validate_state :: "fsm_definition \<Rightarrow> string \<times> state_definition \<Rightarrow> fsm_error + unit" where
  "validate_state d = (\<lambda>(state_name, sd).
     res_bind (try_each (validate_transition d state_name) (sd_transitions sd)) (\<lambda>_.
     if sd_terminal sd \<and> sd_transitions sd \<noteq> [] then
       Inl (InvalidDefinition (''terminal state '' @ quoted state_name @ '' must not have transitions''))
     else Inr ()))"

definition validate_state_conditions :: "string \<times> state_definition \<Rightarrow> fsm_error + unit" where
  "validate_state_conditions = (\<lambda>(state_name, sd).
     try_each (\<lambda>(ti, tr).
         case td_when tr of
           None \<Rightarrow> Inr ()
         | Some cond \<Rightarrow> validate_condition cond state_name ti)
       (List.enumerate 0 (sd_transitions sd)))"

definition validate :: "fsm_definition \<Rightarrow> fsm_error + unit" where
  "validate d =
     (if map_of (fd_states d) (fd_initial d) = None then
        Inl (InvalidDefinition (''initial state '' @ quoted (fd_initial d) @ '' not found in states''))
      else
        res_bind (try_each (validate_state d) (fd_states d)) (\<lambda>_.
        res_bind (try_each validate_state_conditions (fd_states d)) (\<lambda>_.
        if \<not> list_ex sd_terminal (hm_values (fd_states d)) then
          Inl (InvalidDefinition ''FSM must have at least one terminal state'')
        else Inr ())))"

text \<open>The declarative condition.\<close>

fun counter_conditions :: "condition_definition \<Rightarrow> counter_condition list" where
  "counter_conditions (Counter cc) = [cc]"
| "counter_conditions (Simple _) = []"
| "counter_conditions (Compound ands ors neg) =
     concat (map counter_conditions (case ands of None \<Rightarrow> [] | Some cs \<Rightarrow> cs)) @
     concat (map counter_conditions (case ors of None \<Rightarrow> [] | Some cs \<Rightarrow> cs)) @
     (case neg of None \<Rightarrow> [] | Some c \<Rightarrow> counter_conditions c)"

definition duration_ok :: "string \<Rightarrow> bool" where
  "duration_ok s = res_is_ok (parse_duration s)"

definition counter_condition_wf :: "counter_condition \<Rightarrow> bool" where
  "counter_condition_wf cc \<longleftrightarrow>
     (cc_rate_above cc \<noteq> None \<or> cc_rate_below cc \<noteq> None \<or> cc_total_above cc \<noteq> None) \<and>
     is_none_or (\<lambda>a. a \<in> {''any'', ''all'', ''sum''}) (cc_aggregate cc) \<and>
     is_none_or (\<lambda>f. f \<in> {''matches'', ''bytes''}) (cc_field cc) \<and>
     is_none_or duration_ok (cc_for_duration cc)"

definition transition_wf :: "fsm_definition \<Rightarrow> transition_definition \<Rightarrow> bool" where
  "transition_wf d tr \<longleftrightarrow>
     td_to tr \<in> set (hm_keys (fd_states d)) \<and>
     is_none_or duration_ok (td_after tr) \<and>
     is_none_or (\<lambda>c. \<forall>cc \<in> set (counter_conditions c). counter_condition_wf cc) (td_when tr)"

definition fsm_wf :: "fsm_definition \<Rightarrow> bool" where
  "fsm_wf d \<longleftrightarrow>
     fd_initial d \<in> set (hm_keys (fd_states d)) \<and>
     (\<forall>sd \<in> set (hm_values (fd_states d)).
        (\<forall>tr \<in> set (sd_transitions sd). transition_wf d tr) \<and>
        (sd_terminal sd \<longrightarrow> sd_transitions sd = [])) \<and>
     (\<exists>sd \<in> set (hm_values (fd_states d)). sd_terminal sd)"

subsection \<open>Validation decides well-formedness\<close>

lemma fsm_kind_from_str_iff: "fsm_kind_from_str s = Inr k \<longleftrightarrow> to_lower s = fsm_kind_to_string k"
  by (cases k) (auto simp: fsm_kind_from_str_def Let_def)

lemma to_lower_fsm_kind [simp]: "to_lower (fsm_kind_to_string k) = fsm_kind_to_string k"
  by (cases k) (simp_all add: to_lower_def lower_char_def)

lemma validate_counter_condition_ok_iff:
  "validate_counter_condition cc n ti = Inr () \<longleftrightarrow> counter_condition_wf cc"
  by (auto simp: validate_counter_condition_def counter_condition_wf_def res_bind_Inr_iff
      is_none_or_def duration_ok_def split: option.splits sum.splits if_splits)

lemma validate_condition_ok_iff:
  "validate_condition c n ti = Inr () \<longleftrightarrow> (\<forall>cc \<in> set (counter_conditions c). counter_condition_wf cc)"
proof (induction c n ti rule: validate_condition.induct)
  case (2 ands ors neg n ti)
  then show ?case
    by (cases ands; cases ors; cases neg) (auto simp: res_bind_Inr_iff try_each_ok_iff)
qed (simp_all add: validate_counter_condition_ok_iff)

lemma validate_transition_ok_iff:
  "validate_transition d n tr = Inr () \<longleftrightarrow>
     td_to tr \<in> set (hm_keys (fd_states d)) \<and> is_none_or duration_ok (td_after tr)"
  by (auto simp: validate_transition_def hm_keys_iff is_none_or_def duration_ok_def
      split: option.splits sum.splits)

lemma validate_state_ok_iff:
  "validate_state d (n, sd) = Inr () \<longleftrightarrow>
     (\<forall>tr \<in> set (sd_transitions sd).
        td_to tr \<in> set (hm_keys (fd_states d)) \<and> is_none_or duration_ok (td_after tr)) \<and>
     (sd_terminal sd \<longrightarrow> sd_transitions sd = [])"
  by (auto simp: validate_state_def res_bind_Inr_iff try_each_ok_iff validate_transition_ok_iff)

lemma validate_state_conditions_ok_iff:
  "validate_state_conditions (n, sd) = Inr () \<longleftrightarrow>
     (\<forall>tr \<in> set (sd_transitions sd).
        is_none_or (\<lambda>c. \<forall>cc \<in> set (counter_conditions c). counter_condition_wf cc) (td_when tr))"
  using ball_enumerate [of 0 "sd_transitions sd"
      "\<lambda>tr. is_none_or (\<lambda>c. \<forall>cc \<in> set (counter_conditions c). counter_condition_wf cc) (td_when tr)"]
  by (auto simp: validate_state_conditions_def try_each_ok_iff validate_condition_ok_iff
      is_none_or_def split: option.splits)

lemma validate_ok_iff: "validate d = Inr () \<longleftrightarrow> fsm_wf d"
proof -
  have "list_ex sd_terminal (hm_values (fd_states d)) \<longleftrightarrow>
      (\<exists>sd \<in> set (hm_values (fd_states d)). sd_terminal sd)"
    by (auto simp: list_ex_iff)
  then show ?thesis
    unfolding validate_def fsm_wf_def transition_wf_def
    by (auto simp: res_bind_Inr_iff try_each_ok_iff hm_keys_iff hm_values_def
        validate_state_ok_iff validate_state_conditions_ok_iff)
qed

lemma validate_states_iff:
  "hm_ok (fd_states d) \<Longrightarrow> sd \<in> set (hm_values (fd_states d)) \<longleftrightarrow> (\<exists>n. map_of (fd_states d) n = Some sd)"
  by (rule hm_values_iff)

lemma fsm_wf_target:
  assumes "fsm_wf d" and "map_of (fd_states d) n = Some sd" and "tr \<in> set (sd_transitions sd)"
  shows "map_of (fd_states d) (td_to tr) \<noteq> None"
proof -
  have "sd \<in> set (hm_values (fd_states d))"
    using map_of_SomeD [OF assms(2)] by (force simp: hm_values_def)
  with assms(1,3) show ?thesis by (auto simp: fsm_wf_def transition_wf_def hm_keys_iff)
qed

lemma fsm_wf_initial: "fsm_wf d \<Longrightarrow> map_of (fd_states d) (fd_initial d) \<noteq> None"
  by (simp add: fsm_wf_def hm_keys_iff)

text \<open>C15: \<open>validate\<close> decides well-formedness: it accepts a definition exactly when the initial state and
  every target of a transition exist, every duration parses, every counter condition, however deep
  in a compound one, sets a threshold and uses known modes and fields, terminal states have no
  transitions, and some state is terminal.\<close>

theorem validate_decides_wf: "res_is_ok (validate d) \<longleftrightarrow> fsm_wf d"
  using validate_ok_iff [of d] by (simp add: res_is_ok_iff)

end
