(* ===== verification/Fsm_Inst.thy ===== *)
theory Fsm_Inst
  imports Fsm_Def
begin

text \<open>
  FSM instances, \<^verbatim>\<open>pacinet-core/src/fsm/instance.rs\<close>: the run-time state of one execution of
  an FSM definition, its context, and its transition history.  \<open>history_ok\<close> is the invariant
  that the history is a chain: it starts with the initial record, every further record starts in
  the state the previous one ended in, and the last record ends in the current state.
  \<open>instance_transition\<close> keeps it.
\<close>

datatype fsm_instance_status = Running | Completed | Failed | Cancelled

fun status_to_string :: "fsm_instance_status \<Rightarrow> string" where
  "status_to_string Running = ''running''"
| "status_to_string Completed = ''completed''"
| "status_to_string Failed = ''failed''"
| "status_to_string Cancelled = ''cancelled''"

definition status_from_str :: "string \<Rightarrow> string + fsm_instance_status" where
  "status_from_str s =
     (let l = to_lower s in
      if l = ''running'' then Inr Running
      else if l = ''completed'' then Inr Completed
      else if l = ''failed'' then Inr Failed
      else if l = ''cancelled'' then Inr Cancelled
      else Inl (''unknown FSM instance status: '' @ s))"

record node_action_result =
  nar_node_id :: string
  nar_success :: bool
  nar_message :: string

record action_result =
  ar_succeeded :: u32
  ar_failed :: u32
  ar_total :: u32
  ar_node_results :: "node_action_result list"

record fsm_context =
  cx_rules_yaml :: "string option"
  cx_policy_hash :: "string option"
  cx_compile_options :: "fsm_compile_options option"
  cx_target_nodes :: "string list"
  cx_deployed_nodes :: "string list"
  cx_failed_nodes :: "string list"
  cx_last_action_result :: "action_result option"
  cx_batch_cursor :: u32
  cx_first_true :: "(string, time) hmap"

datatype transition_trigger = TCondition | TTimer | TManual | TActionResult | TInitial

fun trigger_to_string :: "transition_trigger \<Rightarrow> string" where
  "trigger_to_string TCondition = ''condition''"
| "trigger_to_string TTimer = ''timer''"
| "trigger_to_string TManual = ''manual''"
| "trigger_to_string TActionResult = ''action_result''"
| "trigger_to_string TInitial = ''initial''"

record transition_record =
  tr_from_state :: string
  tr_to_state :: string
  tr_trigger :: transition_trigger
  tr_timestamp :: time
  tr_message :: string

record fsm_instance =
  fi_instance_id :: string
  fi_definition_name :: string
  fi_current_state :: string
  fi_status :: fsm_instance_status
  fi_created_at :: time
  fi_updated_at :: time
  fi_context :: fsm_context
  fi_history :: "transition_record list"

definition instance_new :: "string \<Rightarrow> time \<Rightarrow> string \<Rightarrow> string \<Rightarrow> fsm_context \<Rightarrow> fsm_instance" where
  "instance_new uuid now definition_name initial_state context =
     \<lparr> fi_instance_id = uuid, fi_definition_name = definition_name,
       fi_current_state = initial_state, fi_status = Running,
       fi_created_at = now, fi_updated_at = now, fi_context = context,
       fi_history =
         [\<lparr> tr_from_state = [], tr_to_state = initial_state, tr_trigger = TInitial,
            tr_timestamp = now, tr_message = ''FSM instance started'' \<rparr>] \<rparr>"

definition instance_transition ::
    "time \<Rightarrow> fsm_instance \<Rightarrow> string \<Rightarrow> transition_trigger \<Rightarrow> string \<Rightarrow> fsm_instance" where
  "instance_transition now i to_state trigger message =
     i\<lparr> fi_history := fi_history i @
          [\<lparr> tr_from_state = fi_current_state i, tr_to_state = to_state, tr_trigger = trigger,
             tr_timestamp = now, tr_message = message \<rparr>],
        fi_current_state := to_state,
        fi_updated_at := now \<rparr>"

definition is_running :: "fsm_instance \<Rightarrow> bool" where
  "is_running i = (fi_status i = Running)"

definition context_for_deployment :: "string \<Rightarrow> fsm_compile_options option \<Rightarrow> fsm_context" where
  "context_for_deployment rules_yaml compile_options =
     \<lparr> cx_rules_yaml = Some rules_yaml, cx_policy_hash = None,
       cx_compile_options = compile_options, cx_target_nodes = [], cx_deployed_nodes = [],
       cx_failed_nodes = [], cx_last_action_result = None, cx_batch_cursor = 0,
       cx_first_true = [] \<rparr>"

definition context_for_adaptive_policy :: "string list \<Rightarrow> fsm_context" where
  "context_for_adaptive_policy target_nodes =
     \<lparr> cx_rules_yaml = None, cx_policy_hash = None,
       cx_compile_options = None, cx_target_nodes = target_nodes, cx_deployed_nodes = [],
       cx_failed_nodes = [], cx_last_action_result = None, cx_batch_cursor = 0,
       cx_first_true = [] \<rparr>"

text \<open>The history is a chain of transitions that leads to the current state.\<close>

fun chained :: "transition_record list \<Rightarrow> bool" where
  "chained (a # b # rs) = (tr_to_state a = tr_from_state b \<and> chained (b # rs))"
| "chained _ = True"

definition history_ok :: "fsm_instance \<Rightarrow> bool" where
  "history_ok i \<longleftrightarrow>
     fi_history i \<noteq> [] \<and> tr_trigger (hd (fi_history i)) = TInitial \<and> chained (fi_history i) \<and>
     tr_to_state (last (fi_history i)) = fi_current_state i"

subsection \<open>Printing, parsing, history\<close>

lemma status_from_str_iff: "status_from_str s = Inr k \<longleftrightarrow> to_lower s = status_to_string k"
  by (cases k) (auto simp: status_from_str_def Let_def)

lemma to_lower_status [simp]: "to_lower (status_to_string k) = status_to_string k"
  by (cases k) (simp_all add: to_lower_def lower_char_def)

lemma chained_snoc:
  "rs \<noteq> [] \<Longrightarrow> chained (rs @ [r]) \<longleftrightarrow> chained rs \<and> tr_to_state (last rs) = tr_from_state r"
  by (induction rs rule: chained.induct) auto

lemma history_ok_new [simp]: "history_ok (instance_new u now d s c)"
  by (simp add: history_ok_def instance_new_def)

lemma history_ok_transition [simp]:
  "history_ok i \<Longrightarrow> history_ok (instance_transition now i t trig m)"
  by (simp add: history_ok_def instance_transition_def chained_snoc)

lemma instance_transition_simps [simp]:
  "fi_current_state (instance_transition now i t trig m) = t"
  "fi_status (instance_transition now i t trig m) = fi_status i"
  "fi_instance_id (instance_transition now i t trig m) = fi_instance_id i"
  "fi_definition_name (instance_transition now i t trig m) = fi_definition_name i"
  "fi_context (instance_transition now i t trig m) = fi_context i"
  "fi_updated_at (instance_transition now i t trig m) = now"
  by (simp_all add: instance_transition_def)

lemma instance_new_simps [simp]:
  "fi_current_state (instance_new u now d s c) = s"
  "fi_status (instance_new u now d s c) = Running"
  "fi_instance_id (instance_new u now d s c) = u"
  "fi_definition_name (instance_new u now d s c) = d"
  "fi_context (instance_new u now d s c) = c"
  by (simp_all add: instance_new_def)

lemma history_transition [simp]:
  "map tr_to_state (fi_history (instance_transition now i t trig m)) =
     map tr_to_state (fi_history i) @ [t]"
  by (simp add: instance_transition_def)

definition replay :: "fsm_instance \<Rightarrow> (time \<times> string \<times> transition_trigger \<times> string) list \<Rightarrow> fsm_instance" where
  "replay = foldl (\<lambda>i (now, t, trig, m). instance_transition now i t trig m)"

lemma replay_history:
  "history_ok i \<Longrightarrow> history_ok (replay i ts) \<and>
     map tr_to_state (fi_history (replay i ts)) =
       map tr_to_state (fi_history i) @ map (\<lambda>(now, t, trig, m). t) ts"
proof (induction ts arbitrary: i)
  case (Cons x ts)
  obtain now t trig m where x: "x = (now, t, trig, m)" by (cases x)
  show ?case using Cons.IH [OF history_ok_transition [OF Cons.prems], of now t trig m]
    by (simp add: replay_def x)
qed (simp add: replay_def)

text \<open>The history of an instance is a chain: after any sequence of transitions from a new instance
  every record starts in the state the one before ended in, the last one ends in the current
  state, and the records name the initial state and the targets of the transitions, in order.\<close>

theorem history_is_chain:
  "history_ok (replay (instance_new u now d s c) ts) \<and>
   map tr_to_state (fi_history (replay (instance_new u now d s c) ts)) =
     s # map (\<lambda>(now, t, trig, m). t) ts"
  using replay_history [OF history_ok_new, of u now d s c ts] by (simp add: instance_new_def)

text \<open>The words for the kinds of a state machine, the states of a run and the results of a
  deployment are parsed in any letter case, and nothing else is accepted.\<close>

theorem enumerations_parse:
  "(fsm_kind_from_str s = Inr k \<longleftrightarrow> to_lower s = fsm_kind_to_string k) \<and>
   (status_from_str s = Inr st \<longleftrightarrow> to_lower s = status_to_string st) \<and>
   (deployment_result_from_str s = Inr r \<longleftrightarrow> to_lower s = deployment_result_to_string r)"
  by (simp add: fsm_kind_from_str_iff status_from_str_iff deployment_result_from_str_iff)

end
