(* ===== verification/Storage_Trait.thy ===== *)
theory Storage_Trait
  imports Fsm_Inst
begin

text \<open>
  The \<open>Storage\<close> trait of \<^verbatim>\<open>pacinet-core/src/storage.rs\<close>.  A trait object \<open>Arc<dyn Storage>\<close>
  is a record of operations on a state type \<open>'s\<close>, one field per method, so that the components
  which hold such an object take the record as an argument and run on any backend, failing ones
  included.  A method that changes state returns its result with the next state; a method that
  reads the clock takes the reading as its first argument.

  \<open>astore\<close> is the abstract contents of a backend, and the locales state the laws the clients rely
  on as a simulation: every operation acts on the abstraction of the state as its documentation in
  the trait says.  The clients' lemmas are proved in these locales.
\<close>

type_synonym 'a outcome = "pacinet_error + 'a"
type_synonym status_summary = "nat \<times> (string, nat) hmap \<times> time option"

record 's storage_ops =
  so_register_node :: "'s \<Rightarrow> node \<Rightarrow> string outcome \<times> 's"
  so_get_node :: "'s \<Rightarrow> string \<Rightarrow> node option outcome"
  so_list_nodes :: "'s \<Rightarrow> (string, string) hmap \<Rightarrow> node list outcome"
  so_remove_node :: "'s \<Rightarrow> string \<Rightarrow> bool outcome \<times> 's"
  so_update_heartbeat :: "time \<Rightarrow> 's \<Rightarrow> string \<Rightarrow> node_state \<Rightarrow> u64 \<Rightarrow> bool outcome \<times> 's"
  so_update_node_state :: "'s \<Rightarrow> string \<Rightarrow> node_state \<Rightarrow> bool outcome \<times> 's"
  so_store_counters :: "'s \<Rightarrow> string \<Rightarrow> rule_counter list \<Rightarrow> unit outcome \<times> 's"
  so_get_counters :: "'s \<Rightarrow> string \<Rightarrow> rule_counter list option outcome"
  so_store_flow_counters :: "'s \<Rightarrow> string \<Rightarrow> flow_counter list \<Rightarrow> unit outcome \<times> 's"
  so_get_flow_counters :: "'s \<Rightarrow> string \<Rightarrow> flow_counter list option outcome"
  so_store_policy :: "'s \<Rightarrow> policy \<Rightarrow> u64 outcome \<times> 's"
  so_get_policy :: "'s \<Rightarrow> string \<Rightarrow> policy option outcome"
  so_get_policy_history :: "'s \<Rightarrow> string \<Rightarrow> u32 \<Rightarrow> policy_version list outcome"
  so_get_policies_for_nodes :: "'s \<Rightarrow> string list \<Rightarrow> (string, policy) hmap outcome"
  so_record_deployment :: "'s \<Rightarrow> deployment_record \<Rightarrow> unit outcome \<times> 's"
  so_get_deployments :: "'s \<Rightarrow> string \<Rightarrow> u32 \<Rightarrow> deployment_record list outcome"
  so_begin_deploy :: "'s \<Rightarrow> string \<Rightarrow> unit outcome \<times> 's"
  so_end_deploy :: "'s \<Rightarrow> string \<Rightarrow> 's"
  so_mark_stale_nodes :: "time \<Rightarrow> 's \<Rightarrow> time \<Rightarrow> string list outcome \<times> 's"
  so_status_summary :: "'s \<Rightarrow> status_summary outcome"
  so_store_fsm_definition :: "time \<Rightarrow> 's \<Rightarrow> fsm_definition \<Rightarrow> unit outcome \<times> 's"
  so_get_fsm_definition :: "'s \<Rightarrow> string \<Rightarrow> fsm_definition option outcome"
  so_list_fsm_definitions :: "'s \<Rightarrow> fsm_kind option \<Rightarrow> fsm_definition list outcome"
  so_delete_fsm_definition :: "'s \<Rightarrow> string \<Rightarrow> bool outcome \<times> 's"
  so_store_fsm_instance :: "'s \<Rightarrow> fsm_instance \<Rightarrow> unit outcome \<times> 's"
  so_get_fsm_instance :: "'s \<Rightarrow> string \<Rightarrow> fsm_instance option outcome"
  so_update_fsm_instance :: "'s \<Rightarrow> fsm_instance \<Rightarrow> unit outcome \<times> 's"
  so_list_fsm_instances ::
    "'s \<Rightarrow> string option \<Rightarrow> fsm_instance_status option \<Rightarrow> fsm_instance list outcome"
  so_store_event :: "'s \<Rightarrow> persistent_event \<Rightarrow> unit outcome \<times> 's"
  so_query_events :: "'s \<Rightarrow> string option \<Rightarrow> string option \<Rightarrow> time option \<Rightarrow> time option \<Rightarrow> u32 \<Rightarrow>
    persistent_event list outcome"
  so_prune_events :: "'s \<Rightarrow> time \<Rightarrow> u64 outcome \<times> 's"
  so_count_events :: "'s \<Rightarrow> u64 outcome"
  so_update_annotations ::
    "'s \<Rightarrow> string \<Rightarrow> (string, string) hmap \<Rightarrow> string list \<Rightarrow> unit outcome \<times> 's"
  so_store_audit :: "'s \<Rightarrow> audit_entry \<Rightarrow> unit outcome \<times> 's"
  so_query_audit :: "'s \<Rightarrow> string option \<Rightarrow> string option \<Rightarrow> string option \<Rightarrow> time option \<Rightarrow> u32 \<Rightarrow>
    audit_entry list outcome"
  so_store_template :: "'s \<Rightarrow> policy_template \<Rightarrow> unit outcome \<times> 's"
  so_get_template :: "'s \<Rightarrow> string \<Rightarrow> policy_template option outcome"
  so_list_templates :: "'s \<Rightarrow> string option \<Rightarrow> policy_template list outcome"
  so_delete_template :: "'s \<Rightarrow> string \<Rightarrow> bool outcome \<times> 's"
  so_store_webhook_delivery :: "'s \<Rightarrow> webhook_delivery \<Rightarrow> unit outcome \<times> 's"
  so_query_webhook_deliveries :: "'s \<Rightarrow> string option \<Rightarrow> u32 \<Rightarrow> webhook_delivery list outcome"
  so_try_acquire_lease :: "time \<Rightarrow> 's \<Rightarrow> string \<Rightarrow> u64 \<Rightarrow> bool outcome \<times> 's"
  so_get_leader :: "'s \<Rightarrow> (string \<times> time) option outcome"


text \<open>The default bodies of the lease operations: a single-node backend is always the leader.\<close>

definition default_try_acquire_lease :: "time \<Rightarrow> 's \<Rightarrow> string \<Rightarrow> u64 \<Rightarrow> bool outcome \<times> 's" where
  "default_try_acquire_lease now s controller_id duration_secs = (Inr True, s)"

definition default_get_leader :: "'s \<Rightarrow> (string \<times> time) option outcome" where
  "default_get_leader s = Inr None"

text \<open>The abstract contents of a backend and the meaning of the operations on it.\<close>

record astore =
  as_nodes :: "string \<rightharpoonup> node"
  as_policies :: "string \<rightharpoonup> policy"
  as_versions :: "string \<Rightarrow> policy_version list"
  as_deployments :: "string \<Rightarrow> deployment_record list"
  as_deploying :: "string set"
  as_definitions :: "string \<rightharpoonup> fsm_definition"
  as_instances :: "string \<rightharpoonup> fsm_instance"

definition labels_match :: "(string, string) hmap \<Rightarrow> node \<Rightarrow> bool" where
  "labels_match label_filter n = list_all (\<lambda>(k, v). map_of (n_labels n) k = Some v) label_filter"

definition version_of_policy :: "u64 \<Rightarrow> policy \<Rightarrow> policy_version" where
  "version_of_policy version p =
     \<lparr> pv_version = version, pv_node_id = pol_node_id p, pv_rules_yaml = pol_rules_yaml p,
       pv_policy_hash = pol_policy_hash p, pv_deployed_at = pol_deployed_at p,
       pv_counters_enabled = pol_counters_enabled p,
       pv_rate_limit_enabled = pol_rate_limit_enabled p,
       pv_conntrack_enabled = pol_conntrack_enabled p, pv_axi_enabled = pol_axi_enabled p,
       pv_ports = pol_ports p, pv_target = pol_target p, pv_dynamic = pol_dynamic p,
       pv_dynamic_entries = pol_dynamic_entries p, pv_width = pol_width p, pv_ptp = pol_ptp p,
       pv_rss = pol_rss p, pv_rss_queues = pol_rss_queues p, pv_int = pol_int p,
       pv_int_switch_id = pol_int_switch_id p \<rparr>"

definition a_set_state :: "string \<Rightarrow> node_state \<Rightarrow> astore \<Rightarrow> astore" where
  "a_set_state nid st a =
     a\<lparr> as_nodes := (as_nodes a)(nid := map_option (n_state_update (\<lambda>_. st)) (as_nodes a nid)) \<rparr>"

definition a_update_node_state :: "astore \<Rightarrow> string \<Rightarrow> node_state \<Rightarrow> bool outcome \<times> astore" where
  "a_update_node_state a nid st =
     (case as_nodes a nid of
        None \<Rightarrow> (Inr False, a)
      | Some n \<Rightarrow>
          if can_transition_to (n_state n) st then (Inr True, a_set_state nid st a)
          else (Inl (InvalidStateTransition (node_state_to_string (n_state n))
                  (node_state_to_string st)), a))"

definition a_store_policy :: "astore \<Rightarrow> policy \<Rightarrow> u64 outcome \<times> astore" where
  "a_store_policy a p =
     (let nid = pol_node_id p; v = word_of_nat (length (as_versions a nid)) + 1
      in (Inr v, a\<lparr> as_versions := (as_versions a)(nid := as_versions a nid @ [version_of_policy v p]),
                    as_policies := (as_policies a)(nid \<mapsto> p) \<rparr>))"

definition a_record_deployment :: "astore \<Rightarrow> deployment_record \<Rightarrow> unit outcome \<times> astore" where
  "a_record_deployment a r =
     (Inr (), a\<lparr> as_deployments :=
        (as_deployments a)(dr_node_id r := as_deployments a (dr_node_id r) @ [r]) \<rparr>)"

definition a_begin_deploy :: "astore \<Rightarrow> string \<Rightarrow> unit outcome \<times> astore" where
  "a_begin_deploy a nid =
     (if nid \<in> as_deploying a then (Inl (ConcurrentDeploy nid), a)
      else (Inr (), a\<lparr> as_deploying := insert nid (as_deploying a) \<rparr>))"

definition a_end_deploy :: "astore \<Rightarrow> string \<Rightarrow> astore" where
  "a_end_deploy a nid = a\<lparr> as_deploying := as_deploying a - {nid} \<rparr>"

definition a_remove_node :: "astore \<Rightarrow> string \<Rightarrow> bool outcome \<times> astore" where
  "a_remove_node a nid =
     (Inr (as_nodes a nid \<noteq> None),
      a\<lparr> as_nodes := (as_nodes a)(nid := None), as_policies := (as_policies a)(nid := None),
         as_versions := (as_versions a)(nid := []), as_deploying := as_deploying a - {nid} \<rparr>)"

definition a_store_fsm_instance :: "astore \<Rightarrow> fsm_instance \<Rightarrow> unit outcome \<times> astore" where
  "a_store_fsm_instance a i =
     (Inr (), a\<lparr> as_instances := (as_instances a)(fi_instance_id i \<mapsto> i) \<rparr>)"

definition a_update_fsm_instance :: "astore \<Rightarrow> fsm_instance \<Rightarrow> unit outcome \<times> astore" where
  "a_update_fsm_instance a i =
     (if as_instances a (fi_instance_id i) = None
      then (Inl (Fsm (InstanceNotFound (fi_instance_id i))), a)
      else (Inr (), a\<lparr> as_instances := (as_instances a)(fi_instance_id i \<mapsto> i) \<rparr>))"

text \<open>Two contents that differ in the policies, versions and deployments of one node only.\<close>

definition only_policy_data :: "string \<Rightarrow> astore \<Rightarrow> astore \<Rightarrow> bool" where
  "only_policy_data nid a b \<longleftrightarrow>
     as_nodes b = as_nodes a \<and> as_deploying b = as_deploying a \<and>
     as_definitions b = as_definitions a \<and> as_instances b = as_instances a \<and>
     (\<forall>nid'. nid' \<noteq> nid \<longrightarrow> as_policies b nid' = as_policies a nid' \<and>
        as_versions b nid' = as_versions a nid' \<and> as_deployments b nid' = as_deployments a nid')"

lemma only_policy_data_refl [simp, intro]: "only_policy_data nid a a"
  by (simp add: only_policy_data_def)

lemma only_policy_data_trans:
  "only_policy_data nid a b \<Longrightarrow> only_policy_data nid b c \<Longrightarrow> only_policy_data nid a c"
  by (simp add: only_policy_data_def)

lemma a_store_policy_only [simp]:
  "only_policy_data (pol_node_id p) a (snd (a_store_policy a p))"
  by (simp add: a_store_policy_def only_policy_data_def Let_def)

lemma a_record_deployment_only [simp]:
  "only_policy_data (dr_node_id r) a (snd (a_record_deployment a r))"
  by (simp add: a_record_deployment_def only_policy_data_def)

subsection \<open>The contracts\<close>

text \<open>
  \<open>inv\<close> is the backend's own invariant and \<open>abs\<close> its abstraction.  A backend may refuse to store
  a policy or a deployment record for a node it does not know, so those laws ask for the node,
  and otherwise only for the frame.  It may keep the version numbers in signed integers, so a policy
  is numbered as in the abstract store while the node has fewer than \<open>2\<^sup>6\<^sup>3 - 1\<close> versions.
\<close>

locale node_storage =
  fixes ops :: "'s storage_ops" and abs :: "'s \<Rightarrow> astore" and inv :: "'s \<Rightarrow> bool"
  assumes get_node: "inv s \<Longrightarrow> so_get_node ops s nid = Inr (as_nodes (abs s) nid)"
    and node_key: "inv s \<Longrightarrow> as_nodes (abs s) nid = Some n \<Longrightarrow> n_node_id n = nid"
    and list_nodes: "inv s \<Longrightarrow> \<exists>ns. so_list_nodes ops s lf = Inr ns \<and> distinct (map n_node_id ns) \<and>
          (\<forall>n. n \<in> set ns \<longleftrightarrow> as_nodes (abs s) (n_node_id n) = Some n \<and> labels_match lf n)"
    and update_node_state: "inv s \<Longrightarrow> so_update_node_state ops s nid st = (r, s') \<Longrightarrow>
          a_update_node_state (abs s) nid st = (r, abs s') \<and> inv s'"
    and remove_node: "inv s \<Longrightarrow> so_remove_node ops s nid = (r, s') \<Longrightarrow>
          r = fst (a_remove_node (abs s) nid) \<and> inv s' \<and>
          abs s' = (snd (a_remove_node (abs s) nid))\<lparr> as_deployments := as_deployments (abs s') \<rparr>"

locale guard_storage =
  fixes ops :: "'s storage_ops" and abs :: "'s \<Rightarrow> astore" and inv :: "'s \<Rightarrow> bool"
  assumes begin_deploy: "inv s \<Longrightarrow> so_begin_deploy ops s nid = (r, s') \<Longrightarrow>
          a_begin_deploy (abs s) nid = (r, abs s') \<and> inv s'"
    and end_deploy: "inv s \<Longrightarrow> abs (so_end_deploy ops s nid) = a_end_deploy (abs s) nid \<and>
          inv (so_end_deploy ops s nid)"
begin

lemma begin_deploy_exclusive:
  "inv s \<Longrightarrow> res_is_ok (fst (so_begin_deploy ops s nid)) \<longleftrightarrow> nid \<notin> as_deploying (abs s)"
  using begin_deploy [of s nid] by (cases "so_begin_deploy ops s nid") (auto simp: a_begin_deploy_def split: if_splits)

lemma begin_end_deploy:
  assumes "inv s" and "so_begin_deploy ops s nid = (Inr (), s')"
  shows "abs (so_end_deploy ops s' nid) = abs s"
proof -
  have a: "abs s' = (abs s)\<lparr> as_deploying := insert nid (as_deploying (abs s)) \<rparr>"
    and n: "nid \<notin> as_deploying (abs s)" and i: "inv s'"
    using begin_deploy [OF assms] by (auto simp: a_begin_deploy_def split: if_splits)
  show ?thesis
    using end_deploy [OF i] n by (cases "abs s") (simp add: a_end_deploy_def a)
qed

end

locale policy_storage = node_storage ops abs inv
  for ops :: "'s storage_ops" and abs :: "'s \<Rightarrow> astore" and inv :: "'s \<Rightarrow> bool" +
  assumes get_policy: "inv s \<Longrightarrow> so_get_policy ops s nid = Inr (as_policies (abs s) nid)"
    and get_policy_history: "inv s \<Longrightarrow>
          so_get_policy_history ops s nid limit = Inr (take (unat limit) (rev (as_versions (abs s) nid)))"
    and store_policy: "inv s \<Longrightarrow> as_nodes (abs s) (pol_node_id p) \<noteq> None \<Longrightarrow>
          length (as_versions (abs s) (pol_node_id p)) < 2 ^ 63 - 1 \<Longrightarrow>
          so_store_policy ops s p = (r, s') \<Longrightarrow> a_store_policy (abs s) p = (r, abs s')"
    and store_policy_frame: "inv s \<Longrightarrow> so_store_policy ops s p = (r, s') \<Longrightarrow>
          inv s' \<and> only_policy_data (pol_node_id p) (abs s) (abs s')"
    and record_deployment: "inv s \<Longrightarrow> as_nodes (abs s) (dr_node_id d) \<noteq> None \<Longrightarrow>
          so_record_deployment ops s d = (Inr u, s') \<Longrightarrow> abs s' = snd (a_record_deployment (abs s) d)"
    and record_deployment_frame: "inv s \<Longrightarrow> so_record_deployment ops s d = (rd, s') \<Longrightarrow>
          inv s' \<and> (abs s' = abs s \<or> abs s' = snd (a_record_deployment (abs s) d))"

locale fsm_storage =
  fixes ops :: "'s storage_ops" and abs :: "'s \<Rightarrow> astore" and inv :: "'s \<Rightarrow> bool"
  assumes get_fsm_definition: "inv s \<Longrightarrow>
          so_get_fsm_definition ops s nm = Inr (as_definitions (abs s) nm)"
    and get_fsm_instance: "inv s \<Longrightarrow> so_get_fsm_instance ops s nid = Inr (as_instances (abs s) nid)"
    and instance_key: "inv s \<Longrightarrow> as_instances (abs s) nid = Some i \<Longrightarrow> fi_instance_id i = nid"
    and store_fsm_instance: "inv s \<Longrightarrow> as_instances (abs s) (fi_instance_id i) = None \<Longrightarrow>
          so_store_fsm_instance ops s i = (r, s') \<Longrightarrow>
          a_store_fsm_instance (abs s) i = (r, abs s') \<and> inv s'"
    and update_fsm_instance: "inv s \<Longrightarrow> so_update_fsm_instance ops s i = (r, s') \<Longrightarrow>
          a_update_fsm_instance (abs s) i = (r, abs s') \<and> inv s'"
    and list_fsm_instances: "inv s \<Longrightarrow> \<exists>xs. so_list_fsm_instances ops s None st = Inr xs \<and>
          distinct (map fi_instance_id xs) \<and>
          (\<forall>i. i \<in> set xs \<longleftrightarrow> as_instances (abs s) (fi_instance_id i) = Some i \<and>
             is_none_or (\<lambda>x. fi_status i = x) st)"

locale storage = policy_storage ops abs inv + guard_storage ops abs inv + fsm_storage ops abs inv
  for ops :: "'s storage_ops" and abs :: "'s \<Rightarrow> astore" and inv :: "'s \<Rightarrow> bool"

end
