(* ===== verification/Counters.thy ===== *)
theory Counters
  imports Core_Model Float64
begin

text \<open>
  The per-node buffer of counter snapshots, \<^verbatim>\<open>pacinet-server/src/counter_cache.rs\<close>, and the
  rates computed from it, \<^verbatim>\<open>pacinet-server/src/counter_rate.rs\<close>.  The lemmas show that the
  buffer of a node is the newest part of what was recorded for it, bounded by the configured
  maximum, and that a rate exists only for two readings of the same rule at least a millisecond
  apart, is never negative, and is zero when the counter went back.
\<close>

record counter_cache =
  ca_data :: "(string, counter_snapshot list) hmap"
  ca_retention :: time
  ca_max_per_node :: nat

definition cache_new :: "time \<Rightarrow> nat \<Rightarrow> counter_cache" where
  "cache_new retention max_per_node =
     \<lparr> ca_data = [], ca_retention = retention, ca_max_per_node = max_per_node \<rparr>"

text \<open>\<open>while deque.len() > max { deque.pop_front(); }\<close>\<close>

fun enforce_capacity :: "nat \<Rightarrow> 'a list \<Rightarrow> 'a list" where
  "enforce_capacity m [] = []"
| "enforce_capacity m (x # xs) = (if length (x # xs) > m then enforce_capacity m xs else x # xs)"

definition cache_record :: "counter_cache \<Rightarrow> counter_snapshot \<Rightarrow> counter_cache" where
  "cache_record c snapshot =
     (let nid = cs_node_id snapshot;
          deque = (case map_of (ca_data c) nid of None \<Rightarrow> [] | Some d \<Rightarrow> d)
      in c\<lparr> ca_data := hm_insert nid (enforce_capacity (ca_max_per_node c) (deque @ [snapshot]))
              (ca_data c) \<rparr>)"

definition cache_latest_pair ::
  "counter_cache \<Rightarrow> string \<Rightarrow> (counter_snapshot \<times> counter_snapshot) option" where
  "cache_latest_pair c nid =
     (case map_of (ca_data c) nid of
        None \<Rightarrow> None
      | Some d \<Rightarrow>
          if length d < 2 then None else Some (d ! (length d - 2), d ! (length d - 1)))"

definition cache_latest :: "counter_cache \<Rightarrow> string \<Rightarrow> counter_snapshot option" where
  "cache_latest c nid =
     (case map_of (ca_data c) nid of
        None \<Rightarrow> None
      | Some d \<Rightarrow> if d = [] then None else Some (last d))"

definition cache_snapshots_in_window ::
  "time \<Rightarrow> counter_cache \<Rightarrow> string \<Rightarrow> time \<Rightarrow> counter_snapshot list" where
  "cache_snapshots_in_window now c nid window =
     (case map_of (ca_data c) nid of
        None \<Rightarrow> []
      | Some d \<Rightarrow> filter (\<lambda>s. cs_collected_at s \<ge> now - window) d)"

definition cache_remove_node :: "counter_cache \<Rightarrow> string \<Rightarrow> counter_cache" where
  "cache_remove_node c nid = c\<lparr> ca_data := hm_remove nid (ca_data c) \<rparr>"

definition cache_evict_expired :: "time \<Rightarrow> counter_cache \<Rightarrow> counter_cache" where
  "cache_evict_expired now c =
     (let cutoff = now - ca_retention c
      in c\<lparr> ca_data := filter (\<lambda>(_, d). d \<noteq> [])
              (map (\<lambda>(k, d). (k, dropWhile (\<lambda>s. cs_collected_at s < cutoff) d)) (ca_data c)) \<rparr>)"

definition cache_node_ids :: "counter_cache \<Rightarrow> string list" where
  "cache_node_ids c = hm_keys (ca_data c)"

definition cache_total_snapshots :: "counter_cache \<Rightarrow> nat" where
  "cache_total_snapshots c = sum_list (map length (hm_values (ca_data c)))"

record counter_rate =
  cr_rule_name :: string
  cr_matches_per_second :: f64
  cr_bytes_per_second :: f64
  cr_window_seconds :: f64

datatype aggregate_mode = AggAny | AggAll | AggSum

definition parse_aggregate_mode :: "string \<Rightarrow> aggregate_mode" where
  "parse_aggregate_mode s =
     (let l = to_lower s
      in if l = ''all'' then AggAll else if l = ''sum'' then AggSum else AggAny)"

text \<open>\<open>Duration::num_milliseconds\<close> truncates towards zero.\<close>

definition num_milliseconds :: "time \<Rightarrow> int" where
  "num_milliseconds d = (if d < 0 then - ((- d) div 1000000) else d div 1000000)"

definition counter_delta :: "u64 \<Rightarrow> u64 \<Rightarrow> f64" where
  "counter_delta older newer = (if newer \<ge> older then f64_of_nat (unat (newer - older)) else Fin 0)"

definition find_counter :: "counter_snapshot \<Rightarrow> string \<Rightarrow> rule_counter option" where
  "find_counter s rule_name = List.find (\<lambda>c. rc_rule_name c = rule_name) (cs_counters s)"

definition calculate_rate ::
  "counter_snapshot \<Rightarrow> counter_snapshot \<Rightarrow> string \<Rightarrow> counter_rate option" where
  "calculate_rate older newer rule_name =
     (case find_counter older rule_name of None \<Rightarrow> None | Some oc \<Rightarrow>
     (case find_counter newer rule_name of None \<Rightarrow> None | Some nc \<Rightarrow>
        (let elapsed = f64_div_fin
               (f64_of_int (num_milliseconds (cs_collected_at newer - cs_collected_at older))) 1000
         in if f64_le elapsed (Fin 0) then None
            else
              (let match_delta = counter_delta (rc_match_count oc) (rc_match_count nc);
                   byte_delta = counter_delta (rc_byte_count oc) (rc_byte_count nc)
               in Some \<lparr> cr_rule_name = rule_name,
                         cr_matches_per_second = f64_div match_delta elapsed,
                         cr_bytes_per_second = f64_div byte_delta elapsed,
                         cr_window_seconds = elapsed \<rparr>))))"

definition get_counter_total :: "counter_snapshot \<Rightarrow> string \<Rightarrow> (u64 \<times> u64) option" where
  "get_counter_total s rule_name =
     map_option (\<lambda>c. (rc_match_count c, rc_byte_count c)) (find_counter s rule_name)"

subsection \<open>The buffer\<close>

lemma enforce_capacity_drop: "enforce_capacity m xs = drop (length xs - m) xs"
  by (induction xs) (auto simp: Suc_diff_le not_less_eq_eq drop_Cons' split: nat_diff_split)

definition cached :: "counter_cache \<Rightarrow> string \<Rightarrow> counter_snapshot list" where
  "cached c nid = (case map_of (ca_data c) nid of None \<Rightarrow> [] | Some d \<Rightarrow> d)"

definition newest :: "nat \<Rightarrow> 'a list \<Rightarrow> 'a list" where
  "newest m xs = drop (length xs - m) xs"

lemma newest_newest_snoc: "newest m (newest m xs @ [x]) = newest m (xs @ [x])"
  by (cases "length xs \<ge> m") (auto simp: newest_def drop_Cons' Suc_diff_le)

lemma cached_record:
  "cached (cache_record c s) nid =
     (if nid = cs_node_id s then newest (ca_max_per_node c) (cached c nid @ [s]) else cached c nid)"
  by (simp add: cached_def cache_record_def Let_def enforce_capacity_drop newest_def)

lemma cache_record_max [simp]: "ca_max_per_node (cache_record c s) = ca_max_per_node c"
  by (simp add: cache_record_def Let_def)

lemma cached_records:
  assumes "cached c nid = newest (ca_max_per_node c) ys"
  shows "cached (foldl cache_record c ss) nid =
    newest (ca_max_per_node c) (ys @ filter (\<lambda>s. cs_node_id s = nid) ss)"
  using assms
proof (induction ss arbitrary: c ys)
  case (Cons s ss)
  show ?case
  proof (cases "nid = cs_node_id s")
    case True
    then show ?thesis
      using Cons.IH [of "cache_record c s" "ys @ [s]"] Cons.prems
      by (simp add: cached_record newest_newest_snoc)
  next
    case False
    then show ?thesis
      using Cons.IH [of "cache_record c s" ys] Cons.prems by (simp add: cached_record)
  qed
qed simp


text \<open>The buffer of a node keeps the newest readings: after any sequence of recordings into a fresh
  cache it holds, in order, the last \<open>max_per_node\<close> snapshots recorded for that node and no other,
  so with room for two \<open>latest_pair\<close> is the pair of its last two readings and \<open>latest\<close> the last.\<close>

theorem cache_keeps_newest:
  fixes nid :: string
  defines "mine \<equiv> \<lambda>ss. filter (\<lambda>s. cs_node_id s = nid) ss"
  assumes "2 \<le> m"
  shows "let c = foldl cache_record (cache_new ret m) ss
    in cached c nid = drop (length (mine ss) - m) (mine ss) \<and>
       cache_latest c nid = (if mine ss = [] then None else Some (last (mine ss))) \<and>
       cache_latest_pair c nid =
         (if length (mine ss) < 2 then None
          else Some (mine ss ! (length (mine ss) - 2), last (mine ss)))"
proof -
  let ?c = "foldl cache_record (cache_new ret m) ss" and ?n = "newest m (mine ss)"
  have c: "cached ?c nid = ?n"
    using cached_records [of "cache_new ret m" nid "[]" ss]
    by (simp add: mine_def cache_new_def cached_def newest_def)
  have n: "?n = [] \<longleftrightarrow> mine ss = []" "length ?n = min m (length (mine ss))"
    using assms(2) by (cases "mine ss", auto simp: newest_def)
  have l: "cache_latest ?c nid = (if ?n = [] then None else Some (last ?n))"
    using c by (auto simp: cached_def cache_latest_def split: option.splits)
  have p: "cache_latest_pair ?c nid =
      (if length ?n < 2 then None else Some (?n ! (length ?n - 2), ?n ! (length ?n - 1)))"
    using c by (auto simp: cached_def cache_latest_pair_def split: option.splits)
  have i: "?n ! (length ?n - k) = mine ss ! (length (mine ss) - k)"
    if "k \<le> length ?n" "1 \<le> k" for k
    using that assms(2) n(2) by (auto simp: newest_def min_def split: if_splits)
  have two: "length ?n < 2 \<longleftrightarrow> length (mine ss) < 2" using n(2) assms(2) by auto
  have "\<not> length (mine ss) < 2 \<Longrightarrow>
      cache_latest_pair ?c nid = Some (mine ss ! (length (mine ss) - 2), last (mine ss))"
    using p two i [of 1] i [of 2] n assms(2) by (subst last_conv_nth) auto
  moreover have "?n \<noteq> [] \<Longrightarrow> last ?n = last (mine ss)"
    by (auto simp: newest_def last_drop)
  ultimately show ?thesis
    using c l p two n(1) by (simp only: Let_def newest_def) (simp split: if_split)
qed

lemma sorted_dropWhile_filter:
  "sorted (map f xs) \<Longrightarrow> dropWhile (\<lambda>x. f x < (c::int)) xs = filter (\<lambda>x. c \<le> f x) xs"
  by (induction xs) (auto intro!: filter_True [symmetric])

lemma map_of_filter_nonempty:
  "hm_ok m \<Longrightarrow> map_of (filter (\<lambda>(_, d). d \<noteq> []) (map (\<lambda>(k, d). (k, g d)) m)) k =
     (case map_of m k of None \<Rightarrow> None | Some d \<Rightarrow> if g d = [] then None else Some (g d))"
  using map_of_filter_key [of "map (\<lambda>(k, d). (k, g d)) m" "\<lambda>_ d. d \<noteq> []" k]
  by (simp add: map_of_map_values split: option.splits)

text \<open>Eviction removes exactly the readings older than the retention period of a node whose
  readings were recorded in time order, and forgets the nodes that have none left.\<close>

theorem cache_evict_exact:
  assumes "hm_ok (ca_data c)" and "sorted (map cs_collected_at (cached c nid))"
  shows "cached (cache_evict_expired now c) nid =
      filter (\<lambda>s. now - ca_retention c \<le> cs_collected_at s) (cached c nid) \<and>
    (nid \<in> set (cache_node_ids (cache_evict_expired now c)) \<longleftrightarrow>
       cached (cache_evict_expired now c) nid \<noteq> [])"
proof -
  let ?g = "dropWhile (\<lambda>s. cs_collected_at s < now - ca_retention c)"
  have m: "map_of (ca_data (cache_evict_expired now c)) nid =
      (case map_of (ca_data c) nid of None \<Rightarrow> None | Some d \<Rightarrow> if ?g d = [] then None else Some (?g d))"
    using assms(1) map_of_filter_nonempty [of "ca_data c" ?g nid]
    by (simp add: cache_evict_expired_def Let_def)
  have "?g (cached c nid) = filter (\<lambda>s. now - ca_retention c \<le> cs_collected_at s) (cached c nid)"
    by (rule sorted_dropWhile_filter [OF assms(2)])
  then show ?thesis
    using m by (cases "map_of (ca_data c) nid") (simp_all add: cached_def cache_node_ids_def hm_keys_iff)
qed

subsection \<open>Rates\<close>

lemma parse_aggregate_mode_default: "parse_aggregate_mode [] = AggAny"
  by (simp add: parse_aggregate_mode_def to_lower_def)

lemma fl_nonneg_ge: "0 \<le> q \<Longrightarrow> f64_le (Fin 0) (fl q)"
  using fl_nonneg [of q] by auto

lemma round_half_even_nonpos: "x \<le> 0 \<Longrightarrow> round_half_even x \<le> 0"
proof -
  assume "x \<le> 0"
  then have "(of_int (round_half_even x) :: rat) < of_int 1"
    using round_half_even_error [of x] by linarith
  then show ?thesis by (simp only: of_int_less_iff)
qed

lemma round_rat_nonpos: "q \<le> 0 \<Longrightarrow> round_rat q \<le> 0"
  by (simp add: round_rat_def mult_nonpos_nonneg less_imp_le round_half_even_nonpos divide_nonpos_pos)

lemma fl_nonpos: "q \<le> 0 \<Longrightarrow> fl q = NegInf \<or> (\<exists>r. fl q = Fin r \<and> r \<le> 0)"
  using le_less_trans [OF round_rat_nonpos pow2_pos, of q 1024] round_rat_nonpos [of q]
  by (auto simp: fl_def Let_def)

lemma round_rat_pos:
  assumes "pow2 (- 1022) \<le> q"
  shows "0 < round_rat q"
proof -
  have q: "0 < q" using assms pow2_pos [of "- 1022"] by linarith
  note b = exponent2_bounds [OF q]
  have "pow2 (- 1022) < pow2 (exponent2 q + 1)" using assms b(2) by linarith
  then have k: "- 1021 \<le> exponent2 q + 1" by simp
  have "\<bar>round_rat q - q\<bar> \<le> pow2 (exponent2 q + 1 - 54)"
    using round_rat_error_bound [of q "exponent2 q + 1"] b(2) q k by simp
  also have "\<dots> < pow2 (exponent2 q)" by simp
  finally show ?thesis using b(1) by linarith
qed

lemma fl_pos: "0 < round_rat q \<Longrightarrow> \<not> f64_le (fl q) (Fin 0)"
proof (cases "pow2 1024 \<le> round_rat q")
  case False
  assume p: "0 < round_rat q"
  then have "\<not> round_rat q \<le> - pow2 1024"
    using pow2_pos [of 1024] by linarith
  with p False show ?thesis by (simp add: fl_def Let_def)
qed (simp add: fl_def)

lemma elapsed_positive_iff:
  assumes "num_milliseconds d < 2 ^ 53"
  shows "f64_le (f64_div_fin (f64_of_int (num_milliseconds d)) 1000) (Fin 0) \<longleftrightarrow> d < 1000000"
proof (cases "d < 1000000")
  case True
  then have "num_milliseconds d \<le> 0" by (auto simp: num_milliseconds_def div_pos_pos_trivial)
  then have "fl (of_int (num_milliseconds d)) = NegInf \<or>
      (\<exists>r. fl (of_int (num_milliseconds d)) = Fin r \<and> r \<le> 0)"
    by (intro fl_nonpos) simp
  moreover have "f64_le (fl (r / 1000)) (Fin 0)" if "r \<le> 0" for r :: rat
    using fl_nonpos [of "r / 1000"] that by auto
  ultimately show ?thesis using True by (auto simp: f64_of_int_def)
next
  case False
  define ms where "ms = num_milliseconds d"
  have ms: "1 \<le> ms" "ms < 2 ^ 53"
    using False assms by (auto simp: ms_def num_milliseconds_def)
  then have f: "f64_of_int ms = Fin (of_int ms)" by (simp add: f64_of_int_def fl_int)
  have "pow2 (- 1022) \<le> pow2 (- 10)" by (rule pow2_mono) simp
  also have "\<dots> \<le> 1 / 1000" by (simp add: pow2_def)
  also have "(1::rat) / 1000 \<le> of_int ms / 1000" using ms(1) by simp
  finally have "0 < round_rat (of_int ms / 1000)" by (rule round_rat_pos)
  then have "\<not> f64_le (fl (of_int ms / 1000)) (Fin 0)"
    using fl_pos by blast
  with False f show ?thesis by (simp add: ms_def)
qed

lemma counter_delta_reset: "b \<le> a \<Longrightarrow> counter_delta a b = Fin 0"
  by (auto simp: counter_delta_def f64_of_nat_def)

lemma counter_delta_finite: "\<exists>q. counter_delta a b = Fin q \<and> 0 \<le> q"
proof -
  define q where "q = (of_nat (unat (b - a)) :: rat)"
  have "unat (b - a) < 2 ^ LENGTH(64)" by (rule unsigned_less)
  then have "q < of_nat (2 ^ LENGTH(64))" unfolding q_def by (simp only: of_nat_less_iff)
  then have "q < pow2 64" by (simp add: pow2_def)
  moreover have q0: "0 \<le> q" unfolding q_def by (rule of_nat_0_le_iff)
  ultimately have b: "\<bar>q\<bar> < pow2 64" by simp
  have "\<bar>round_rat q - q\<bar> \<le> pow2 (64 - 54)" by (rule round_rat_error_bound [OF b]) simp
  also have "\<dots> < pow2 64" by simp
  finally have "round_rat q < pow2 64 + pow2 64" using b by linarith
  also have "pow2 64 + pow2 64 = pow2 65" by (simp add: pow2_def)
  also have "\<dots> < pow2 1024" by simp
  finally have "fl q = Fin (round_rat q)"
    using round_rat_nonneg [OF q0] by (intro fl_small) simp
  then show ?thesis
    using round_rat_nonneg [OF q0] by (auto simp: counter_delta_def f64_of_nat_def q_def)
qed

lemma f64_div_nonneg:
  "0 \<le> q \<Longrightarrow> \<not> f64_le e (Fin 0) \<Longrightarrow> e \<noteq> NaN \<Longrightarrow> f64_le (Fin 0) (f64_div (Fin q) e)"
  by (cases e) (auto intro!: fl_nonneg_ge)

text \<open>C36: A rate exists exactly when both snapshots have the rule and the newer is at least a
  millisecond later; then both rates are at least zero, and a counter that did not advance, a reset
  included, has rate zero.  (The readings are less than \<open>2\<^sup>5\<^sup>3\<close> milliseconds apart.)\<close>

theorem calculate_rate_sound:
  assumes "num_milliseconds (cs_collected_at newer - cs_collected_at older) < 2 ^ 53"
  shows "(calculate_rate older newer rule = None \<longleftrightarrow>
      find_counter older rule = None \<or> find_counter newer rule = None \<or>
      cs_collected_at newer < cs_collected_at older + 1000000) \<and>
    (\<forall>r. calculate_rate older newer rule = Some r \<longrightarrow>
      f64_ge (cr_matches_per_second r) (Fin 0) \<and> f64_ge (cr_bytes_per_second r) (Fin 0) \<and>
      (\<forall>oc nc. find_counter older rule = Some oc \<longrightarrow> find_counter newer rule = Some nc \<longrightarrow>
        (rc_match_count nc \<le> rc_match_count oc \<longrightarrow> cr_matches_per_second r = Fin 0) \<and>
        (rc_byte_count nc \<le> rc_byte_count oc \<longrightarrow> cr_bytes_per_second r = Fin 0)))"
proof -
  let ?d = "cs_collected_at newer - cs_collected_at older"
  let ?e = "f64_div_fin (f64_of_int (num_milliseconds ?d)) 1000"
  have none: "f64_le ?e (Fin 0) \<longleftrightarrow> cs_collected_at newer < cs_collected_at older + 1000000"
    using elapsed_positive_iff [OF assms] by auto
  have e: "?e \<noteq> NaN" by (simp add: f64_of_int_def fl_def Let_def)
  have nn: "f64_le (Fin 0) (f64_div (counter_delta a b) ?e)" if "\<not> f64_le ?e (Fin 0)" for a b
    using counter_delta_finite [of a b] f64_div_nonneg [OF _ that e] by auto
  have z: "f64_div (Fin 0) ?e = Fin 0" if "\<not> f64_le ?e (Fin 0)"
    using that e by (cases ?e) auto
  show ?thesis
    using none nn z
    by (auto simp: calculate_rate_def Let_def f64_ge_def counter_delta_reset split: option.splits)
qed

end
