(* ===== verification/World.thy ===== *)
theory World
  imports Storage_Trait Counters
begin

text \<open>
  The effects of the controller's handlers and of its engine, and the domain events of
  \<^verbatim>\<open>pacinet-server/src/events.rs\<close>.

  \<open>env\<close> holds what a handler cannot change: the configuration of
  \<^verbatim>\<open>pacinet-server/src/config.rs\<close> and the answers of the outside, as functions of how often it has
  been asked: the clock, the UUID generator, the agents.  Functions of libraries are fields
  too: the hash of a policy text (\<open>DefaultHasher\<close>, which the standard library leaves unspecified),
  how \<open>tonic::Status\<close> prints, the JSON text of an event, and \<open>serde_yaml\<close>.  No theorem assumes anything of these
  fields unless it says so.

  \<open>world\<close> is what changes: the storage, the counters of questions asked, the requests sent to agents,
  the events on the bus (in the order of sending; a \<open>broadcast\<close> channel drops only what no receiver
  reads), the background tasks spawned, and the counter cache.  A storage call goes through \<open>blocking\<close>, which turns
  its error into a gRPC status; it panics in no modelled case, so the join error does not occur.
\<close>

record compile_options =
  co_counters :: bool
  co_rate_limit :: bool
  co_conntrack :: bool
  co_axi :: bool
  co_ports :: u32
  co_target :: string
  co_dynamic :: bool
  co_dynamic_entries :: u32
  co_width :: u32
  co_ptp :: bool
  co_rss :: bool
  co_rss_queues :: u32
  co_int_enabled :: bool
  co_int_switch_id :: u32

text \<open>The message's \<open>Default\<close>: every field is zero.\<close>

definition default_options :: compile_options where
  "default_options =
     \<lparr> co_counters = False, co_rate_limit = False, co_conntrack = False, co_axi = False,
       co_ports = 0, co_target = [], co_dynamic = False, co_dynamic_entries = 0, co_width = 0,
       co_ptp = False, co_rss = False, co_rss_queues = 0, co_int_enabled = False,
       co_int_switch_id = 0 \<rparr>"

record agent_request =
  aq_address :: string
  aq_rules_yaml :: string
  aq_options :: "compile_options option"

text \<open>What an agent call returns within the deploy timeout, or that it does not.\<close>

datatype agent_reply =
    AgentResponse bool string "string list"
  | AgentError string
  | AgentTimeout

datatype fsm_event =
    Transition (ev_instance_id: string) (ev_definition_name: string) string string string string time
  | DeployProgress (ev_instance_id: string) (ev_definition_name: string) u32 u32 u32 time
  | InstanceCompleted (ev_instance_id: string) (ev_definition_name: string) string time

record counter_rate_data =
  crd_rule_name :: string
  crd_match_count :: u64
  crd_byte_count :: u64
  crd_matches_per_second :: f64
  crd_bytes_per_second :: f64

record counter_event =
  ce_node_id :: string
  ce_counters :: "counter_rate_data list"
  ce_collected_at :: time

datatype node_event =
    NodeRegistered (ne_node_id: string) string (ne_labels: "(string, string) hmap") time
  | StateChanged (ne_node_id: string) string (ne_labels: "(string, string) hmap") string string time
  | HeartbeatStale (ne_node_id: string) string (ne_labels: "(string, string) hmap") time
  | NodeRemoved (ne_node_id: string) string (ne_labels: "(string, string) hmap") time

datatype domain_event = FsmEv fsm_event | CounterEv counter_event | NodeEv node_event

text \<open>\<open>to_persistent\<close>; the fresh UUID and the JSON text of the event are arguments.\<close>

fun fsm_event_to_persistent :: "string \<Rightarrow> (fsm_event \<Rightarrow> string) \<Rightarrow> fsm_event \<Rightarrow> persistent_event" where
  "fsm_event_to_persistent uuid json (Transition i d f t tr m ts) =
     \<lparr> pe_id = uuid, pe_event_type = ''fsm.transition'', pe_source = i,
       pe_payload = json (Transition i d f t tr m ts), pe_timestamp = ts \<rparr>"
| "fsm_event_to_persistent uuid json (DeployProgress i d n1 n2 n3 ts) =
     \<lparr> pe_id = uuid, pe_event_type = ''fsm.deploy_progress'', pe_source = i,
       pe_payload = json (DeployProgress i d n1 n2 n3 ts), pe_timestamp = ts \<rparr>"
| "fsm_event_to_persistent uuid json (InstanceCompleted i d st ts) =
     \<lparr> pe_id = uuid, pe_event_type = ''fsm.completed'', pe_source = i,
       pe_payload = json (InstanceCompleted i d st ts), pe_timestamp = ts \<rparr>"

definition counter_event_to_persistent ::
  "string \<Rightarrow> (counter_event \<Rightarrow> string) \<Rightarrow> counter_event \<Rightarrow> persistent_event" where
  "counter_event_to_persistent uuid json e =
     \<lparr> pe_id = uuid, pe_event_type = ''counter.update'', pe_source = ce_node_id e,
       pe_payload = json e, pe_timestamp = ce_collected_at e \<rparr>"

fun node_event_type :: "node_event \<Rightarrow> string" where
  "node_event_type (NodeRegistered _ _ _ _) = ''node.registered''"
| "node_event_type (StateChanged _ _ _ _ _ _) = ''node.state_changed''"
| "node_event_type (HeartbeatStale _ _ _ _) = ''node.heartbeat_stale''"
| "node_event_type (NodeRemoved _ _ _ _) = ''node.removed''"

fun node_event_time :: "node_event \<Rightarrow> time" where
  "node_event_time (NodeRegistered _ _ _ t) = t"
| "node_event_time (StateChanged _ _ _ _ _ t) = t"
| "node_event_time (HeartbeatStale _ _ _ t) = t"
| "node_event_time (NodeRemoved _ _ _ t) = t"

definition node_event_to_persistent ::
  "string \<Rightarrow> (node_event \<Rightarrow> string) \<Rightarrow> node_event \<Rightarrow> persistent_event" where
  "node_event_to_persistent uuid json e =
     \<lparr> pe_id = uuid, pe_event_type = node_event_type e, pe_source = ne_node_id e,
       pe_payload = json e, pe_timestamp = node_event_time e \<rparr>"

record webhook_payload =
  wp_event :: string
  wp_instance_id :: string
  wp_definition_name :: string
  wp_current_state :: string
  wp_message :: string
  wp_timestamp :: time
  wp_deployed_nodes :: "string list"

text \<open>A spawned task: \<open>webhook::deliver_webhook\<close> with its arguments.\<close>

datatype task = DeliverWebhook webhook_config webhook_payload string

record env =
  e_now :: "nat \<Rightarrow> time"
  e_uuid :: "nat \<Rightarrow> string"
  e_agent :: "nat \<Rightarrow> agent_request \<Rightarrow> agent_reply"
  e_policy_hash :: "string \<Rightarrow> string"
  e_show_status :: "status \<Rightarrow> string"
  e_json :: "domain_event \<Rightarrow> string"
  e_from_yaml :: "string \<Rightarrow> string + fsm_definition"
  e_to_yaml :: "fsm_definition \<Rightarrow> string + string"
  e_deploy_timeout :: u64
  e_heartbeat_expect_interval :: u64
  e_heartbeat_miss_threshold :: u32
  e_tls :: bool
  e_event_bus :: bool

record 's world =
  w_store :: 's
  w_ticks :: nat
  w_uuids :: nat
  w_requests :: "agent_request list"
  w_events :: "domain_event list"
  w_tasks :: "task list"
  w_cache :: counter_cache

text \<open>\<open>ControllerConfig::stale_threshold\<close> (the product of the two numbers wraps in a release build).\<close>

definition stale_threshold :: "env \<Rightarrow> time" where
  "stale_threshold e =
     secs (sint (e_heartbeat_expect_interval e * ucast (e_heartbeat_miss_threshold e)))"

definition clock :: "env \<Rightarrow> 's world \<Rightarrow> time \<times> 's world" where
  "clock e w = (e_now e (w_ticks w), w\<lparr> w_ticks := Suc (w_ticks w) \<rparr>)"

definition new_uuid :: "env \<Rightarrow> 's world \<Rightarrow> string \<times> 's world" where
  "new_uuid e w = (e_uuid e (w_uuids w), w\<lparr> w_uuids := Suc (w_uuids w) \<rparr>)"

fun map_err :: "('e \<Rightarrow> 'f) \<Rightarrow> 'e + 'a \<Rightarrow> 'f + 'a" where
  "map_err f (Inl e) = Inl (f e)"
| "map_err f (Inr a) = Inr a"

definition blocking :: "('s \<Rightarrow> 'a outcome \<times> 's) \<Rightarrow> 's world \<Rightarrow> (status + 'a) \<times> 's world" where
  "blocking f w = (case f (w_store w) of (r, s') \<Rightarrow> (map_err status_from r, w\<lparr> w_store := s' \<rparr>))"

definition blocking_read :: "('s \<Rightarrow> 'a outcome) \<Rightarrow> 's world \<Rightarrow> status + 'a" where
  "blocking_read f w = map_err status_from (f (w_store w))"

definition emit :: "env \<Rightarrow> domain_event \<Rightarrow> 's world \<Rightarrow> 's world" where
  "emit e ev w = (if e_event_bus e then w\<lparr> w_events := w_events w @ [ev] \<rparr> else w)"

text \<open>An event stamped with the current time; without a bus the clock is not read.\<close>

definition emit_now :: "env \<Rightarrow> (time \<Rightarrow> domain_event) \<Rightarrow> 's world \<Rightarrow> 's world" where
  "emit_now e ev w = (if e_event_bus e then (let (t, w) = clock e w in emit e (ev t) w) else w)"

definition spawn :: "task \<Rightarrow> 's world \<Rightarrow> 's world" where
  "spawn t w = w\<lparr> w_tasks := w_tasks w @ [t] \<rparr>"

definition call_agent :: "env \<Rightarrow> agent_request \<Rightarrow> 's world \<Rightarrow> agent_reply \<times> 's world" where
  "call_agent e q w =
     (e_agent e (length (w_requests w)) q, w\<lparr> w_requests := w_requests w @ [q] \<rparr>)"

lemma w_store_simps [simp, world_simps]:
  "w_store (snd (clock e w)) = w_store w"
  "w_store (snd (new_uuid e w)) = w_store w"
  "w_store (emit e ev w) = w_store w"
  "w_store (emit_now e ev' w) = w_store w"
  "w_store (spawn t w) = w_store w"
  "w_store (snd (call_agent e q w)) = w_store w"
  "w_store (snd (blocking f w)) = snd (f (w_store w))"
  by (simp_all add: clock_def new_uuid_def emit_def emit_now_def Let_def spawn_def call_agent_def blocking_def
      case_prod_unfold)

lemma w_requests_simps [simp, world_simps]:
  "w_requests (snd (clock e w)) = w_requests w"
  "w_requests (snd (new_uuid e w)) = w_requests w"
  "w_requests (emit e ev w) = w_requests w"
  "w_requests (emit_now e ev' w) = w_requests w"
  "w_requests (spawn t w) = w_requests w"
  "w_requests (snd (call_agent e q w)) = w_requests w @ [q]"
  "w_requests (snd (blocking f w)) = w_requests w"
  by (simp_all add: clock_def new_uuid_def emit_def emit_now_def Let_def spawn_def call_agent_def blocking_def
      case_prod_unfold)

lemma w_cache_simps [simp, world_simps]:
  "w_cache (snd (clock e w)) = w_cache w"
  "w_cache (snd (new_uuid e w)) = w_cache w"
  "w_cache (emit e ev w) = w_cache w"
  "w_cache (emit_now e ev' w) = w_cache w"
  "w_cache (spawn t w) = w_cache w"
  "w_cache (snd (call_agent e q w)) = w_cache w"
  "w_cache (snd (blocking f w)) = w_cache w"
  by (simp_all add: clock_def new_uuid_def emit_def emit_now_def Let_def spawn_def call_agent_def blocking_def
      case_prod_unfold)

lemma fst_blocking: "fst (blocking f w) = map_err status_from (fst (f (w_store w)))"
  by (simp add: blocking_def case_prod_unfold)

lemma map_err_iff [simp]:
  "map_err f r = Inr a \<longleftrightarrow> r = Inr a"
  "map_err f r = Inl b \<longleftrightarrow> (\<exists>e. r = Inl e \<and> b = f e)"
  by (cases r; auto)+

lemma res_is_ok_map_err [simp]: "res_is_ok (map_err f r) = res_is_ok r"
  by (cases r) simp_all

lemma fst_call_agent [simp]: "fst (call_agent e q w) = e_agent e (length (w_requests w)) q"
  by (simp add: call_agent_def)

end
