(* ===== verification/Mem_Storage.thy ===== *)
theory Mem_Storage
  imports Storage_Trait
begin

text \<open>
  The in-memory backend of \<^verbatim>\<open>pacinet-server/src/storage/memory.rs\<close>: its state, one definition per
  trait method, the record \<open>memory_ops\<close> that is its \<open>dyn Storage\<close>, its invariant \<open>mem_inv\<close> and its
  abstraction \<open>mem_abs\<close>.  Every method takes and returns the whole state.  Most use one field, under its lock, and
  \<open>store_policy\<close> keeps the lock of the versions until the policy is stored; \<open>remove_node\<close> takes six
  locks in turn, which \<^verbatim>\<open>Mem_Run.thy\<close> takes apart: here it is one step.

  The lemmas show that every method keeps the invariant, in particular that the versions of a node
  are numbered 1, 2, 3, ... and that its current policy is its newest version, and that the backend
  satisfies the laws of \<open>storage\<close>.
\<close>

record mem_storage =
  ms_nodes :: "(string, node) hmap"
  ms_policies :: "(string, policy) hmap"
  ms_counters :: "(string, rule_counter list) hmap"
  ms_flow_counters :: "(string, flow_counter list) hmap"
  ms_policy_versions :: "(string, policy_version list) hmap"
  ms_deployments :: "deployment_record list"
  ms_deploying :: "string set"
  ms_fsm_definitions :: "(string, fsm_definition) hmap"
  ms_fsm_instances :: "(string, fsm_instance) hmap"
  ms_events :: "persistent_event list"
  ms_audit_log :: "audit_entry list"
  ms_templates :: "(string, policy_template) hmap"
  ms_webhook_deliveries :: "webhook_delivery list"

definition max_memory_events :: nat where
  "max_memory_events = 10000"

definition max_memory_audit :: nat where
  "max_memory_audit = 10000"

definition mem_default :: mem_storage where
  "mem_default =
     \<lparr> ms_nodes = [], ms_policies = [], ms_counters = [], ms_flow_counters = [],
       ms_policy_versions = [], ms_deployments = [], ms_deploying = {}, ms_fsm_definitions = [],
       ms_fsm_instances = [], ms_events = [], ms_audit_log = [], ms_templates = [],
       ms_webhook_deliveries = [] \<rparr>"

subsection \<open>Nodes\<close>

definition mem_register_node :: "mem_storage \<Rightarrow> node \<Rightarrow> string outcome \<times> mem_storage" where
  "mem_register_node s n =
     (Inr (n_node_id n), s\<lparr> ms_nodes := hm_insert (n_node_id n) n (ms_nodes s) \<rparr>)"

definition mem_get_node :: "mem_storage \<Rightarrow> string \<Rightarrow> node option outcome" where
  "mem_get_node s nid = Inr (map_of (ms_nodes s) nid)"

definition mem_list_nodes :: "mem_storage \<Rightarrow> (string, string) hmap \<Rightarrow> node list outcome" where
  "mem_list_nodes s label_filter = Inr (filter (labels_match label_filter) (hm_values (ms_nodes s)))"

definition mem_remove_node :: "mem_storage \<Rightarrow> string \<Rightarrow> bool outcome \<times> mem_storage" where
  "mem_remove_node s nid =
     (Inr (map_of (ms_nodes s) nid \<noteq> None),
      s\<lparr> ms_policies := hm_remove nid (ms_policies s),
         ms_counters := hm_remove nid (ms_counters s),
         ms_flow_counters := hm_remove nid (ms_flow_counters s),
         ms_policy_versions := hm_remove nid (ms_policy_versions s),
         ms_deploying := ms_deploying s - {nid},
         ms_nodes := hm_remove nid (ms_nodes s) \<rparr>)"

definition mem_update_heartbeat ::
  "time \<Rightarrow> mem_storage \<Rightarrow> string \<Rightarrow> node_state \<Rightarrow> u64 \<Rightarrow> bool outcome \<times> mem_storage" where
  "mem_update_heartbeat now s nid state uptime =
     (case map_of (ms_nodes s) nid of
        Some n \<Rightarrow>
          (Inr True,
           s\<lparr> ms_nodes := hm_modify nid
                (\<lambda>n. n\<lparr> n_last_heartbeat := now, n_state := state, n_uptime_seconds := uptime \<rparr>)
                (ms_nodes s) \<rparr>)
      | None \<Rightarrow> (Inr False, s))"

definition mem_update_node_state ::
  "mem_storage \<Rightarrow> string \<Rightarrow> node_state \<Rightarrow> bool outcome \<times> mem_storage" where
  "mem_update_node_state s nid state =
     (case map_of (ms_nodes s) nid of
        Some n \<Rightarrow>
          if \<not> can_transition_to (n_state n) state
          then (Inl (InvalidStateTransition (node_state_to_string (n_state n))
                  (node_state_to_string state)), s)
          else (Inr True, s\<lparr> ms_nodes := hm_modify nid (n_state_update (\<lambda>_. state)) (ms_nodes s) \<rparr>)
      | None \<Rightarrow> (Inr False, s))"

definition is_stale :: "time \<Rightarrow> time \<Rightarrow> node \<Rightarrow> bool" where
  "is_stale now threshold n \<longleftrightarrow>
     n_state n \<noteq> Offline \<and> n_state n \<noteq> Registered \<and> now - n_last_heartbeat n > threshold"

definition mem_mark_stale_nodes ::
  "time \<Rightarrow> mem_storage \<Rightarrow> time \<Rightarrow> string list outcome \<times> mem_storage" where
  "mem_mark_stale_nodes now s threshold =
     (Inr (map n_node_id (filter (is_stale now threshold) (hm_values (ms_nodes s)))),
      s\<lparr> ms_nodes := map (\<lambda>(k, n). (k, if is_stale now threshold n then n\<lparr> n_state := Offline \<rparr> else n))
           (ms_nodes s) \<rparr>)"

definition older_heartbeat :: "time option \<Rightarrow> node \<Rightarrow> time option" where
  "older_heartbeat oldest n =
     (case oldest of
        None \<Rightarrow> Some (n_last_heartbeat n)
      | Some prev \<Rightarrow> if n_last_heartbeat n < prev then Some (n_last_heartbeat n) else oldest)"

definition count_state :: "(string, nat) hmap \<Rightarrow> node \<Rightarrow> (string, nat) hmap" where
  "count_state by_state n =
     (let k = node_state_to_string (n_state n)
      in hm_insert k ((case map_of by_state k of None \<Rightarrow> 0 | Some c \<Rightarrow> c) + 1) by_state)"

definition mem_status_summary :: "mem_storage \<Rightarrow> status_summary outcome" where
  "mem_status_summary s =
     (let nodes = hm_values (ms_nodes s)
      in Inr (length nodes, foldl count_state [] nodes, foldl older_heartbeat None nodes))"

definition mem_update_annotations ::
  "mem_storage \<Rightarrow> string \<Rightarrow> (string, string) hmap \<Rightarrow> string list \<Rightarrow> unit outcome \<times> mem_storage" where
  "mem_update_annotations s nid sets removes =
     (case map_of (ms_nodes s) nid of
        None \<Rightarrow> (Inl (NodeNotFound nid), s)
      | Some n \<Rightarrow>
          (Inr (),
           s\<lparr> ms_nodes := hm_modify nid
                (n_annotations_update (\<lambda>a. hm_extend (fold hm_remove removes a) sets))
                (ms_nodes s) \<rparr>))"

subsection \<open>Counters\<close>

definition mem_store_counters ::
  "mem_storage \<Rightarrow> string \<Rightarrow> rule_counter list \<Rightarrow> unit outcome \<times> mem_storage" where
  "mem_store_counters s nid counters =
     (Inr (), s\<lparr> ms_counters := hm_insert nid counters (ms_counters s) \<rparr>)"

definition mem_get_counters :: "mem_storage \<Rightarrow> string \<Rightarrow> rule_counter list option outcome" where
  "mem_get_counters s nid = Inr (map_of (ms_counters s) nid)"

definition mem_store_flow_counters ::
  "mem_storage \<Rightarrow> string \<Rightarrow> flow_counter list \<Rightarrow> unit outcome \<times> mem_storage" where
  "mem_store_flow_counters s nid counters =
     (Inr (), s\<lparr> ms_flow_counters := hm_insert nid counters (ms_flow_counters s) \<rparr>)"

definition mem_get_flow_counters :: "mem_storage \<Rightarrow> string \<Rightarrow> flow_counter list option outcome" where
  "mem_get_flow_counters s nid = Inr (map_of (ms_flow_counters s) nid)"

subsection \<open>Policies, versions, deployments\<close>

definition mem_store_policy :: "mem_storage \<Rightarrow> policy \<Rightarrow> u64 outcome \<times> mem_storage" where
  "mem_store_policy s p =
     (let nid = pol_node_id p;
          history = (case map_of (ms_policy_versions s) nid of None \<Rightarrow> [] | Some h \<Rightarrow> h);
          version = word_of_nat (length history) + 1
      in (Inr version,
          s\<lparr> ms_policy_versions :=
               hm_insert nid (history @ [version_of_policy version p]) (ms_policy_versions s),
             ms_policies := hm_insert nid p (ms_policies s) \<rparr>))"

definition mem_get_policy :: "mem_storage \<Rightarrow> string \<Rightarrow> policy option outcome" where
  "mem_get_policy s nid = Inr (map_of (ms_policies s) nid)"

definition mem_get_policy_history ::
  "mem_storage \<Rightarrow> string \<Rightarrow> u32 \<Rightarrow> policy_version list outcome" where
  "mem_get_policy_history s nid limit =
     Inr (case map_of (ms_policy_versions s) nid of
            Some v \<Rightarrow> take (unat limit) (rev v)
          | None \<Rightarrow> [])"

definition mem_get_policies_for_nodes ::
  "mem_storage \<Rightarrow> string list \<Rightarrow> (string, policy) hmap outcome" where
  "mem_get_policies_for_nodes s nids =
     Inr (hm_extend [] (List.map_filter
       (\<lambda>nid. map_option (\<lambda>p. (nid, p)) (map_of (ms_policies s) nid)) nids))"

definition mem_record_deployment ::
  "mem_storage \<Rightarrow> deployment_record \<Rightarrow> unit outcome \<times> mem_storage" where
  "mem_record_deployment s r = (Inr (), s\<lparr> ms_deployments := ms_deployments s @ [r] \<rparr>)"

definition mem_get_deployments ::
  "mem_storage \<Rightarrow> string \<Rightarrow> u32 \<Rightarrow> deployment_record list outcome" where
  "mem_get_deployments s nid limit =
     Inr (take (unat limit) (filter (\<lambda>d. dr_node_id d = nid) (rev (ms_deployments s))))"

definition mem_begin_deploy :: "mem_storage \<Rightarrow> string \<Rightarrow> unit outcome \<times> mem_storage" where
  "mem_begin_deploy s nid =
     (if nid \<in> ms_deploying s then (Inl (ConcurrentDeploy nid), s)
      else (Inr (), s\<lparr> ms_deploying := insert nid (ms_deploying s) \<rparr>))"

definition mem_end_deploy :: "mem_storage \<Rightarrow> string \<Rightarrow> mem_storage" where
  "mem_end_deploy s nid = s\<lparr> ms_deploying := ms_deploying s - {nid} \<rparr>"

subsection \<open>Definitions and instances of state machines\<close>

definition mem_store_fsm_definition ::
  "time \<Rightarrow> mem_storage \<Rightarrow> fsm_definition \<Rightarrow> unit outcome \<times> mem_storage" where
  "mem_store_fsm_definition now s d =
     (Inr (), s\<lparr> ms_fsm_definitions := hm_insert (fd_name d) d (ms_fsm_definitions s) \<rparr>)"

definition mem_get_fsm_definition :: "mem_storage \<Rightarrow> string \<Rightarrow> fsm_definition option outcome" where
  "mem_get_fsm_definition s nm = Inr (map_of (ms_fsm_definitions s) nm)"

definition mem_list_fsm_definitions ::
  "mem_storage \<Rightarrow> fsm_kind option \<Rightarrow> fsm_definition list outcome" where
  "mem_list_fsm_definitions s kind =
     Inr (filter (\<lambda>d. is_none_or (\<lambda>k. fd_kind d = k) kind) (hm_values (ms_fsm_definitions s)))"

definition mem_delete_fsm_definition :: "mem_storage \<Rightarrow> string \<Rightarrow> bool outcome \<times> mem_storage" where
  "mem_delete_fsm_definition s nm =
     (Inr (map_of (ms_fsm_definitions s) nm \<noteq> None),
      s\<lparr> ms_fsm_definitions := hm_remove nm (ms_fsm_definitions s) \<rparr>)"

definition mem_store_fsm_instance :: "mem_storage \<Rightarrow> fsm_instance \<Rightarrow> unit outcome \<times> mem_storage" where
  "mem_store_fsm_instance s i =
     (Inr (), s\<lparr> ms_fsm_instances := hm_insert (fi_instance_id i) i (ms_fsm_instances s) \<rparr>)"

definition mem_get_fsm_instance :: "mem_storage \<Rightarrow> string \<Rightarrow> fsm_instance option outcome" where
  "mem_get_fsm_instance s iid = Inr (map_of (ms_fsm_instances s) iid)"

definition mem_update_fsm_instance :: "mem_storage \<Rightarrow> fsm_instance \<Rightarrow> unit outcome \<times> mem_storage" where
  "mem_update_fsm_instance s i =
     (if map_of (ms_fsm_instances s) (fi_instance_id i) \<noteq> None
      then (Inr (), s\<lparr> ms_fsm_instances := hm_insert (fi_instance_id i) i (ms_fsm_instances s) \<rparr>)
      else (Inl (Fsm (InstanceNotFound (fi_instance_id i))), s))"

definition mem_list_fsm_instances ::
  "mem_storage \<Rightarrow> string option \<Rightarrow> fsm_instance_status option \<Rightarrow> fsm_instance list outcome" where
  "mem_list_fsm_instances s def_name status =
     Inr (filter (\<lambda>i. is_none_or (\<lambda>x. fi_status i = x) status)
           (filter (\<lambda>i. is_none_or (\<lambda>n. fi_definition_name i = n) def_name)
             (hm_values (ms_fsm_instances s))))"

subsection \<open>Events, audit log, templates, webhook deliveries\<close>

text \<open>\<open>push\<close> followed by \<open>drain(..n)\<close> of what exceeds the bound.\<close>

definition push_bounded :: "nat \<Rightarrow> 'a list \<Rightarrow> 'a \<Rightarrow> 'a list" where
  "push_bounded bound xs x =
     (let ys = xs @ [x] in if length ys > bound then drop (length ys - bound) ys else ys)"

definition mem_store_event :: "mem_storage \<Rightarrow> persistent_event \<Rightarrow> unit outcome \<times> mem_storage" where
  "mem_store_event s e =
     (Inr (), s\<lparr> ms_events := push_bounded max_memory_events (ms_events s) e \<rparr>)"

definition mem_query_events ::
  "mem_storage \<Rightarrow> string option \<Rightarrow> string option \<Rightarrow> time option \<Rightarrow> time option \<Rightarrow> u32 \<Rightarrow>
     persistent_event list outcome" where
  "mem_query_events s event_type source since til limit =
     Inr (take (unat limit)
       (filter (\<lambda>e. is_none_or (\<lambda>u. pe_timestamp e \<le> u) til)
       (filter (\<lambda>e. is_none_or (\<lambda>t. pe_timestamp e \<ge> t) since)
       (filter (\<lambda>e. is_none_or (\<lambda>x. pe_source e = x) source)
       (filter (\<lambda>e. is_none_or (\<lambda>t. pe_event_type e = t) event_type)
         (rev (ms_events s)))))))"

definition mem_prune_events :: "mem_storage \<Rightarrow> time \<Rightarrow> u64 outcome \<times> mem_storage" where
  "mem_prune_events s older_than =
     (let kept = filter (\<lambda>e. pe_timestamp e \<ge> older_than) (ms_events s)
      in (Inr (word_of_nat (length (ms_events s) - length kept)), s\<lparr> ms_events := kept \<rparr>))"

definition mem_count_events :: "mem_storage \<Rightarrow> u64 outcome" where
  "mem_count_events s = Inr (word_of_nat (length (ms_events s)))"

definition mem_store_audit :: "mem_storage \<Rightarrow> audit_entry \<Rightarrow> unit outcome \<times> mem_storage" where
  "mem_store_audit s e =
     (Inr (), s\<lparr> ms_audit_log := push_bounded max_memory_audit (ms_audit_log s) e \<rparr>)"

definition mem_query_audit ::
  "mem_storage \<Rightarrow> string option \<Rightarrow> string option \<Rightarrow> string option \<Rightarrow> time option \<Rightarrow> u32 \<Rightarrow>
     audit_entry list outcome" where
  "mem_query_audit s action resource_type resource_id since limit =
     Inr (take (unat limit)
       (filter (\<lambda>e. is_none_or (\<lambda>t. ae_timestamp e \<ge> t) since)
       (filter (\<lambda>e. is_none_or (\<lambda>x. ae_resource_id e = x) resource_id)
       (filter (\<lambda>e. is_none_or (\<lambda>x. ae_resource_type e = x) resource_type)
       (filter (\<lambda>e. is_none_or (\<lambda>x. ae_action e = x) action)
         (rev (ms_audit_log s)))))))"

definition mem_store_template :: "mem_storage \<Rightarrow> policy_template \<Rightarrow> unit outcome \<times> mem_storage" where
  "mem_store_template s t =
     (Inr (), s\<lparr> ms_templates := hm_insert (tpl_name t) t (ms_templates s) \<rparr>)"

definition mem_get_template :: "mem_storage \<Rightarrow> string \<Rightarrow> policy_template option outcome" where
  "mem_get_template s nm = Inr (map_of (ms_templates s) nm)"

definition mem_list_templates :: "mem_storage \<Rightarrow> string option \<Rightarrow> policy_template list outcome" where
  "mem_list_templates s tag =
     Inr (filter (\<lambda>t. is_none_or (\<lambda>tg. list_ex (\<lambda>tt. tt = tg) (tpl_tags t)) tag)
           (hm_values (ms_templates s)))"

definition mem_delete_template :: "mem_storage \<Rightarrow> string \<Rightarrow> bool outcome \<times> mem_storage" where
  "mem_delete_template s nm =
     (Inr (map_of (ms_templates s) nm \<noteq> None), s\<lparr> ms_templates := hm_remove nm (ms_templates s) \<rparr>)"

definition mem_store_webhook_delivery ::
  "mem_storage \<Rightarrow> webhook_delivery \<Rightarrow> unit outcome \<times> mem_storage" where
  "mem_store_webhook_delivery s d =
     (Inr (), s\<lparr> ms_webhook_deliveries := ms_webhook_deliveries s @ [d] \<rparr>)"

definition mem_query_webhook_deliveries ::
  "mem_storage \<Rightarrow> string option \<Rightarrow> u32 \<Rightarrow> webhook_delivery list outcome" where
  "mem_query_webhook_deliveries s instance_id limit =
     Inr (take (unat limit)
       (filter (\<lambda>d. is_none_or (\<lambda>i. wd_instance_id d = i) instance_id)
         (rev (ms_webhook_deliveries s))))"

definition memory_ops :: "mem_storage storage_ops" where
  "memory_ops =
     \<lparr> so_register_node = mem_register_node, so_get_node = mem_get_node,
       so_list_nodes = mem_list_nodes, so_remove_node = mem_remove_node,
       so_update_heartbeat = mem_update_heartbeat, so_update_node_state = mem_update_node_state,
       so_store_counters = mem_store_counters, so_get_counters = mem_get_counters,
       so_store_flow_counters = mem_store_flow_counters,
       so_get_flow_counters = mem_get_flow_counters, so_store_policy = mem_store_policy,
       so_get_policy = mem_get_policy, so_get_policy_history = mem_get_policy_history,
       so_get_policies_for_nodes = mem_get_policies_for_nodes,
       so_record_deployment = mem_record_deployment, so_get_deployments = mem_get_deployments,
       so_begin_deploy = mem_begin_deploy, so_end_deploy = mem_end_deploy,
       so_mark_stale_nodes = mem_mark_stale_nodes, so_status_summary = mem_status_summary,
       so_store_fsm_definition = mem_store_fsm_definition,
       so_get_fsm_definition = mem_get_fsm_definition,
       so_list_fsm_definitions = mem_list_fsm_definitions,
       so_delete_fsm_definition = mem_delete_fsm_definition,
       so_store_fsm_instance = mem_store_fsm_instance,
       so_get_fsm_instance = mem_get_fsm_instance,
       so_update_fsm_instance = mem_update_fsm_instance,
       so_list_fsm_instances = mem_list_fsm_instances, so_store_event = mem_store_event,
       so_query_events = mem_query_events, so_prune_events = mem_prune_events,
       so_count_events = mem_count_events, so_update_annotations = mem_update_annotations,
       so_store_audit = mem_store_audit, so_query_audit = mem_query_audit,
       so_store_template = mem_store_template, so_get_template = mem_get_template,
       so_list_templates = mem_list_templates, so_delete_template = mem_delete_template,
       so_store_webhook_delivery = mem_store_webhook_delivery,
       so_query_webhook_deliveries = mem_query_webhook_deliveries,
       so_try_acquire_lease = default_try_acquire_lease, so_get_leader = default_get_leader \<rparr>"

lemma memory_ops_sel [simp]:
  "so_register_node memory_ops = mem_register_node"
  "so_get_node memory_ops = mem_get_node"
  "so_list_nodes memory_ops = mem_list_nodes"
  "so_remove_node memory_ops = mem_remove_node"
  "so_update_heartbeat memory_ops = mem_update_heartbeat"
  "so_update_node_state memory_ops = mem_update_node_state"
  "so_store_counters memory_ops = mem_store_counters"
  "so_get_counters memory_ops = mem_get_counters"
  "so_store_flow_counters memory_ops = mem_store_flow_counters"
  "so_get_flow_counters memory_ops = mem_get_flow_counters"
  "so_store_policy memory_ops = mem_store_policy"
  "so_get_policy memory_ops = mem_get_policy"
  "so_get_policy_history memory_ops = mem_get_policy_history"
  "so_get_policies_for_nodes memory_ops = mem_get_policies_for_nodes"
  "so_record_deployment memory_ops = mem_record_deployment"
  "so_get_deployments memory_ops = mem_get_deployments"
  "so_begin_deploy memory_ops = mem_begin_deploy"
  "so_end_deploy memory_ops = mem_end_deploy"
  "so_mark_stale_nodes memory_ops = mem_mark_stale_nodes"
  "so_status_summary memory_ops = mem_status_summary"
  "so_store_fsm_definition memory_ops = mem_store_fsm_definition"
  "so_get_fsm_definition memory_ops = mem_get_fsm_definition"
  "so_list_fsm_definitions memory_ops = mem_list_fsm_definitions"
  "so_delete_fsm_definition memory_ops = mem_delete_fsm_definition"
  "so_store_fsm_instance memory_ops = mem_store_fsm_instance"
  "so_get_fsm_instance memory_ops = mem_get_fsm_instance"
  "so_update_fsm_instance memory_ops = mem_update_fsm_instance"
  "so_list_fsm_instances memory_ops = mem_list_fsm_instances"
  "so_store_event memory_ops = mem_store_event"
  "so_query_events memory_ops = mem_query_events"
  "so_prune_events memory_ops = mem_prune_events"
  "so_count_events memory_ops = mem_count_events"
  "so_update_annotations memory_ops = mem_update_annotations"
  "so_store_audit memory_ops = mem_store_audit"
  "so_query_audit memory_ops = mem_query_audit"
  "so_store_template memory_ops = mem_store_template"
  "so_get_template memory_ops = mem_get_template"
  "so_list_templates memory_ops = mem_list_templates"
  "so_delete_template memory_ops = mem_delete_template"
  "so_store_webhook_delivery memory_ops = mem_store_webhook_delivery"
  "so_query_webhook_deliveries memory_ops = mem_query_webhook_deliveries"
  "so_try_acquire_lease memory_ops = default_try_acquire_lease"
  "so_get_leader memory_ops = default_get_leader"
  by (simp_all add: memory_ops_def)

subsection \<open>Invariant and abstraction\<close>

text \<open>The versions of a node are numbered from 1, and its current policy is the newest of them.\<close>

definition versions_ok :: "string \<Rightarrow> policy_version list \<Rightarrow> policy option \<Rightarrow> bool" where
  "versions_ok nid vs p \<longleftrightarrow>
     (\<forall>k < length vs. pv_version (vs ! k) = word_of_nat (Suc k) \<and> pv_node_id (vs ! k) = nid) \<and>
     (case p of
        None \<Rightarrow> vs = []
      | Some q \<Rightarrow> vs \<noteq> [] \<and> pol_node_id q = nid \<and>
                  last vs = version_of_policy (word_of_nat (length vs)) q)"

definition mem_versions :: "mem_storage \<Rightarrow> string \<Rightarrow> policy_version list" where
  "mem_versions s nid = (case map_of (ms_policy_versions s) nid of None \<Rightarrow> [] | Some h \<Rightarrow> h)"

definition keys_ok :: "('v \<Rightarrow> 'k) \<Rightarrow> ('k, 'v) hmap \<Rightarrow> bool" where
  "keys_ok key m \<longleftrightarrow> hm_ok m \<and> (\<forall>(k, v) \<in> set m. key v = k)"

definition mem_inv :: "mem_storage \<Rightarrow> bool" where
  "mem_inv s \<longleftrightarrow>
     keys_ok n_node_id (ms_nodes s) \<and> hm_ok (ms_policies s) \<and> hm_ok (ms_counters s) \<and>
     hm_ok (ms_flow_counters s) \<and> hm_ok (ms_policy_versions s) \<and>
     keys_ok fd_name (ms_fsm_definitions s) \<and> keys_ok fi_instance_id (ms_fsm_instances s) \<and>
     keys_ok tpl_name (ms_templates s) \<and>
     length (ms_events s) \<le> max_memory_events \<and> length (ms_audit_log s) \<le> max_memory_audit \<and>
     (\<forall>nid. versions_ok nid (mem_versions s nid) (map_of (ms_policies s) nid))"

definition mem_abs :: "mem_storage \<Rightarrow> astore" where
  "mem_abs s =
     \<lparr> as_nodes = map_of (ms_nodes s), as_policies = map_of (ms_policies s),
       as_versions = mem_versions s,
       as_deployments = (\<lambda>nid. filter (\<lambda>d. dr_node_id d = nid) (ms_deployments s)),
       as_deploying = ms_deploying s, as_definitions = map_of (ms_fsm_definitions s),
       as_instances = map_of (ms_fsm_instances s) \<rparr>"

lemma mem_abs_sel [simp]:
  "as_nodes (mem_abs s) = map_of (ms_nodes s)"
  "as_policies (mem_abs s) = map_of (ms_policies s)"
  "as_versions (mem_abs s) = mem_versions s"
  "as_deployments (mem_abs s) = (\<lambda>nid. filter (\<lambda>d. dr_node_id d = nid) (ms_deployments s))"
  "as_deploying (mem_abs s) = ms_deploying s"
  "as_definitions (mem_abs s) = map_of (ms_fsm_definitions s)"
  "as_instances (mem_abs s) = map_of (ms_fsm_instances s)"
  by (simp_all add: mem_abs_def)

lemma keys_ok_Nil [simp]: "keys_ok key []"
  by (simp add: keys_ok_def)

lemma keys_ok_hm [simp]: "keys_ok key m \<Longrightarrow> hm_ok m"
  by (simp add: keys_ok_def)

lemma keys_ok_get: "keys_ok key m \<Longrightarrow> map_of m k = Some v \<Longrightarrow> key v = k"
  by (auto simp: keys_ok_def dest!: map_of_SomeD)

lemma keys_ok_iff: "keys_ok key m \<longleftrightarrow> hm_ok m \<and> (\<forall>k v. map_of m k = Some v \<longrightarrow> key v = k)"
  unfolding keys_ok_def hm_ok_def by (metis (mono_tags, lifting) case_prodI2 case_prod_conv map_of_eq_Some_iff)

lemma keys_ok_insert [simp]: "keys_ok key m \<Longrightarrow> keys_ok key (hm_insert (key v) v m)"
  by (auto simp: keys_ok_iff split: if_splits)

lemma keys_ok_remove [simp]: "keys_ok key m \<Longrightarrow> keys_ok key (hm_remove k m)"
  by (auto simp: keys_ok_iff split: if_splits)

lemma keys_ok_modify [simp]:
  "keys_ok key m \<Longrightarrow> (\<And>v. key (f v) = key v) \<Longrightarrow> keys_ok key (hm_modify k f m)"
  by (auto simp: keys_ok_iff map_of_modify split: if_splits)

lemma keys_ok_values: "keys_ok key m \<Longrightarrow> v \<in> set (hm_values m) \<longleftrightarrow> map_of m (key v) = Some v"
  by (metis hm_values_iff keys_ok_iff)

lemma map_key_values: "keys_ok key m \<Longrightarrow> map key (hm_values m) = map fst m"
  by (auto simp: keys_ok_def hm_values_def)

lemma distinct_key_values: "keys_ok key m \<Longrightarrow> distinct (map key (hm_values m))"
  by (simp add: map_key_values) (simp add: keys_ok_def hm_ok_def)

lemma push_bounded_length: "length xs \<le> b \<Longrightarrow> length (push_bounded b xs x) = min b (Suc (length xs))"
  by (auto simp: push_bounded_def Let_def)

lemma push_bounded_suffix: "suffix (push_bounded b xs x) (xs @ [x])"
  unfolding push_bounded_def Let_def by (simp only: suffix_drop suffix_order.order_refl split: if_split) simp

lemma push_bounded_le [simp]: "length xs \<le> b \<Longrightarrow> length (push_bounded b xs x) \<le> b"
  by (simp add: push_bounded_length)

lemma mem_default_inv [simp]: "mem_inv mem_default"
  by (simp add: mem_inv_def mem_default_def mem_versions_def versions_ok_def)

subsection \<open>Every operation keeps the invariant\<close>

lemma versions_ok_append:
  assumes "versions_ok nid vs p" and "pol_node_id q = nid"
  shows "versions_ok nid (vs @ [version_of_policy (word_of_nat (length vs) + 1) q]) (Some q)"
  using assms by (auto simp: versions_ok_def nth_append version_of_policy_def add.commute less_Suc_eq)

lemma mem_register_node_inv [intro]: "mem_inv s \<Longrightarrow> mem_inv (snd (mem_register_node s n))"
  by (simp add: mem_inv_def mem_register_node_def mem_versions_def)

lemma mem_remove_node_inv [intro]: "mem_inv s \<Longrightarrow> mem_inv (snd (mem_remove_node s nid))"
  by (simp add: mem_inv_def mem_remove_node_def mem_versions_def) (simp add: versions_ok_def)

lemma mem_update_heartbeat_inv [intro]:
  "mem_inv s \<Longrightarrow> mem_inv (snd (mem_update_heartbeat now s nid st up))"
  by (simp add: mem_inv_def mem_update_heartbeat_def mem_versions_def split: option.split)

lemma mem_update_node_state_inv [intro]:
  "mem_inv s \<Longrightarrow> mem_inv (snd (mem_update_node_state s nid st))"
  by (simp add: mem_inv_def mem_update_node_state_def mem_versions_def split: option.split)

lemma mem_update_annotations_inv [intro]:
  "mem_inv s \<Longrightarrow> mem_inv (snd (mem_update_annotations s nid sets removes))"
  by (simp add: mem_inv_def mem_update_annotations_def mem_versions_def split: option.split)

lemma mem_mark_stale_nodes_inv [intro]:
  "mem_inv s \<Longrightarrow> mem_inv (snd (mem_mark_stale_nodes now s threshold))"
  by (fastforce simp: mem_inv_def mem_mark_stale_nodes_def mem_versions_def keys_ok_def hm_ok_def
      case_prod_unfold comp_def)

lemma mem_store_policy_inv [intro]: "mem_inv s \<Longrightarrow> mem_inv (snd (mem_store_policy s p))"
  using versions_ok_append [of "pol_node_id p" "mem_versions s (pol_node_id p)" _ p]
  by (auto simp: mem_inv_def mem_store_policy_def mem_versions_def Let_def)

lemma mem_guard_inv [simp]:
  "mem_inv (snd (mem_begin_deploy s nid)) = mem_inv s"
  "mem_inv (mem_end_deploy s nid) = mem_inv s"
  by (simp_all add: mem_inv_def mem_begin_deploy_def mem_end_deploy_def mem_versions_def)

lemma mem_store_inv [simp]:
  "mem_inv s \<Longrightarrow> mem_inv (snd (mem_store_counters s nid cs))"
  "mem_inv s \<Longrightarrow> mem_inv (snd (mem_store_flow_counters s nid fs))"
  "mem_inv s \<Longrightarrow> mem_inv (snd (mem_record_deployment s r))"
  "mem_inv s \<Longrightarrow> mem_inv (snd (mem_store_fsm_definition now s d))"
  "mem_inv s \<Longrightarrow> mem_inv (snd (mem_delete_fsm_definition s nm))"
  "mem_inv s \<Longrightarrow> mem_inv (snd (mem_store_fsm_instance s i))"
  "mem_inv s \<Longrightarrow> mem_inv (snd (mem_update_fsm_instance s i))"
  "mem_inv s \<Longrightarrow> mem_inv (snd (mem_store_event s e))"
  "mem_inv s \<Longrightarrow> mem_inv (snd (mem_store_audit s a))"
  "mem_inv s \<Longrightarrow> mem_inv (snd (mem_store_template s t))"
  "mem_inv s \<Longrightarrow> mem_inv (snd (mem_delete_template s nm))"
  "mem_inv s \<Longrightarrow> mem_inv (snd (mem_store_webhook_delivery s w))"
  by (simp_all add: mem_inv_def mem_versions_def mem_store_counters_def mem_store_flow_counters_def
      mem_record_deployment_def mem_store_fsm_definition_def mem_delete_fsm_definition_def
      mem_store_fsm_instance_def mem_update_fsm_instance_def mem_store_event_def mem_store_audit_def
      mem_store_template_def mem_delete_template_def mem_store_webhook_delivery_def)

lemma mem_prune_events_inv [intro]: "mem_inv s \<Longrightarrow> mem_inv (snd (mem_prune_events s t))"
  using order_trans [OF length_filter_le [of "\<lambda>e. pe_timestamp e \<ge> t" "ms_events s"], of max_memory_events]
  by (simp add: mem_inv_def mem_prune_events_def mem_versions_def Let_def)

text \<open>One call of a state-changing method, and the states a backend can be in when calls do not overlap.\<close>

inductive mem_call :: "mem_storage \<Rightarrow> mem_storage \<Rightarrow> bool" where
  "mem_call s (snd (mem_register_node s n))"
| "mem_call s (snd (mem_update_heartbeat now s nid st up))"
| "mem_call s (snd (mem_update_node_state s nid st))"
| "mem_call s (snd (mem_mark_stale_nodes now s threshold))"
| "mem_call s (snd (mem_update_annotations s nid sets removes))"
| "mem_call s (snd (mem_store_counters s nid cs))"
| "mem_call s (snd (mem_store_flow_counters s nid fs))"
| "mem_call s (snd (mem_record_deployment s r))"
| "mem_call s (snd (mem_begin_deploy s nid))"
| "mem_call s (mem_end_deploy s nid)"
| "mem_call s (snd (mem_store_fsm_definition now s d))"
| "mem_call s (snd (mem_delete_fsm_definition s nm))"
| "mem_call s (snd (mem_store_fsm_instance s i))"
| "mem_call s (snd (mem_update_fsm_instance s i))"
| "mem_call s (snd (mem_store_event s e))"
| "mem_call s (snd (mem_prune_events s t))"
| "mem_call s (snd (mem_store_audit s a))"
| "mem_call s (snd (mem_store_template s tp))"
| "mem_call s (snd (mem_delete_template s nm))"
| "mem_call s (snd (mem_store_webhook_delivery s w))"

inductive mem_step :: "mem_storage \<Rightarrow> mem_storage \<Rightarrow> bool" where
  store: "mem_step s (snd (mem_store_policy s p))"
| remove: "mem_step s (snd (mem_remove_node s nid))"
| call: "mem_call s s' \<Longrightarrow> mem_step s s'"

inductive mem_reachable :: "mem_storage \<Rightarrow> bool" where
  start: "mem_reachable mem_default"
| step: "mem_reachable s \<Longrightarrow> mem_step s s' \<Longrightarrow> mem_reachable s'"

lemma mem_call_inv: "mem_call s s' \<Longrightarrow> mem_inv s \<Longrightarrow> mem_inv s'"
  by (induction rule: mem_call.induct) auto

lemma mem_step_inv: "mem_step s s' \<Longrightarrow> mem_inv s \<Longrightarrow> mem_inv s'"
  by (induction rule: mem_step.induct) (auto intro: mem_call_inv)

lemma mem_reachable_mem_inv: "mem_reachable s \<Longrightarrow> mem_inv s"
  by (induction rule: mem_reachable.induct) (simp, rule mem_step_inv)

subsection \<open>The backend satisfies the contract of the trait\<close>

lemma mem_list_nodes_spec:
  assumes "mem_inv s"
  shows "\<exists>ns. mem_list_nodes s lf = Inr ns \<and> distinct (map n_node_id ns) \<and>
           (\<forall>n. n \<in> set ns \<longleftrightarrow> map_of (ms_nodes s) (n_node_id n) = Some n \<and> labels_match lf n)"
proof -
  have k: "keys_ok n_node_id (ms_nodes s)" using assms by (simp add: mem_inv_def)
  show ?thesis
    using distinct_key_values [OF k] keys_ok_values [OF k]
    by (simp add: mem_list_nodes_def distinct_map_filter)
qed

lemma mem_list_fsm_instances_spec:
  assumes "mem_inv s"
  shows "\<exists>xs. mem_list_fsm_instances s dn st = Inr xs \<and> distinct (map fi_instance_id xs) \<and>
           (\<forall>i. i \<in> set xs \<longleftrightarrow> map_of (ms_fsm_instances s) (fi_instance_id i) = Some i \<and>
              is_none_or (\<lambda>n. fi_definition_name i = n) dn \<and> is_none_or (\<lambda>x. fi_status i = x) st)"
proof -
  have k: "keys_ok fi_instance_id (ms_fsm_instances s)" using assms by (simp add: mem_inv_def)
  show ?thesis
    using distinct_key_values [OF k] keys_ok_values [OF k]
    by (simp add: mem_list_fsm_instances_def distinct_map_filter)
qed

lemma mem_update_node_state_abs:
  "mem_update_node_state s nid st = (r, s') \<Longrightarrow> a_update_node_state (mem_abs s) nid st = (r, mem_abs s')"
  by (auto simp: mem_update_node_state_def a_update_node_state_def a_set_state_def mem_abs_def
      mem_versions_def fun_eq_iff split: option.splits if_splits)

lemma mem_remove_node_abs:
  "mem_remove_node s nid = (r, s') \<Longrightarrow> a_remove_node (mem_abs s) nid = (r, mem_abs s')"
  by (auto simp: mem_remove_node_def a_remove_node_def mem_abs_def mem_versions_def fun_eq_iff)

lemma mem_store_policy_abs:
  "mem_store_policy s p = (r, s') \<Longrightarrow> a_store_policy (mem_abs s) p = (r, mem_abs s')"
  by (auto simp: mem_store_policy_def a_store_policy_def mem_abs_def mem_versions_def fun_eq_iff Let_def)

lemma mem_record_deployment_abs:
  "mem_record_deployment s d = (r, s') \<Longrightarrow> a_record_deployment (mem_abs s) d = (r, mem_abs s')"
  by (auto simp: mem_record_deployment_def a_record_deployment_def mem_abs_def mem_versions_def fun_eq_iff)

lemma mem_begin_deploy_abs:
  "mem_begin_deploy s nid = (r, s') \<Longrightarrow> a_begin_deploy (mem_abs s) nid = (r, mem_abs s')"
  by (auto simp: mem_begin_deploy_def a_begin_deploy_def mem_abs_def mem_versions_def fun_eq_iff split: if_splits)

lemma mem_end_deploy_abs: "mem_abs (mem_end_deploy s nid) = a_end_deploy (mem_abs s) nid"
  by (simp add: mem_end_deploy_def a_end_deploy_def mem_abs_def mem_versions_def fun_eq_iff)

lemma mem_store_fsm_instance_abs:
  "mem_store_fsm_instance s i = (r, s') \<Longrightarrow> a_store_fsm_instance (mem_abs s) i = (r, mem_abs s')"
  by (auto simp: mem_store_fsm_instance_def a_store_fsm_instance_def mem_abs_def mem_versions_def fun_eq_iff)

lemma mem_update_fsm_instance_abs:
  "mem_update_fsm_instance s i = (r, s') \<Longrightarrow> a_update_fsm_instance (mem_abs s) i = (r, mem_abs s')"
  by (auto simp: mem_update_fsm_instance_def a_update_fsm_instance_def mem_abs_def mem_versions_def
      fun_eq_iff split: if_splits)

lemma mem_get_policy_history_abs:
  "mem_get_policy_history s nid limit = Inr (take (unat limit) (rev (mem_versions s nid)))"
  by (simp add: mem_get_policy_history_def mem_versions_def split: option.split)

interpretation mem: node_storage memory_ops mem_abs mem_inv
proof (unfold_locales, goal_cases)
  case (2 s nid n) then show ?case by (auto simp: mem_inv_def dest: keys_ok_get)
next
  case (4 s nid st r s')
  then show ?case using mem_update_node_state_inv [of s nid st] by (simp add: mem_update_node_state_abs)
next
  case (5 s nid r s')
  then show ?case using mem_remove_node_inv [of s nid] mem_remove_node_abs [of s nid r s'] by simp
qed (use mem_list_nodes_spec in \<open>simp_all add: mem_get_node_def\<close>)

interpretation mem: guard_storage memory_ops mem_abs mem_inv
proof (unfold_locales, goal_cases)
  case (1 s nid r s')
  then show ?case using mem_guard_inv(1) [of s nid] by (simp add: mem_begin_deploy_abs)
qed (simp add: mem_end_deploy_abs)

interpretation mem: policy_storage memory_ops mem_abs mem_inv
proof (unfold_locales, goal_cases)
  case (4 s p r s')
  then show ?case
    using mem_store_policy_inv [of s p] a_store_policy_only [of p "mem_abs s"]
      mem_store_policy_abs [of s p r s'] by simp
next
  case (5 s d u s')
  then show ?case using mem_record_deployment_abs [of s d "Inr u" s'] by simp
next
  case (6 s d r s')
  then show ?case
    using mem_store_inv(3) [of s d] mem_record_deployment_abs [of s d r s'] by simp
qed (simp_all add: mem_get_policy_def mem_get_policy_history_abs mem_store_policy_abs)

interpretation mem: fsm_storage memory_ops mem_abs mem_inv
proof (unfold_locales, goal_cases)
  case (3 s iid i) then show ?case by (auto simp: mem_inv_def dest: keys_ok_get)
next
  case (4 s i r s')
  then show ?case using mem_store_inv(6) [of s i] by (simp add: mem_store_fsm_instance_abs)
next
  case (5 s i r s')
  then show ?case using mem_store_inv(7) [of s i] by (simp add: mem_update_fsm_instance_abs)
qed (use mem_list_fsm_instances_spec [where dn = None] in
      \<open>simp_all add: mem_get_fsm_definition_def mem_get_fsm_instance_def\<close>)

interpretation mem: storage memory_ops mem_abs mem_inv
  by unfold_locales

subsection \<open>Properties\<close>

lemma push_bounded_fold:
  "foldl (push_bounded b) (drop (length ys - b) ys) xs =
     drop (length (ys @ xs) - b) (ys @ xs)"
proof (induction xs arbitrary: ys)
  case (Cons x xs)
  have "push_bounded b (drop (length ys - b) ys) x = drop (length (ys @ [x]) - b) (ys @ [x])"
    by (cases "length ys \<ge> b") (auto simp: push_bounded_def Let_def Suc_diff_le)
  then show ?case using Cons.IH [of "ys @ [x]"] by simp
qed simp

lemma ms_events_store_event:
  "ms_events (snd (mem_store_event s e)) = push_bounded max_memory_events (ms_events s) e"
  by (simp add: mem_store_event_def)

lemma ms_events_store_events:
  "ms_events (fold (\<lambda>e s. snd (mem_store_event s e)) es s) =
     foldl (push_bounded max_memory_events) (ms_events s) es"
  by (induction es arbitrary: s) (simp_all add: ms_events_store_event)

text \<open>The event log is bounded and keeps the newest events: after any sequence of
  \<open>store_event\<close> calls on a fresh backend the log holds the last 10000 of them in order, and an
  unfiltered query returns them newest first, up to its limit.\<close>

theorem mem_event_log_keeps_newest:
  "let s = fold (\<lambda>e s. snd (mem_store_event s e)) es mem_default
   in ms_events s = drop (length es - 10000) es \<and>
      mem_query_events s None None None None limit =
        Inr (take (unat limit) (rev (drop (length es - 10000) es)))"
  using push_bounded_fold [of 10000 "[]" es]
  by (simp add: Let_def ms_events_store_events mem_query_events_def max_memory_events_def
      mem_default_def)

lemma is_stale_offline [simp]: "\<not> is_stale now th (n\<lparr> n_state := Offline \<rparr>)"
  by (simp add: is_stale_def)

definition stale_ids :: "time \<Rightarrow> time \<Rightarrow> mem_storage \<Rightarrow> string list" where
  "stale_ids now threshold s = map n_node_id (filter (is_stale now threshold) (hm_values (ms_nodes s)))"

lemma stale_ids_spec:
  assumes "mem_inv s"
  shows "distinct (stale_ids now threshold s)"
    and "nid \<in> set (stale_ids now threshold s) \<longleftrightarrow>
      (\<exists>n. map_of (ms_nodes s) nid = Some n \<and> is_stale now threshold n)"
proof -
  have k: "keys_ok n_node_id (ms_nodes s)" using assms by (simp add: mem_inv_def)
  show "distinct (stale_ids now threshold s)"
    using distinct_key_values [OF k] by (simp add: stale_ids_def distinct_map_filter)
  show "nid \<in> set (stale_ids now threshold s) \<longleftrightarrow>
      (\<exists>n. map_of (ms_nodes s) nid = Some n \<and> is_stale now threshold n)"
    using keys_ok_values [OF k] keys_ok_get [OF k] by (auto simp: stale_ids_def image_iff)
qed

lemma mem_mark_stale_nodes_eq:
  "mem_mark_stale_nodes now s threshold = (Inr (stale_ids now threshold s),
     s\<lparr> ms_nodes := map (\<lambda>(k, n). (k, if is_stale now threshold n then n\<lparr> n_state := Offline \<rparr> else n))
       (ms_nodes s) \<rparr>)"
  by (simp add: mem_mark_stale_nodes_def stale_ids_def)

text \<open>\<open>mark_stale_nodes\<close> takes offline exactly the nodes whose last heartbeat is older than the
  threshold and that are neither offline nor freshly registered, changes nothing else of them, reports
  each of them once, and run again at the same time reports none.\<close>

theorem mem_mark_stale_exact:
  assumes "mem_inv s" and "mem_mark_stale_nodes now s threshold = (r, s')"
  shows "(\<exists>ids. r = Inr ids \<and> distinct ids \<and>
      (\<forall>nid. nid \<in> set ids \<longleftrightarrow>
         (\<exists>n. mem_get_node s nid = Inr (Some n) \<and> n_state n \<notin> {Offline, Registered} \<and>
              n_last_heartbeat n < now - threshold))) \<and>
    (\<forall>nid. mem_get_node s' nid = Inr (map_option
       (\<lambda>n. if is_stale now threshold n then n\<lparr> n_state := Offline \<rparr> else n) (map_of (ms_nodes s) nid))) \<and>
    fst (mem_mark_stale_nodes now s' threshold) = Inr []"
proof -
  have s': "ms_nodes s' = map (\<lambda>(k, n). (k, if is_stale now threshold n then n\<lparr> n_state := Offline \<rparr> else n)) (ms_nodes s)"
    and r: "r = Inr (stale_ids now threshold s)"
    using assms(2) by (auto simp: mem_mark_stale_nodes_eq)
  have none: "stale_ids now threshold s' = []"
    by (auto simp: s' stale_ids_def hm_values_def filter_empty_conv split: if_splits)
  show ?thesis
    using stale_ids_spec [OF assms(1)] none
    by (auto simp: r s' mem_get_node_def mem_mark_stale_nodes_eq is_stale_def map_of_map_values algebra_simps)
qed

definition state_count :: "(string, nat) hmap \<Rightarrow> node_state \<Rightarrow> nat" where
  "state_count by_state st = (case map_of by_state (node_state_to_string st) of None \<Rightarrow> 0 | Some c \<Rightarrow> c)"

lemma node_state_to_string_inj [simp]:
  "node_state_to_string s = node_state_to_string t \<longleftrightarrow> s = t"
  by (cases s; cases t) simp_all

lemma state_count_step:
  "state_count (count_state by n) st = state_count by st + (if n_state n = st then 1 else 0)"
  by (simp add: state_count_def count_state_def Let_def)

lemma state_count_fold:
  "state_count (foldl count_state by ns) st =
     state_count by st + length (filter (\<lambda>n. n_state n = st) ns)"
  by (induction ns arbitrary: "by") (simp_all add: state_count_step)

lemma older_heartbeat_Some: "older_heartbeat (Some t) n = Some (min t (n_last_heartbeat n))"
  by (simp add: older_heartbeat_def min_def)

lemma older_heartbeat_fold:
  "foldl older_heartbeat (Some t) ns = Some (Min (insert t (n_last_heartbeat ` set ns)))"
proof (induction ns arbitrary: t)
  case (Cons n ns)
  then show ?case by (cases "ns = []") (simp_all add: older_heartbeat_Some min.assoc)
qed simp

lemma oldest_heartbeat:
  "foldl older_heartbeat None ns = (if ns = [] then None else Some (Min (n_last_heartbeat ` set ns)))"
  by (cases ns) (simp_all add: older_heartbeat_def older_heartbeat_fold)

text \<open>\<open>status_summary\<close> reports the number of nodes, for every state the number of nodes in it
  (so the counts add up to the total), and the oldest heartbeat, none when there is no node.\<close>

theorem mem_status_summary_counts:
  "\<exists>by_state. mem_status_summary s =
      Inr (length (ms_nodes s), by_state,
           if ms_nodes s = [] then None else Some (Min (n_last_heartbeat ` snd ` set (ms_nodes s)))) \<and>
    (\<forall>st. state_count by_state st = length (filter (\<lambda>(_, n). n_state n = st) (ms_nodes s))) \<and>
    (\<Sum>st\<leftarrow>[Registered, Online, Deploying, Active, Error, Offline]. state_count by_state st) =
      length (ms_nodes s)"
proof -
  let ?ns = "hm_values (ms_nodes s)"
  have c: "state_count (foldl count_state [] ?ns) st = length (filter (\<lambda>(_, n). n_state n = st) (ms_nodes s))" for st
    by (simp add: state_count_fold hm_values_def filter_map comp_def case_prod_unfold)
      (simp add: state_count_def)
  have "(\<Sum>st\<leftarrow>[Registered, Online, Deploying, Active, Error, Offline].
      length (filter (\<lambda>(_, n). n_state n = st) ns)) = length ns" for ns :: "(string \<times> node) list"
    by (induction ns) (auto, metis node_state.exhaust)
  with c have "\<forall>st. state_count (foldl count_state [] ?ns) st =
        length (filter (\<lambda>(_, n). n_state n = st) (ms_nodes s))"
    and "(\<Sum>st\<leftarrow>[Registered, Online, Deploying, Active, Error, Offline].
        state_count (foldl count_state [] ?ns) st) = length (ms_nodes s)"
    by simp_all
  then show ?thesis
    by (intro exI [of _ "foldl count_state [] ?ns"])
      (simp add: mem_status_summary_def Let_def oldest_heartbeat hm_values_def image_image)
qed

end
