(* ===== verification/Controller_Api.thy ===== *)
theory Controller_Api
  imports World Mem_Storage
begin

text \<open>
  The service that agents call, \<open>PaciNetController\<close> of \<^verbatim>\<open>pacinet-server/src/service.rs\<close>:
  registration, heartbeats, and counter reports.  The services run with a counter cache, as
  \<^verbatim>\<open>main.rs\<close> builds them; the event bus is optional.  A handler returns its response or a
  gRPC status, with the world it leaves.
\<close>

definition not_found :: "string \<Rightarrow> status" where
  "not_found msg = Status CNotFound msg"

record register_node_request =
  rr_hostname :: string
  rr_agent_address :: string
  rr_labels :: "(string, string) hmap"
  rr_pacgate_version :: string
  rr_capabilities :: "(string, string) hmap"

record register_node_response =
  rp_node_id :: string
  rp_accepted :: bool
  rp_message :: string

definition register_node ::
  "'s storage_ops \<Rightarrow> env \<Rightarrow> register_node_request \<Rightarrow> 's world \<Rightarrow>
     (status + register_node_response) \<times> 's world" where
  "register_node ops e req w =
     (let (now, w) = clock e w;
          (uuid, w) = new_uuid e w;
          n = (node_new uuid now (rr_hostname req) (rr_agent_address req) (rr_labels req)
                 (rr_pacgate_version req))\<lparr> n_capabilities := rr_capabilities req \<rparr>
      in case blocking (\<lambda>s. so_register_node ops s n) w of
           (Inl st, w) \<Rightarrow> (Inl st, w)
         | (Inr nid, w) \<Rightarrow>
             (Inr \<lparr> rp_node_id = nid, rp_accepted = True, rp_message = ''Node registered'' \<rparr>,
              emit_now e (\<lambda>t. NodeEv (NodeRegistered nid (rr_hostname req) (rr_labels req) t)) w))"

record heartbeat_request =
  hb_node_id :: string
  hb_state :: int
  hb_uptime_seconds :: u64

definition heartbeat_state :: "heartbeat_request \<Rightarrow> node_state" where
  "heartbeat_state req =
     node_state_from_proto (case proto_node_state_of_num (hb_state req) of
        Some p \<Rightarrow> p | None \<Rightarrow> POnline)"

text \<open>\<open>.await.ok().flatten()\<close>: the node before the update, when there is a bus to tell.\<close>

definition node_before :: "'s storage_ops \<Rightarrow> env \<Rightarrow> string \<Rightarrow> 's world \<Rightarrow> node option" where
  "node_before ops e nid w =
     (if e_event_bus e
      then (case blocking_read (\<lambda>s. so_get_node ops s nid) w of Inr n \<Rightarrow> n | Inl _ \<Rightarrow> None)
      else None)"

definition heartbeat ::
  "'s storage_ops \<Rightarrow> env \<Rightarrow> heartbeat_request \<Rightarrow> 's world \<Rightarrow> (status + bool) \<times> 's world" where
  "heartbeat ops e req w =
     (let new_state = heartbeat_state req;
          old_node = node_before ops e (hb_node_id req) w;
          (now, w) = clock e w
      in case blocking (\<lambda>s. so_update_heartbeat ops now s (hb_node_id req) new_state
                 (hb_uptime_seconds req)) w of
           (Inl st, w) \<Rightarrow> (Inl st, w)
         | (Inr found, w) \<Rightarrow>
             if \<not> found then (Inl (not_found ''Node not registered''), w)
             else
               (Inr True,
                case old_node of
                  Some n \<Rightarrow>
                    if n_state n \<noteq> new_state
                    then emit_now e (\<lambda>t. NodeEv (StateChanged (n_node_id n) (n_hostname n) (n_labels n)
                           (node_state_to_string (n_state n)) (node_state_to_string new_state) t)) w
                    else w
                | None \<Rightarrow> w))"

record report_counters_request =
  rq_node_id :: string
  rq_counters :: "rule_counter list"
  rq_collected_at :: "int option"
  rq_flow_counters :: "flow_counter list"

text \<open>\<open>DateTime::from_timestamp(seconds, 0)\<close>: the years -262143 to 262142.\<close>

definition time_of_timestamp :: "int \<Rightarrow> time option" where
  "time_of_timestamp s =
     (if - 8334601228800 \<le> s \<and> s \<le> 8210266876799 then Some (secs s) else None)"

definition rate_data :: "counter_cache \<Rightarrow> string \<Rightarrow> rule_counter \<Rightarrow> counter_rate_data" where
  "rate_data cache nid c =
     (let rate = (case cache_latest_pair cache nid of
                    Some (older, newer) \<Rightarrow> calculate_rate older newer (rc_rule_name c)
                  | None \<Rightarrow> None)
      in \<lparr> crd_rule_name = rc_rule_name c, crd_match_count = rc_match_count c,
           crd_byte_count = rc_byte_count c,
           crd_matches_per_second = (case rate of Some r \<Rightarrow> cr_matches_per_second r | None \<Rightarrow> Fin 0),
           crd_bytes_per_second = (case rate of Some r \<Rightarrow> cr_bytes_per_second r | None \<Rightarrow> Fin 0) \<rparr>)"

definition report_counters ::
  "'s storage_ops \<Rightarrow> env \<Rightarrow> report_counters_request \<Rightarrow> 's world \<Rightarrow> (status + bool) \<times> 's world" where
  "report_counters ops e req w =
     (let nid = rq_node_id req;
          (collected_at, w) =
            (case (case rq_collected_at req of Some s \<Rightarrow> time_of_timestamp s | None \<Rightarrow> None) of
               Some t \<Rightarrow> (t, w) | None \<Rightarrow> clock e w);
          w = w\<lparr> w_cache := cache_record (w_cache w)
                \<lparr> cs_node_id = nid, cs_collected_at = collected_at, cs_counters = rq_counters req \<rparr> \<rparr>;
          w = emit e (CounterEv
                \<lparr> ce_node_id = nid,
                  ce_counters = map (rate_data (w_cache w) nid) (rq_counters req),
                  ce_collected_at = collected_at \<rparr>) w
      in case blocking (\<lambda>s. so_store_counters ops s nid (rq_counters req)) w of
           (Inl st, w) \<Rightarrow> (Inl st, w)
         | (Inr _, w) \<Rightarrow>
             (case blocking (\<lambda>s. so_store_flow_counters ops s nid (rq_flow_counters req)) w of
                (Inl st, w) \<Rightarrow> (Inl st, w)
              | (Inr _, w) \<Rightarrow> (Inr True, w)))"

subsection \<open>Properties\<close>

text \<open>A heartbeat of a registered node sets its state without the transition check (so it can end
  any state, also one a deploy has set), its uptime and the time of its last heartbeat, and nothing
  else in the store; with a bus, one event announces it exactly when the state differs.  A heartbeat
  of an unknown node is answered with \<open>NOT_FOUND\<close> and changes no node.\<close>

theorem heartbeat_effect:
  fixes w :: "mem_storage world" and e req
  defines "nid \<equiv> hb_node_id req" and "st \<equiv> heartbeat_state req" and "s \<equiv> w_store w"
    and "r \<equiv> heartbeat memory_ops e req w"
  shows "case map_of (ms_nodes s) nid of
      None \<Rightarrow> fst r = Inl (not_found ''Node not registered'') \<and> w_store (snd r) = s
    | Some n \<Rightarrow> fst r = Inr True \<and>
        w_store (snd r) = s\<lparr> ms_nodes := ms_nodes (w_store (snd r)) \<rparr> \<and>
        map_of (ms_nodes (w_store (snd r))) = (map_of (ms_nodes s))(nid \<mapsto>
          n\<lparr> n_last_heartbeat := e_now e (w_ticks w), n_state := st, n_uptime_seconds := hb_uptime_seconds req \<rparr>) \<and>
        length (w_events (snd r)) = length (w_events w) + (if e_event_bus e \<and> n_state n \<noteq> st then 1 else 0)"
proof (cases "map_of (ms_nodes s) nid")
  case None
  then show ?thesis
    by (simp add: r_def heartbeat_def Let_def case_prod_unfold blocking_def mem_update_heartbeat_def
        nid_def s_def)
next
  case (Some n)
  then show ?thesis
    by (simp add: r_def heartbeat_def Let_def case_prod_unfold blocking_def mem_update_heartbeat_def
        nid_def s_def st_def node_before_def blocking_read_def mem_get_node_def)
      (simp add: clock_def emit_now_def emit_def)
qed

end
