(* ===== verification/Fsm_Eval.thy ===== *)
theory Fsm_Eval
  imports World
begin

text \<open>
  The conditions of \<^verbatim>\<open>pacinet-server/src/fsm_engine.rs\<close>: thresholds on the cached counters,
  the sustained-for-a-duration rule, and the conditions a transition waits for.  Evaluation reads
  the clock and the counter cache of the world and changes nothing but the
  \<open>counter_condition_first_true\<close> map of the instance.

  The sum of \<open>u64\<close> totals wraps, as in a release build.  The lemmas give evaluation a closed form
  and show that a sustained condition holds exactly when its threshold has been met at every
  evaluation since some evaluation at least the duration ago.
\<close>

definition rate_matches :: "f64 \<Rightarrow> f64 option \<Rightarrow> f64 option \<Rightarrow> bool" where
  "rate_matches rate abv blw =
     (if (case abv of Some t \<Rightarrow> f64_le rate t | None \<Rightarrow> False) then False
      else if (case blw of Some t \<Rightarrow> f64_ge rate t | None \<Rightarrow> False) then False
      else True)"

definition node_total :: "counter_cache \<Rightarrow> string \<Rightarrow> bool \<Rightarrow> string \<Rightarrow> u64 option" where
  "node_total cache rule_name use_bytes nid =
     (case cache_latest cache nid of
        None \<Rightarrow> None
      | Some s \<Rightarrow> map_option (\<lambda>(m, b). if use_bytes then b else m) (get_counter_total s rule_name))"

definition check_total_above ::
  "counter_cache \<Rightarrow> string \<Rightarrow> u64 \<Rightarrow> bool \<Rightarrow> string list \<Rightarrow> aggregate_mode \<Rightarrow> bool" where
  "check_total_above cache rule_name threshold use_bytes nodes aggregate =
     (let exceeds = (\<lambda>nid. case node_total cache rule_name use_bytes nid of
                            Some val \<Rightarrow> val > threshold | None \<Rightarrow> False)
      in case aggregate of
           AggAny \<Rightarrow> list_ex exceeds nodes
         | AggAll \<Rightarrow> list_all exceeds nodes
         | AggSum \<Rightarrow>
             sum_list (List.map_filter (node_total cache rule_name use_bytes) nodes) > threshold)"

definition node_rate :: "counter_cache \<Rightarrow> string \<Rightarrow> bool \<Rightarrow> string \<Rightarrow> f64 option" where
  "node_rate cache rule_name use_bytes nid =
     (case cache_latest_pair cache nid of
        None \<Rightarrow> None
      | Some (older, newer) \<Rightarrow>
          map_option (\<lambda>r. if use_bytes then cr_bytes_per_second r else cr_matches_per_second r)
            (calculate_rate older newer rule_name))"

definition check_rate_threshold ::
  "counter_cache \<Rightarrow> string \<Rightarrow> f64 option \<Rightarrow> f64 option \<Rightarrow> bool \<Rightarrow> string list \<Rightarrow> aggregate_mode \<Rightarrow>
     bool" where
  "check_rate_threshold cache rule_name abv blw use_bytes nodes aggregate =
     (let rates = List.map_filter (node_rate cache rule_name use_bytes) nodes
      in if rates = [] then False
         else case aggregate of
                AggAny \<Rightarrow> list_ex (\<lambda>r. rate_matches r abv blw) rates
              | AggAll \<Rightarrow> list_all (\<lambda>r. rate_matches r abv blw) rates
              | AggSum \<Rightarrow> rate_matches (foldl f64_add (Fin 0) rates) abv blw)"

definition condition_key :: "string \<Rightarrow> nat \<Rightarrow> string" where
  "condition_key current_state ti = current_state @ '':'' @ show_nat ti"

definition set_first_true :: "(string, time) hmap \<Rightarrow> fsm_instance \<Rightarrow> fsm_instance" where
  "set_first_true m i = i\<lparr> fi_context := (fi_context i)\<lparr> cx_first_true := m \<rparr> \<rparr>"

definition clear_first_true :: "string \<Rightarrow> fsm_instance \<Rightarrow> fsm_instance" where
  "clear_first_true key i = set_first_true (hm_remove key (cx_first_true (fi_context i))) i"

definition nodes_to_check :: "counter_cache \<Rightarrow> fsm_instance \<Rightarrow> string list" where
  "nodes_to_check cache i =
     (let cx = fi_context i
      in if cx_target_nodes cx = []
         then if cx_deployed_nodes cx = [] then cache_node_ids cache else cx_deployed_nodes cx
         else cx_target_nodes cx)"

definition evaluate_counter_condition ::
  "env \<Rightarrow> counter_condition \<Rightarrow> string \<Rightarrow> nat \<Rightarrow> fsm_instance \<Rightarrow> 's world \<Rightarrow>
     (bool \<times> fsm_instance) \<times> 's world" where
  "evaluate_counter_condition e cc current_state ti i w =
     (let key = condition_key current_state ti;
          aggregate = (case cc_aggregate cc of Some a \<Rightarrow> parse_aggregate_mode a | None \<Rightarrow> AggAny);
          use_bytes = (cc_field cc = Some ''bytes'');
          nodes = nodes_to_check (w_cache w) i
      in if nodes = [] then ((False, i), w)
         else if (case cc_total_above cc of
                    Some t \<Rightarrow> \<not> check_total_above (w_cache w) (cc_counter cc) t use_bytes nodes aggregate
                  | None \<Rightarrow> False)
         then ((False, clear_first_true key i), w)
         else if (cc_rate_above cc \<noteq> None \<or> cc_rate_below cc \<noteq> None) \<and>
                 \<not> check_rate_threshold (w_cache w) (cc_counter cc) (cc_rate_above cc)
                     (cc_rate_below cc) use_bytes nodes aggregate
         then ((False, clear_first_true key i), w)
         else
           (case cc_for_duration cc of
              None \<Rightarrow> ((True, i), w)
            | Some dur_str \<Rightarrow>
                (case parse_duration dur_str of
                   Inl _ \<Rightarrow> ((False, i), w)
                 | Inr required \<Rightarrow>
                     (let (now, w) = clock e w;
                          m = cx_first_true (fi_context i);
                          first_true = (case map_of m key of Some t \<Rightarrow> t | None \<Rightarrow> now);
                          i = (case map_of m key of
                                 Some _ \<Rightarrow> i
                               | None \<Rightarrow> set_first_true (hm_insert key now m) i)
                      in if now - first_true < chrono_from_std required
                         then ((False, i), w) else ((True, i), w)))))"

definition evaluate_simple_condition :: "simple_condition \<Rightarrow> fsm_instance \<Rightarrow> bool" where
  "evaluate_simple_condition c i =
     (if sc_all_succeeded c = Some True then
        (case cx_last_action_result (fi_context i) of
           Some r \<Rightarrow> ar_failed r = 0 \<and> ar_succeeded r > 0
         | None \<Rightarrow> False)
      else if sc_any_failed c = Some True then
        (case cx_last_action_result (fi_context i) of
           Some r \<Rightarrow> ar_failed r > 0
         | None \<Rightarrow> False)
      else False)"

text \<open>\<open>all\<close> and \<open>any\<close> stop at the first element that decides.\<close>

fun evaluate_condition ::
  "env \<Rightarrow> condition_definition \<Rightarrow> string \<Rightarrow> nat \<Rightarrow> fsm_instance \<Rightarrow> 's world \<Rightarrow>
     (bool \<times> fsm_instance) \<times> 's world"
  and evaluate_all_of ::
  "env \<Rightarrow> condition_definition list \<Rightarrow> string \<Rightarrow> nat \<Rightarrow> fsm_instance \<Rightarrow> 's world \<Rightarrow>
     (bool \<times> fsm_instance) \<times> 's world"
  and evaluate_any_of ::
  "env \<Rightarrow> condition_definition list \<Rightarrow> string \<Rightarrow> nat \<Rightarrow> fsm_instance \<Rightarrow> 's world \<Rightarrow>
     (bool \<times> fsm_instance) \<times> 's world" where
  "evaluate_condition e (Simple c) st ti i w = ((evaluate_simple_condition c i, i), w)"
| "evaluate_condition e (Counter cc) st ti i w = evaluate_counter_condition e cc st ti i w"
| "evaluate_condition e (Compound (Some cs) ors neg) st ti i w = evaluate_all_of e cs st ti i w"
| "evaluate_condition e (Compound None (Some cs) neg) st ti i w = evaluate_any_of e cs st ti i w"
| "evaluate_condition e (Compound None None (Some c)) st ti i w =
     (case evaluate_condition e c st ti i w of ((b, i), w) \<Rightarrow> ((\<not> b, i), w))"
| "evaluate_condition e (Compound None None None) st ti i w = ((False, i), w)"
| "evaluate_all_of e [] st ti i w = ((True, i), w)"
| "evaluate_all_of e (c # cs) st ti i w =
     (case evaluate_condition e c st ti i w of
        ((b, i), w) \<Rightarrow> if b then evaluate_all_of e cs st ti i w else ((False, i), w))"
| "evaluate_any_of e [] st ti i w = ((False, i), w)"
| "evaluate_any_of e (c # cs) st ti i w =
     (case evaluate_condition e c st ti i w of
        ((b, i), w) \<Rightarrow> if b then ((True, i), w) else evaluate_any_of e cs st ti i w)"

subsection \<open>What evaluation may change\<close>

lemma set_first_true_simps [simp]:
  "cx_first_true (fi_context (set_first_true m i)) = m"
  "set_first_true m (set_first_true m' i) = set_first_true m i"
  "fi_current_state (set_first_true m i) = fi_current_state i"
  "fi_status (set_first_true m i) = fi_status i"
  "fi_history (set_first_true m i) = fi_history i"
  "fi_instance_id (set_first_true m i) = fi_instance_id i"
  "fi_definition_name (set_first_true m i) = fi_definition_name i"
  "fi_updated_at (set_first_true m i) = fi_updated_at i"
  "set_first_true (cx_first_true (fi_context i)) i = i"
  by (simp_all add: set_first_true_def)

text \<open>The only effects: the reading of the clock, and the entry of this transition in the map.\<close>

definition only_first_true :: "string \<Rightarrow> fsm_instance \<Rightarrow> fsm_instance \<Rightarrow> bool" where
  "only_first_true key i i' \<longleftrightarrow>
     (\<exists>m. i' = set_first_true m i \<and>
        (\<forall>k. k \<noteq> key \<longrightarrow> map_of m k = map_of (cx_first_true (fi_context i)) k))"

definition only_ticks :: "'s world \<Rightarrow> 's world \<Rightarrow> bool" where
  "only_ticks w w' \<longleftrightarrow> (\<exists>k \<ge> w_ticks w. w' = w\<lparr> w_ticks := k \<rparr>)"

lemma only_first_true_refl [simp, intro]: "only_first_true key i i"
  by (auto simp: only_first_true_def intro!: exI [of _ "cx_first_true (fi_context i)"])

lemma only_first_true_trans:
  "only_first_true key i i' \<Longrightarrow> only_first_true key i' i'' \<Longrightarrow> only_first_true key i i''"
  by (auto simp: only_first_true_def)

lemma only_first_true_clear [simp, intro]: "only_first_true key i (clear_first_true key i)"
  by (auto simp: only_first_true_def clear_first_true_def)

lemma only_ticks_refl [simp, intro]: "only_ticks w w"
  unfolding only_ticks_def by (rule exI [of _ "w_ticks w"]) simp

lemma only_ticks_clock [simp, intro]: "only_ticks w (snd (clock e w))"
  unfolding only_ticks_def by (rule exI [of _ "Suc (w_ticks w)"]) (simp add: clock_def)

lemma only_ticks_trans:
  assumes "only_ticks w w'" and "only_ticks w' w''" shows "only_ticks w w''"
proof -
  obtain k where "w_ticks w' \<le> k" "w'' = w'\<lparr> w_ticks := k \<rparr>" using assms(2) by (auto simp: only_ticks_def)
  with assms(1) show ?thesis unfolding only_ticks_def by (intro exI [of _ k]) auto
qed

definition threshold_met :: "counter_cache \<Rightarrow> counter_condition \<Rightarrow> fsm_instance \<Rightarrow> bool" where
  "threshold_met cache cc i \<longleftrightarrow>
     (let aggregate = (case cc_aggregate cc of Some a \<Rightarrow> parse_aggregate_mode a | None \<Rightarrow> AggAny);
          use_bytes = (cc_field cc = Some ''bytes'');
          nodes = nodes_to_check cache i
      in (\<forall>t. cc_total_above cc = Some t \<longrightarrow>
            check_total_above cache (cc_counter cc) t use_bytes nodes aggregate) \<and>
         (cc_rate_above cc \<noteq> None \<or> cc_rate_below cc \<noteq> None \<longrightarrow>
            check_rate_threshold cache (cc_counter cc) (cc_rate_above cc) (cc_rate_below cc)
              use_bytes nodes aggregate))"

definition hold_for ::
  "env \<Rightarrow> string \<Rightarrow> string option \<Rightarrow> fsm_instance \<Rightarrow> 's world \<Rightarrow> (bool \<times> fsm_instance) \<times> 's world" where
  "hold_for e key dur i w =
     (case dur of
        None \<Rightarrow> ((True, i), w)
      | Some s \<Rightarrow>
          (case parse_duration s of
             Inl _ \<Rightarrow> ((False, i), w)
           | Inr d \<Rightarrow>
               (let now = e_now e (w_ticks w); m = cx_first_true (fi_context i);
                    w' = w\<lparr> w_ticks := Suc (w_ticks w) \<rparr>
                in case map_of m key of
                     None \<Rightarrow> ((\<not> 0 < chrono_from_std d, set_first_true (hm_insert key now m) i), w')
                   | Some t \<Rightarrow> ((\<not> now - t < chrono_from_std d, i), w'))))"

lemma hold_for_step:
  "(case dur of
      None \<Rightarrow> ((True, i), w)
    | Some dur_str \<Rightarrow>
        (case parse_duration dur_str of
           Inl _ \<Rightarrow> ((False, i), w)
         | Inr required \<Rightarrow>
             (let (now, w) = clock e w;
                  m = cx_first_true (fi_context i);
                  first_true = (case map_of m key of Some t \<Rightarrow> t | None \<Rightarrow> now);
                  i = (case map_of m key of
                         Some _ \<Rightarrow> i
                       | None \<Rightarrow> set_first_true (hm_insert key now m) i)
              in if now - first_true < chrono_from_std required
                 then ((False, i), w) else ((True, i), w)))) = hold_for e key dur i w"
  by (simp add: hold_for_def clock_def Let_def split: option.split sum.split)

lemma evaluate_counter_condition_eq:
  "evaluate_counter_condition e cc st ti i w =
     (if nodes_to_check (w_cache w) i = [] then ((False, i), w)
      else if \<not> threshold_met (w_cache w) cc i then ((False, clear_first_true (condition_key st ti) i), w)
      else hold_for e (condition_key st ti) (cc_for_duration cc) i w)"
  unfolding evaluate_counter_condition_def hold_for_step
  by (cases "cc_total_above cc"; cases "cc_rate_above cc"; cases "cc_rate_below cc")
    (simp_all add: threshold_met_def Let_def)

lemma hold_for_frame:
  "hold_for e key dur i w = ((b, i'), w') \<Longrightarrow> only_first_true key i i' \<and> only_ticks w w'"
  by (auto simp: hold_for_def Let_def split: option.splits sum.splits)
    (auto simp: only_first_true_def only_ticks_clock [of _ e, unfolded clock_def snd_conv])

lemma evaluate_counter_condition_frame:
  "evaluate_counter_condition e cc st ti i w = ((b, i'), w') \<Longrightarrow>
     only_first_true (condition_key st ti) i i' \<and> only_ticks w w'"
  by (auto simp: evaluate_counter_condition_eq split: if_splits
      dest: hold_for_frame [THEN conjunct1] hold_for_frame [THEN conjunct2])

lemma evaluate_frame:
  "evaluate_condition e c st ti i w = ((b, i'), w') \<Longrightarrow>
     only_first_true (condition_key st ti) i i' \<and> only_ticks w w'"
  "evaluate_all_of e cs st ti i w = ((b, i'), w') \<Longrightarrow>
     only_first_true (condition_key st ti) i i' \<and> only_ticks w w'"
  "evaluate_any_of e cs st ti i w = ((b, i'), w') \<Longrightarrow>
     only_first_true (condition_key st ti) i i' \<and> only_ticks w w'"
proof (induction e c st ti i w and e cs st ti i w and e cs st ti i w
    arbitrary: b i' w' and b i' w' and b i' w'
    rule: evaluate_condition_evaluate_all_of_evaluate_any_of.induct)
qed (auto dest: evaluate_counter_condition_frame split: prod.splits if_splits
    intro: only_first_true_trans only_ticks_trans)

subsection \<open>Sustained conditions\<close>

lemma evaluate_counter_condition_cases:
  fixes st ti e and w :: "'s world" and i :: fsm_instance
  assumes "nodes_to_check (w_cache w) i \<noteq> []" and "cc_for_duration cc = Some s"
    and "parse_duration s = Inr d"
  defines "key \<equiv> condition_key st ti" and "m \<equiv> cx_first_true (fi_context i)"
    and "now \<equiv> e_now e (w_ticks w)"
  shows "fst (evaluate_counter_condition e cc st ti i w) =
    (if \<not> threshold_met (w_cache w) cc i then (False, clear_first_true key i)
     else case map_of m key of
            None \<Rightarrow> (\<not> 0 < chrono_from_std d, set_first_true (hm_insert key now m) i)
          | Some t \<Rightarrow> (\<not> now - t < chrono_from_std d, i))"
  using assms(1-3)
  by (simp add: evaluate_counter_condition_eq hold_for_def Let_def key_def m_def now_def
      split: option.split)

text \<open>An evaluation at a given time on a given cache, and the instance after a series of them.\<close>

definition evaluate_at ::
  "env \<Rightarrow> 's world \<Rightarrow> counter_condition \<Rightarrow> string \<Rightarrow> nat \<Rightarrow> fsm_instance \<Rightarrow> time \<times> counter_cache \<Rightarrow>
     bool \<times> fsm_instance" where
  "evaluate_at e w cc st ti i x =
     fst (evaluate_counter_condition (e\<lparr> e_now := \<lambda>_. fst x \<rparr>) cc st ti i (w\<lparr> w_cache := snd x \<rparr>))"

definition evaluate_series ::
  "env \<Rightarrow> 's world \<Rightarrow> counter_condition \<Rightarrow> string \<Rightarrow> nat \<Rightarrow> fsm_instance \<Rightarrow> (time \<times> counter_cache) list \<Rightarrow>
     fsm_instance" where
  "evaluate_series e w cc st ti i xs = foldl (\<lambda>i x. snd (evaluate_at e w cc st ti i x)) i xs"

definition streak :: "counter_condition \<Rightarrow> fsm_instance \<Rightarrow> (time \<times> counter_cache) list \<Rightarrow>
    (time \<times> counter_cache) list" where
  "streak cc i xs = takeWhile (\<lambda>(t, c). threshold_met c cc i) (rev xs)"

lemma nodes_to_check_targets:
  "cx_target_nodes (fi_context i) \<noteq> [] \<Longrightarrow> nodes_to_check c i = cx_target_nodes (fi_context i)"
  by (simp add: nodes_to_check_def Let_def)

lemma nodes_to_check_set_first_true [simp]: "nodes_to_check c (set_first_true m i) = nodes_to_check c i"
  by (simp add: nodes_to_check_def set_first_true_def Let_def)

lemma threshold_met_set_first_true [simp]:
  "threshold_met c cc (set_first_true m i) = threshold_met c cc i"
  by (simp only: threshold_met_def nodes_to_check_set_first_true)

lemma evaluate_at_targets:
  assumes "cx_target_nodes (fi_context i) \<noteq> []" and "cc_for_duration cc = Some s"
    and "parse_duration s = Inr d"
  shows "evaluate_at e w cc st ti (set_first_true m i) (t, c) =
    (if \<not> threshold_met c cc i then (False, set_first_true (hm_remove (condition_key st ti) m) i)
     else case map_of m (condition_key st ti) of
            None \<Rightarrow> (\<not> 0 < chrono_from_std d, set_first_true (hm_insert (condition_key st ti) t m) i)
          | Some t0 \<Rightarrow> (\<not> t - t0 < chrono_from_std d, set_first_true m i))"
  using evaluate_counter_condition_cases [OF _ assms(2,3), where i = "set_first_true m i" and
      w = "w\<lparr> w_cache := c \<rparr>" and e = "e\<lparr> e_now := \<lambda>_. t \<rparr>" and st = st and ti = ti] assms(1)
  by (simp add: evaluate_at_def nodes_to_check_targets clear_first_true_def split: option.split)

lemma evaluate_series_first_true:
  assumes "cx_target_nodes (fi_context i) \<noteq> []" and "cc_for_duration cc = Some s"
    and "parse_duration s = Inr d"
    and "map_of (cx_first_true (fi_context i)) (condition_key st ti) = None"
  shows "\<exists>m. evaluate_series e w cc st ti i xs = set_first_true m i \<and>
    map_of m (condition_key st ti) =
      (if streak cc i xs = [] then None else Some (fst (last (streak cc i xs))))"
proof (induction xs rule: rev_induct)
  case Nil
  then show ?case
    using assms(4)
    by (auto simp: evaluate_series_def streak_def intro!: exI [of _ "cx_first_true (fi_context i)"])
next
  case (snoc x xs)
  obtain t c where x: "x = (t, c)" by (cases x)
  from snoc obtain m where m: "evaluate_series e w cc st ti i xs = set_first_true m i"
    "map_of m (condition_key st ti) =
      (if streak cc i xs = [] then None else Some (fst (last (streak cc i xs))))" by blast
  have "evaluate_series e w cc st ti i (xs @ [x]) = snd (evaluate_at e w cc st ti (set_first_true m i) (t, c))"
    using m(1) by (simp add: evaluate_series_def x)
  moreover have "streak cc i (xs @ [x]) = (if threshold_met c cc i then x # streak cc i xs else [])"
    by (simp add: streak_def x)
  ultimately show ?case
    using m(2) by (auto simp: evaluate_at_targets [OF assms(1-3)] x split: option.split)
qed

text \<open>C11: For an instance with target nodes, and a counter condition with \<open>for_duration\<close> that is the only
  one to use the entry of its transition and has no entry yet (the state was just entered): the
  condition fires exactly when its threshold is met now and has been met at every evaluation since one
  that lies at least that duration back; one evaluation below the threshold starts the count anew.
  (The two lemmas after this one show what the conditions are for.)\<close>

theorem sustained_condition_exact:
  assumes "cx_target_nodes (fi_context i) \<noteq> []" and "cc_for_duration cc = Some s"
    and "parse_duration s = Inr d"
    and "map_of (cx_first_true (fi_context i)) (condition_key st ti) = None"
  shows "fst (evaluate_at e w cc st ti (evaluate_series e w cc st ti i xs) (t, c)) \<longleftrightarrow>
    threshold_met c cc i \<and>
    chrono_from_std d \<le> t - fst (last (streak cc i (xs @ [(t, c)])))"
proof -
  obtain m where m: "evaluate_series e w cc st ti i xs = set_first_true m i"
    "map_of m (condition_key st ti) =
      (if streak cc i xs = [] then None else Some (fst (last (streak cc i xs))))"
    using evaluate_series_first_true [OF assms] by blast
  have "streak cc i (xs @ [(t, c)]) = (if threshold_met c cc i then (t, c) # streak cc i xs else [])"
    by (simp add: streak_def)
  with m show ?thesis
    by (auto simp: evaluate_at_targets [OF assms(1-3)] split: option.split)
qed

text \<open>While an instance without target and deployed nodes finds no node in the cache, the time its
  condition was first met is kept, although the condition is not met.\<close>

lemma no_nodes_keep_first_true:
  assumes "cx_target_nodes (fi_context i) = []" and "cx_deployed_nodes (fi_context i) = []"
    and "cache_node_ids (w_cache w) = []"
  shows "evaluate_counter_condition e cc st ti i w = ((False, i), w)"
  using assms by (simp add: evaluate_counter_condition_eq nodes_to_check_def Let_def)

text \<open>The conditions of a compound share the entry of their transition: in an \<open>any\<close>, a first condition that
  is not met removes the entry the second has made, so the second never fires, however long it is met.\<close>

lemma any_of_shares_first_true:
  assumes "cx_target_nodes (fi_context i) \<noteq> []" and "\<not> threshold_met (w_cache w) c1 i"
    and "cc_for_duration c2 = Some s" and "parse_duration s = Inr d" and "0 < chrono_from_std d"
  shows "fst (fst (evaluate_any_of e [Counter c1, Counter c2] st ti i w)) = False"
proof -
  have n: "nodes_to_check (w_cache w) i \<noteq> []" using assms(1) by (simp add: nodes_to_check_targets)
  have n2: "nodes_to_check (w_cache w) (clear_first_true (condition_key st ti) i) \<noteq> []"
    using n by (simp add: clear_first_true_def)
  have "map_of (cx_first_true (fi_context (clear_first_true (condition_key st ti) i))) (condition_key st ti) = None"
    by (simp add: clear_first_true_def)
  then have "fst (fst (evaluate_counter_condition e c2 st ti (clear_first_true (condition_key st ti) i) w)) = False"
    using assms(5) by (simp add: evaluate_counter_condition_cases [OF n2 assms(3,4)])
  then show ?thesis using n assms(2)
    by (simp add: evaluate_counter_condition_eq [of e c1] case_prod_unfold)
qed

end
