(* ===== verification/Deploying.thy ===== *)
theory Deploying
  imports World Mem_Storage
begin

text \<open>
  The deploy logic of \<^verbatim>\<open>pacinet-server/src/deploy.rs\<close>, shared by the management service and the FSM
  engine: normalising the compile options, the capability check, the no-op shortcut, the deploy of one
  node with its state changes and its record, and the deploy of a list of nodes under the deploy
  guard.

  The lemmas state what a deploy does to any backend that satisfies the contract of the storage
  trait (\<open>deploy_client\<close>): the policy data of other nodes is untouched, the deploy guard is as
  it was, and the node's state follows the agent's answer.  The interpretation on the in-memory
  backend carries them over to the model of the code.
\<close>

record deploy_outcome =
  do_success :: bool
  do_message :: string
  do_warnings :: "string list"
  do_result :: deployment_result
  do_version :: u64

definition normalize_options :: "compile_options \<Rightarrow> compile_options" where
  "normalize_options o0 =
     (let o1 = (if co_ports o0 = 0 then o0\<lparr> co_ports := 1 \<rparr> else o0);
          o2 = (if co_dynamic_entries o1 = 0 then o1\<lparr> co_dynamic_entries := 16 \<rparr> else o1);
          o3 = (if co_width o2 = 0 then o2\<lparr> co_width := 8 \<rparr> else o2);
          o4 = (if co_rss_queues o3 = 0 then o3\<lparr> co_rss_queues := 4 \<rparr> else o3)
      in if co_target o4 = [] then o4\<lparr> co_target := ''standalone'' \<rparr> else o4)"

definition eq_ignore_ascii_case :: "string \<Rightarrow> string \<Rightarrow> bool" where
  "eq_ignore_ascii_case a b = (to_lower a = to_lower b)"

definition capability_true :: "node \<Rightarrow> string \<Rightarrow> bool" where
  "capability_true n key =
     (case map_of (n_capabilities n) key of
        Some v \<Rightarrow> eq_ignore_ascii_case v ''true''
      | None \<Rightarrow> False)"

definition missing_capability :: "node \<Rightarrow> string \<Rightarrow> string" where
  "missing_capability n key =
     ''Node '' @ quoted (n_node_id n) @ '' does not advertise '' @ key @ '' capability''"

definition ensure_node_capabilities :: "node \<Rightarrow> compile_options \<Rightarrow> string + unit" where
  "ensure_node_capabilities n opts =
     (if co_axi opts \<and> \<not> capability_true n ''compile.axi''
        then Inl (missing_capability n ''compile.axi'')
      else if co_ports opts > 1 \<and> \<not> capability_true n ''compile.ports''
        then Inl (missing_capability n ''compile.ports'')
      else if co_dynamic opts \<and> \<not> capability_true n ''compile.dynamic''
        then Inl (missing_capability n ''compile.dynamic'')
      else if co_width opts > 8 \<and> \<not> capability_true n ''compile.width''
        then Inl (missing_capability n ''compile.width'')
      else if co_target opts \<noteq> [] \<and> co_target opts \<noteq> ''standalone'' \<and> \<not> capability_true n ''compile.target''
        then Inl (missing_capability n ''compile.target'')
      else if co_ptp opts \<and> \<not> capability_true n ''compile.ptp''
        then Inl (missing_capability n ''compile.ptp'')
      else if co_rss opts \<and> \<not> capability_true n ''compile.rss''
        then Inl (missing_capability n ''compile.rss'')
      else if co_rss_queues opts \<noteq> 4 \<and> \<not> capability_true n ''compile.rss_queues''
        then Inl (missing_capability n ''compile.rss_queues'')
      else if co_int_enabled opts \<and> \<not> capability_true n ''compile.int''
        then Inl (missing_capability n ''compile.int'')
      else if co_int_switch_id opts \<noteq> 0 \<and> \<not> capability_true n ''compile.int_switch_id''
        then Inl (missing_capability n ''compile.int_switch_id'')
      else Inr ())"

definition policy_matches_request ::
  "policy \<Rightarrow> string \<Rightarrow> string \<Rightarrow> compile_options \<Rightarrow> bool" where
  "policy_matches_request p rules_yaml hash opts \<longleftrightarrow>
     pol_rules_yaml p = rules_yaml \<and> pol_policy_hash p = hash \<and>
     pol_counters_enabled p = co_counters opts \<and> pol_rate_limit_enabled p = co_rate_limit opts \<and>
     pol_conntrack_enabled p = co_conntrack opts \<and> pol_axi_enabled p = co_axi opts \<and>
     pol_ports p = co_ports opts \<and> pol_target p = co_target opts \<and> pol_dynamic p = co_dynamic opts \<and>
     pol_dynamic_entries p = co_dynamic_entries opts \<and> pol_width p = co_width opts \<and>
     pol_ptp p = co_ptp opts \<and> pol_rss p = co_rss opts \<and> pol_rss_queues p = co_rss_queues opts \<and>
     pol_int p = co_int_enabled opts \<and> pol_int_switch_id p = co_int_switch_id opts"

definition policy_of_request ::
  "string \<Rightarrow> string \<Rightarrow> string \<Rightarrow> time \<Rightarrow> compile_options \<Rightarrow> policy" where
  "policy_of_request nid rules_yaml hash now opts =
     \<lparr> pol_node_id = nid, pol_rules_yaml = rules_yaml, pol_policy_hash = hash,
       pol_deployed_at = now, pol_counters_enabled = co_counters opts,
       pol_rate_limit_enabled = co_rate_limit opts, pol_conntrack_enabled = co_conntrack opts,
       pol_axi_enabled = co_axi opts, pol_ports = co_ports opts, pol_target = co_target opts,
       pol_dynamic = co_dynamic opts, pol_dynamic_entries = co_dynamic_entries opts,
       pol_width = co_width opts, pol_ptp = co_ptp opts, pol_rss = co_rss opts,
       pol_rss_queues = co_rss_queues opts, pol_int = co_int_enabled opts,
       pol_int_switch_id = co_int_switch_id opts \<rparr>"

definition failure_outcome :: "string \<Rightarrow> deploy_outcome" where
  "failure_outcome msg =
     \<lparr> do_success = False, do_message = msg, do_warnings = [], do_result = AgentFailure,
       do_version = 0 \<rparr>"

text \<open>\<open>let _ = blocking(storage, ...)\<close>: the result of the storage call is dropped.\<close>

definition set_node_state :: "'s storage_ops \<Rightarrow> string \<Rightarrow> node_state \<Rightarrow> 's world \<Rightarrow> 's world" where
  "set_node_state ops nid st w = snd (blocking (\<lambda>s. so_update_node_state ops s nid st) w)"

definition record_deployment :: "'s storage_ops \<Rightarrow> deployment_record \<Rightarrow> 's world \<Rightarrow> 's world" where
  "record_deployment ops r w = snd (blocking (\<lambda>s. so_record_deployment ops s r) w)"

text \<open>The no-op branch: the version is read and a record is kept.\<close>

definition no_change_message :: string where
  "no_change_message =
     ''No change: identical policy and options already active; skipped redeploy''"

definition deploy_unchanged ::
  "'s storage_ops \<Rightarrow> env \<Rightarrow> string \<Rightarrow> string \<Rightarrow> 's world \<Rightarrow> deploy_outcome \<times> 's world" where
  "deploy_unchanged ops e nid hash w =
     (case blocking_read (\<lambda>s. so_get_policy_history ops s nid 1) w of
        Inl err \<Rightarrow> (failure_outcome (''Failed to read policy history: '' @ e_show_status e err), w)
      | Inr v \<Rightarrow>
          (let current_version = (case v of [] \<Rightarrow> 0 | p # _ \<Rightarrow> pv_version p);
               (uuid, w) = new_uuid e w;
               (now, w) = clock e w;
               w = record_deployment ops
                     \<lparr> dr_id = uuid, dr_node_id = nid, dr_policy_version = current_version,
                       dr_policy_hash = hash, dr_deployed_at = now, dr_result = Success,
                       dr_message = no_change_message \<rparr> w
           in (\<lparr> do_success = True, do_message = no_change_message, do_warnings = [],
                 do_result = Success, do_version = current_version \<rparr>, w)))"

definition agent_address :: "env \<Rightarrow> node \<Rightarrow> string" where
  "agent_address e n = (if e_tls e then ''https'' else ''http'') @ ''://'' @ n_agent_address n"

text \<open>The request to the agent under the timeout, and the node state its answer leads to.\<close>

definition forward_and_settle ::
  "'s storage_ops \<Rightarrow> env \<Rightarrow> node \<Rightarrow> string \<Rightarrow> compile_options \<Rightarrow> 's world \<Rightarrow>
     (string \<times> string list \<times> deployment_result) \<times> 's world" where
  "forward_and_settle ops e n rules_yaml opts w =
     (let (reply, w) = call_agent e
            \<lparr> aq_address = agent_address e n, aq_rules_yaml = rules_yaml, aq_options = Some opts \<rparr> w
      in case reply of
           AgentResponse success message warnings \<Rightarrow>
             if success
             then ((message, warnings, Success), set_node_state ops (n_node_id n) Active w)
             else ((message, warnings, AgentFailure), set_node_state ops (n_node_id n) Error w)
         | AgentError err \<Rightarrow>
             ((''Failed to reach agent: '' @ err,
               [''Policy stored locally but agent unreachable''], AgentUnreachable),
              set_node_state ops (n_node_id n) Error w)
         | AgentTimeout \<Rightarrow>
             ((''Agent communication timed out ('' @ show_nat (unat (e_deploy_timeout e)) @ ''s)'',
               [''Policy stored locally but agent timed out''], Timeout),
              set_node_state ops (n_node_id n) Error w))"

text \<open>The deploy proper, once the options pass and the request differs from what is active.\<close>

definition deploy_changed ::
  "'s storage_ops \<Rightarrow> env \<Rightarrow> node \<Rightarrow> string \<Rightarrow> string \<Rightarrow> compile_options \<Rightarrow> 's world \<Rightarrow>
     deploy_outcome \<times> 's world" where
  "deploy_changed ops e n rules_yaml hash opts w =
     (let (now, w) = clock e w;
          policy = policy_of_request (n_node_id n) rules_yaml hash now opts
      in case blocking (\<lambda>s. so_store_policy ops s policy) w of
           (Inl err, w) \<Rightarrow> (failure_outcome (''Failed to store policy: '' @ e_show_status e err), w)
         | (Inr version, w) \<Rightarrow>
             (let w = set_node_state ops (n_node_id n) Deploying w;
                  ((message, warnings, result), w) = forward_and_settle ops e n rules_yaml opts w;
                  (uuid, w) = new_uuid e w;
                  w = record_deployment ops
                        \<lparr> dr_id = uuid, dr_node_id = n_node_id n, dr_policy_version = version,
                          dr_policy_hash = hash, dr_deployed_at = now, dr_result = result,
                          dr_message = message \<rparr> w
              in (\<lparr> do_success = (result = Success), do_message = message, do_warnings = warnings,
                    do_result = result, do_version = version \<rparr>, w)))"

definition deploy_to_node ::
  "'s storage_ops \<Rightarrow> env \<Rightarrow> node \<Rightarrow> string \<Rightarrow> compile_options \<Rightarrow> 's world \<Rightarrow>
     deploy_outcome \<times> 's world" where
  "deploy_to_node ops e n rules_yaml options w =
     (let opts = normalize_options options in
      case ensure_node_capabilities n opts of
        Inl msg \<Rightarrow> (failure_outcome msg, w)
      | Inr _ \<Rightarrow>
          (let hash = e_policy_hash e rules_yaml in
           case blocking_read (\<lambda>s. so_get_policy ops s (n_node_id n)) w of
             Inl err \<Rightarrow>
               (failure_outcome (''Failed to read current policy: '' @ e_show_status e err), w)
           | Inr current \<Rightarrow>
               if n_state n = Active \<and>
                  (case current of
                     Some p \<Rightarrow> policy_matches_request p rules_yaml hash opts
                   | None \<Rightarrow> False)
               then deploy_unchanged ops e (n_node_id n) hash w
               else deploy_changed ops e n rules_yaml hash opts w))"

text \<open>\<open>deploy_to_nodes\<close>: the loop state is the results so far and the two \<open>u32\<close> counters.\<close>

definition node_result :: "string \<Rightarrow> bool \<Rightarrow> string \<Rightarrow> node_action_result" where
  "node_result nid success message =
     \<lparr> nar_node_id = nid, nar_success = success, nar_message = message \<rparr>"

fun deploy_loop ::
  "'s storage_ops \<Rightarrow> env \<Rightarrow> string \<Rightarrow> compile_options \<Rightarrow> node list \<Rightarrow>
     node_action_result list \<Rightarrow> u32 \<Rightarrow> u32 \<Rightarrow> 's world \<Rightarrow>
     (node_action_result list \<times> u32 \<times> u32) \<times> 's world" where
  "deploy_loop ops e rules_yaml options [] results succeeded failed w =
     ((results, succeeded, failed), w)"
| "deploy_loop ops e rules_yaml options (n # ns) results succeeded failed w =
     (case blocking (\<lambda>s. so_begin_deploy ops s (n_node_id n)) w of
        (Inl _, w) \<Rightarrow>
          deploy_loop ops e rules_yaml options ns
            (results @ [node_result (n_node_id n) False ''Concurrent deploy in progress''])
            succeeded (failed + 1) w
      | (Inr _, w) \<Rightarrow>
          (let (outcome, w) = deploy_to_node ops e n rules_yaml options w;
               w = w\<lparr> w_store := so_end_deploy ops (w_store w) (n_node_id n) \<rparr>;
               ok = do_success outcome
           in deploy_loop ops e rules_yaml options ns
                (results @ [node_result (n_node_id n) ok (do_message outcome)])
                (if ok then succeeded + 1 else succeeded)
                (if ok then failed else failed + 1) w))"

definition deploy_to_nodes ::
  "'s storage_ops \<Rightarrow> env \<Rightarrow> node list \<Rightarrow> string \<Rightarrow> compile_options \<Rightarrow> 's world \<Rightarrow>
     action_result \<times> 's world" where
  "deploy_to_nodes ops e ns rules_yaml options w =
     (case deploy_loop ops e rules_yaml options ns [] 0 0 w of
        ((results, succeeded, failed), w) \<Rightarrow>
          (\<lparr> ar_succeeded = succeeded, ar_failed = failed, ar_total = word_of_nat (length ns),
             ar_node_results = results \<rparr>, w))"

subsection \<open>Options and capabilities\<close>

lemma normalize_options_sel:
  "co_ports (normalize_options opts) = (if co_ports opts = 0 then 1 else co_ports opts)"
  "co_dynamic_entries (normalize_options opts) =
     (if co_dynamic_entries opts = 0 then 16 else co_dynamic_entries opts)"
  "co_width (normalize_options opts) = (if co_width opts = 0 then 8 else co_width opts)"
  "co_rss_queues (normalize_options opts) = (if co_rss_queues opts = 0 then 4 else co_rss_queues opts)"
  "co_target (normalize_options opts) = (if co_target opts = [] then ''standalone'' else co_target opts)"
  by (simp_all add: normalize_options_def Let_def)

lemma normalize_options_other [simp]:
  "co_counters (normalize_options opts) = co_counters opts"
  "co_rate_limit (normalize_options opts) = co_rate_limit opts"
  "co_conntrack (normalize_options opts) = co_conntrack opts"
  "co_axi (normalize_options opts) = co_axi opts"
  "co_dynamic (normalize_options opts) = co_dynamic opts"
  "co_ptp (normalize_options opts) = co_ptp opts"
  "co_rss (normalize_options opts) = co_rss opts"
  "co_int_enabled (normalize_options opts) = co_int_enabled opts"
  "co_int_switch_id (normalize_options opts) = co_int_switch_id opts"
  by (simp_all add: normalize_options_def Let_def)

lemma normalize_options_idem [simp]:
  "normalize_options (normalize_options opts) = normalize_options opts"
  by (rule compile_options.equality) (simp_all add: normalize_options_sel)

text \<open>What a request needs of a node: each capability with the option that asks for it.\<close>

definition capability_needs :: "compile_options \<Rightarrow> (string \<times> bool) list" where
  "capability_needs opts =
     [(''compile.axi'', co_axi opts), (''compile.ports'', co_ports opts > 1),
      (''compile.dynamic'', co_dynamic opts), (''compile.width'', co_width opts > 8),
      (''compile.target'', co_target opts \<noteq> [] \<and> co_target opts \<noteq> ''standalone''),
      (''compile.ptp'', co_ptp opts), (''compile.rss'', co_rss opts),
      (''compile.rss_queues'', co_rss_queues opts \<noteq> 4), (''compile.int'', co_int_enabled opts),
      (''compile.int_switch_id'', co_int_switch_id opts \<noteq> 0)]"

definition capable :: "node \<Rightarrow> compile_options \<Rightarrow> bool" where
  "capable n opts = list_all (\<lambda>(key, needed). needed \<longrightarrow> capability_true n key) (capability_needs opts)"

fun check_needs :: "node \<Rightarrow> (string \<times> bool) list \<Rightarrow> string + unit" where
  "check_needs n [] = Inr ()"
| "check_needs n ((key, needed) # ks) =
     (if needed \<and> \<not> capability_true n key then Inl (missing_capability n key) else check_needs n ks)"

lemma ensure_node_capabilities_check:
  "ensure_node_capabilities n opts = check_needs n (capability_needs opts)"
  by (simp only: ensure_node_capabilities_def capability_needs_def check_needs.simps conj_assoc)

lemma check_needs_iff:
  "check_needs n ks = Inr u \<longleftrightarrow> list_all (\<lambda>(key, needed). needed \<longrightarrow> capability_true n key) ks"
  by (induction ks) (auto split: if_splits)

lemma check_needs_error:
  "check_needs n ks = Inl msg \<Longrightarrow>
     \<exists>key. (key, True) \<in> set ks \<and> \<not> capability_true n key \<and> msg = missing_capability n key"
  by (induction ks) (auto split: if_splits)

lemma ensure_node_capabilities_iff: "ensure_node_capabilities n opts = Inr () \<longleftrightarrow> capable n opts"
  by (simp add: ensure_node_capabilities_check capable_def check_needs_iff)

lemma policy_matches_own_request [simp]:
  "policy_matches_request (policy_of_request nid r h t opts) r h opts"
  by (simp add: policy_matches_request_def policy_of_request_def)

lemma policy_of_request_sel [simp]:
  "pol_node_id (policy_of_request nid r h t opts) = nid"
  "pol_rules_yaml (policy_of_request nid r h t opts) = r"
  "pol_policy_hash (policy_of_request nid r h t opts) = h"
  "pol_deployed_at (policy_of_request nid r h t opts) = t"
  by (simp_all add: policy_of_request_def)

subsection \<open>The frame of a deploy\<close>

text \<open>\<open>deploy_frame X a b\<close>: from \<open>a\<close> to \<open>b\<close> only the policy data and the state of the nodes in \<open>X\<close>
  change; no node comes or goes, and the deploy guard is the same.\<close>

definition deploy_frame :: "string set \<Rightarrow> astore \<Rightarrow> astore \<Rightarrow> bool" where
  "deploy_frame X a b \<longleftrightarrow>
     as_deploying b = as_deploying a \<and> as_definitions b = as_definitions a \<and>
     as_instances b = as_instances a \<and>
     (\<forall>m. m \<notin> X \<longrightarrow> as_nodes b m = as_nodes a m \<and> as_policies b m = as_policies a m \<and>
        as_versions b m = as_versions a m \<and> as_deployments b m = as_deployments a m) \<and>
     (\<forall>m. map_option (n_state_update (\<lambda>_. Online)) (as_nodes b m) =
       map_option (n_state_update (\<lambda>_. Online)) (as_nodes a m))"

lemma deploy_frame_refl [simp, intro]: "deploy_frame X a a"
  by (simp add: deploy_frame_def)

lemma deploy_frame_trans: "deploy_frame X a b \<Longrightarrow> deploy_frame X b c \<Longrightarrow> deploy_frame X a c"
  by (simp add: deploy_frame_def)

lemma deploy_frame_mono: "deploy_frame X a b \<Longrightarrow> X \<subseteq> Y \<Longrightarrow> deploy_frame Y a b"
  by (auto simp: deploy_frame_def)

lemma deploy_frame_guard [guard_simps]: "deploy_frame X a b \<Longrightarrow> as_deploying b = as_deploying a"
  by (simp add: deploy_frame_def)

lemma only_policy_data_frame: "only_policy_data nid a b \<Longrightarrow> deploy_frame {nid} a b"
  by (simp add: only_policy_data_def deploy_frame_def)

lemma a_update_node_state_frame: "deploy_frame {nid} a (snd (a_update_node_state a nid st))"
  by (simp add: a_update_node_state_def a_set_state_def deploy_frame_def split: option.split)

lemma deploy_frame_guarded:
  assumes "nid \<notin> as_deploying a" and "deploy_frame X (snd (a_begin_deploy a nid)) b"
  shows "deploy_frame X a (a_end_deploy b nid)"
  using assms by (auto simp: deploy_frame_def a_begin_deploy_def a_end_deploy_def)

lemma w_store_set_node_state [simp]:
  "w_store (set_node_state ops nid st w) = snd (so_update_node_state ops (w_store w) nid st)"
  by (simp add: set_node_state_def)

lemma w_store_record_deployment [simp]:
  "w_store (record_deployment ops d w) = snd (so_record_deployment ops (w_store w) d)"
  by (simp add: record_deployment_def)

context storage
begin

text \<open>What the steps of a deploy keep: the invariant, and the frame of the node.\<close>

definition kept :: "string \<Rightarrow> 's \<Rightarrow> 's \<Rightarrow> bool" where
  "kept nid s s' \<longleftrightarrow> (inv s \<longrightarrow> inv s' \<and> deploy_frame {nid} (abs s) (abs s'))"

lemma kept_refl [simp, intro]: "kept nid s s"
  by (simp add: kept_def)

lemma kept_trans: "kept nid s s' \<Longrightarrow> kept nid s' s'' \<Longrightarrow> kept nid s s''"
  using deploy_frame_trans by (auto simp: kept_def)

lemma kept_update_node_state [simp]: "kept nid s (snd (so_update_node_state ops s nid st))"
  using update_node_state [of s nid st] a_update_node_state_frame [of nid "abs s" st]
  by (cases "so_update_node_state ops s nid st") (auto simp: kept_def)

lemma kept_record_deployment [simp]:
  "dr_node_id d = nid \<Longrightarrow> kept nid s (snd (so_record_deployment ops s d))"
  using record_deployment_frame [of s d] only_policy_data_frame [OF a_record_deployment_only]
  by (cases "so_record_deployment ops s d") (auto simp: kept_def)

lemma kept_store_policy [simp]:
  "pol_node_id p = nid \<Longrightarrow> kept nid s (snd (so_store_policy ops s p))"
  using store_policy_frame [of s p] only_policy_data_frame
  by (cases "so_store_policy ops s p") (auto simp: kept_def)

lemma kept_deploy_unchanged:
  "kept nid (w_store w) (w_store (snd (deploy_unchanged ops e nid hash w)))"
  by (simp add: deploy_unchanged_def Let_def clock_def new_uuid_def split: sum.split)

lemma kept_forward_and_settle:
  "kept (n_node_id n) (w_store w) (w_store (snd (forward_and_settle ops e n r opts w)))"
  by (simp add: forward_and_settle_def Let_def call_agent_def split: agent_reply.split)

lemma kept_deploy_changed:
  "kept (n_node_id n) (w_store w) (w_store (snd (deploy_changed ops e n r hash opts w)))"
proof -
  let ?p = "policy_of_request (n_node_id n) r hash (e_now e (w_ticks w)) opts"
  obtain x s1 where x: "so_store_policy ops (w_store w) ?p = (x, s1)" by (metis surj_pair)
  have k1: "kept (n_node_id n) (w_store w) s1"
    using kept_store_policy [of ?p "n_node_id n" "w_store w"] x by simp
  show ?thesis
  proof (cases x)
    case (Inl err)
    then show ?thesis using x k1 by (simp add: deploy_changed_def Let_def clock_def blocking_def)
  next
    case (Inr v)
    let ?w1 = "set_node_state ops (n_node_id n) Deploying (w\<lparr> w_ticks := Suc (w_ticks w), w_store := s1 \<rparr>)"
    obtain m ws res w2 where f: "forward_and_settle ops e n r opts ?w1 = ((m, ws, res), w2)"
      by (metis surj_pair)
    have k2: "kept (n_node_id n) (w_store ?w1) (w_store w2)"
      using kept_forward_and_settle [of n ?w1 e r opts] f by simp
    have k3: "kept (n_node_id n) (w_store w) (w_store w2)"
      by (rule kept_trans [OF k1 kept_trans [OF _ k2]]) simp
    show ?thesis
      using x f Inr
      by (simp add: deploy_changed_def Let_def clock_def blocking_def new_uuid_def kept_trans [OF k3])
  qed
qed

lemma kept_deploy_to_node:
  "kept (n_node_id n) (w_store w) (w_store (snd (deploy_to_node ops e n r opts w)))"
  using kept_deploy_changed kept_deploy_unchanged
  by (simp add: deploy_to_node_def Let_def split: sum.split option.split)

end

subsection \<open>The deploy of a list of nodes\<close>

context storage
begin

lemma guarded_deploy_kept:
  assumes "inv s" and "so_begin_deploy ops s nid = (Inr u, s1)" and "kept nid s1 s2"
  shows "inv (so_end_deploy ops s2 nid)" and
    "deploy_frame {nid} (abs s) (abs (so_end_deploy ops s2 nid))"
proof -
  have b: "a_begin_deploy (abs s) nid = (Inr u, abs s1)" and i1: "inv s1"
    using begin_deploy [OF assms(1,2)] by auto
  have i2: "inv s2" and f: "deploy_frame {nid} (abs s1) (abs s2)"
    using assms(3) i1 by (auto simp: kept_def)
  show "inv (so_end_deploy ops s2 nid)" using end_deploy [OF i2] by simp
  have "nid \<notin> as_deploying (abs s)" using b by (auto simp: a_begin_deploy_def split: if_splits)
  then show "deploy_frame {nid} (abs s) (abs (so_end_deploy ops s2 nid))"
    using deploy_frame_guarded [of nid "abs s" "{nid}" "abs s2"] f b end_deploy [OF i2] by simp
qed

lemma refused_deploy_kept:
  "inv s \<Longrightarrow> so_begin_deploy ops s nid = (Inl x, s1) \<Longrightarrow> inv s1 \<and> abs s1 = abs s"
  using begin_deploy [of s nid "Inl x" s1] by (auto simp: a_begin_deploy_def split: if_splits)

lemma deploy_loop_kept:
  assumes "inv (w_store w)"
    and "deploy_loop ops e r opts ns rs a b w = (x, w')"
  shows "inv (w_store w') \<and>
    deploy_frame (n_node_id ` set ns - as_deploying (abs (w_store w)))
      (abs (w_store w)) (abs (w_store w'))"
  using assms
proof (induction ns arbitrary: rs a b w)
  case (Cons n ns)
  let ?nid = "n_node_id n"
  obtain g s1 where g: "so_begin_deploy ops (w_store w) ?nid = (g, s1)" by (metis surj_pair)
  show ?case
  proof (cases g)
    case (Inl err)
    then have k: "inv s1 \<and> abs s1 = abs (w_store w)"
      using refused_deploy_kept [OF Cons.prems(1)] g by simp
    have "inv (w_store w') \<and>
        deploy_frame (n_node_id ` set ns - as_deploying (abs s1)) (abs s1) (abs (w_store w'))"
      using Cons.IH [of "w\<lparr> w_store := s1 \<rparr>"] Cons.prems(2) k g Inl
      by (simp add: blocking_def)
    with k show ?thesis by (auto intro: deploy_frame_mono)
  next
    case (Inr u)
    obtain out w2 where d: "deploy_to_node ops e n r opts (w\<lparr> w_store := s1 \<rparr>) = (out, w2)"
      by (metis surj_pair)
    have "kept ?nid s1 (w_store w2)"
      using kept_deploy_to_node [of n "w\<lparr> w_store := s1 \<rparr>" e r opts] d by simp
    note k = guarded_deploy_kept [OF Cons.prems(1) g [unfolded Inr] this]
    let ?s3 = "so_end_deploy ops (w_store w2) ?nid"
    have out: "?nid \<notin> as_deploying (abs (w_store w))"
      using begin_deploy_exclusive [OF Cons.prems(1), of ?nid] g Inr by simp
    have same: "as_deploying (abs ?s3) = as_deploying (abs (w_store w))"
      using k(2) by (rule deploy_frame_guard)
    have "inv (w_store w') \<and>
        deploy_frame (n_node_id ` set ns - as_deploying (abs ?s3)) (abs ?s3) (abs (w_store w'))"
      using Cons.IH [of "w2\<lparr> w_store := so_end_deploy ops (w_store w2) ?nid \<rparr>"] Cons.prems(2) k(1) g Inr d
      by (simp add: blocking_def Let_def)
    moreover have "deploy_frame (n_node_id ` set (n # ns) - as_deploying (abs (w_store w)))
        (abs (w_store w)) (abs ?s3)"
      using out by (intro deploy_frame_mono [OF k(2)]) simp
    ultimately show ?thesis
      unfolding same by (auto intro: deploy_frame_trans deploy_frame_mono)
  qed
qed simp

end

lemma deploy_loop_counts:
  assumes "deploy_loop ops e r opts ns rs a b w = ((rs', a', b'), w')"
  shows "\<exists>new. rs' = rs @ new \<and> map nar_node_id new = map n_node_id ns \<and>
    a' = a + word_of_nat (length (filter nar_success new)) \<and>
    b' = b + word_of_nat (length (filter (\<lambda>x. \<not> nar_success x) new))"
  using assms
proof (induction ns arbitrary: rs a b w)
  case (Cons n ns)
  obtain g s1 where g: "so_begin_deploy ops (w_store w) (n_node_id n) = (g, s1)" by (metis surj_pair)
  obtain out w2 where d: "deploy_to_node ops e n r opts (w\<lparr> w_store := s1 \<rparr>) = (out, w2)"
    by (metis surj_pair)
  define x where "x = (case g of
      Inl _ \<Rightarrow> node_result (n_node_id n) False ''Concurrent deploy in progress''
    | Inr _ \<Rightarrow> node_result (n_node_id n) (do_success out) (do_message out))"
  have "\<exists>w3. deploy_loop ops e r opts ns (rs @ [x]) (if nar_success x then a + 1 else a)
      (if nar_success x then b else b + 1) w3 = ((rs', a', b'), w')"
    using Cons.prems g d by (cases g) (auto simp: x_def node_result_def blocking_def Let_def)
  then obtain new where new: "rs' = (rs @ [x]) @ new" "map nar_node_id new = map n_node_id ns"
    "a' = (if nar_success x then a + 1 else a) + word_of_nat (length (filter nar_success new))"
    "b' = (if nar_success x then b else b + 1) + word_of_nat (length (filter (\<lambda>x. \<not> nar_success x) new))"
    using Cons.IH by blast
  have "nar_node_id x = n_node_id n" by (simp add: x_def node_result_def split: sum.split)
  with new show ?case by (intro exI [of _ "x # new"]) (simp add: algebra_simps)
qed simp

subsection \<open>What a deploy does\<close>

text \<open>The agent's answer as an outcome, and the state the node ends in: the transitions to
  \<open>Deploying\<close> and on to the final state are refused from \<open>Registered\<close> and \<open>Offline\<close>, and the
  refusals are dropped.\<close>

fun reply_result :: "agent_reply \<Rightarrow> deployment_result" where
  "reply_result (AgentResponse ok m ws) = (if ok then Success else AgentFailure)"
| "reply_result (AgentError err) = AgentUnreachable"
| "reply_result AgentTimeout = Timeout"

fun reply_message :: "env \<Rightarrow> agent_reply \<Rightarrow> string" where
  "reply_message e (AgentResponse ok m ws) = m"
| "reply_message e (AgentError err) = ''Failed to reach agent: '' @ err"
| "reply_message e AgentTimeout =
     ''Agent communication timed out ('' @ show_nat (unat (e_deploy_timeout e)) @ ''s)''"

fun reply_warnings :: "agent_reply \<Rightarrow> string list" where
  "reply_warnings (AgentResponse ok m ws) = ws"
| "reply_warnings (AgentError err) = [''Policy stored locally but agent unreachable'']"
| "reply_warnings AgentTimeout = [''Policy stored locally but agent timed out'']"

definition reply_outcome :: "env \<Rightarrow> agent_reply \<Rightarrow> u64 \<Rightarrow> deploy_outcome" where
  "reply_outcome e reply version =
     \<lparr> do_success = (reply_result reply = Success), do_message = reply_message e reply,
       do_warnings = reply_warnings reply, do_result = reply_result reply, do_version = version \<rparr>"

definition deploy_request :: "env \<Rightarrow> node \<Rightarrow> string \<Rightarrow> compile_options \<Rightarrow> agent_request" where
  "deploy_request e n rules_yaml opts =
     \<lparr> aq_address = agent_address e n, aq_rules_yaml = rules_yaml, aq_options = Some opts \<rparr>"

definition deploy_record :: "env \<Rightarrow> nat \<Rightarrow> policy \<Rightarrow> u64 \<Rightarrow> agent_reply \<Rightarrow> deployment_record" where
  "deploy_record e k p version reply =
     \<lparr> dr_id = e_uuid e k, dr_node_id = pol_node_id p, dr_policy_version = version,
       dr_policy_hash = pol_policy_hash p, dr_deployed_at = pol_deployed_at p,
       dr_result = reply_result reply, dr_message = reply_message e reply \<rparr>"

lemma forward_and_settle_eq:
  "forward_and_settle ops e n r opts w =
     (let reply = e_agent e (length (w_requests w)) (deploy_request e n r opts)
      in ((reply_message e reply, reply_warnings reply, reply_result reply),
          set_node_state ops (n_node_id n) (if reply_result reply = Success then Active else Error)
            (w\<lparr> w_requests := w_requests w @ [deploy_request e n r opts] \<rparr>)))"
  by (simp add: forward_and_settle_def call_agent_def deploy_request_def Let_def split: agent_reply.split)

definition settled_state :: "node_state \<Rightarrow> deployment_result \<Rightarrow> node_state" where
  "settled_state st r =
     (if st \<in> {Registered, Offline} then st else if r = Success then Active else Error)"

text \<open>The contents after a deploy that reached the agent.\<close>

definition deployed :: "node \<Rightarrow> policy \<Rightarrow> deployment_record \<Rightarrow> astore \<Rightarrow> astore" where
  "deployed n p d a =
     (let nid = n_node_id n; v = word_of_nat (length (as_versions a nid)) + 1
      in a\<lparr> as_nodes := (as_nodes a)(nid \<mapsto> n\<lparr> n_state := settled_state (n_state n) (dr_result d) \<rparr>),
            as_policies := (as_policies a)(nid \<mapsto> p),
            as_versions := (as_versions a)(nid := as_versions a nid @ [version_of_policy v p]),
            as_deployments := (as_deployments a)(nid := as_deployments a nid @ [d]) \<rparr>)"

lemma a_update_node_state_settles:
  assumes "as_nodes a nid = Some n"
  shows "snd (a_update_node_state (snd (a_update_node_state a nid Deploying)) nid
           (if r = Success then Active else Error)) =
         a\<lparr> as_nodes := (as_nodes a)(nid \<mapsto> n\<lparr> n_state := settled_state (n_state n) r \<rparr>) \<rparr>"
proof -
  have t: "n_state n = st \<Longrightarrow> n\<lparr> n_state := st \<rparr> = n" for st by auto
  show ?thesis
    using assms map_upd_triv [of "as_nodes a" nid n]
    by (cases "n_state n")
      (simp_all add: t a_update_node_state_def a_set_state_def settled_state_def)
qed

locale logging_storage = storage ops abs inv
  for ops :: "'s storage_ops" and abs :: "'s \<Rightarrow> astore" and inv :: "'s \<Rightarrow> bool" +
  assumes record_ok: "inv s \<Longrightarrow> as_nodes (abs s) (dr_node_id d) \<noteq> None \<Longrightarrow>
      \<exists>s'. so_record_deployment ops s d = (Inr (), s')"
    and store_policy_always: "inv s \<Longrightarrow> as_nodes (abs s) (pol_node_id p) \<noteq> None \<Longrightarrow>
      so_store_policy ops s p = (rv, s') \<Longrightarrow> a_store_policy (abs s) p = (rv, abs s')"
begin

lemma abs_record_deployment:
  "inv s \<Longrightarrow> as_nodes (abs s) (dr_node_id d) \<noteq> None \<Longrightarrow>
     abs (snd (so_record_deployment ops s d)) = snd (a_record_deployment (abs s) d)"
  by (metis record_ok record_deployment snd_conv)

lemma abs_update_node_state:
  "inv s \<Longrightarrow> abs (snd (so_update_node_state ops s nid st)) = snd (a_update_node_state (abs s) nid st)"
  "inv s \<Longrightarrow> inv (snd (so_update_node_state ops s nid st))"
  using update_node_state [of s nid st "fst (so_update_node_state ops s nid st)"
      "snd (so_update_node_state ops s nid st)"]
  by (metis prod.collapse snd_conv)+

lemma deploy_changed_effect:
  fixes w :: "'s world" and e n r hash opts
  defines "nid \<equiv> n_node_id n" and "s \<equiv> w_store w"
    and "reply \<equiv> e_agent e (length (w_requests w)) (deploy_request e n r opts)"
    and "p \<equiv> policy_of_request (n_node_id n) r hash (e_now e (w_ticks w)) opts"
  defines "v \<equiv> word_of_nat (length (as_versions (abs s) nid)) + 1"
  defines "d \<equiv> deploy_record e (w_uuids w) p v reply"
  assumes s: "inv s" and n: "as_nodes (abs s) nid = Some n"
  shows "\<exists>w'. deploy_changed ops e n r hash opts w = (reply_outcome e reply v, w') \<and>
      w_requests w' = w_requests w @ [deploy_request e n r opts] \<and>
      w_events w' = w_events w \<and> w_tasks w' = w_tasks w \<and> w_cache w' = w_cache w \<and>
      inv (w_store w') \<and> abs (w_store w') = deployed n p d (abs s)"
proof -
  obtain x s1 where x: "so_store_policy ops s p = (x, s1)" by (metis surj_pair)
  have "a_store_policy (abs s) p = (x, abs s1)" and i1: "inv s1"
    using store_policy_always [OF s _ x] store_policy_frame [OF s x] n by (auto simp: p_def nid_def)
  then have xv: "x = Inr v" and a1: "abs s1 = (abs s)
      \<lparr> as_versions := (as_versions (abs s))(nid := as_versions (abs s) nid @ [version_of_policy v p]),
        as_policies := (as_policies (abs s))(nid \<mapsto> p) \<rparr>"
    by (auto simp: a_store_policy_def Let_def p_def v_def nid_def)
  define s2 where "s2 = snd (so_update_node_state ops s1 nid Deploying)"
  define s3 where "s3 = snd (so_update_node_state ops s2 nid
      (if reply_result reply = Success then Active else Error))"
  define s4 where "s4 = snd (so_record_deployment ops s3 d)"
  have i2: "inv s2" and i3: "inv s3" using i1 by (simp_all add: s2_def s3_def abs_update_node_state)
  have n1: "as_nodes (abs s1) nid = Some n" using n by (simp add: a1)
  have a3: "abs s3 = (abs s1)\<lparr> as_nodes := (as_nodes (abs s1))
      (nid \<mapsto> n\<lparr> n_state := settled_state (n_state n) (reply_result reply) \<rparr>) \<rparr>"
    using a_update_node_state_settles [OF n1, of "reply_result reply"] i1 i2
    by (simp add: s3_def s2_def abs_update_node_state)
  have dn: "dr_node_id d = nid" "dr_result d = reply_result reply"
    by (simp_all add: d_def deploy_record_def p_def nid_def)
  have i4: "inv s4" and a4: "abs s4 = snd (a_record_deployment (abs s3) d)"
    using abs_record_deployment [of s3 d] i3 dn kept_record_deployment [of d nid s3]
    by (simp_all add: s4_def a3 kept_def)
  have "abs s4 = deployed n p d (abs s)"
    by (simp add: a4 a3 a1 a_record_deployment_def deployed_def Let_def dn v_def nid_def)
  moreover have "deploy_changed ops e n r hash opts w = (reply_outcome e reply v,
      w\<lparr> w_store := s4, w_ticks := Suc (w_ticks w), w_uuids := Suc (w_uuids w),
         w_requests := w_requests w @ [deploy_request e n r opts] \<rparr>)"
    using x xv unfolding s4_def s3_def s2_def
    by (simp add: deploy_changed_def Let_def clock_def blocking_def new_uuid_def
        forward_and_settle_eq set_node_state_def record_deployment_def case_prod_unfold
        s_def p_def d_def nid_def reply_def reply_outcome_def deploy_record_def)
  ultimately show ?thesis using i4 by simp
qed

end

lemma mem_record_ok: "\<exists>s'. so_record_deployment memory_ops s d = (Inr (), s')"
  by (simp add: mem_record_deployment_def)

interpretation mem: logging_storage memory_ops mem_abs mem_inv
  by unfold_locales (rule mem_record_ok, simp add: mem_store_policy_abs)

subsection \<open>Properties\<close>

lemma deploy_to_node_changed:
  assumes "capable n (normalize_options opts)"
    and "n_state n = Active \<longrightarrow> (\<forall>p. map_of (ms_policies (w_store w)) (n_node_id n) = Some p \<longrightarrow>
      \<not> policy_matches_request p r (e_policy_hash e r) (normalize_options opts))"
  shows "deploy_to_node memory_ops e n r opts w =
    deploy_changed memory_ops e n r (e_policy_hash e r) (normalize_options opts) w"
  using assms
  by (auto simp: deploy_to_node_def Let_def ensure_node_capabilities_iff [symmetric] blocking_read_def
      mem_get_policy_def split: option.split)

text \<open>Of the store, a deploy can change nodes, policies, versions and deployment records only.\<close>

definition same_but_deploy :: "mem_storage \<Rightarrow> mem_storage \<Rightarrow> bool" where
  "same_but_deploy s s' \<longleftrightarrow>
     s' = s\<lparr> ms_nodes := ms_nodes s', ms_policies := ms_policies s',
             ms_policy_versions := ms_policy_versions s', ms_deployments := ms_deployments s' \<rparr>"

lemma same_but_deploy_refl [simp]: "same_but_deploy s s"
  by (simp add: same_but_deploy_def)

lemma same_but_deploy_trans: "same_but_deploy s t \<Longrightarrow> same_but_deploy t u \<Longrightarrow> same_but_deploy s u"
  unfolding same_but_deploy_def by (cases s; cases t; cases u) simp

lemma same_but_deploy_ops:
  "same_but_deploy s (snd (mem_store_policy s p))"
  "same_but_deploy s (snd (mem_update_node_state s nid st))"
  "same_but_deploy s (snd (mem_record_deployment s d))"
  by (simp_all add: same_but_deploy_def mem_store_policy_def Let_def mem_update_node_state_def
      mem_record_deployment_def split: option.split)

text \<open>And of the rest of the world, the clock, the UUIDs and the requests.\<close>

definition rest_untouched :: "mem_storage world \<Rightarrow> mem_storage world \<Rightarrow> bool" where
  "rest_untouched w w' \<longleftrightarrow> same_but_deploy (w_store w) (w_store w') \<and> w_events w' = w_events w \<and>
     w_tasks w' = w_tasks w \<and> w_cache w' = w_cache w"

lemma rest_untouched_trans: "rest_untouched w w1 \<Longrightarrow> rest_untouched w1 w2 \<Longrightarrow> rest_untouched w w2"
  by (auto simp: rest_untouched_def intro: same_but_deploy_trans)

lemma rest_untouched_steps:
  "rest_untouched w (set_node_state memory_ops nid st w)" "rest_untouched w (record_deployment memory_ops d w)"
  "rest_untouched w (snd (clock e w))" "rest_untouched w (snd (new_uuid e w))" "rest_untouched w (snd (call_agent e q w))"
  "rest_untouched w (snd (blocking (\<lambda>s. mem_store_policy s p) w))"
  by (simp_all add: rest_untouched_def set_node_state_def record_deployment_def blocking_def clock_def new_uuid_def
      call_agent_def Let_def same_but_deploy_ops case_prod_unfold)

lemma rest_untouched_step:
  "rest_untouched w w' \<Longrightarrow> rest_untouched w (set_node_state memory_ops nid st w')"
  "rest_untouched w w' \<Longrightarrow> rest_untouched w (record_deployment memory_ops d w')"
  "rest_untouched w w' \<Longrightarrow> rest_untouched w (snd (clock e w'))"
  "rest_untouched w w' \<Longrightarrow> rest_untouched w (snd (new_uuid e w'))"
  "rest_untouched w w' \<Longrightarrow> rest_untouched w (snd (call_agent e q w'))"
  "rest_untouched w w' \<Longrightarrow> rest_untouched w (snd (blocking (\<lambda>s. mem_store_policy s p) w'))"
  by (rule rest_untouched_trans, assumption, rule rest_untouched_steps)+

lemma rest_untouched_forward: "rest_untouched w w' \<Longrightarrow> rest_untouched w (snd (forward_and_settle memory_ops e n r opts w'))"
  by (simp add: forward_and_settle_def Let_def case_prod_unfold rest_untouched_step split: agent_reply.split)

lemma deploy_changed_untouched: "rest_untouched w (snd (deploy_changed memory_ops e n r h opts w))"
  by (simp add: deploy_changed_def Let_def case_prod_unfold rest_untouched_step rest_untouched_forward rest_untouched_def [of w w]
      split: sum.split)

text \<open>C1: A deploy that passes the capability check and is not a repeat of the active policy sends
  one request to the agent, stores the request as the node's next policy version, appends one
  deployment record with the agent's verdict, and moves the node to \<open>Active\<close> on success and to
  \<open>Error\<close> on failure, unreachable agent or timeout (a node that is \<open>Registered\<close> or
  \<open>Offline\<close> stays so).  Nothing else changes: not the other nodes, the guard, the definitions and
  instances, the counters, the logs, the templates and the deliveries, the bus, the tasks and the
  cache of counters.\<close>

theorem deploy_to_node_effect:
  fixes n opts r e and w :: "mem_storage world"
  defines "nid \<equiv> n_node_id n" and "q \<equiv> deploy_request e n r (normalize_options opts)"
    and "p \<equiv> policy_of_request (n_node_id n) r (e_policy_hash e r) (e_now e (w_ticks w))
           (normalize_options opts)"
    and "v \<equiv> word_of_nat (length (mem_versions (w_store w) (n_node_id n))) + 1"
  defines "reply \<equiv> e_agent e (length (w_requests w)) q"
  assumes "mem_inv (w_store w)" and "map_of (ms_nodes (w_store w)) nid = Some n"
    and "capable n (normalize_options opts)"
    and "n_state n = Active \<longrightarrow> (\<forall>p. map_of (ms_policies (w_store w)) nid = Some p \<longrightarrow>
      \<not> policy_matches_request p r (e_policy_hash e r) (normalize_options opts))"
  shows "\<exists>w'. deploy_to_node memory_ops e n r opts w = (reply_outcome e reply v, w') \<and>
    w_requests w' = w_requests w @ [q] \<and> mem_inv (w_store w') \<and>
    mem_abs (w_store w') = deployed n p (deploy_record e (w_uuids w) p v reply) (mem_abs (w_store w)) \<and>
    rest_untouched w w'"
  using mem.deploy_changed_effect [where w = w and n = n and e = e and r = r and hash = "e_policy_hash e r" and
      opts = "normalize_options opts"] assms
    deploy_to_node_changed [of n opts w r e]
    deploy_changed_untouched [of w e n r "e_policy_hash e r" "normalize_options opts"] by auto

text \<open>A deploy to a node that lacks a capability the options need is refused with a message that
  names a missing capability, before anything is stored, recorded, or sent to the agent.\<close>

theorem deploy_without_capability_refused:
  assumes "\<not> capable n (normalize_options opts)"
  shows "\<exists>key. (key, True) \<in> set (capability_needs (normalize_options opts)) \<and>
    \<not> capability_true n key \<and>
    deploy_to_node ops e n r opts w = (failure_outcome (missing_capability n key), w)"
proof -
  obtain msg where m: "ensure_node_capabilities n (normalize_options opts) = Inl msg"
    using assms ensure_node_capabilities_iff [of n "normalize_options opts"]
    by (cases "ensure_node_capabilities n (normalize_options opts)") auto
  from check_needs_error [OF m [unfolded ensure_node_capabilities_check]]
  show ?thesis using m by (auto simp: deploy_to_node_def Let_def)
qed

lemma deploy_to_node_unchanged:
  assumes "capable n (normalize_options opts)" and "n_state n = Active"
    and "map_of (ms_policies (w_store w)) (n_node_id n) = Some p"
    and "policy_matches_request p r (e_policy_hash e r) (normalize_options opts)"
  shows "deploy_to_node memory_ops e n r opts w =
    deploy_unchanged memory_ops e (n_node_id n) (e_policy_hash e r) w"
  using assms
  by (simp add: deploy_to_node_def Let_def ensure_node_capabilities_iff [symmetric] blocking_read_def
      mem_get_policy_def)

lemma deploy_unchanged_mem:
  assumes "mem_versions (w_store w) nid \<noteq> []"
  shows "\<exists>w'. deploy_unchanged memory_ops e nid hash w =
      (\<lparr> do_success = True, do_message = no_change_message, do_warnings = [], do_result = Success,
         do_version = pv_version (last (mem_versions (w_store w) nid)) \<rparr>, w') \<and>
    w_requests w' = w_requests w \<and> ms_nodes (w_store w') = ms_nodes (w_store w) \<and>
    ms_policies (w_store w') = ms_policies (w_store w) \<and>
    ms_policy_versions (w_store w') = ms_policy_versions (w_store w)"
proof -
  obtain vs v where "mem_versions (w_store w) nid = vs @ [v]"
    using assms by (metis rev_exhaust)
  then show ?thesis
    by (simp add: deploy_unchanged_def blocking_read_def mem_get_policy_history_abs Let_def
        new_uuid_def clock_def record_deployment_def blocking_def mem_record_deployment_def)
qed

lemma deploy_repeated_mem:
  assumes "mem_inv (w_store w)" and "capable n (normalize_options opts)" and "n_state n = Active"
    and "map_of (ms_policies (w_store w)) (n_node_id n) = Some p"
    and "policy_matches_request p r (e_policy_hash e r) (normalize_options opts)"
  shows "\<exists>w'. deploy_to_node memory_ops e n r opts w =
      (\<lparr> do_success = True, do_message = no_change_message, do_warnings = [], do_result = Success,
         do_version = pv_version (last (mem_versions (w_store w) (n_node_id n))) \<rparr>, w') \<and>
    w_requests w' = w_requests w \<and> ms_nodes (w_store w') = ms_nodes (w_store w) \<and>
    ms_policies (w_store w') = ms_policies (w_store w) \<and>
    mem_versions (w_store w') = mem_versions (w_store w)"
proof -
  have "versions_ok (n_node_id n) (mem_versions (w_store w) (n_node_id n)) (Some p)"
    using assms(1,4) by (auto simp: mem_inv_def dest: spec [of _ "n_node_id n"])
  then have "mem_versions (w_store w) (n_node_id n) \<noteq> []" by (simp add: versions_ok_def)
  from deploy_unchanged_mem [OF this, of e "e_policy_hash e r"] show ?thesis
    using deploy_to_node_unchanged [where n = n and opts = opts and w = w and p = p and r = r and e = e] assms
    by (auto simp: mem_versions_def fun_eq_iff)
qed

lemma capable_cong: "n_capabilities m = n_capabilities n \<Longrightarrow> capable m opts = capable n opts"
  by (simp add: capable_def capability_needs_def capability_true_def)

text \<open>C25: A deploy is idempotent: when the agent accepted a policy on a node that was online, deploying,
  active or in error, the same request for the node as it is now stored is answered with the same
  version and a \<open>no change\<close> message, sends nothing to the agent and stores no further version.\<close>

theorem deploy_to_node_idempotent:
  assumes "mem_inv (w_store w)" and "map_of (ms_nodes (w_store w)) (n_node_id n) = Some n"
    and "n_state n \<notin> {Registered, Offline}"
    and first: "deploy_to_node memory_ops e n r opts w = (out, w1)" and "do_success out"
  shows "\<exists>n' out' w2. map_of (ms_nodes (w_store w1)) (n_node_id n) = Some n' \<and> n_state n' = Active \<and>
    deploy_to_node memory_ops e n' r opts w1 = (out', w2) \<and>
    do_success out' \<and> do_message out' = no_change_message \<and> do_version out' = do_version out \<and>
    w_requests w2 = w_requests w1 \<and> ms_policies (w_store w2) = ms_policies (w_store w1) \<and>
    mem_versions (w_store w2) = mem_versions (w_store w1)"
proof (cases "n_state n = Active \<and> (\<exists>p. map_of (ms_policies (w_store w)) (n_node_id n) = Some p \<and>
    policy_matches_request p r (e_policy_hash e r) (normalize_options opts))")
  case True
  then obtain p where p: "n_state n = Active" "map_of (ms_policies (w_store w)) (n_node_id n) = Some p"
    "policy_matches_request p r (e_policy_hash e r) (normalize_options opts)" by blast
  have c: "capable n (normalize_options opts)"
    using first assms(5) ensure_node_capabilities_iff [of n "normalize_options opts"]
    by (auto simp: deploy_to_node_def Let_def failure_outcome_def split: sum.splits)
  obtain w' where w': "w1 = w'" "out = \<lparr> do_success = True, do_message = no_change_message,
      do_warnings = [], do_result = Success,
      do_version = pv_version (last (mem_versions (w_store w) (n_node_id n))) \<rparr>"
    "w_requests w' = w_requests w" "ms_nodes (w_store w') = ms_nodes (w_store w)"
    "ms_policies (w_store w') = ms_policies (w_store w)" "mem_versions (w_store w') = mem_versions (w_store w)"
    using deploy_repeated_mem [OF assms(1) c p] first by auto
  have "mem_inv (w_store w1)"
    using mem.kept_deploy_to_node [of n w e r opts] assms(1) first by (simp add: mem.kept_def)
  from deploy_repeated_mem [OF this c p(1) _ p(3)] show ?thesis
    using w' p assms(2) by auto
next
  case False
  let ?o = "normalize_options opts" and ?nid = "n_node_id n"
  let ?p = "policy_of_request ?nid r (e_policy_hash e r) (e_now e (w_ticks w)) ?o"
  have c: "capable n ?o"
    using first assms(5) ensure_node_capabilities_iff [of n ?o]
    by (auto simp: deploy_to_node_def Let_def failure_outcome_def split: sum.splits)
  have "deploy_to_node memory_ops e n r opts w = deploy_changed memory_ops e n r (e_policy_hash e r) ?o w"
    using deploy_to_node_changed [OF c] False by blast
  with first mem.deploy_changed_effect [where w = w and n = n and e = e and r = r and
      hash = "e_policy_hash e r" and opts = ?o] assms(1,2)
  obtain v reply d where v: "v = word_of_nat (length (mem_versions (w_store w) ?nid)) + 1"
    and o: "out = reply_outcome e reply v" and i: "mem_inv (w_store w1)"
    and a: "mem_abs (w_store w1) = deployed n ?p d (mem_abs (w_store w))"
    and d: "dr_result d = reply_result reply"
    by (auto simp: deploy_record_def)
  define n' where "n' = n\<lparr> n_state := Active \<rparr>"
  have "map_of (ms_nodes (w_store w1)) = as_nodes (mem_abs (w_store w1))"
    "map_of (ms_policies (w_store w1)) = as_policies (mem_abs (w_store w1))"
    "mem_versions (w_store w1) = as_versions (mem_abs (w_store w1))" by simp_all
  then have n': "map_of (ms_nodes (w_store w1)) ?nid = Some n'"
    and p': "map_of (ms_policies (w_store w1)) (n_node_id n') = Some ?p"
    and v': "last (mem_versions (w_store w1) (n_node_id n')) = version_of_policy v ?p"
    using a assms(3,5) o d v by (auto simp: deployed_def Let_def n'_def settled_state_def reply_outcome_def)
  have "capable n' ?o" using c capable_cong [of n' n ?o] by (simp add: n'_def)
  from deploy_repeated_mem [OF i this _ p', of r e] n' v' o show ?thesis
    by (auto simp: n'_def reply_outcome_def version_of_policy_def)
qed

text \<open>C29: A deploy to a list of nodes reports every node once, in order; its success and failure counts
  are those of the reports and add up to the total (as \<open>u32\<close>); it leaves the deploy guard as it was,
  and changes the policy data and the state only of listed nodes whose guard was free.\<close>

theorem deploy_to_nodes_accounting:
  assumes "mem_inv (w_store w)" and "deploy_to_nodes memory_ops e ns r opts w = (res, w')"
  shows "map nar_node_id (ar_node_results res) = map n_node_id ns \<and>
    ar_succeeded res = word_of_nat (length (filter nar_success (ar_node_results res))) \<and>
    ar_succeeded res + ar_failed res = ar_total res \<and>
    mem_inv (w_store w') \<and> ms_deploying (w_store w') = ms_deploying (w_store w) \<and>
    deploy_frame (n_node_id ` set ns - ms_deploying (w_store w)) (mem_abs (w_store w)) (mem_abs (w_store w'))"
proof -
  obtain rs a b where l: "deploy_loop memory_ops e r opts ns [] 0 0 w = ((rs, a, b), w')"
    and res: "res = \<lparr> ar_succeeded = a, ar_failed = b, ar_total = word_of_nat (length ns), ar_node_results = rs \<rparr>"
    using assms(2) by (auto simp: deploy_to_nodes_def split: prod.splits)
  from deploy_loop_counts [OF l] have c: "map nar_node_id rs = map n_node_id ns"
    "a = word_of_nat (length (filter nar_success rs))"
    "b = word_of_nat (length (filter (\<lambda>x. \<not> nar_success x) rs))" by auto
  have "length ns = length (filter nar_success rs) + length (filter (\<lambda>x. \<not> nar_success x) rs)"
    using c(1) sum_length_filter_compl [of nar_success rs] map_eq_imp_length_eq by fastforce
  then have "a + b = word_of_nat (length ns)" by (simp add: c(2,3))
  then show ?thesis
    using mem.deploy_loop_kept [OF assms(1) l] deploy_frame_guard c by (fastforce simp: res)
qed

end
