(* ===== verification/Fsm_Engine.thy ===== *)
theory Fsm_Engine
  imports Fsm_Eval Deploying
begin

text \<open>
  The FSM engine of \<^verbatim>\<open>pacinet-server/src/fsm_engine.rs\<close>: the actions of a state (deploy, rollback,
  alert), firing a transition, one evaluation of an instance and of all running instances, and the
  operations of the API on instances: start, start adaptive, advance, cancel.

  An operation that fails returns the error the code returns.  The storage calls of an
  operation happen one after the other, in the code's order.  What spawned tasks do later
  (webhook delivery) is not part of an operation.
\<close>

definition with_context :: "(fsm_context \<Rightarrow> fsm_context) \<Rightarrow> fsm_instance \<Rightarrow> fsm_instance" where
  "with_context f i = i\<lparr> fi_context := f (fi_context i) \<rparr>"

definition compile_options_of_fsm :: "fsm_compile_options \<Rightarrow> compile_options" where
  "compile_options_of_fsm c =
     \<lparr> co_counters = fco_counters c, co_rate_limit = fco_rate_limit c,
       co_conntrack = fco_conntrack c, co_axi = fco_axi c, co_ports = fco_ports c,
       co_target = fco_target c, co_dynamic = fco_dynamic c,
       co_dynamic_entries = fco_dynamic_entries c, co_width = fco_width c, co_ptp = fco_ptp c,
       co_rss = fco_rss c, co_rss_queues = fco_rss_queues c, co_int_enabled = fco_int c,
       co_int_switch_id = fco_int_switch_id c \<rparr>"

definition compile_options_of_version :: "policy_version \<Rightarrow> compile_options" where
  "compile_options_of_version v =
     \<lparr> co_counters = pv_counters_enabled v, co_rate_limit = pv_rate_limit_enabled v,
       co_conntrack = pv_conntrack_enabled v, co_axi = pv_axi_enabled v, co_ports = pv_ports v,
       co_target = pv_target v, co_dynamic = pv_dynamic v,
       co_dynamic_entries = pv_dynamic_entries v, co_width = pv_width v, co_ptp = pv_ptp v,
       co_rss = pv_rss v, co_rss_queues = pv_rss_queues v, co_int_enabled = pv_int v,
       co_int_switch_id = pv_int_switch_id v \<rparr>"

subsection \<open>Actions\<close>

definition batch_size :: "nat \<Rightarrow> u32 \<Rightarrow> nat" where
  "batch_size total_remaining batch_pct =
     min (max (f64_ceil_usize (f64_div_fin
            (f64_mul_fin (f64_of_nat total_remaining) (of_nat (unat batch_pct))) 100)) 1)
       total_remaining"

text \<open>The batch at the cursor: the nodes of the batch and the new cursor, none when all batches are
  done.\<close>

definition next_batch :: "u32 \<Rightarrow> u32 \<Rightarrow> node list \<Rightarrow> (node list \<times> u32) option" where
  "next_batch batch_pct cursor nodes =
     (let total_remaining = length nodes;
          cur = unat cursor
      in if cur \<ge> total_remaining then None
         else (let e = min (cur + batch_size total_remaining batch_pct) total_remaining
               in Some (take (e - cur) (drop cur nodes), word_of_nat e)))"

text \<open>\<open>if !v.contains(x) { v.push(x) }\<close>\<close>

definition push_new :: "'a \<Rightarrow> 'a list \<Rightarrow> 'a list" where
  "push_new x xs = (if x \<in> set xs then xs else xs @ [x])"

definition add_targets :: "node list \<Rightarrow> fsm_context \<Rightarrow> fsm_context" where
  "add_targets nodes = cx_target_nodes_update (fold (\<lambda>n. push_new (n_node_id n)) nodes)"

definition add_result :: "node_action_result \<Rightarrow> fsm_context \<Rightarrow> fsm_context" where
  "add_result nr =
     (if nar_success nr then cx_deployed_nodes_update (push_new (nar_node_id nr))
      else cx_failed_nodes_update (push_new (nar_node_id nr)))"

definition no_nodes_result :: action_result where
  "no_nodes_result = \<lparr> ar_succeeded = 0, ar_failed = 0, ar_total = 0, ar_node_results = [] \<rparr>"

definition deploy_selected ::
  "'s storage_ops \<Rightarrow> env \<Rightarrow> string \<Rightarrow> node list \<Rightarrow> fsm_instance \<Rightarrow> 's world \<Rightarrow> fsm_instance \<times> 's world" where
  "deploy_selected ops e rules_yaml selected i w =
     (let i = with_context (add_targets selected) i;
          opts = (case cx_compile_options (fi_context i) of
                    Some c \<Rightarrow> compile_options_of_fsm c | None \<Rightarrow> default_options);
          (result, w) = deploy_to_nodes ops e selected rules_yaml opts w;
          i = with_context (fold add_result (ar_node_results result)) i;
          i = with_context (cx_last_action_result_update (\<lambda>_. Some result)) i;
          cx = fi_context i;
          w = emit_now e (\<lambda>t. FsmEv (DeployProgress (fi_instance_id i) (fi_definition_name i)
                (word_of_nat (length (cx_deployed_nodes cx)))
                (word_of_nat (length (cx_failed_nodes cx)))
                (word_of_nat (length (cx_target_nodes cx))) t)) w
      in (i, w))"

definition execute_deploy ::
  "'s storage_ops \<Rightarrow> env \<Rightarrow> deploy_action \<Rightarrow> fsm_instance \<Rightarrow> 's world \<Rightarrow> fsm_instance \<times> 's world" where
  "execute_deploy ops e da i w =
     (case cx_rules_yaml (fi_context i) of
        None \<Rightarrow> (i, w)
      | Some rules_yaml \<Rightarrow>
          (case blocking_read (\<lambda>s. so_list_nodes ops s (ns_label (da_select da))) w of
             Inl _ \<Rightarrow> (i, w)
           | Inr nodes \<Rightarrow>
               if nodes = [] then
                 (with_context (cx_last_action_result_update (\<lambda>_. Some no_nodes_result)) i, w)
               else
                 (let selected = (case ns_limit (da_select da) of
                                    Some limit \<Rightarrow> take (unat limit) nodes | None \<Rightarrow> nodes)
                  in case da_batch_percent da of
                       None \<Rightarrow> deploy_selected ops e rules_yaml selected i w
                     | Some pct \<Rightarrow>
                         (case next_batch pct (cx_batch_cursor (fi_context i)) selected of
                            None \<Rightarrow>
                              (with_context (\<lambda>cx. cx\<lparr> cx_last_action_result := Some
                                 \<lparr> ar_succeeded = word_of_nat (length (cx_deployed_nodes cx)),
                                   ar_failed = word_of_nat (length (cx_failed_nodes cx)),
                                   ar_total = word_of_nat (length selected),
                                   ar_node_results = [] \<rparr> \<rparr>) i, w)
                          | Some (batch, cursor) \<Rightarrow>
                              deploy_selected ops e rules_yaml batch
                                (with_context (cx_batch_cursor_update (\<lambda>_. cursor)) i) w))))"

text \<open>One node of a rollback: to the second newest version, without the deploy guard.\<close>

definition rollback_node ::
  "'s storage_ops \<Rightarrow> env \<Rightarrow> string \<Rightarrow> 's world \<Rightarrow> node_action_result \<times> 's world" where
  "rollback_node ops e nid w =
     (case blocking_read (\<lambda>s. so_get_policy_history ops s nid 2) w of
        Inl err \<Rightarrow>
          (node_result nid False (''Failed to get policy history: '' @ e_show_status e err), w)
      | Inr versions \<Rightarrow>
          if length versions < 2 then (node_result nid False ''No previous policy version'', w)
          else
            (let prev = versions ! 1 in
             case blocking_read (\<lambda>s. so_get_node ops s nid) w of
               Inr (Some n) \<Rightarrow>
                 (let (outcome, w) = deploy_to_node ops e n (pv_rules_yaml prev)
                        (compile_options_of_version prev) w
                  in (node_result nid (do_success outcome) (do_message outcome), w))
             | _ \<Rightarrow> (node_result nid False ''Node not found'', w)))"

fun rollback_loop ::
  "'s storage_ops \<Rightarrow> env \<Rightarrow> string list \<Rightarrow> node_action_result list \<Rightarrow> u32 \<Rightarrow> u32 \<Rightarrow> 's world \<Rightarrow>
     (node_action_result list \<times> u32 \<times> u32) \<times> 's world" where
  "rollback_loop ops e [] results succeeded failed w = ((results, succeeded, failed), w)"
| "rollback_loop ops e (nid # nids) results succeeded failed w =
     (let (r, w) = rollback_node ops e nid w
      in if nar_success r then rollback_loop ops e nids (results @ [r]) (succeeded + 1) failed w
         else rollback_loop ops e nids (results @ [r]) succeeded (failed + 1) w)"

definition execute_rollback ::
  "'s storage_ops \<Rightarrow> env \<Rightarrow> rollback_action \<Rightarrow> fsm_instance \<Rightarrow> 's world \<Rightarrow> fsm_instance \<times> 's world" where
  "execute_rollback ops e ra i w =
     (let deployed = cx_deployed_nodes (fi_context i) in
      if deployed = [] then (i, w)
      else case rollback_loop ops e deployed [] 0 0 w of
             ((results, succeeded, failed), w) \<Rightarrow>
               (with_context (cx_last_action_result_update (\<lambda>_. Some
                  \<lparr> ar_succeeded = succeeded, ar_failed = failed,
                    ar_total = word_of_nat (length deployed), ar_node_results = results \<rparr>)) i, w))"

definition execute_alert :: "env \<Rightarrow> alert_action \<Rightarrow> fsm_instance \<Rightarrow> 's world \<Rightarrow> 's world" where
  "execute_alert e aa i w =
     (case aa_webhook aa of
        None \<Rightarrow> w
      | Some config \<Rightarrow>
          (let (now, w) = clock e w
           in spawn (DeliverWebhook config
                \<lparr> wp_event = ''fsm_alert'', wp_instance_id = fi_instance_id i,
                  wp_definition_name = fi_definition_name i, wp_current_state = fi_current_state i,
                  wp_message = aa_message aa, wp_timestamp = now,
                  wp_deployed_nodes = cx_deployed_nodes (fi_context i) \<rparr>
                (fi_instance_id i)) w))"

definition execute_action ::
  "'s storage_ops \<Rightarrow> env \<Rightarrow> action_definition \<Rightarrow> fsm_instance \<Rightarrow> 's world \<Rightarrow> fsm_instance \<times> 's world" where
  "execute_action ops e a i w =
     (case ad_deploy a of
        Some da \<Rightarrow> execute_deploy ops e da i w
      | None \<Rightarrow>
          (case ad_rollback a of
             Some ra \<Rightarrow> execute_rollback ops e ra i w
           | None \<Rightarrow>
               (case ad_alert a of
                  Some aa \<Rightarrow> (i, execute_alert e aa i w)
                | None \<Rightarrow> (i, w))))"

text \<open>The action of a state that is entered, if it has one.\<close>

definition run_state_action ::
  "'s storage_ops \<Rightarrow> env \<Rightarrow> state_definition \<Rightarrow> fsm_instance \<Rightarrow> 's world \<Rightarrow> fsm_instance \<times> 's world" where
  "run_state_action ops e sd i w =
     (case sd_action sd of
        Some a \<Rightarrow> execute_action ops e a i w
      | None \<Rightarrow> (i, w))"

subsection \<open>Transitions\<close>

definition transition_message :: "string \<Rightarrow> string \<Rightarrow> transition_trigger \<Rightarrow> string" where
  "transition_message from_state to_state trigger =
     from_state @ '' -> '' @ to_state @ '' ('' @ trigger_to_string trigger @ '')''"

text \<open>Leaving a state forgets the sustained conditions of its transitions.\<close>

definition forget_state :: "string \<Rightarrow> fsm_instance \<Rightarrow> fsm_instance" where
  "forget_state old_state =
     with_context (cx_first_true_update (filter (\<lambda>(k, _). \<not> starts_with (old_state @ '':'') k)))"

definition fire_transition ::
  "'s storage_ops \<Rightarrow> env \<Rightarrow> fsm_instance \<Rightarrow> string \<Rightarrow> transition_trigger \<Rightarrow> fsm_definition \<Rightarrow> 's world \<Rightarrow>
     fsm_instance \<times> 's world" where
  "fire_transition ops e i to_state trigger d w =
     (let old = fi_current_state i;
          message = transition_message old to_state trigger;
          i = forget_state old i;
          (now, w) = clock e w;
          i = instance_transition now i to_state trigger message;
          w = emit_now e (\<lambda>t. FsmEv (Transition (fi_instance_id i) (fi_definition_name i) old to_state
                (trigger_to_string trigger) message t)) w
      in case map_of (fd_states d) to_state of
           None \<Rightarrow> (i, w)
         | Some sd \<Rightarrow>
             (let (i, w) = run_state_action ops e sd i w
              in if sd_terminal sd then
                   (let i = i\<lparr> fi_status := Completed \<rparr>
                    in (i, emit_now e (\<lambda>t. FsmEv (InstanceCompleted (fi_instance_id i)
                             (fi_definition_name i) ''completed'' t)) w))
                 else (i, w)))"

definition timer_due :: "env \<Rightarrow> string \<Rightarrow> fsm_instance \<Rightarrow> 's world \<Rightarrow> bool \<times> 's world" where
  "timer_due e after i w =
     (case parse_duration after of
        Inl _ \<Rightarrow> (False, w)
      | Inr d \<Rightarrow> (let (now, w) = clock e w in (now - fi_updated_at i \<ge> chrono_from_std d, w)))"

definition should_fire ::
  "env \<Rightarrow> transition_definition \<Rightarrow> string \<Rightarrow> nat \<Rightarrow> fsm_instance \<Rightarrow> 's world \<Rightarrow>
     (bool \<times> fsm_instance) \<times> 's world" where
  "should_fire e td current_state ti i w =
     (case td_when td of
        Some c \<Rightarrow> evaluate_condition e c current_state ti i w
      | None \<Rightarrow>
          (case td_after td of
             Some after \<Rightarrow> (case timer_due e after i w of (b, w) \<Rightarrow> ((b, i), w))
           | None \<Rightarrow> ((False, i), w)))"

fun find_transition ::
  "env \<Rightarrow> string \<Rightarrow> nat \<Rightarrow> transition_definition list \<Rightarrow> fsm_instance \<Rightarrow> 's world \<Rightarrow>
     (transition_definition option \<times> fsm_instance) \<times> 's world" where
  "find_transition e st ti [] i w = ((None, i), w)"
| "find_transition e st ti (td # tds) i w =
     (case should_fire e td st ti i w of
        ((b, i), w) \<Rightarrow> if b then ((Some td, i), w) else find_transition e st (Suc ti) tds i w)"

definition transition_trigger_of :: "transition_definition \<Rightarrow> transition_trigger" where
  "transition_trigger_of td = (if td_after td \<noteq> None then TTimer else TCondition)"

definition save_instance :: "'s storage_ops \<Rightarrow> fsm_instance \<Rightarrow> 's world \<Rightarrow> 's world" where
  "save_instance ops i w = snd (blocking (\<lambda>s. so_update_fsm_instance ops s i) w)"

definition evaluate_instance ::
  "'s storage_ops \<Rightarrow> env \<Rightarrow> fsm_instance \<Rightarrow> fsm_definition \<Rightarrow> 's world \<Rightarrow> 's world" where
  "evaluate_instance ops e i d w =
     (case map_of (fd_states d) (fi_current_state i) of
        None \<Rightarrow> w
      | Some sd \<Rightarrow>
          if sd_terminal sd then
            (if is_running i
             then (let (now, w) = clock e w
                   in save_instance ops (i\<lparr> fi_status := Completed, fi_updated_at := now \<rparr>) w)
             else w)
          else
            (case find_transition e (fi_current_state i) 0 (sd_transitions sd) i w of
               ((Some td, i), w) \<Rightarrow>
                 (let (i, w) = fire_transition ops e i (td_to td) (transition_trigger_of td) d w
                  in save_instance ops i w)
             | ((None, i), w) \<Rightarrow> save_instance ops i w))"

fun evaluate_instances ::
  "'s storage_ops \<Rightarrow> env \<Rightarrow> fsm_instance list \<Rightarrow> 's world \<Rightarrow> 's world" where
  "evaluate_instances ops e [] w = w"
| "evaluate_instances ops e (i # rest) w =
     evaluate_instances ops e rest
       (case blocking_read (\<lambda>s. so_get_fsm_definition ops s (fi_definition_name i)) w of
          Inr (Some d) \<Rightarrow> evaluate_instance ops e i d w
        | Inr None \<Rightarrow> save_instance ops (i\<lparr> fi_status := Failed \<rparr>) w
        | Inl _ \<Rightarrow> w)"

definition evaluate_all :: "'s storage_ops \<Rightarrow> env \<Rightarrow> 's world \<Rightarrow> 's world" where
  "evaluate_all ops e w =
     (case blocking_read (\<lambda>s. so_list_fsm_instances ops s None (Some Running)) w of
        Inl _ \<Rightarrow> w
      | Inr instances \<Rightarrow> evaluate_instances ops e instances w)"

subsection \<open>Operations on instances\<close>

text \<open>\<open>map_err(|e| Internal(e.to_string()))\<close> on the status a storage call fails with.\<close>

definition internal :: "env \<Rightarrow> status + 'a \<Rightarrow> 'a outcome" where
  "internal e = map_err (\<lambda>st. Internal (e_show_status e st))"

definition load_definition :: "'s storage_ops \<Rightarrow> env \<Rightarrow> string \<Rightarrow> 's world \<Rightarrow> fsm_definition outcome" where
  "load_definition ops e name w =
     res_bind (internal e (blocking_read (\<lambda>s. so_get_fsm_definition ops s name) w))
       (\<lambda>d. ok_or (Fsm (DefinitionNotFound name)) d)"

definition load_instance :: "'s storage_ops \<Rightarrow> env \<Rightarrow> string \<Rightarrow> 's world \<Rightarrow> fsm_instance outcome" where
  "load_instance ops e iid w =
     res_bind (internal e (blocking_read (\<lambda>s. so_get_fsm_instance ops s iid) w))
       (\<lambda>i. ok_or (Fsm (InstanceNotFound iid)) i)"

text \<open>The common end of both ways to start: build the instance, run the initial action, store.\<close>

definition launch ::
  "'s storage_ops \<Rightarrow> env \<Rightarrow> string \<Rightarrow> fsm_definition \<Rightarrow> fsm_context \<Rightarrow> 's world \<Rightarrow>
     fsm_instance outcome \<times> 's world" where
  "launch ops e def_name d cx w =
     (let (now, w) = clock e w;
          (uuid, w) = new_uuid e w;
          i = instance_new uuid now def_name (fd_initial d) cx;
          (i, w) = (case map_of (fd_states d) (fd_initial d) of
                      Some sd \<Rightarrow> run_state_action ops e sd i w
                    | None \<Rightarrow> (i, w))
      in case blocking (\<lambda>s. so_store_fsm_instance ops s i) w of
           (r, w) \<Rightarrow> (res_bind (internal e r) (\<lambda>_. Inr i), w))"

definition start_instance ::
  "'s storage_ops \<Rightarrow> env \<Rightarrow> string \<Rightarrow> string \<Rightarrow> fsm_compile_options option \<Rightarrow> 's world \<Rightarrow>
     fsm_instance outcome \<times> 's world" where
  "start_instance ops e def_name rules_yaml compile_options w =
     (case load_definition ops e def_name w of
        Inl err \<Rightarrow> (Inl err, w)
      | Inr d \<Rightarrow> launch ops e def_name d (context_for_deployment rules_yaml compile_options) w)"

definition start_adaptive_instance ::
  "'s storage_ops \<Rightarrow> env \<Rightarrow> string \<Rightarrow> string option \<Rightarrow> fsm_compile_options option \<Rightarrow>
     (string, string) hmap \<Rightarrow> 's world \<Rightarrow> fsm_instance outcome \<times> 's world" where
  "start_adaptive_instance ops e def_name rules_yaml compile_options label_filter w =
     (case load_definition ops e def_name w of
        Inl err \<Rightarrow> (Inl err, w)
      | Inr d \<Rightarrow>
          (case internal e (blocking_read (\<lambda>s. so_list_nodes ops s label_filter) w) of
             Inl err \<Rightarrow> (Inl err, w)
           | Inr nodes \<Rightarrow>
               if nodes = [] then (Inl (Internal ''No nodes match the target label filter''), w)
               else launch ops e def_name d
                      ((context_for_adaptive_policy (map n_node_id nodes))
                         \<lparr> cx_rules_yaml := rules_yaml, cx_compile_options := compile_options \<rparr>) w))"

definition is_manual :: "transition_definition \<Rightarrow> bool" where
  "is_manual td =
     (case td_when td of
        Some (Simple s) \<Rightarrow> sc_manual s = Some True
      | _ \<Rightarrow> False)"

definition advance_target ::
  "fsm_instance \<Rightarrow> state_definition \<Rightarrow> string option \<Rightarrow> string outcome" where
  "advance_target i sd target_state =
     (case target_state of
        Some target \<Rightarrow>
          if \<not> list_ex (\<lambda>t. td_to t = target) (sd_transitions sd)
          then Inl (Fsm (NoTransition (''no transition from '' @ quoted (fi_current_state i) @
                 '' to '' @ quoted target)))
          else Inr target
      | None \<Rightarrow>
          (case List.find is_manual (sd_transitions sd) of
             Some t \<Rightarrow> Inr (td_to t)
           | None \<Rightarrow>
               (case sd_transitions sd of
                  t # _ \<Rightarrow> Inr (td_to t)
                | [] \<Rightarrow> Inl (Fsm (NoTransition (fi_current_state i))))))"

definition advance_instance ::
  "'s storage_ops \<Rightarrow> env \<Rightarrow> string \<Rightarrow> string option \<Rightarrow> 's world \<Rightarrow> fsm_instance outcome \<times> 's world" where
  "advance_instance ops e iid target_state w =
     (case load_instance ops e iid w of
        Inl err \<Rightarrow> (Inl err, w)
      | Inr i \<Rightarrow>
          if \<not> is_running i then (Inl (Fsm AlreadyCompleted), w)
          else
            (case res_bind (load_definition ops e (fi_definition_name i) w) (\<lambda>d.
                    res_bind (ok_or (Fsm (InvalidState (fi_current_state i)))
                                (map_of (fd_states d) (fi_current_state i)))
                      (\<lambda>sd. res_bind (advance_target i sd target_state) (\<lambda>to. Inr (d, to)))) of
               Inl err \<Rightarrow> (Inl err, w)
             | Inr (d, to_state) \<Rightarrow>
                 (let (i, w) = fire_transition ops e i to_state TManual d w
                  in case blocking (\<lambda>s. so_update_fsm_instance ops s i) w of
                       (r, w) \<Rightarrow> (res_bind (internal e r) (\<lambda>_. Inr i), w))))"

definition cancel_instance ::
  "'s storage_ops \<Rightarrow> env \<Rightarrow> string \<Rightarrow> string \<Rightarrow> 's world \<Rightarrow> unit outcome \<times> 's world" where
  "cancel_instance ops e iid reason w =
     (case load_instance ops e iid w of
        Inl err \<Rightarrow> (Inl err, w)
      | Inr i \<Rightarrow>
          if \<not> is_running i then (Inl (Fsm AlreadyCompleted), w)
          else
            (let (t1, w) = clock e w;
                 (t2, w) = clock e w;
                 i = i\<lparr> fi_status := Cancelled, fi_updated_at := t1,
                        fi_history := fi_history i @
                          [\<lparr> tr_from_state = fi_current_state i, tr_to_state = [],
                             tr_trigger = TManual, tr_timestamp = t2,
                             tr_message = ''Cancelled: '' @ reason \<rparr>] \<rparr>
             in case blocking (\<lambda>s. so_update_fsm_instance ops s i) w of
                  (r, w) \<Rightarrow>
                    (case internal e r of
                       Inl err \<Rightarrow> (Inl err, w)
                     | Inr _ \<Rightarrow>
                         (Inr (), emit_now e (\<lambda>t. FsmEv (InstanceCompleted (fi_instance_id i)
                            (fi_definition_name i) ''cancelled'' t)) w))))"

end
