(* ===== verification/Fsm_Run.thy ===== *)
theory Fsm_Run
  imports Fsm_Engine
begin

text \<open>
  What the FSM engine does to the instances it runs.  The first part states the frames: an action
  changes nothing of an instance but its context, and nothing in the store but the data of nodes.
  The second part is the step relation of the engine, one rule per operation of the API and one for
  the background evaluation, with the invariant of the stored instances, proved by rule induction over any backend
  that satisfies the contract of \<open>storage\<close>.  An operation is one step there; how the operations overlap is in
  \<^verbatim>\<open>Engine_Overlap.thy\<close>.
\<close>

subsection \<open>Batches\<close>

lemma batch_size_exact:
  assumes "0 < n" and "n < 2 ^ 53" and "n * unat pct < 100 * 2 ^ 45"
  shows "batch_size n pct = min (max ((n * unat pct + 99) div 100) 1) n"
  using f64_percentage_ceil [OF assms(2,3)] by (simp add: batch_size_def)

lemma batch_size_bounds: "0 < n \<Longrightarrow> 1 \<le> batch_size n pct \<and> batch_size n pct \<le> n"
  by (simp add: batch_size_def)

subsection \<open>The context is all an action changes of an instance\<close>

definition same_run :: "fsm_instance \<Rightarrow> fsm_instance \<Rightarrow> bool" where
  "same_run i i' \<longleftrightarrow> (\<exists>f. i' = with_context f i)"

lemma with_context_simps [simp]:
  "fi_instance_id (with_context f i) = fi_instance_id i"
  "fi_definition_name (with_context f i) = fi_definition_name i"
  "fi_current_state (with_context f i) = fi_current_state i"
  "fi_status (with_context f i) = fi_status i"
  "fi_history (with_context f i) = fi_history i"
  "fi_updated_at (with_context f i) = fi_updated_at i"
  "fi_context (with_context f i) = f (fi_context i)"
  "with_context f (with_context g i) = with_context (\<lambda>c. f (g c)) i"
  by (simp_all add: with_context_def)

lemma same_run_refl [simp, intro]: "same_run i i"
  by (auto simp: same_run_def with_context_def intro!: exI [of _ "\<lambda>c. c"])

lemma same_run_with_context [simp, intro]: "same_run i (with_context f i)"
  by (auto simp: same_run_def)

lemma same_run_trans: "same_run i i' \<Longrightarrow> same_run i' i'' \<Longrightarrow> same_run i i''"
  by (auto simp: same_run_def)

lemma same_run_simps:
  assumes "same_run i i'"
  shows "fi_instance_id i' = fi_instance_id i" "fi_definition_name i' = fi_definition_name i"
    "fi_current_state i' = fi_current_state i" "fi_status i' = fi_status i"
    "fi_history i' = fi_history i"
  using assms by (auto simp: same_run_def)

lemma same_run_only_first_true: "only_first_true key i i' \<Longrightarrow> same_run i i'"
proof -
  assume "only_first_true key i i'"
  then obtain m where "i' = set_first_true m i" by (auto simp: only_first_true_def)
  then have "i' = with_context (cx_first_true_update (\<lambda>_. m)) i"
    by (simp add: set_first_true_def with_context_def)
  then show ?thesis by simp
qed

lemma same_run_deploy_selected: "same_run i (fst (deploy_selected ops e r sel i w))"
  by (simp add: deploy_selected_def Let_def case_prod_unfold)

lemma same_run_execute_deploy: "same_run i (fst (execute_deploy ops e da i w))"
  using same_run_trans [OF same_run_with_context same_run_deploy_selected]
  by (auto simp: execute_deploy_def Let_def same_run_deploy_selected
      split: option.split sum.split)

lemma same_run_execute_rollback: "same_run i (fst (execute_rollback ops e ra i w))"
  by (simp add: execute_rollback_def Let_def case_prod_unfold)

lemma same_run_execute_action: "same_run i (fst (execute_action ops e a i w))"
  by (simp add: execute_action_def same_run_execute_deploy same_run_execute_rollback
      split: option.split)

lemma same_run_state_action: "same_run i (fst (run_state_action ops e sd i w))"
  by (simp add: run_state_action_def same_run_execute_action split: option.split)

subsection \<open>UUIDs are used up in order\<close>

lemma w_uuids_simps [simp, world_simps]:
  "w_uuids (snd (clock e w)) = w_uuids w"
  "w_uuids (snd (new_uuid e w)) = Suc (w_uuids w)"
  "w_uuids (emit e ev w) = w_uuids w"
  "w_uuids (emit_now e f w) = w_uuids w"
  "w_uuids (spawn t w) = w_uuids w"
  "w_uuids (snd (call_agent e q w)) = w_uuids w"
  "w_uuids (snd (blocking g w)) = w_uuids w"
  "w_uuids (set_node_state ops nid st w) = w_uuids w"
  "w_uuids (record_deployment ops d w) = w_uuids w"
  "w_uuids (save_instance ops i w) = w_uuids w"
  by (simp_all add: clock_def new_uuid_def emit_def emit_now_def spawn_def call_agent_def
      blocking_def set_node_state_def record_deployment_def save_instance_def case_prod_unfold Let_def)

text \<open>The clock only advances and identifiers are only used up.\<close>

definition later :: "'s world \<Rightarrow> 's world \<Rightarrow> bool" where
  "later w w' \<longleftrightarrow> w_ticks w \<le> w_ticks w' \<and> w_uuids w \<le> w_uuids w'"

lemma later_refl [simp, intro]: "later w w"
  by (simp add: later_def)

lemma later_trans: "later w w' \<Longrightarrow> later w' w'' \<Longrightarrow> later w w''"
  by (auto simp: later_def)

lemma later_uuids: "later w w' \<Longrightarrow> w_uuids w \<le> w_uuids w'"
  by (simp add: later_def)

lemma later_simps [simp]:
  "later w (snd (clock e w'))  \<longleftrightarrow> w_ticks w \<le> Suc (w_ticks w') \<and> w_uuids w \<le> w_uuids w'"
  "later w (emit e ev w') = later w w'" "later w (spawn t w') = later w w'"
  "later w (snd (blocking g w')) = later w w'" "later w (w'\<lparr> w_store := s \<rparr>) = later w w'"
  "later w (save_instance ops i w') = later w w'"
  "later (snd (blocking g w)) w' = later w w'"
  by (simp_all add: later_def clock_def emit_def spawn_def blocking_def save_instance_def case_prod_unfold)

lemma later_emit_now: "later w w' \<Longrightarrow> later w (emit_now e f w')"
  by (simp add: later_def emit_now_def clock_def emit_def Let_def)

lemma ticks_kept:
  "w_ticks (set_node_state ops nid st w) = w_ticks w"
  "w_ticks (record_deployment ops d w) = w_ticks w"
  by (simp_all add: set_node_state_def record_deployment_def blocking_def case_prod_unfold)

lemma later_deploy_to_node: "later w (snd (deploy_to_node ops e n r opts w))"
  by (auto simp: later_def ticks_kept deploy_to_node_def deploy_unchanged_def deploy_changed_def forward_and_settle_eq
      blocking_def new_uuid_def clock_def Let_def case_prod_unfold split: sum.split)

lemma later_deploy_loop: "later w (snd (deploy_loop ops e r opts ns rs a b w))"
proof (induction ns arbitrary: rs a b w)
  case (Cons n ns)
  let ?w1 = "snd (blocking (\<lambda>s. so_begin_deploy ops s (n_node_id n)) w)"
  let ?w2 = "snd (deploy_to_node ops e n r opts ?w1)"
  have "later w ?w2" using later_deploy_to_node [of ?w1] by simp
  then show ?case
    using Cons.IH [of ?w1] later_trans [OF _ Cons.IH [of "?w2\<lparr> w_store := so_end_deploy ops (w_store ?w2) (n_node_id n) \<rparr>"]]
    by (auto simp: Let_def case_prod_unfold split: sum.split prod.split)
qed simp

lemma later_rollback_loop: "later w (snd (rollback_loop ops e nids rs a b w))"
proof (induction nids arbitrary: rs a b w)
  case (Cons nid nids)
  have "later w (snd (rollback_node ops e nid w))"
    using later_deploy_to_node
    by (auto simp: rollback_node_def Let_def case_prod_unfold split: sum.split option.split)
  with Cons.IH show ?case by (auto simp: Let_def case_prod_unfold intro: later_trans)
qed simp

lemma later_deploy_selected: "later w (snd (deploy_selected ops e r sel i w))"
  by (simp add: deploy_selected_def deploy_to_nodes_def Let_def case_prod_unfold)
    (rule later_emit_now, rule later_deploy_loop)

lemma later_execute_action: "later w (snd (execute_action ops e a i w))"
  by (simp add: later_deploy_selected later_rollback_loop execute_action_def execute_deploy_def execute_rollback_def execute_alert_def
      Let_def case_prod_unfold split: option.split sum.split)

lemma later_state_action: "later w (snd (run_state_action ops e sd i w))"
  by (simp add: run_state_action_def later_execute_action split: option.split)

subsection \<open>The store during an action\<close>

context storage
begin

definition keeps :: "'s world \<Rightarrow> 's world \<Rightarrow> bool" where
  "keeps w w' \<longleftrightarrow> (inv (w_store w) \<longrightarrow>
     inv (w_store w') \<and> deploy_frame UNIV (abs (w_store w)) (abs (w_store w')))"

lemma keeps_refl [simp, intro]: "w_store w' = w_store w \<Longrightarrow> keeps w w'"
  by (simp add: keeps_def)

lemma keeps_trans: "keeps w w' \<Longrightarrow> keeps w' w'' \<Longrightarrow> keeps w w''"
  using deploy_frame_trans by (auto simp: keeps_def)

lemma keeps_store: "w_store w' = w_store w'' \<Longrightarrow> keeps w w' = keeps w w''"
  by (simp add: keeps_def)

lemma keeps_deploy_to_node: "keeps w (snd (deploy_to_node ops e n r opts w))"
  using kept_deploy_to_node [of n w e r opts] by (auto simp: keeps_def kept_def intro: deploy_frame_mono)

lemma keeps_deploy_loop: "keeps w (snd (deploy_loop ops e r opts ns rs a b w))"
  using deploy_loop_kept [of w e r opts ns rs a b "fst (deploy_loop ops e r opts ns rs a b w)"
      "snd (deploy_loop ops e r opts ns rs a b w)"]
  by (auto simp: keeps_def intro: deploy_frame_mono)

lemma keeps_rollback_loop: "keeps w (snd (rollback_loop ops e nids rs a b w))"
proof (induction nids arbitrary: rs a b w)
  case (Cons nid nids)
  have "keeps w (snd (rollback_node ops e nid w))"
    using keeps_deploy_to_node
    by (auto simp: rollback_node_def Let_def case_prod_unfold split: sum.split option.split)
  with Cons.IH show ?case by (auto simp: Let_def case_prod_unfold intro: keeps_trans)
qed simp

lemma keeps_deploy_selected: "keeps w (snd (deploy_selected ops e r sel i w))"
  using keeps_deploy_loop
  by (simp add: deploy_selected_def deploy_to_nodes_def Let_def case_prod_unfold
      keeps_store [of "emit_now e f w'" w' for e f w'])

lemma keeps_execute_action: "keeps w (snd (execute_action ops e a i w))"
  by (simp add: keeps_deploy_selected keeps_rollback_loop execute_action_def execute_deploy_def execute_rollback_def execute_alert_def
      Let_def case_prod_unfold split: option.split sum.split)

lemma keeps_state_action: "keeps w (snd (run_state_action ops e sd i w))"
  by (simp add: run_state_action_def keeps_execute_action split: option.split)

end

subsection \<open>Firing a transition\<close>

definition terminal_state :: "fsm_definition \<Rightarrow> string \<Rightarrow> bool" where
  "terminal_state d st \<longleftrightarrow> (\<exists>sd. map_of (fd_states d) st = Some sd \<and> sd_terminal sd)"

definition edge :: "fsm_definition \<Rightarrow> string \<Rightarrow> string \<Rightarrow> bool" where
  "edge d a b \<longleftrightarrow> (\<exists>sd td. map_of (fd_states d) a = Some sd \<and> td \<in> set (sd_transitions sd) \<and> td_to td = b)"

text \<open>\<open>i'\<close> is \<open>i\<close> moved along one transition, its context aside.\<close>

definition moved :: "fsm_definition \<Rightarrow> string \<Rightarrow> transition_trigger \<Rightarrow> fsm_instance \<Rightarrow> fsm_instance \<Rightarrow> bool" where
  "moved d to_state trigger i i' \<longleftrightarrow>
     fi_instance_id i' = fi_instance_id i \<and> fi_definition_name i' = fi_definition_name i \<and>
     fi_current_state i' = to_state \<and>
     fi_status i' = (if terminal_state d to_state then Completed else fi_status i) \<and>
     (\<exists>r. fi_history i' = fi_history i @ [r] \<and> tr_from_state r = fi_current_state i \<and>
          tr_to_state r = to_state \<and> tr_trigger r = trigger)"

lemma forget_state_simps [simp]:
  "fi_instance_id (forget_state st i) = fi_instance_id i"
  "fi_definition_name (forget_state st i) = fi_definition_name i"
  "fi_current_state (forget_state st i) = fi_current_state i"
  "fi_status (forget_state st i) = fi_status i"
  "fi_history (forget_state st i) = fi_history i"
  by (simp_all add: forget_state_def)

lemma fire_transition_moved:
  "moved d to_state trigger i (fst (fire_transition ops e i to_state trigger d w))"
proof -
  let ?i1 = "instance_transition (e_now e (w_ticks w)) (forget_state (fi_current_state i) i) to_state trigger
      (transition_message (fi_current_state i) to_state trigger)"
  have m: "fi_instance_id ?i1 = fi_instance_id i" "fi_definition_name ?i1 = fi_definition_name i"
    "fi_status ?i1 = fi_status i" "fi_current_state ?i1 = to_state"
    "\<exists>r. fi_history ?i1 = fi_history i @ [r] \<and> tr_from_state r = fi_current_state i \<and>
       tr_to_state r = to_state \<and> tr_trigger r = trigger"
    by (simp_all) (simp add: instance_transition_def)
  note run = same_run_simps [OF same_run_state_action [of ?i1]]
  show ?thesis
    by (simp add: fire_transition_def moved_def terminal_state_def Let_def case_prod_unfold clock_def
        m run split: option.split)
qed

lemma later_fire_transition: "later w (snd (fire_transition ops e i t trig d w))"
proof -
  have "later w (snd (run_state_action ops e sd j (emit_now e f (snd (clock e w)))))" for sd j f
    by (rule later_trans [OF later_emit_now later_state_action]) simp
  then show ?thesis
    by (auto simp: fire_transition_def Let_def case_prod_unfold intro: later_emit_now split: option.split)
qed

lemma should_fire_frame:
  "should_fire e td st ti i w = ((b, i'), w') \<Longrightarrow> same_run i i' \<and> only_ticks w w'"
  by (auto simp: should_fire_def timer_due_def case_prod_unfold Let_def
      split: option.splits sum.splits
      dest: same_run_only_first_true [OF evaluate_frame(1) [THEN conjunct1]] evaluate_frame(1) [THEN conjunct2])

lemma find_transition_frame:
  "find_transition e st ti tds i w = ((x, i'), w') \<Longrightarrow> same_run i i' \<and> only_ticks w w' \<and>
     (\<forall>td. x = Some td \<longrightarrow> td \<in> set tds)"
proof (induction tds arbitrary: ti i w)
  case (Cons td tds)
  obtain b i1 w1 where s: "should_fire e td st ti i w = ((b, i1), w1)" by (metis surj_pair)
  note f = should_fire_frame [OF s]
  show ?case
    using Cons f s by (cases b) (auto intro: same_run_trans only_ticks_trans)
qed auto

context storage
begin

lemma keeps_only_ticks: "only_ticks w w' \<Longrightarrow> keeps w w'"
  by (auto simp: only_ticks_def)

lemma keeps_fire_transition: "keeps w (snd (fire_transition ops e i t trig d w))"
  by (simp add: keeps_trans [OF keeps_refl keeps_state_action] fire_transition_def Let_def case_prod_unfold
      keeps_store [of "emit_now e f w'" w' for e f w'] split: option.split)

end

subsection \<open>The invariant of an instance\<close>

text \<open>The records of the run itself: a cancelled instance has one more record, which is no move.\<close>

definition run_history :: "fsm_instance \<Rightarrow> transition_record list" where
  "run_history i = (if fi_status i = Cancelled then butlast (fi_history i) else fi_history i)"

text \<open>The run starts in the initial state, follows edges of the definition, ends in the current
  state, which is a state of the definition; it completes only in a terminal state.\<close>

definition instance_inv :: "fsm_definition \<Rightarrow> fsm_instance \<Rightarrow> bool" where
  "instance_inv d i \<longleftrightarrow>
     run_history i \<noteq> [] \<and> tr_trigger (hd (run_history i)) = TInitial \<and>
     tr_to_state (hd (run_history i)) = fd_initial d \<and>
     chained (run_history i) \<and> tr_to_state (last (run_history i)) = fi_current_state i \<and>
     (\<forall>r \<in> set (tl (run_history i)). edge d (tr_from_state r) (tr_to_state r)) \<and>
     map_of (fd_states d) (fi_current_state i) \<noteq> None \<and>
     (fi_status i = Completed \<longrightarrow> terminal_state d (fi_current_state i)) \<and>
     fi_status i \<noteq> Failed"

lemma instance_inv_cong:
  "same_run i i' \<Longrightarrow> instance_inv d i' = instance_inv d i"
  using same_run_simps [of i i'] by (simp add: instance_inv_def run_history_def)

lemma instance_inv_new:
  "map_of (fd_states d) (fd_initial d) \<noteq> None \<Longrightarrow> instance_inv d (instance_new u now nm (fd_initial d) cx)"
  by (simp add: instance_inv_def run_history_def instance_new_def)

lemma instance_inv_moved:
  assumes "instance_inv d i" and "is_running i" and "moved d to_state trigger i i'"
    and "edge d (fi_current_state i) to_state" and "map_of (fd_states d) to_state \<noteq> None"
  shows "instance_inv d i'"
proof -
  obtain r where r: "fi_history i' = fi_history i @ [r]" "tr_from_state r = fi_current_state i"
    "tr_to_state r = to_state" using assms(3) by (auto simp: moved_def)
  have st: "fi_status i' = Running \<or> fi_status i' = Completed \<and> terminal_state d to_state"
    using assms(2,3) by (auto simp: moved_def is_running_def)
  have h: "run_history i = fi_history i" "run_history i' = fi_history i @ [r]"
    using st r assms(2) by (auto simp: run_history_def is_running_def)
  show ?thesis
    using assms r st unfolding instance_inv_def h
    by (auto simp: chained_snoc moved_def)
qed

lemma instance_inv_completed:
  "instance_inv d i \<Longrightarrow> is_running i \<Longrightarrow> terminal_state d (fi_current_state i) \<Longrightarrow>
     instance_inv d (i\<lparr> fi_status := Completed, fi_updated_at := t \<rparr>)"
  by (simp add: instance_inv_def run_history_def is_running_def)

lemma instance_inv_cancelled:
  "instance_inv d i \<Longrightarrow> is_running i \<Longrightarrow>
     instance_inv d (i\<lparr> fi_status := Cancelled, fi_updated_at := t, fi_history := fi_history i @ [r] \<rparr>)"
  by (simp add: instance_inv_def run_history_def is_running_def)

lemma fsm_wf_edge:
  assumes "fsm_wf d" and "edge d a b"
  shows "map_of (fd_states d) b \<noteq> None"
proof -
  obtain sd td where sd: "map_of (fd_states d) a = Some sd" and td: "td \<in> set (sd_transitions sd)" "td_to td = b"
    using assms(2) by (auto simp: edge_def)
  have "sd \<in> set (hm_values (fd_states d))"
    using map_of_SomeD [OF sd] by (force simp: hm_values_def)
  then have "transition_wf d td" using assms(1) td(1) by (simp add: fsm_wf_def)
  then show ?thesis using td(2) by (simp add: transition_wf_def hm_keys_iff)
qed

lemma fsm_wf_initial_state: "fsm_wf d \<Longrightarrow> map_of (fd_states d) (fd_initial d) \<noteq> None"
  by (simp add: fsm_wf_def hm_keys_iff)

subsection \<open>The engine as a step relation\<close>

text \<open>
  One call of an operation of the API, one background evaluation, a change of the counter cache,
  or a change of the store by the other handlers, which never touch instances and may add
  well-formed definitions under new names.
\<close>

inductive engine_step ::
  "'s storage_ops \<Rightarrow> ('s \<Rightarrow> astore) \<Rightarrow> ('s \<Rightarrow> bool) \<Rightarrow> env \<Rightarrow> 's world \<Rightarrow> 's world \<Rightarrow> bool"
  for ops abst invt e where
  evaluate: "engine_step ops abst invt e w (evaluate_all ops e w)"
| start: "engine_step ops abst invt e w (snd (start_instance ops e nm rules opts w))"
| start_adaptive: "engine_step ops abst invt e w (snd (start_adaptive_instance ops e nm rules' opts lf w))"
| advance: "engine_step ops abst invt e w (snd (advance_instance ops e iid target w))"
| cancel: "engine_step ops abst invt e w (snd (cancel_instance ops e iid reason w))"
| counters: "engine_step ops abst invt e w (w\<lparr> w_cache := c \<rparr>)"
| other: "(invt (w_store w) \<longrightarrow> invt s' \<and> as_instances (abst s') = as_instances (abst (w_store w)) \<and>
      (\<forall>nm d. as_definitions (abst (w_store w)) nm = Some d \<longrightarrow> as_definitions (abst s') nm = Some d) \<and>
      (\<forall>nm d. as_definitions (abst s') nm = Some d \<longrightarrow>
         as_definitions (abst (w_store w)) nm = Some d \<or> fsm_wf d)) \<Longrightarrow>
    engine_step ops abst invt e w (w\<lparr> w_store := s' \<rparr>)"

definition engine_inv :: "('s \<Rightarrow> astore) \<Rightarrow> ('s \<Rightarrow> bool) \<Rightarrow> env \<Rightarrow> 's world \<Rightarrow> bool" where
  "engine_inv abst invt e w \<longleftrightarrow>
     invt (w_store w) \<and>
     (\<forall>nm d. as_definitions (abst (w_store w)) nm = Some d \<longrightarrow> fsm_wf d) \<and>
     (\<forall>iid i. as_instances (abst (w_store w)) iid = Some i \<longrightarrow>
        (\<exists>k < w_uuids w. iid = e_uuid e k) \<and>
        (\<exists>d. as_definitions (abst (w_store w)) (fi_definition_name i) = Some d \<and> instance_inv d i))"

lemma engine_inv_instance:
  "engine_inv abst invt e w \<Longrightarrow> as_instances (abst (w_store w)) iid = Some i \<Longrightarrow>
     \<exists>d. as_definitions (abst (w_store w)) (fi_definition_name i) = Some d \<and> instance_inv d i \<and> fsm_wf d"
  unfolding engine_inv_def by blast

text \<open>What a step does to the instances: none of them goes, one that is not running stays as it is.\<close>

definition frozen :: "astore \<Rightarrow> astore \<Rightarrow> bool" where
  "frozen a b \<longleftrightarrow>
     (\<forall>iid i. as_instances a iid = Some i \<longrightarrow>
        (\<exists>i'. as_instances b iid = Some i' \<and> (\<not> is_running i \<longrightarrow> i' = i)))"

lemma frozen_refl [simp, intro]: "frozen a a"
  by (simp add: frozen_def)

lemma frozen_trans: "frozen a b \<Longrightarrow> frozen b c \<Longrightarrow> frozen a c"
  unfolding frozen_def by metis

lemma frozen_deploy_frame: "deploy_frame X a b \<Longrightarrow> frozen a b"
  by (simp add: frozen_def deploy_frame_def)

context storage
begin

lemma engine_inv_keeps:
  assumes "engine_inv abs inv e w" and "keeps w w'" and "w_uuids w \<le> w_uuids w'"
  shows "engine_inv abs inv e w'" and "as_instances (abs (w_store w')) = as_instances (abs (w_store w))"
    and "as_definitions (abs (w_store w')) = as_definitions (abs (w_store w))"
proof -
  have f: "inv (w_store w')" "deploy_frame UNIV (abs (w_store w)) (abs (w_store w'))"
    using assms(1,2) by (auto simp: keeps_def engine_inv_def)
  show i: "as_instances (abs (w_store w')) = as_instances (abs (w_store w))"
    and d: "as_definitions (abs (w_store w')) = as_definitions (abs (w_store w))"
    using f(2) by (simp_all add: deploy_frame_def)
  show "engine_inv abs inv e w'"
    using assms(1,3) f(1) order.strict_trans2 unfolding engine_inv_def i d by blast
qed

lemma engine_inv_save:
  assumes "engine_inv abs inv e w" and "as_instances (abs (w_store w)) (fi_instance_id i) = Some i0"
    and "is_running i0"
    and "as_definitions (abs (w_store w)) (fi_definition_name i) = Some d" and "instance_inv d i"
  defines "w' \<equiv> snd (blocking (\<lambda>s. so_update_fsm_instance ops s i) w)"
  shows "fst (blocking (\<lambda>s. so_update_fsm_instance ops s i) w) = Inr ()"
    and "engine_inv abs inv e w'" and "frozen (abs (w_store w)) (abs (w_store w'))"
    and "as_instances (abs (w_store w')) = (as_instances (abs (w_store w)))(fi_instance_id i \<mapsto> i)"
    and "as_definitions (abs (w_store w')) = as_definitions (abs (w_store w))"
proof -
  obtain r s' where u: "so_update_fsm_instance ops (w_store w) i = (r, s')" by (metis surj_pair)
  have "inv (w_store w)" using assms(1) by (simp add: engine_inv_def)
  from update_fsm_instance [OF this u] assms(2)
  have r: "r = Inr ()" and s': "inv s'" "abs s' = (abs (w_store w))
      \<lparr> as_instances := (as_instances (abs (w_store w)))(fi_instance_id i \<mapsto> i) \<rparr>"
    by (auto simp: a_update_fsm_instance_def)
  have w': "w' = w\<lparr> w_store := s' \<rparr>" by (simp add: w'_def blocking_def u)
  show "fst (blocking (\<lambda>s. so_update_fsm_instance ops s i) w) = Inr ()"
    by (simp add: blocking_def u r)
  show "engine_inv abs inv e w'"
    using assms(1,2,4,5) s' unfolding engine_inv_def w' by auto
  show "frozen (abs (w_store w)) (abs (w_store w'))"
    using assms(2,3) s' unfolding frozen_def w' by auto
  show "as_instances (abs (w_store w')) = (as_instances (abs (w_store w)))(fi_instance_id i \<mapsto> i)"
    and "as_definitions (abs (w_store w')) = as_definitions (abs (w_store w))"
    by (simp_all add: w' s')
qed

text \<open>Fire a transition of a stored running instance and store the result.\<close>

lemma engine_inv_fire:
  assumes "engine_inv abs inv e w" and "as_instances (abs (w_store w)) (fi_instance_id i) = Some i0"
    and "is_running i0" and "same_run i0 i"
    and "as_definitions (abs (w_store w)) (fi_definition_name i) = Some d"
    and "edge d (fi_current_state i) to_state"
    and fire: "fire_transition ops e i to_state trigger d w = (i', w1)"
  defines "w' \<equiv> snd (blocking (\<lambda>s. so_update_fsm_instance ops s i') w1)"
  shows "fst (blocking (\<lambda>s. so_update_fsm_instance ops s i') w1) = Inr ()"
    and "engine_inv abs inv e w'" and "frozen (abs (w_store w)) (abs (w_store w'))"
    and "as_instances (abs (w_store w')) = (as_instances (abs (w_store w)))(fi_instance_id i \<mapsto> i')"
    and "as_definitions (abs (w_store w')) = as_definitions (abs (w_store w))"
    and "moved d to_state trigger i i'"
proof -
  show m: "moved d to_state trigger i i'"
    using fire_transition_moved [of d to_state trigger i ops e w] fire by simp
  have k: "keeps w w1" "w_uuids w \<le> w_uuids w1"
    using keeps_fire_transition [of w e i to_state trigger d]
      later_uuids [OF later_fire_transition [of w ops e i to_state trigger d]] fire by simp_all
  note w1 = engine_inv_keeps [OF assms(1) k]
  have wf: "fsm_wf d" using assms(1,5) by (auto simp: engine_inv_def)
  have run: "is_running i" using same_run_simps(4) [OF assms(4)] assms(3) by (simp add: is_running_def)
  have i0: "fi_definition_name i = fi_definition_name i0" using same_run_simps(2) [OF assms(4)] .
  have "instance_inv d i0" using assms(1,2,5) unfolding engine_inv_def i0 by (metis option.inject)
  then have "instance_inv d i" using instance_inv_cong [OF assms(4)] by simp
  from instance_inv_moved [OF this run m assms(6) fsm_wf_edge [OF wf assms(6)]]
  have inv': "instance_inv d i'" .
  have id': "fi_instance_id i' = fi_instance_id i" "fi_definition_name i' = fi_definition_name i"
    using m by (auto simp: moved_def)
  note save = engine_inv_save [OF w1(1) _ assms(3) _ inv', unfolded id' w1(2,3), OF assms(2,5)]
  show "fst (blocking (\<lambda>s. so_update_fsm_instance ops s i') w1) = Inr ()" by (rule save(1))
  show "engine_inv abs inv e w'" unfolding w'_def by (rule save(2))
  show "frozen (abs (w_store w)) (abs (w_store w'))"
    using save(3) w1(2) unfolding w'_def by (simp add: frozen_def)
  show "as_instances (abs (w_store w')) = (as_instances (abs (w_store w)))(fi_instance_id i \<mapsto> i')"
    unfolding w'_def by (rule save(4))
  show "as_definitions (abs (w_store w')) = as_definitions (abs (w_store w))"
    unfolding w'_def by (rule save(5))
qed

lemma engine_inv_only_ticks:
  assumes "engine_inv abs inv e w" and "only_ticks w w'"
  shows "engine_inv abs inv e w'" and "w_store w' = w_store w"
  using assms by (auto simp: engine_inv_def only_ticks_def)

lemma evaluate_instance_step:
  assumes "engine_inv abs inv e w" and "as_instances (abs (w_store w)) (fi_instance_id i) = Some i"
    and "is_running i" and "as_definitions (abs (w_store w)) (fi_definition_name i) = Some d"
  defines "w' \<equiv> evaluate_instance ops e i d w"
  shows "engine_inv abs inv e w' \<and> frozen (abs (w_store w)) (abs (w_store w')) \<and>
    (\<forall>iid. iid \<noteq> fi_instance_id i \<longrightarrow>
       as_instances (abs (w_store w')) iid = as_instances (abs (w_store w)) iid) \<and>
    as_definitions (abs (w_store w')) = as_definitions (abs (w_store w))"
proof (cases "map_of (fd_states d) (fi_current_state i)")
  case None
  then show ?thesis using assms(1) by (simp add: w'_def evaluate_instance_def)
next
  case (Some sd)
  have inst: "instance_inv d i" using assms(1,2,4) unfolding engine_inv_def by (metis option.inject)
  show ?thesis
  proof (cases "sd_terminal sd")
    case True
    let ?w1 = "snd (clock e w)" and ?i = "i\<lparr> fi_status := Completed, fi_updated_at := fst (clock e w) \<rparr>"
    have "terminal_state d (fi_current_state i)" using Some True by (auto simp: terminal_state_def)
    then have "instance_inv d ?i" using instance_inv_completed [OF inst assms(3)] by simp
    moreover have "engine_inv abs inv e ?w1"
      by (rule engine_inv_keeps(1) [OF assms(1)]) simp_all
    ultimately show ?thesis
      using engine_inv_save [of e ?w1 ?i i d] assms(2-4) Some True
      by (simp add: w'_def evaluate_instance_def save_instance_def Let_def case_prod_unfold)
  next
    case False
    obtain x i1 w1 where f: "find_transition e (fi_current_state i) 0 (sd_transitions sd) i w = ((x, i1), w1)"
      by (metis surj_pair)
    note fr = find_transition_frame [OF f]
    have run: "same_run i i1" and t: "only_ticks w w1" using fr by auto
    note w1 = engine_inv_only_ticks [OF assms(1) t]
    note same = same_run_simps [OF run]
    have stored: "as_instances (abs (w_store w1)) (fi_instance_id i1) = Some i"
      "as_definitions (abs (w_store w1)) (fi_definition_name i1) = Some d"
      using assms(2,4) by (simp_all add: w1 same)
    show ?thesis
    proof (cases x)
      case None
      have "instance_inv d i1" using inst instance_inv_cong [OF run] by simp
      from engine_inv_save [OF w1(1) stored(1) assms(3) stored(2) this] show ?thesis
        using f Some False None
        by (simp add: w'_def evaluate_instance_def save_instance_def w1(2) same)
    next
      case t: (Some td)
      obtain i2 w2 where g: "fire_transition ops e i1 (td_to td) (transition_trigger_of td) d w1 = (i2, w2)"
        by (metis surj_pair)
      have "edge d (fi_current_state i1) (td_to td)"
        using fr t Some by (auto simp: edge_def same)
      from engine_inv_fire [OF w1(1) stored(1) assms(3) run stored(2) this g] show ?thesis
        using f Some False t g
        by (simp add: w'_def evaluate_instance_def save_instance_def w1(2) same)
    qed
  qed
qed

lemma evaluate_instances_step:
  assumes "engine_inv abs inv e w" and "distinct (map fi_instance_id xs)"
    and "\<And>i. i \<in> set xs \<Longrightarrow> as_instances (abs (w_store w)) (fi_instance_id i) = Some i \<and> is_running i"
  shows "engine_inv abs inv e (evaluate_instances ops e xs w) \<and>
    frozen (abs (w_store w)) (abs (w_store (evaluate_instances ops e xs w)))"
  using assms
proof (induction xs arbitrary: w)
  case (Cons i xs)
  have s: "inv (w_store w)" using Cons.prems(1) by (simp add: engine_inv_def)
  have i: "as_instances (abs (w_store w)) (fi_instance_id i) = Some i" "is_running i"
    using Cons.prems(3) by auto
  obtain d where d: "as_definitions (abs (w_store w)) (fi_definition_name i) = Some d"
    using engine_inv_instance [OF Cons.prems(1) i(1)] by blast
  let ?w1 = "evaluate_instance ops e i d w"
  note step = evaluate_instance_step [OF Cons.prems(1) i d]
  have "as_instances (abs (w_store ?w1)) (fi_instance_id j) = Some j \<and> is_running j" if "j \<in> set xs" for j
    using Cons.prems(2,3) that step by (auto simp: image_iff)
  with Cons.IH [of ?w1] Cons.prems(2) step
  have "engine_inv abs inv e (evaluate_instances ops e xs ?w1) \<and>
      frozen (abs (w_store ?w1)) (abs (w_store (evaluate_instances ops e xs ?w1)))" by simp
  with step show ?case
    using get_fsm_definition [OF s, of "fi_definition_name i"] d frozen_trans
    by (auto simp: blocking_read_def)
qed simp

lemma evaluate_all_step:
  assumes "engine_inv abs inv e w"
  shows "engine_inv abs inv e (evaluate_all ops e w) \<and> frozen (abs (w_store w)) (abs (w_store (evaluate_all ops e w)))"
proof -
  have s: "inv (w_store w)" using assms by (simp add: engine_inv_def)
  obtain xs where xs: "so_list_fsm_instances ops (w_store w) None (Some Running) = Inr xs"
    "distinct (map fi_instance_id xs)"
    "\<And>i. i \<in> set xs \<longleftrightarrow> as_instances (abs (w_store w)) (fi_instance_id i) = Some i \<and> is_running i"
    using list_fsm_instances [OF s, of "Some Running"] by (auto simp: is_running_def)
  then show ?thesis
    using evaluate_instances_step [OF assms xs(2)] by (simp add: evaluate_all_def blocking_read_def)
qed

lemma load_definition_eq:
  "inv (w_store w) \<Longrightarrow> load_definition ops e nm w =
     ok_or (Fsm (DefinitionNotFound nm)) (as_definitions (abs (w_store w)) nm)"
  using get_fsm_definition [of "w_store w" nm]
  by (simp add: load_definition_def blocking_read_def internal_def)

lemma load_instance_eq:
  "inv (w_store w) \<Longrightarrow> load_instance ops e iid w =
     ok_or (Fsm (InstanceNotFound iid)) (as_instances (abs (w_store w)) iid)"
  using get_fsm_instance [of "w_store w" iid]
  by (simp add: load_instance_def blocking_read_def internal_def)

lemma launch_step:
  fixes cx and w :: "'s world"
  assumes "engine_inv abs inv e w" and "inj (e_uuid e)"
    and d: "as_definitions (abs (w_store w)) nm = Some d"
  defines "r \<equiv> launch ops e nm d cx w"
  shows "engine_inv abs inv e (snd r)" and "frozen (abs (w_store w)) (abs (w_store (snd r)))"
    and "\<exists>i. fst r = Inr i \<and> as_instances (abs (w_store (snd r))) (fi_instance_id i) = Some i \<and>
      is_running i \<and> fi_current_state i = fd_initial d \<and> fi_definition_name i = nm"
proof -
  let ?w1 = "snd (new_uuid e (snd (clock e w)))"
  let ?i0 = "instance_new (e_uuid e (w_uuids w)) (e_now e (w_ticks w)) nm (fd_initial d) cx"
  have wf: "fsm_wf d" using assms(1) d by (auto simp: engine_inv_def)
  obtain sd where sd: "map_of (fd_states d) (fd_initial d) = Some sd"
    using fsm_wf_initial_state [OF wf] by blast
  obtain i w2 where a: "run_state_action ops e sd ?i0 ?w1 = (i, w2)" by (metis surj_pair)
  have run: "same_run ?i0 i" using same_run_state_action [of ?i0 ops e sd ?w1] a by simp
  note same = same_run_simps [OF run]
  have k: "keeps w w2" "Suc (w_uuids w) \<le> w_uuids w2"
    using keeps_trans [OF keeps_refl keeps_state_action [of ?w1 e sd ?i0], of w]
      later_uuids [OF later_state_action [of ?w1 ops e sd ?i0]] a by simp_all
  note w2 = engine_inv_keeps [OF assms(1) k(1)]
  have i2: "engine_inv abs inv e w2" using w2(1) k(2) by simp
  have fresh: "as_instances (abs (w_store w2)) (fi_instance_id i) = None"
  proof (rule ccontr)
    assume "as_instances (abs (w_store w2)) (fi_instance_id i) \<noteq> None"
    then obtain j where "as_instances (abs (w_store w)) (e_uuid e (w_uuids w)) = Some j"
      using w2(2) k(2) same by auto
    then obtain l where "l < w_uuids w" "e_uuid e (w_uuids w) = e_uuid e l"
      using assms(1) unfolding engine_inv_def by blast
    then show False using injD [OF assms(2)] by blast
  qed
  obtain x s3 where st: "so_store_fsm_instance ops (w_store w2) i = (x, s3)" by (metis surj_pair)
  have "inv (w_store w2)" using i2 by (simp add: engine_inv_def)
  from store_fsm_instance [OF this fresh st]
  have x: "x = Inr ()" and s3: "inv s3" "abs s3 = (abs (w_store w2))
      \<lparr> as_instances := (as_instances (abs (w_store w2)))(fi_instance_id i \<mapsto> i) \<rparr>"
    by (auto simp: a_store_fsm_instance_def)
  have r: "r = (Inr i, w2\<lparr> w_store := s3 \<rparr>)"
    using sd a st x
    by (simp add: r_def launch_def Let_def case_prod_unfold blocking_def internal_def)
      (simp add: clock_def new_uuid_def)
  have inst: "instance_inv d i"
    using instance_inv_new [OF fsm_wf_initial_state [OF wf]] instance_inv_cong [OF run] by simp
  have d2: "as_definitions (abs (w_store w2)) nm = Some d" using w2(3) k(2) d by simp
  have id: "fi_instance_id i = e_uuid e (w_uuids w)" "fi_definition_name i = nm"
    using same by simp_all
  show "engine_inv abs inv e (snd r)"
    using i2 inst d2 k(2) s3 id unfolding engine_inv_def r by (auto simp: Suc_le_eq)
  show "frozen (abs (w_store w)) (abs (w_store (snd r)))"
    using fresh w2(2) k(2) by (auto simp: frozen_def r s3)
  show "\<exists>i. fst r = Inr i \<and> as_instances (abs (w_store (snd r))) (fi_instance_id i) = Some i \<and>
      is_running i \<and> fi_current_state i = fd_initial d \<and> fi_definition_name i = nm"
    using same by (auto simp: r s3 is_running_def)
qed

lemma advance_step:
  fixes iid target and w :: "'s world"
  assumes "engine_inv abs inv e w"
  defines "r \<equiv> advance_instance ops e iid target w"
  shows "(\<exists>err. r = (Inl err, w)) \<or>
    (\<exists>i i' d to_state. as_instances (abs (w_store w)) iid = Some i \<and> is_running i \<and>
       as_definitions (abs (w_store w)) (fi_definition_name i) = Some d \<and>
       edge d (fi_current_state i) to_state \<and> (\<forall>t. target = Some t \<longrightarrow> to_state = t) \<and>
       fst r = Inr i' \<and> moved d to_state TManual i i' \<and>
       engine_inv abs inv e (snd r) \<and> frozen (abs (w_store w)) (abs (w_store (snd r))) \<and>
       as_instances (abs (w_store (snd r))) = (as_instances (abs (w_store w)))(iid \<mapsto> i'))"
proof -
  have s: "inv (w_store w)" using assms(1) by (simp add: engine_inv_def)
  show ?thesis
  proof (cases "as_instances (abs (w_store w)) iid")
    case None
    then show ?thesis using load_instance_eq [OF s, of e iid] by (simp add: r_def advance_instance_def)
  next
    case (Some i)
    have iid: "fi_instance_id i = iid" by (rule instance_key [OF s Some])
    obtain d where d: "as_definitions (abs (w_store w)) (fi_definition_name i) = Some d" "instance_inv d i"
      using engine_inv_instance [OF assms(1) Some] by blast
    obtain sd where sd: "map_of (fd_states d) (fi_current_state i) = Some sd"
      using d(2) by (auto simp: instance_inv_def)
    have load: "load_instance ops e iid w = Inr i" "load_definition ops e (fi_definition_name i) w = Inr d"
      using load_instance_eq [OF s, of e iid] load_definition_eq [OF s, of e "fi_definition_name i"] Some d(1)
      by simp_all
    show ?thesis
    proof (cases "is_running i")
      case False
      then show ?thesis using load by (simp add: r_def advance_instance_def)
    next
      case True
      show ?thesis
      proof (cases "advance_target i sd target")
        case (Inl err)
        then show ?thesis using load sd True by (simp add: r_def advance_instance_def)
      next
        case (Inr to_state)
        have t: "to_state \<in> td_to ` set (sd_transitions sd)" "\<And>t. target = Some t \<Longrightarrow> to_state = t"
          using Inr by (auto simp: advance_target_def find_Some_iff list_ex_iff
              split: option.splits if_splits list.splits)
        then have edge: "edge d (fi_current_state i) to_state" using sd by (auto simp: edge_def)
        obtain i' w1 where f: "fire_transition ops e i to_state TManual d w = (i', w1)" by (metis surj_pair)
        have "as_instances (abs (w_store w)) (fi_instance_id i) = Some i" using Some iid by simp
        note fire = engine_inv_fire [OF assms(1) this True same_run_refl d(1) edge f]
        obtain x w2 where b: "blocking (\<lambda>s. so_update_fsm_instance ops s i') w1 = (x, w2)" by (metis surj_pair)
        have r: "r = (Inr i', w2)"
          using load sd True Inr f b fire(1) by (simp add: r_def advance_instance_def internal_def)
        then show ?thesis
          using fire b Some True d(1) edge t(2) iid by auto
      qed
    qed
  qed
qed

lemma cancel_step:
  fixes iid reason and w :: "'s world"
  assumes "engine_inv abs inv e w"
  defines "r \<equiv> cancel_instance ops e iid reason w"
  shows "(\<exists>err. r = (Inl err, w)) \<or>
    (\<exists>i i'. as_instances (abs (w_store w)) iid = Some i \<and> is_running i \<and> fst r = Inr () \<and>
       engine_inv abs inv e (snd r) \<and> frozen (abs (w_store w)) (abs (w_store (snd r))) \<and>
       as_instances (abs (w_store (snd r))) iid = Some i' \<and> fi_status i' = Cancelled)"
proof -
  have s: "inv (w_store w)" using assms(1) by (simp add: engine_inv_def)
  show ?thesis
  proof (cases "as_instances (abs (w_store w)) iid")
    case None
    then show ?thesis using load_instance_eq [OF s, of e iid] by (simp add: r_def cancel_instance_def)
  next
    case (Some i)
    have iid: "fi_instance_id i = iid" by (rule instance_key [OF s Some])
    have load: "load_instance ops e iid w = Inr i"
      using load_instance_eq [OF s, of e iid] Some by simp
    show ?thesis
    proof (cases "is_running i")
      case False
      then show ?thesis using load by (simp add: r_def cancel_instance_def)
    next
      case True
      obtain d where d: "as_definitions (abs (w_store w)) (fi_definition_name i) = Some d" "instance_inv d i"
        using engine_inv_instance [OF assms(1) Some] by blast
      define w1 where "w1 = snd (clock e (snd (clock e w)))"
      define i' where "i' = i\<lparr> fi_status := Cancelled, fi_updated_at := fst (clock e w),
          fi_history := fi_history i @
            [\<lparr> tr_from_state = fi_current_state i, tr_to_state = [], tr_trigger = TManual,
               tr_timestamp = fst (clock e (snd (clock e w))), tr_message = ''Cancelled: '' @ reason \<rparr>] \<rparr>"
      have w1: "engine_inv abs inv e w1" "w_store w1 = w_store w"
        using engine_inv_keeps(1) [OF assms(1), of w1] by (simp_all add: w1_def keeps_refl)
      have stored: "as_instances (abs (w_store w1)) (fi_instance_id i') = Some i"
        "as_definitions (abs (w_store w1)) (fi_definition_name i') = Some d"
        using Some d(1) iid by (simp_all add: w1(2) i'_def)
      have "instance_inv d i'" using instance_inv_cancelled [OF d(2) True] by (simp add: i'_def)
      note save = engine_inv_save [OF w1(1) stored(1) True stored(2) this]
      let ?b = "blocking (\<lambda>s. so_update_fsm_instance ops s i') w1"
      have r: "fst r = Inr ()" "w_store (snd r) = w_store (snd ?b)" "w_uuids (snd r) = w_uuids (snd ?b)"
        using load True save(1) unfolding i'_def w1_def
        by (simp_all add: r_def cancel_instance_def Let_def case_prod_unfold internal_def)
      have "engine_inv abs inv e (snd r)"
        using save(2) by (simp add: engine_inv_def r)
      moreover have "as_instances (abs (w_store (snd r))) iid = Some i'"
        using save(4) iid by (simp add: r i'_def)
      ultimately show ?thesis
        using r save(3) Some True w1(2) by (auto simp: i'_def)
    qed
  qed
qed

lemma start_step:
  assumes "engine_inv abs inv e w" and "inj (e_uuid e)"
  shows "engine_inv abs inv e (snd (start_instance ops e nm rules opts w)) \<and>
    frozen (abs (w_store w)) (abs (w_store (snd (start_instance ops e nm rules opts w))))"
proof -
  have s: "inv (w_store w)" using assms(1) by (simp add: engine_inv_def)
  show ?thesis
    using load_definition_eq [OF s, of e nm] launch_step(1,2) [OF assms, of nm] assms(1)
    by (cases "as_definitions (abs (w_store w)) nm") (simp_all add: start_instance_def)
qed

lemma start_adaptive_step:
  assumes "engine_inv abs inv e w" and "inj (e_uuid e)"
  shows "engine_inv abs inv e (snd (start_adaptive_instance ops e nm rules opts lf w)) \<and>
    frozen (abs (w_store w)) (abs (w_store (snd (start_adaptive_instance ops e nm rules opts lf w))))"
proof -
  have s: "inv (w_store w)" using assms(1) by (simp add: engine_inv_def)
  show ?thesis
    using load_definition_eq [OF s, of e nm] launch_step(1,2) [OF assms, of nm] assms(1)
    by (cases "as_definitions (abs (w_store w)) nm")
      (simp_all add: start_adaptive_instance_def split: sum.split)
qed

lemma engine_step_inv:
  assumes "engine_step ops abs inv e w w'" and "engine_inv abs inv e w" and "inj (e_uuid e)"
  shows "engine_inv abs inv e w' \<and> frozen (abs (w_store w)) (abs (w_store w'))"
  using assms(1)
proof cases
  case evaluate
  then show ?thesis using evaluate_all_step [OF assms(2)] by simp
next
  case (start nm rules opts)
  then show ?thesis using start_step [OF assms(2,3)] by simp
next
  case (start_adaptive nm rules opts lf)
  then show ?thesis using start_adaptive_step [OF assms(2,3)] by simp
next
  case (advance iid target)
  then show ?thesis using advance_step [OF assms(2), of iid target] assms(2) by auto
next
  case (cancel iid reason)
  then show ?thesis using cancel_step [OF assms(2), of iid reason] assms(2) by auto
next
  case (counters c)
  then show ?thesis using assms(2) by (simp add: engine_inv_def)
next
  case (other s')
  then show ?thesis using assms(2) unfolding engine_inv_def frozen_def by simp metis
qed

lemma engine_steps_inv:
  assumes "(engine_step ops abs inv e)\<^sup>*\<^sup>* w w'" and "engine_inv abs inv e w" and "inj (e_uuid e)"
  shows "engine_inv abs inv e w' \<and> frozen (abs (w_store w)) (abs (w_store w'))"
  using assms(1)
proof (induction rule: rtranclp_induct)
  case (step w1 w2)
  then show ?case using engine_step_inv [OF step(2) _ assms(3)] frozen_trans by blast
qed (use assms(2) in simp)

end

subsection \<open>Batches cover every node once\<close>

fun batches :: "nat \<Rightarrow> u32 \<Rightarrow> u32 \<Rightarrow> node list \<Rightarrow> node list list" where
  "batches 0 pct cursor nodes = []"
| "batches (Suc k) pct cursor nodes =
     (case next_batch pct cursor nodes of
        None \<Rightarrow> []
      | Some (b, c) \<Rightarrow> b # batches k pct c nodes)"

lemma next_batch_Some:
  assumes "next_batch pct cursor nodes = Some (b, c)" and "length nodes < 2 ^ 32"
  shows "unat cursor < unat c" and "unat c \<le> length nodes"
    and "b = take (unat c - unat cursor) (drop (unat cursor) nodes)"
    and "unat c - unat cursor \<le> batch_size (length nodes) pct"
proof -
  let ?e = "min (unat cursor + batch_size (length nodes) pct) (length nodes)"
  have l: "unat cursor < length nodes" and b: "b = take (?e - unat cursor) (drop (unat cursor) nodes)"
    and c: "c = word_of_nat ?e"
    using assms(1) by (auto simp: next_batch_def Let_def split: if_splits)
  have "0 < length nodes" using l by linarith
  then have "1 \<le> batch_size (length nodes) pct" using batch_size_bounds by blast
  moreover have "unat c = ?e"
    using assms(2) by (simp add: c unat_of_nat take_bit_nat_eq_self)
  ultimately show "unat cursor < unat c" "unat c \<le> length nodes"
    "b = take (unat c - unat cursor) (drop (unat cursor) nodes)"
    "unat c - unat cursor \<le> batch_size (length nodes) pct"
    using l b by auto
qed

lemma next_batch_None: "next_batch pct cursor nodes = None \<longleftrightarrow> length nodes \<le> unat cursor"
  by (simp add: next_batch_def Let_def)

lemma batches_cover:
  assumes "length nodes < 2 ^ 32" and "length nodes - unat cursor < k"
  shows "concat (batches k pct cursor nodes) = drop (unat cursor) nodes \<and>
    (\<forall>b \<in> set (batches k pct cursor nodes). b \<noteq> [] \<and> length b \<le> batch_size (length nodes) pct)"
  using assms(2)
proof (induction k arbitrary: cursor)
  case (Suc k)
  show ?case
  proof (cases "next_batch pct cursor nodes")
    case None
    then have "length nodes \<le> unat cursor" by (simp only: next_batch_None)
    with None show ?thesis by simp
  next
    case (Some bc)
    then obtain b c where n: "next_batch pct cursor nodes = Some (b, c)" by (cases bc) simp
    note f = next_batch_Some [OF n assms(1)]
    have "length nodes - unat c < k" using f(1,2) Suc.prems by linarith
    note ih = Suc.IH [OF this]
    have "b @ drop (unat c) nodes = drop (unat cursor) nodes"
      using f(1-3) append_take_drop_id [of "unat c - unat cursor" "drop (unat cursor) nodes"] by simp
    then show ?thesis using n ih f by auto
  qed
qed simp

text \<open>C20: A batched rollout reaches every selected node exactly once, in order: the batches taken from
  cursor 0 on are non-empty, none is larger than the batch size, together they are the node list, and
  after at most as many batches as there are nodes none is left.\<close>

theorem rollout_batches_partition:
  assumes "length nodes < 2 ^ 32"
  shows "concat (batches (Suc (length nodes)) pct 0 nodes) = nodes \<and>
    (\<forall>b \<in> set (batches (Suc (length nodes)) pct 0 nodes).
       1 \<le> length b \<and> length b \<le> batch_size (length nodes) pct)"
  using batches_cover [OF assms, of 0 "Suc (length nodes)" pct] by (auto simp: Suc_le_eq)

text \<open>C22: The batch size computed in floating point is exact: for up to \<open>2\<^sup>3\<^sup>2\<close> nodes and a percentage
  up to 100 it is the ceiling of \<open>n * pct / 100\<close>, but at least 1 and at most the number of nodes.\<close>

theorem batch_size_is_ceiling:
  assumes "0 < n" and "n < 2 ^ 32" and "pct \<le> 100"
  shows "batch_size n pct = min (max (nat \<lceil>rat_of_nat (n * unat pct) / 100\<rceil>) 1) n"
proof -
  have p: "unat pct \<le> 100" using assms(3) by (simp add: word_le_nat_alt)
  have "n * unat pct \<le> n * 100" using p by simp
  also have "\<dots> < 100 * 2 ^ 45" using assms(2) by simp
  finally have "batch_size n pct = min (max ((n * unat pct + 99) div 100) 1) n"
    using assms by (intro batch_size_exact) auto
  moreover have "nat \<lceil>rat_of_nat m / 100\<rceil> = (m + 99) div 100" for m
  proof -
    have "\<lceil>rat_of_nat m / 100\<rceil> = - (- int m div 100)"
      using ceiling_divide_eq_div [of "int m" 100] by simp
    also have "\<dots> = int ((m + 99) div 100)" by (simp add: zdiv_int)
    finally show ?thesis by simp
  qed
  ultimately show ?thesis by (simp only:)
qed

text \<open>C2: Whatever the API calls on instances and the background loop do, in any order, and however the
  rest of the store changes as long as no definition is deleted or replaced, every stored instance
  refers to a stored definition, its history starts in the initial state, is a chain, follows the
  transitions of the definition and ends in the current state, it is completed only in a terminal
  state, and it is never marked failed.  (A cancelled run has one more record, which is no move.)\<close>

theorem engine_runs_follow_definition:
  assumes "inj (e_uuid e)" and "w_store w0 = mem_default"
    and "(engine_step memory_ops mem_abs mem_inv e)\<^sup>*\<^sup>* w0 w"
    and "mem_get_fsm_instance (w_store w) iid = Inr (Some i)"
  shows "\<exists>d. mem_get_fsm_definition (w_store w) (fi_definition_name i) = Inr (Some d) \<and>
    fsm_wf d \<and> instance_inv d i"
proof -
  have "engine_inv mem_abs mem_inv e w0"
    using assms(2) by (simp add: engine_inv_def) (simp add: mem_default_def)
  then have "engine_inv mem_abs mem_inv e w" using mem.engine_steps_inv [OF assms(3) _ assms(1)] by blast
  from engine_inv_instance [OF this, of iid i] show ?thesis
    using assms(4) by (auto simp: mem_get_fsm_instance_def mem_get_fsm_definition_def)
qed

text \<open>C27: Advancing by hand either fails and changes nothing at all, or moves a running instance along
  one transition of its current state, to the asked state if one is asked for, adds one history record with the
  trigger \<open>manual\<close>, and stores exactly what it returns; no other instance changes.\<close>

theorem advance_instance_correct:
  assumes "engine_inv mem_abs mem_inv e w" and "advance_instance memory_ops e iid target w = (r, w')"
  shows "case r of
      Inl err \<Rightarrow> w' = w
    | Inr i' \<Rightarrow> \<exists>i d to_state. map_of (ms_fsm_instances (w_store w)) iid = Some i \<and> fi_status i = Running \<and>
        map_of (ms_fsm_definitions (w_store w)) (fi_definition_name i) = Some d \<and>
        edge d (fi_current_state i) to_state \<and> target \<in> {None, Some to_state} \<and>
        moved d to_state TManual i i' \<and>
        map_of (ms_fsm_instances (w_store w')) = (map_of (ms_fsm_instances (w_store w)))(iid \<mapsto> i')"
  using mem.advance_step [OF assms(1), of iid target] assms(2)
  by (cases target) (auto simp: is_running_def)

lemma rollback_target_ignored:
  "execute_rollback ops e ra i w = execute_rollback ops e \<lparr> ra_target = Previous \<rparr> i w"
  by (simp add: execute_rollback_def)

end
