(* ===== verification/Management_Api.thy ===== *)
theory Management_Api
  imports Controller_Api Fsm_Run
begin

text \<open>
  The service that operators call, \<open>PaciNetManagement\<close> of \<^verbatim>\<open>pacinet-server/src/service.rs\<close>:
  nodes, deploys, rollbacks, fleet status, histories, FSM definitions and instances, annotations,
  audit log, templates, webhook history and the filters of the event streams.

  A request or response message is a record, a timestamp its seconds (the nanoseconds are always 0).
  The service runs with an FSM engine, as \<^verbatim>\<open>main.rs\<close> builds it.  A batch deploy runs one
  task per node; the argument \<open>order\<close> is the order in which the tasks take effect.
\<close>

definition invalid_argument :: "string \<Rightarrow> status" where
  "invalid_argument msg = Status CInvalidArgument msg"

definition unix_seconds :: "time \<Rightarrow> int" where
  "unix_seconds t = t div 1000000000"

text \<open>An empty string in a request means no filter, a limit of 0 the default.\<close>

definition non_empty :: "string \<Rightarrow> string option" where
  "non_empty s = (if s = [] then None else Some s)"

definition limit_or :: "u32 \<Rightarrow> u32 \<Rightarrow> u32" where
  "limit_or dflt limit = (if limit = 0 then dflt else limit)"

subsection \<open>Nodes\<close>

record node_info =
  ni_node_id :: string
  ni_hostname :: string
  ni_agent_address :: string
  ni_labels :: "(string, string) hmap"
  ni_capabilities :: "(string, string) hmap"
  ni_state :: int
  ni_registered_at :: int
  ni_last_heartbeat :: int
  ni_pacgate_version :: string
  ni_policy_hash :: string
  ni_uptime_seconds :: u64
  ni_last_heartbeat_age_seconds :: f64
  ni_annotations :: "(string, string) hmap"

definition heartbeat_age :: "time \<Rightarrow> node \<Rightarrow> f64" where
  "heartbeat_age now n = f64_div_fin (f64_of_int (num_milliseconds (now - n_last_heartbeat n))) 1000"

definition policy_hash_of :: "policy option \<Rightarrow> string" where
  "policy_hash_of p = (case p of Some q \<Rightarrow> pol_policy_hash q | None \<Rightarrow> [])"

definition node_to_proto :: "time \<Rightarrow> node \<Rightarrow> policy option \<Rightarrow> node_info" where
  "node_to_proto now n p =
     \<lparr> ni_node_id = n_node_id n, ni_hostname = n_hostname n, ni_agent_address = n_agent_address n,
       ni_labels = n_labels n, ni_capabilities = n_capabilities n,
       ni_state = proto_node_state_num (node_state_to_proto (n_state n)),
       ni_registered_at = unix_seconds (n_registered_at n),
       ni_last_heartbeat = unix_seconds (n_last_heartbeat n),
       ni_pacgate_version = n_pacgate_version n, ni_policy_hash = policy_hash_of p,
       ni_uptime_seconds = n_uptime_seconds n,
       ni_last_heartbeat_age_seconds = heartbeat_age now n, ni_annotations = n_annotations n \<rparr>"

fun nodes_to_proto ::
  "env \<Rightarrow> (string, policy) hmap \<Rightarrow> node list \<Rightarrow> 's world \<Rightarrow> node_info list \<times> 's world" where
  "nodes_to_proto e policies [] w = ([], w)"
| "nodes_to_proto e policies (n # ns) w =
     (let (now, w) = clock e w;
          (rest, w) = nodes_to_proto e policies ns w
      in (node_to_proto now n (map_of policies (n_node_id n)) # rest, w))"

definition list_nodes ::
  "'s storage_ops \<Rightarrow> env \<Rightarrow> (string, string) hmap \<Rightarrow> 's world \<Rightarrow> (status + node_info list) \<times> 's world" where
  "list_nodes ops e label_filter w =
     (case blocking_read (\<lambda>s. so_list_nodes ops s label_filter) w of
        Inl st \<Rightarrow> (Inl st, w)
      | Inr nodes \<Rightarrow>
          (case blocking_read (\<lambda>s. so_get_policies_for_nodes ops s (map n_node_id nodes)) w of
             Inl st \<Rightarrow> (Inl st, w)
           | Inr policies \<Rightarrow> map_prod Inr (\<lambda>w. w) (nodes_to_proto e policies nodes w)))"

definition load_node :: "'s storage_ops \<Rightarrow> string \<Rightarrow> 's world \<Rightarrow> status + node" where
  "load_node ops nid w =
     res_bind (blocking_read (\<lambda>s. so_get_node ops s nid) w)
       (ok_or (not_found (''Node '' @ nid @ '' not found'')))"

definition get_node ::
  "'s storage_ops \<Rightarrow> env \<Rightarrow> string \<Rightarrow> 's world \<Rightarrow> (status + node_info) \<times> 's world" where
  "get_node ops e nid w =
     (case load_node ops nid w of
        Inl st \<Rightarrow> (Inl st, w)
      | Inr n \<Rightarrow>
          (case blocking_read (\<lambda>s. so_get_policy ops s nid) w of
             Inl st \<Rightarrow> (Inl st, w)
           | Inr p \<Rightarrow> (let (now, w) = clock e w in (Inr (node_to_proto now n p), w))))"

record ack =
  ack_success :: bool
  ack_message :: string

definition remove_node ::
  "'s storage_ops \<Rightarrow> env \<Rightarrow> string \<Rightarrow> 's world \<Rightarrow> (status + ack) \<times> 's world" where
  "remove_node ops e nid w =
     (let before = node_before ops e nid w
      in case blocking (\<lambda>s. so_remove_node ops s nid) w of
           (Inl st, w) \<Rightarrow> (Inl st, w)
         | (Inr removed, w) \<Rightarrow>
             (Inr \<lparr> ack_success = removed,
                    ack_message = (if removed then ''Node removed'' else ''Node not found'') \<rparr>,
              if removed then
                (case before of
                   Some n \<Rightarrow> emit_now e (\<lambda>t. NodeEv (NodeRemoved (n_node_id n) (n_hostname n) (n_labels n) t)) w
                 | None \<Rightarrow> w)
              else w))"

definition set_node_annotations ::
  "'s storage_ops \<Rightarrow> string \<Rightarrow> (string, string) hmap \<Rightarrow> string list \<Rightarrow> 's world \<Rightarrow>
     (status + ack) \<times> 's world" where
  "set_node_annotations ops nid annotations remove_keys w =
     (case blocking (\<lambda>s. so_update_annotations ops s nid annotations remove_keys) w of
        (Inl st, w) \<Rightarrow> (Inl st, w)
      | (Inr _, w) \<Rightarrow> (Inr \<lparr> ack_success = True, ack_message = ''Annotations updated'' \<rparr>, w))"

record fleet_node_summary =
  fn_node_id :: string
  fn_hostname :: string
  fn_state :: int
  fn_policy_hash :: string
  fn_uptime_seconds :: u64
  fn_last_heartbeat_age_seconds :: f64
  fn_last_deploy_time :: "int option"

record fleet_status =
  fs_total_nodes :: u32
  fs_nodes_by_state :: "(string, u32) hmap"
  fs_nodes :: "fleet_node_summary list"

definition fleet_summary :: "time \<Rightarrow> node \<Rightarrow> policy option \<Rightarrow> fleet_node_summary" where
  "fleet_summary now n p =
     \<lparr> fn_node_id = n_node_id n, fn_hostname = n_hostname n,
       fn_state = proto_node_state_num (node_state_to_proto (n_state n)),
       fn_policy_hash = policy_hash_of p, fn_uptime_seconds = n_uptime_seconds n,
       fn_last_heartbeat_age_seconds = heartbeat_age now n,
       fn_last_deploy_time = map_option (\<lambda>q. unix_seconds (pol_deployed_at q)) p \<rparr>"

definition count_node_state :: "(string, u32) hmap \<Rightarrow> node \<Rightarrow> (string, u32) hmap" where
  "count_node_state by_state n =
     (let k = node_state_to_string (n_state n)
      in hm_insert k ((case map_of by_state k of None \<Rightarrow> 0 | Some c \<Rightarrow> c) + 1) by_state)"

definition get_fleet_status ::
  "'s storage_ops \<Rightarrow> env \<Rightarrow> (string, string) hmap \<Rightarrow> 's world \<Rightarrow> (status + fleet_status) \<times> 's world" where
  "get_fleet_status ops e label_filter w =
     (case blocking_read (\<lambda>s. so_list_nodes ops s label_filter) w of
        Inl st \<Rightarrow> (Inl st, w)
      | Inr nodes \<Rightarrow>
          (case blocking_read (\<lambda>s. so_get_policies_for_nodes ops s (map n_node_id nodes)) w of
             Inl st \<Rightarrow> (Inl st, w)
           | Inr policies \<Rightarrow>
               (let (now, w) = clock e w
                in (Inr \<lparr> fs_total_nodes = word_of_nat (length nodes),
                          fs_nodes_by_state = foldl count_node_state [] nodes,
                          fs_nodes = map (\<lambda>n. fleet_summary now n (map_of policies (n_node_id n))) nodes \<rparr>,
                    w))))"

subsection \<open>Deploys and rollbacks\<close>

record deploy_policy_request =
  dq_node_id :: string
  dq_rules_yaml :: string
  dq_options :: "compile_options option"
  dq_dry_run :: bool

record deploy_policy_response =
  ds_success :: bool
  ds_message :: string
  ds_warnings :: "string list"

text \<open>The response of a deploy; its \<open>dry_run_result\<close> is never set.\<close>

definition deploy_response :: "deploy_outcome \<Rightarrow> deploy_policy_response" where
  "deploy_response out =
     \<lparr> ds_success = do_success out, ds_message = do_message out, ds_warnings = do_warnings out \<rparr>"

definition options_or_default :: "compile_options option \<Rightarrow> compile_options" where
  "options_or_default opts = (case opts of Some c \<Rightarrow> c | None \<Rightarrow> default_options)"

definition do_deploy ::
  "'s storage_ops \<Rightarrow> env \<Rightarrow> deploy_policy_request \<Rightarrow> node \<Rightarrow> 's world \<Rightarrow>
     deploy_policy_response \<times> 's world" where
  "do_deploy ops e req n w =
     (let (out, w) = deploy_to_node ops e n (dq_rules_yaml req) (options_or_default (dq_options req)) w
      in (deploy_response out, w))"

text \<open>A deploy between \<open>begin_deploy\<close> and \<open>end_deploy\<close>.\<close>

definition guarded_deploy ::
  "'s storage_ops \<Rightarrow> env \<Rightarrow> deploy_policy_request \<Rightarrow> node \<Rightarrow> 's world \<Rightarrow>
     (status + deploy_policy_response) \<times> 's world" where
  "guarded_deploy ops e req n w =
     (case blocking (\<lambda>s. so_begin_deploy ops s (dq_node_id req)) w of
        (Inl st, w) \<Rightarrow> (Inl st, w)
      | (Inr _, w) \<Rightarrow>
          (let (resp, w) = do_deploy ops e req n w
           in (Inr resp, w\<lparr> w_store := so_end_deploy ops (w_store w) (dq_node_id req) \<rparr>)))"

definition deploy_policy ::
  "'s storage_ops \<Rightarrow> env \<Rightarrow> deploy_policy_request \<Rightarrow> 's world \<Rightarrow>
     (status + deploy_policy_response) \<times> 's world" where
  "deploy_policy ops e req w =
     (case load_node ops (dq_node_id req) w of
        Inl st \<Rightarrow> (Inl st, w)
      | Inr n \<Rightarrow> guarded_deploy ops e req n w)"

record rollback_response =
  rb_success :: bool
  rb_message :: string
  rb_version :: u64

definition rollback_failed :: "string \<Rightarrow> rollback_response" where
  "rollback_failed msg = \<lparr> rb_success = False, rb_message = msg, rb_version = 0 \<rparr>"

text \<open>The version to go back to among the newest ten: early answer, error, or a version.\<close>

definition rollback_target_version ::
  "policy_version list \<Rightarrow> u64 \<Rightarrow> status + rollback_response + policy_version" where
  "rollback_target_version versions target =
     (if versions = [] then Inr (Inl (rollback_failed ''No policy history available''))
      else if target = 0 then
        (if length versions < 2
         then Inr (Inl (rollback_failed ''No previous version to rollback to''))
         else Inr (Inr (versions ! 1)))
      else
        (case List.find (\<lambda>v. pv_version v = target) versions of
           Some v \<Rightarrow> Inr (Inr v)
         | None \<Rightarrow>
             Inl (not_found (''Policy version '' @ show_nat (unat target) @ '' not found''))))"

definition rollback_response_of ::
  "policy_version list \<Rightarrow> u64 \<Rightarrow> deploy_policy_response \<Rightarrow> rollback_response" where
  "rollback_response_of versions target resp =
     (let no_change = starts_with ''No change:'' (ds_message resp)
      in \<lparr> rb_success = ds_success resp,
           rb_message =
             (if ds_success resp then
                if no_change then ds_message resp
                else ''Rolled back to version '' @ show_nat (unat target)
              else ds_message resp),
           rb_version =
             (if ds_success resp then
                if no_change then (case versions of v # _ \<Rightarrow> pv_version v | [] \<Rightarrow> target) else target
              else 0) \<rparr>)"

definition rollback_policy ::
  "'s storage_ops \<Rightarrow> env \<Rightarrow> string \<Rightarrow> u64 \<Rightarrow> 's world \<Rightarrow> (status + rollback_response) \<times> 's world" where
  "rollback_policy ops e nid target w =
     (case load_node ops nid w of
        Inl st \<Rightarrow> (Inl st, w)
      | Inr n \<Rightarrow>
          (case blocking_read (\<lambda>s. so_get_policy_history ops s nid 10) w of
             Inl st \<Rightarrow> (Inl st, w)
           | Inr versions \<Rightarrow>
               (case rollback_target_version versions target of
                  Inl st \<Rightarrow> (Inl st, w)
                | Inr (Inl early) \<Rightarrow> (Inr early, w)
                | Inr (Inr v) \<Rightarrow>
                    (case guarded_deploy ops e
                            \<lparr> dq_node_id = nid, dq_rules_yaml = pv_rules_yaml v,
                              dq_options = Some (compile_options_of_version v), dq_dry_run = False \<rparr> n w of
                       (Inl st, w) \<Rightarrow> (Inl st, w)
                     | (Inr resp, w) \<Rightarrow> (Inr (rollback_response_of versions (pv_version v) resp), w)))))"

record batch_deploy_request =
  bq_label_filter :: "(string, string) hmap"
  bq_rules_yaml :: string
  bq_options :: "compile_options option"
  bq_dry_run :: bool

record node_deploy_result =
  nr_node_id :: string
  nr_hostname :: string
  nr_success :: bool
  nr_message :: string
  nr_warnings :: "string list"

record batch_deploy_response =
  bs_total_nodes :: u32
  bs_succeeded :: u32
  bs_failed :: u32
  bs_results :: "node_deploy_result list"

text \<open>One task of the batch: \<open>deploy_single_node\<close> and the result made of its answer.\<close>

definition batch_task ::
  "'s storage_ops \<Rightarrow> env \<Rightarrow> batch_deploy_request \<Rightarrow> node \<Rightarrow> 's world \<Rightarrow> node_deploy_result \<times> 's world" where
  "batch_task ops e req n w =
     (case guarded_deploy ops e
             \<lparr> dq_node_id = n_node_id n, dq_rules_yaml = bq_rules_yaml req,
               dq_options = bq_options req, dq_dry_run = False \<rparr> n w of
        (Inr resp, w) \<Rightarrow>
          (\<lparr> nr_node_id = n_node_id n, nr_hostname = n_hostname n, nr_success = ds_success resp,
             nr_message = ds_message resp, nr_warnings = ds_warnings resp \<rparr>, w)
      | (Inl st, w) \<Rightarrow>
          (\<lparr> nr_node_id = n_node_id n, nr_hostname = n_hostname n, nr_success = False,
             nr_message = st_message st, nr_warnings = [] \<rparr>, w))"

fun batch_tasks ::
  "'s storage_ops \<Rightarrow> env \<Rightarrow> batch_deploy_request \<Rightarrow> node list \<Rightarrow> 's world \<Rightarrow>
     node_deploy_result list \<times> 's world" where
  "batch_tasks ops e req [] w = ([], w)"
| "batch_tasks ops e req (n # ns) w =
     (let (r, w) = batch_task ops e req n w;
          (rs, w) = batch_tasks ops e req ns w
      in (r # rs, w))"

definition batch_deploy_policy ::
  "'s storage_ops \<Rightarrow> env \<Rightarrow> (node list \<Rightarrow> node list) \<Rightarrow> batch_deploy_request \<Rightarrow> 's world \<Rightarrow>
     (status + batch_deploy_response) \<times> 's world" where
  "batch_deploy_policy ops e order req w =
     (case blocking_read (\<lambda>s. so_list_nodes ops s (bq_label_filter req)) w of
        Inl st \<Rightarrow> (Inl st, w)
      | Inr nodes \<Rightarrow>
          (let total_nodes = (word_of_nat (length nodes) :: u32)
           in if total_nodes = 0
              then (Inr \<lparr> bs_total_nodes = 0, bs_succeeded = 0, bs_failed = 0, bs_results = [] \<rparr>, w)
              else
                (let (results, w) = batch_tasks ops e req (order nodes) w;
                     succeeded = word_of_nat (length (filter nr_success results))
                 in (Inr \<lparr> bs_total_nodes = total_nodes, bs_succeeded = succeeded,
                           bs_failed = total_nodes - succeeded, bs_results = results \<rparr>, w))))"

record policy_info =
  pi_node_id :: string
  pi_rules_yaml :: string
  pi_policy_hash :: string
  pi_deployed_at :: int

definition get_policy :: "'s storage_ops \<Rightarrow> string \<Rightarrow> 's world \<Rightarrow> status + policy_info" where
  "get_policy ops nid w =
     res_bind (blocking_read (\<lambda>s. so_get_policy ops s nid) w) (\<lambda>p.
     res_bind (ok_or (not_found (''No policy for node '' @ nid)) p) (\<lambda>p.
       Inr \<lparr> pi_node_id = pol_node_id p, pi_rules_yaml = pol_rules_yaml p,
             pi_policy_hash = pol_policy_hash p, pi_deployed_at = unix_seconds (pol_deployed_at p) \<rparr>))"

record policy_version_info =
  vi_version :: u64
  vi_node_id :: string
  vi_policy_hash :: string
  vi_deployed_at :: int
  vi_rules_yaml :: string

definition get_policy_history ::
  "'s storage_ops \<Rightarrow> string \<Rightarrow> u32 \<Rightarrow> 's world \<Rightarrow> status + policy_version_info list" where
  "get_policy_history ops nid limit w =
     res_bind (blocking_read (\<lambda>s. so_get_policy_history ops s nid (limit_or 10 limit)) w) (\<lambda>vs.
       Inr (map (\<lambda>v. \<lparr> vi_version = pv_version v, vi_node_id = pv_node_id v,
                        vi_policy_hash = pv_policy_hash v,
                        vi_deployed_at = unix_seconds (pv_deployed_at v),
                        vi_rules_yaml = pv_rules_yaml v \<rparr>) vs))"

record deployment_info =
  di_id :: string
  di_node_id :: string
  di_policy_version :: u64
  di_policy_hash :: string
  di_deployed_at :: int
  di_result :: string
  di_message :: string

definition get_deployment_history ::
  "'s storage_ops \<Rightarrow> string \<Rightarrow> u32 \<Rightarrow> 's world \<Rightarrow> status + deployment_info list" where
  "get_deployment_history ops nid limit w =
     res_bind (blocking_read (\<lambda>s. so_get_deployments ops s nid (limit_or 20 limit)) w) (\<lambda>rs.
       Inr (map (\<lambda>r. \<lparr> di_id = dr_id r, di_node_id = dr_node_id r,
                        di_policy_version = dr_policy_version r, di_policy_hash = dr_policy_hash r,
                        di_deployed_at = unix_seconds (dr_deployed_at r),
                        di_result = deployment_result_to_string (dr_result r),
                        di_message = dr_message r \<rparr>) rs))"

record node_counters =
  nc_node_id :: string
  nc_counters :: "rule_counter list"
  nc_collected_at :: int

definition get_node_counters ::
  "'s storage_ops \<Rightarrow> env \<Rightarrow> string \<Rightarrow> 's world \<Rightarrow> (status + node_counters) \<times> 's world" where
  "get_node_counters ops e nid w =
     (case blocking_read (\<lambda>s. so_get_counters ops s nid) w of
        Inl st \<Rightarrow> (Inl st, w)
      | Inr cs \<Rightarrow>
          (let (now, w) = clock e w
           in (Inr \<lparr> nc_node_id = nid, nc_counters = (case cs of Some c \<Rightarrow> c | None \<Rightarrow> []),
                     nc_collected_at = unix_seconds now \<rparr>, w)))"

fun collect_counters ::
  "'s storage_ops \<Rightarrow> env \<Rightarrow> node list \<Rightarrow> 's world \<Rightarrow> (status + node_counters list) \<times> 's world" where
  "collect_counters ops e [] w = (Inr [], w)"
| "collect_counters ops e (n # ns) w =
     (case blocking_read (\<lambda>s. so_get_counters ops s (n_node_id n)) w of
        Inl st \<Rightarrow> (Inl st, w)
      | Inr None \<Rightarrow> collect_counters ops e ns w
      | Inr (Some cs) \<Rightarrow>
          (let (now, w) = clock e w
           in case collect_counters ops e ns w of
                (Inl st, w) \<Rightarrow> (Inl st, w)
              | (Inr rest, w) \<Rightarrow>
                  (Inr (\<lparr> nc_node_id = n_node_id n, nc_counters = cs,
                          nc_collected_at = unix_seconds now \<rparr> # rest), w)))"

definition get_aggregate_counters ::
  "'s storage_ops \<Rightarrow> env \<Rightarrow> (string, string) hmap \<Rightarrow> 's world \<Rightarrow>
     (status + node_counters list) \<times> 's world" where
  "get_aggregate_counters ops e label_filter w =
     (case blocking_read (\<lambda>s. so_list_nodes ops s label_filter) w of
        Inl st \<Rightarrow> (Inl st, w)
      | Inr nodes \<Rightarrow> collect_counters ops e nodes w)"

subsection \<open>FSM definitions and instances\<close>

record create_response =
  cp_success :: bool
  cp_name :: string
  cp_message :: string

definition create_fsm_definition ::
  "'s storage_ops \<Rightarrow> env \<Rightarrow> string \<Rightarrow> 's world \<Rightarrow> (status + create_response) \<times> 's world" where
  "create_fsm_definition ops e yaml w =
     (case e_from_yaml e yaml of
        Inl err \<Rightarrow>
          (Inl (invalid_argument (''Invalid YAML: '' @ fsm_error_to_string (YamlParse err))), w)
      | Inr d \<Rightarrow>
          (case validate d of
             Inl err \<Rightarrow> (Inl (invalid_argument (''Invalid definition: '' @ fsm_error_to_string err)), w)
           | Inr _ \<Rightarrow>
               (let (now, w) = clock e w
                in case blocking (\<lambda>s. so_store_fsm_definition ops now s d) w of
                     (Inl st, w) \<Rightarrow> (Inl st, w)
                   | (Inr _, w) \<Rightarrow>
                       (Inr \<lparr> cp_success = True, cp_name = fd_name d,
                              cp_message = ''FSM definition '' @ quoted (fd_name d) @ '' created'' \<rparr>, w))))"

record definition_info =
  dn_name :: string
  dn_kind :: string
  dn_description :: string
  dn_yaml :: string

definition get_fsm_definition ::
  "'s storage_ops \<Rightarrow> env \<Rightarrow> string \<Rightarrow> 's world \<Rightarrow> status + definition_info" where
  "get_fsm_definition ops e name w =
     res_bind (blocking_read (\<lambda>s. so_get_fsm_definition ops s name) w) (\<lambda>d.
     res_bind (ok_or (not_found (''FSM definition '' @ quoted name @ '' not found'')) d) (\<lambda>d.
     res_bind (map_err (\<lambda>err. Status CInternal (''Failed to serialize: '' @ err)) (e_to_yaml e d)) (\<lambda>yaml.
       Inr \<lparr> dn_name = fd_name d, dn_kind = fsm_kind_to_string (fd_kind d),
             dn_description = fd_description d, dn_yaml = yaml \<rparr>)))"

record definition_summary =
  dm_name :: string
  dm_kind :: string
  dm_description :: string
  dm_state_count :: u32
  dm_initial_state :: string

definition list_fsm_definitions ::
  "'s storage_ops \<Rightarrow> string \<Rightarrow> 's world \<Rightarrow> status + definition_summary list" where
  "list_fsm_definitions ops kind w =
     res_bind (case non_empty kind of
                 None \<Rightarrow> Inr None
               | Some k \<Rightarrow> map_err invalid_argument (res_bind (fsm_kind_from_str k) (\<lambda>x. Inr (Some x)))) (\<lambda>k.
     res_bind (blocking_read (\<lambda>s. so_list_fsm_definitions ops s k) w) (\<lambda>ds.
       Inr (map (\<lambda>d. \<lparr> dm_name = fd_name d, dm_kind = fsm_kind_to_string (fd_kind d),
                        dm_description = fd_description d,
                        dm_state_count = word_of_nat (length (fd_states d)),
                        dm_initial_state = fd_initial d \<rparr>) ds)))"

definition delete_fsm_definition ::
  "'s storage_ops \<Rightarrow> string \<Rightarrow> 's world \<Rightarrow> (status + ack) \<times> 's world" where
  "delete_fsm_definition ops name w =
     (case blocking (\<lambda>s. so_delete_fsm_definition ops s name) w of
        (Inl st, w) \<Rightarrow> (Inl st, w)
      | (Inr deleted, w) \<Rightarrow>
          (Inr \<lparr> ack_success = deleted,
                 ack_message = ''FSM definition '' @ quoted name @
                   (if deleted then '' deleted'' else '' not found'') \<rparr>, w))"

record start_fsm_request =
  sq_definition_name :: string
  sq_rules_yaml :: string
  sq_options :: "compile_options option"
  sq_target_label_filter :: "(string, string) hmap"

record start_fsm_response =
  sp_success :: bool
  sp_instance_id :: string
  sp_message :: string

definition fsm_options_of :: "compile_options \<Rightarrow> fsm_compile_options" where
  "fsm_options_of c =
     \<lparr> fco_counters = co_counters c, fco_rate_limit = co_rate_limit c,
       fco_conntrack = co_conntrack c, fco_axi = co_axi c, fco_ports = co_ports c,
       fco_target = co_target c, fco_dynamic = co_dynamic c,
       fco_dynamic_entries = co_dynamic_entries c, fco_width = co_width c, fco_ptp = co_ptp c,
       fco_rss = co_rss c, fco_rss_queues = co_rss_queues c, fco_int = co_int_enabled c,
       fco_int_switch_id = co_int_switch_id c \<rparr>"

definition start_fsm ::
  "'s storage_ops \<Rightarrow> env \<Rightarrow> start_fsm_request \<Rightarrow> 's world \<Rightarrow> start_fsm_response \<times> 's world" where
  "start_fsm ops e req w =
     (let opts = map_option fsm_options_of (sq_options req)
      in case (if sq_target_label_filter req \<noteq> [] then
                 start_adaptive_instance ops e (sq_definition_name req) (non_empty (sq_rules_yaml req))
                   opts (sq_target_label_filter req) w
               else start_instance ops e (sq_definition_name req) (sq_rules_yaml req) opts w) of
           (Inr i, w) \<Rightarrow>
             (\<lparr> sp_success = True, sp_instance_id = fi_instance_id i,
                sp_message = ''FSM instance started'' \<rparr>, w)
         | (Inl err, w) \<Rightarrow>
             (\<lparr> sp_success = False, sp_instance_id = [], sp_message = pacinet_error_to_string err \<rparr>, w))"

record transition_info =
  ti_from_state :: string
  ti_to_state :: string
  ti_trigger :: string
  ti_timestamp :: int
  ti_message :: string

record instance_info =
  ii_instance_id :: string
  ii_definition_name :: string
  ii_current_state :: string
  ii_status :: string
  ii_created_at :: int
  ii_updated_at :: int
  ii_history :: "transition_info list"
  ii_deployed_nodes :: u32
  ii_failed_nodes :: u32
  ii_target_nodes :: u32

definition instance_to_proto :: "fsm_instance \<Rightarrow> instance_info" where
  "instance_to_proto i =
     \<lparr> ii_instance_id = fi_instance_id i, ii_definition_name = fi_definition_name i,
       ii_current_state = fi_current_state i, ii_status = status_to_string (fi_status i),
       ii_created_at = unix_seconds (fi_created_at i),
       ii_updated_at = unix_seconds (fi_updated_at i),
       ii_history = map (\<lambda>t. \<lparr> ti_from_state = tr_from_state t, ti_to_state = tr_to_state t,
                                ti_trigger = trigger_to_string (tr_trigger t),
                                ti_timestamp = unix_seconds (tr_timestamp t),
                                ti_message = tr_message t \<rparr>) (fi_history i),
       ii_deployed_nodes = word_of_nat (length (cx_deployed_nodes (fi_context i))),
       ii_failed_nodes = word_of_nat (length (cx_failed_nodes (fi_context i))),
       ii_target_nodes = word_of_nat (length (cx_target_nodes (fi_context i))) \<rparr>"

definition get_fsm_instance :: "'s storage_ops \<Rightarrow> string \<Rightarrow> 's world \<Rightarrow> status + instance_info" where
  "get_fsm_instance ops iid w =
     res_bind (blocking_read (\<lambda>s. so_get_fsm_instance ops s iid) w) (\<lambda>i.
     res_bind (ok_or (not_found (''FSM instance '' @ quoted iid @ '' not found'')) i) (\<lambda>i.
       Inr (instance_to_proto i)))"

definition list_fsm_instances ::
  "'s storage_ops \<Rightarrow> string \<Rightarrow> string \<Rightarrow> 's world \<Rightarrow> status + instance_info list" where
  "list_fsm_instances ops definition_name status_name w =
     res_bind (case non_empty status_name of
                 None \<Rightarrow> Inr None
               | Some k \<Rightarrow> map_err invalid_argument (res_bind (status_from_str k) (\<lambda>x. Inr (Some x)))) (\<lambda>st.
     res_bind (blocking_read (\<lambda>s. so_list_fsm_instances ops s (non_empty definition_name) st) w) (\<lambda>xs.
       Inr (map instance_to_proto xs)))"

record advance_response =
  ap_success :: bool
  ap_current_state :: string
  ap_message :: string

definition advance_fsm ::
  "'s storage_ops \<Rightarrow> env \<Rightarrow> string \<Rightarrow> string \<Rightarrow> 's world \<Rightarrow> advance_response \<times> 's world" where
  "advance_fsm ops e iid target_state w =
     (case advance_instance ops e iid (non_empty target_state) w of
        (Inr i, w) \<Rightarrow>
          (\<lparr> ap_success = True, ap_current_state = fi_current_state i,
             ap_message = ''FSM advanced'' \<rparr>, w)
      | (Inl err, w) \<Rightarrow>
          (\<lparr> ap_success = False, ap_current_state = [],
             ap_message = pacinet_error_to_string err \<rparr>, w))"

definition cancel_fsm ::
  "'s storage_ops \<Rightarrow> env \<Rightarrow> string \<Rightarrow> string \<Rightarrow> 's world \<Rightarrow> ack \<times> 's world" where
  "cancel_fsm ops e iid reason w =
     (case cancel_instance ops e iid reason w of
        (Inr _, w) \<Rightarrow> (\<lparr> ack_success = True, ack_message = ''FSM instance cancelled'' \<rparr>, w)
      | (Inl err, w) \<Rightarrow> (\<lparr> ack_success = False, ack_message = pacinet_error_to_string err \<rparr>, w))"

subsection \<open>Audit log, templates, webhook history\<close>

text \<open>\<open>DateTime::from_timestamp(seconds, nanos as u32).unwrap_or_else(Utc::now)\<close>\<close>

definition time_of_parts :: "int \<Rightarrow> int \<Rightarrow> time option" where
  "time_of_parts s nanos =
     (let n = uint (word_of_int nanos :: u32)
      in if (n < 1000000000 \<or> n < 2000000000 \<and> s mod 60 = 59) then map_option (\<lambda>t. t + n) (time_of_timestamp s)
         else None)"

record audit_info =
  ai_id :: string
  ai_timestamp :: int
  ai_actor :: string
  ai_action :: string
  ai_resource_type :: string
  ai_resource_id :: string
  ai_details :: string

definition audit_to_proto :: "audit_entry \<Rightarrow> audit_info" where
  "audit_to_proto a =
     \<lparr> ai_id = ae_id a, ai_timestamp = unix_seconds (ae_timestamp a), ai_actor = ae_actor a,
       ai_action = ae_action a, ai_resource_type = ae_resource_type a,
       ai_resource_id = ae_resource_id a, ai_details = ae_details a \<rparr>"

definition query_audit_log ::
  "'s storage_ops \<Rightarrow> env \<Rightarrow> string \<Rightarrow> string \<Rightarrow> string \<Rightarrow> (int \<times> int) option \<Rightarrow> u32 \<Rightarrow> 's world \<Rightarrow>
     (status + audit_info list) \<times> 's world" where
  "query_audit_log ops e action resource_type resource_id since limit w =
     (let (since_time, w) =
            (case since of
               None \<Rightarrow> (None, w)
             | Some (s, nanos) \<Rightarrow>
                 (case time_of_parts s nanos of
                    Some t \<Rightarrow> (Some t, w)
                  | None \<Rightarrow> (let (now, w) = clock e w in (Some now, w))))
      in (res_bind (blocking_read (\<lambda>s. so_query_audit ops s (non_empty action) (non_empty resource_type)
            (non_empty resource_id) since_time (limit_or 50 limit)) w)
            (\<lambda>xs. Inr (map audit_to_proto xs)), w))"

record template_request =
  tq_name :: string
  tq_description :: string
  tq_rules_yaml :: string
  tq_tags :: "string list"

definition create_policy_template ::
  "'s storage_ops \<Rightarrow> env \<Rightarrow> template_request \<Rightarrow> 's world \<Rightarrow> (status + create_response) \<times> 's world" where
  "create_policy_template ops e req w =
     (let (now, w) = clock e w;
          t = \<lparr> tpl_name = tq_name req, tpl_description = tq_description req,
                tpl_rules_yaml = tq_rules_yaml req, tpl_tags = tq_tags req, tpl_created_at = now,
                tpl_updated_at = now \<rparr>
      in case blocking (\<lambda>s. so_store_template ops s t) w of
           (Inl st, w) \<Rightarrow> (Inl st, w)
         | (Inr _, w) \<Rightarrow>
             (Inr \<lparr> cp_success = True, cp_name = tpl_name t,
                    cp_message = ''Template '' @ quoted (tpl_name t) @ '' created'' \<rparr>, w))"

record template_info =
  tf_name :: string
  tf_description :: string
  tf_rules_yaml :: string
  tf_tags :: "string list"
  tf_created_at :: int
  tf_updated_at :: int

definition get_policy_template ::
  "'s storage_ops \<Rightarrow> string \<Rightarrow> 's world \<Rightarrow> status + template_info" where
  "get_policy_template ops name w =
     res_bind (blocking_read (\<lambda>s. so_get_template ops s name) w) (\<lambda>t.
     res_bind (ok_or (not_found (''Template '' @ quoted name @ '' not found'')) t) (\<lambda>t.
       Inr \<lparr> tf_name = tpl_name t, tf_description = tpl_description t,
             tf_rules_yaml = tpl_rules_yaml t, tf_tags = tpl_tags t,
             tf_created_at = unix_seconds (tpl_created_at t),
             tf_updated_at = unix_seconds (tpl_updated_at t) \<rparr>))"

record template_summary =
  ts_name :: string
  ts_description :: string
  ts_tags :: "string list"
  ts_created_at :: int
  ts_updated_at :: int

definition list_policy_templates ::
  "'s storage_ops \<Rightarrow> string \<Rightarrow> 's world \<Rightarrow> status + template_summary list" where
  "list_policy_templates ops tag w =
     res_bind (blocking_read (\<lambda>s. so_list_templates ops s (non_empty tag)) w) (\<lambda>ts.
       Inr (map (\<lambda>t. \<lparr> ts_name = tpl_name t, ts_description = tpl_description t,
                        ts_tags = tpl_tags t, ts_created_at = unix_seconds (tpl_created_at t),
                        ts_updated_at = unix_seconds (tpl_updated_at t) \<rparr>) ts))"

definition delete_policy_template ::
  "'s storage_ops \<Rightarrow> string \<Rightarrow> 's world \<Rightarrow> (status + ack) \<times> 's world" where
  "delete_policy_template ops name w =
     (case blocking (\<lambda>s. so_delete_template ops s name) w of
        (Inl st, w) \<Rightarrow> (Inl st, w)
      | (Inr deleted, w) \<Rightarrow>
          (Inr \<lparr> ack_success = deleted,
                 ack_message = ''Template '' @ quoted name @
                   (if deleted then '' deleted'' else '' not found'') \<rparr>, w))"

record webhook_delivery_info =
  wi_id :: string
  wi_instance_id :: string
  wi_url :: string
  wi_method :: string
  wi_status_code :: u32
  wi_success :: bool
  wi_duration_ms :: u64
  wi_error :: string
  wi_attempt :: u32
  wi_timestamp :: int

definition webhook_delivery_to_proto :: "webhook_delivery \<Rightarrow> webhook_delivery_info" where
  "webhook_delivery_to_proto d =
     \<lparr> wi_id = wd_id d, wi_instance_id = wd_instance_id d, wi_url = wd_url d,
       wi_method = wd_method d,
       wi_status_code = (case wd_status_code d of Some c \<Rightarrow> ucast c | None \<Rightarrow> 0),
       wi_success = wd_success d, wi_duration_ms = wd_duration_ms d,
       wi_error = (case wd_error d of Some m \<Rightarrow> m | None \<Rightarrow> []), wi_attempt = wd_attempt d,
       wi_timestamp = unix_seconds (wd_timestamp d) \<rparr>"

definition query_webhook_deliveries ::
  "'s storage_ops \<Rightarrow> string \<Rightarrow> u32 \<Rightarrow> 's world \<Rightarrow> status + webhook_delivery_info list" where
  "query_webhook_deliveries ops iid limit w =
     res_bind (blocking_read (\<lambda>s. so_query_webhook_deliveries ops s (non_empty iid) (limit_or 50 limit)) w)
       (\<lambda>xs. Inr (map webhook_delivery_to_proto xs))"

subsection \<open>Event streams\<close>

text \<open>The streams yield what the receiver gets from the bus, in order, filtered and converted; the
  argument is that sequence.  (A receiver that lags loses events, and the stream goes on.)\<close>

definition fsm_event_selected :: "string option \<Rightarrow> fsm_event \<Rightarrow> bool" where
  "fsm_event_selected filter_instance ev = is_none_or (\<lambda>i. ev_instance_id ev = i) filter_instance"

definition node_event_selected :: "(string, string) hmap \<Rightarrow> node_event \<Rightarrow> bool" where
  "node_event_selected label_filter ev =
     list_all (\<lambda>(k, v). case map_of (ne_labels ev) k of Some x \<Rightarrow> x = v | None \<Rightarrow> False) label_filter"

datatype fsm_event_type = FsmEventUnspecified | FsmEventTransition | FsmEventDeployProgress
  | FsmEventInstanceCompleted

record proto_fsm_event =
  pf_event_type :: fsm_event_type
  pf_instance_id :: string
  pf_definition_name :: string
  pf_from_state :: string
  pf_to_state :: string
  pf_trigger :: string
  pf_message :: string
  pf_deployed_nodes :: u32
  pf_failed_nodes :: u32
  pf_target_nodes :: u32
  pf_final_status :: string
  pf_timestamp :: int

fun domain_fsm_to_proto :: "fsm_event \<Rightarrow> proto_fsm_event" where
  "domain_fsm_to_proto (Transition i d f t tr m ts) =
     \<lparr> pf_event_type = FsmEventTransition, pf_instance_id = i, pf_definition_name = d,
       pf_from_state = f, pf_to_state = t, pf_trigger = tr, pf_message = m, pf_deployed_nodes = 0,
       pf_failed_nodes = 0, pf_target_nodes = 0, pf_final_status = [],
       pf_timestamp = unix_seconds ts \<rparr>"
| "domain_fsm_to_proto (DeployProgress i d dn fn tn ts) =
     \<lparr> pf_event_type = FsmEventDeployProgress, pf_instance_id = i, pf_definition_name = d,
       pf_from_state = [], pf_to_state = [], pf_trigger = [], pf_message = [],
       pf_deployed_nodes = dn, pf_failed_nodes = fn, pf_target_nodes = tn, pf_final_status = [],
       pf_timestamp = unix_seconds ts \<rparr>"
| "domain_fsm_to_proto (InstanceCompleted i d st ts) =
     \<lparr> pf_event_type = FsmEventInstanceCompleted, pf_instance_id = i, pf_definition_name = d,
       pf_from_state = [], pf_to_state = [], pf_trigger = [], pf_message = [],
       pf_deployed_nodes = 0, pf_failed_nodes = 0, pf_target_nodes = 0, pf_final_status = st,
       pf_timestamp = unix_seconds ts \<rparr>"

record counter_update =
  cu_node_id :: string
  cu_counters :: "counter_rate_data list"
  cu_collected_at :: int

definition domain_counter_to_proto :: "counter_event \<Rightarrow> counter_update" where
  "domain_counter_to_proto ev =
     \<lparr> cu_node_id = ce_node_id ev, cu_counters = ce_counters ev,
       cu_collected_at = unix_seconds (ce_collected_at ev) \<rparr>"

datatype node_event_kind = NodeEventUnspecified | NodeEventRegistered | NodeEventStateChanged
  | NodeEventHeartbeatStale | NodeEventRemoved

record proto_node_event =
  pn_event_type :: node_event_kind
  pn_node_id :: string
  pn_hostname :: string
  pn_labels :: "(string, string) hmap"
  pn_old_state :: int
  pn_new_state :: int
  pn_timestamp :: int

definition state_number :: "string \<Rightarrow> int" where
  "state_number s =
     (case node_state_from_str s of
        Inr st \<Rightarrow> proto_node_state_num (node_state_to_proto st)
      | Inl _ \<Rightarrow> 0)"

fun domain_node_to_proto :: "node_event \<Rightarrow> proto_node_event" where
  "domain_node_to_proto (NodeRegistered nid h ls t) =
     \<lparr> pn_event_type = NodeEventRegistered, pn_node_id = nid, pn_hostname = h, pn_labels = ls,
       pn_old_state = proto_node_state_num PUnspecified,
       pn_new_state = proto_node_state_num PRegistered, pn_timestamp = unix_seconds t \<rparr>"
| "domain_node_to_proto (StateChanged nid h ls old new t) =
     \<lparr> pn_event_type = NodeEventStateChanged, pn_node_id = nid, pn_hostname = h, pn_labels = ls,
       pn_old_state = state_number old, pn_new_state = state_number new,
       pn_timestamp = unix_seconds t \<rparr>"
| "domain_node_to_proto (HeartbeatStale nid h ls t) =
     \<lparr> pn_event_type = NodeEventHeartbeatStale, pn_node_id = nid, pn_hostname = h, pn_labels = ls,
       pn_old_state = proto_node_state_num PUnspecified,
       pn_new_state = proto_node_state_num POffline, pn_timestamp = unix_seconds t \<rparr>"
| "domain_node_to_proto (NodeRemoved nid h ls t) =
     \<lparr> pn_event_type = NodeEventRemoved, pn_node_id = nid, pn_hostname = h, pn_labels = ls,
       pn_old_state = proto_node_state_num PUnspecified,
       pn_new_state = proto_node_state_num PUnspecified, pn_timestamp = unix_seconds t \<rparr>"

definition no_streaming :: status where
  "no_streaming = Status CUnavailable ''Event streaming not available''"

definition watch_fsm_events :: "env \<Rightarrow> string \<Rightarrow> fsm_event list \<Rightarrow> status + proto_fsm_event list" where
  "watch_fsm_events e instance_id received =
     (if \<not> e_event_bus e then Inl no_streaming
      else Inr (map domain_fsm_to_proto
             (filter (fsm_event_selected (non_empty instance_id)) received)))"

definition watch_counters :: "env \<Rightarrow> string \<Rightarrow> counter_event list \<Rightarrow> status + counter_update list" where
  "watch_counters e nid received =
     (if \<not> e_event_bus e then Inl no_streaming
      else Inr (map domain_counter_to_proto
             (filter (\<lambda>ev. is_none_or (\<lambda>n. ce_node_id ev = n) (non_empty nid)) received)))"

definition watch_node_events ::
  "env \<Rightarrow> (string, string) hmap \<Rightarrow> node_event list \<Rightarrow> status + proto_node_event list" where
  "watch_node_events e label_filter received =
     (if \<not> e_event_bus e then Inl no_streaming
      else Inr (map domain_node_to_proto (filter (node_event_selected label_filter) received)))"

end
