(* ===== verification/Json_Value.thy ===== *)
theory Json_Value
  imports Float64
begin

text \<open>
  The values of \<open>serde_json::Value\<close> that the REST service, the command line and the simulator build with
  \<open>json!\<close>.  An object lists its members in the order of the source; how a value is printed is left
  to the printer, an argument where it is used.
\<close>

datatype json_value =
    JNull
  | JBool bool
  | JNum int
  | JFloat f64
  | JStr string
  | JArr "json_value list"
  | JObj "(string \<times> json_value) list"

definition json_u64 :: "u64 \<Rightarrow> json_value" where
  "json_u64 n = JNum (uint n)"

definition json_u32 :: "u32 \<Rightarrow> json_value" where
  "json_u32 n = JNum (uint n)"

definition json_seconds :: "int option \<Rightarrow> json_value" where
  "json_seconds t = (case t of Some s \<Rightarrow> JNum s | None \<Rightarrow> JNull)"

definition json_strings :: "(string, string) hmap \<Rightarrow> json_value" where
  "json_strings m = JObj (map (\<lambda>(k, v). (k, JStr v)) m)"

text \<open>A member that may be missing (\<open>#[serde(default)]\<close>).\<close>

definition or_default :: "'a \<Rightarrow> 'a option \<Rightarrow> 'a" where
  "or_default d x = (case x of None \<Rightarrow> d | Some a \<Rightarrow> a)"

end
