(* ===== verification/Rest_Api.thy ===== *)
theory Rest_Api
  imports Management_Api Json_Value
begin

text \<open>
  The REST service of the dashboard, \<^verbatim>\<open>pacinet-server/src/rest.rs\<close>: the authentication
  middleware, the leader check of the write operations, and every handler.  The handlers work on the
  same storage, engine and bus as the gRPC ones; they answer JSON, here records with the fields of the
  response types, and every write that the source audits stores an audit entry.

  \<open>rest_context\<close> holds the parts of \<open>AppState\<close> a handler reads (the leader flag, the API key) and the
  library functions it calls (RFC 3339 times, JSON and YAML).  The audit write is spawned and not
  awaited; here it takes effect at once.  A path or query parameter is an argument; \<^verbatim>\<open>Rest_Router.thy\<close>
  puts the handlers behind their routes.
\<close>

record rest_context =
  rx_leader :: bool
  rx_api_key :: "string option"
  rx_rfc3339 :: "time \<Rightarrow> string"
  rx_parse_rfc3339 :: "string \<Rightarrow> time option"
  rx_parse_json :: "string \<Rightarrow> json_value option"
  rx_print_json :: "json_value \<Rightarrow> string"
  rx_yaml_error :: "string \<Rightarrow> string option"

subsection \<open>Errors, labels, authentication, leadership\<close>

datatype app_error = AppError (ae_code: nat) (ae_text: string)

definition app_error_from :: "status \<Rightarrow> app_error" where
  "app_error_from st =
     AppError (case st_code st of
                 CNotFound \<Rightarrow> 404
               | CInvalidArgument \<Rightarrow> 400
               | CAlreadyExists \<Rightarrow> 409
               | _ \<Rightarrow> 500) (st_message st)"

definition rest_blocking :: "('s \<Rightarrow> 'a outcome \<times> 's) \<Rightarrow> 's world \<Rightarrow> (app_error + 'a) \<times> 's world" where
  "rest_blocking f w = (case blocking f w of (r, w) \<Rightarrow> (map_err app_error_from r, w))"

definition rest_read :: "('s \<Rightarrow> 'a outcome) \<Rightarrow> 's world \<Rightarrow> app_error + 'a" where
  "rest_read f w = map_err app_error_from (blocking_read f w)"

definition parse_label_filter :: "string option \<Rightarrow> (string, string) hmap" where
  "parse_label_filter label =
     (case label of
        None \<Rightarrow> []
      | Some s \<Rightarrow>
          foldl (\<lambda>m pair. case split_once (CHR ''='') pair of
                            Some (k, v) \<Rightarrow> hm_insert k v m
                          | None \<Rightarrow> m) [] (split_on (CHR '','') s))"

text \<open>\<open>auth_middleware\<close>: the header is the value of \<open>Authorization\<close> when there is one that is text.\<close>

definition header_ok :: "string \<Rightarrow> string option \<Rightarrow> bool" where
  "header_ok expected_key auth =
     (case auth of
        None \<Rightarrow> False
      | Some v \<Rightarrow> (case strip_prefix ''Bearer '' v of None \<Rightarrow> False | Some token \<Rightarrow> token = expected_key))"

definition token_ok :: "string \<Rightarrow> string option \<Rightarrow> bool" where
  "token_ok expected_key query =
     (case query of
        None \<Rightarrow> False
      | Some q \<Rightarrow>
          (case List.find (starts_with ''token='') (split_on (CHR ''&'') q) of
             None \<Rightarrow> False
           | Some p \<Rightarrow> drop 6 p = expected_key))"

definition auth_middleware ::
  "rest_context \<Rightarrow> string option \<Rightarrow> string option \<Rightarrow> ('w \<Rightarrow> (app_error + 'a) \<times> 'w) \<Rightarrow>
     'w \<Rightarrow> (app_error + 'a) \<times> 'w" where
  "auth_middleware x auth query next_handler w =
     (case rx_api_key x of
        None \<Rightarrow> next_handler w
      | Some expected_key \<Rightarrow>
          if \<not> header_ok expected_key auth \<and> \<not> token_ok expected_key query
          then (Inl (AppError 401 ''Unauthorized''), w)
          else next_handler w)"

definition standby_message :: string where
  "standby_message =
     ''This controller is in standby mode. Write operations must go to the leader.''"

definition require_leader :: "rest_context \<Rightarrow> app_error + unit" where
  "require_leader x = (if \<not> rx_leader x then Inl (AppError 503 standby_message) else Inr ())"

text \<open>\<open>require_leader(...)?\<close> at the head of a handler.\<close>

definition leader_only ::
  "rest_context \<Rightarrow> ('s world \<Rightarrow> (app_error + 'a) \<times> 's world) \<Rightarrow> 's world \<Rightarrow> (app_error + 'a) \<times> 's world" where
  "leader_only x h w = (case require_leader x of Inl err \<Rightarrow> (Inl err, w) | Inr _ \<Rightarrow> h w)"

definition record_audit ::
  "'s storage_ops \<Rightarrow> env \<Rightarrow> rest_context \<Rightarrow> string \<Rightarrow> string \<Rightarrow> string \<Rightarrow> string \<Rightarrow> json_value \<Rightarrow> 's world \<Rightarrow> 's world" where
  "record_audit ops e x actor action resource_type resource_id details w =
     (let (uuid, w) = new_uuid e w;
          (now, w) = clock e w
      in snd (blocking (\<lambda>s. so_store_audit ops s
           \<lparr> ae_id = uuid, ae_timestamp = now, ae_actor = actor, ae_action = action,
             ae_resource_type = resource_type, ae_resource_id = resource_id,
             ae_details = rx_print_json x details \<rparr>) w))"

text \<open>The theme of the dashboard, the only state of the service itself.\<close>

record theme_response =
  th_theme :: string

definition get_ui_theme :: "string \<Rightarrow> theme_response" where
  "get_ui_theme theme = \<lparr> th_theme = theme \<rparr>"

definition set_ui_theme :: "string \<Rightarrow> string \<Rightarrow> (app_error + ack) \<times> string" where
  "set_ui_theme body slot =
     (let theme = to_lower (trim body)
      in if theme \<noteq> ''dark'' \<and> theme \<noteq> ''light''
         then (Inl (AppError 400 (''theme must be '' @ quoted ''dark'' @ '' or '' @ quoted ''light'')), slot)
         else (Inr \<lparr> ack_success = True, ack_message = ''UI theme set to '' @ theme \<rparr>, theme))"

subsection \<open>Nodes\<close>

record node_json =
  nj_node_id :: string
  nj_hostname :: string
  nj_agent_address :: string
  nj_labels :: "(string, string) hmap"
  nj_state :: string
  nj_registered_at :: string
  nj_last_heartbeat :: string
  nj_pacgate_version :: string
  nj_uptime_seconds :: u64
  nj_policy_hash :: string
  nj_last_heartbeat_age_seconds :: f64
  nj_annotations :: "(string, string) hmap"
  nj_capabilities :: "(string, string) hmap"

definition node_to_json :: "rest_context \<Rightarrow> time \<Rightarrow> node \<Rightarrow> policy option \<Rightarrow> node_json" where
  "node_to_json x now n p =
     \<lparr> nj_node_id = n_node_id n, nj_hostname = n_hostname n, nj_agent_address = n_agent_address n,
       nj_labels = n_labels n, nj_state = node_state_to_string (n_state n),
       nj_registered_at = rx_rfc3339 x (n_registered_at n),
       nj_last_heartbeat = rx_rfc3339 x (n_last_heartbeat n),
       nj_pacgate_version = n_pacgate_version n, nj_uptime_seconds = n_uptime_seconds n,
       nj_policy_hash = policy_hash_of p, nj_last_heartbeat_age_seconds = heartbeat_age now n,
       nj_annotations = n_annotations n, nj_capabilities = n_capabilities n \<rparr>"

definition rest_list_nodes ::
  "'s storage_ops \<Rightarrow> env \<Rightarrow> rest_context \<Rightarrow> string option \<Rightarrow> 's world \<Rightarrow> (app_error + node_json list) \<times> 's world" where
  "rest_list_nodes ops e x label w =
     (case rest_read (\<lambda>s. so_list_nodes ops s (parse_label_filter label)) w of
        Inl err \<Rightarrow> (Inl err, w)
      | Inr nodes \<Rightarrow>
          (case rest_read (\<lambda>s. so_get_policies_for_nodes ops s (map n_node_id nodes)) w of
             Inl err \<Rightarrow> (Inl err, w)
           | Inr policies \<Rightarrow>
               (let (now, w) = clock e w
                in (Inr (map (\<lambda>n. node_to_json x now n (map_of policies (n_node_id n))) nodes), w))))"

definition rest_load_node :: "'s storage_ops \<Rightarrow> string \<Rightarrow> 's world \<Rightarrow> app_error + node" where
  "rest_load_node ops nid w =
     res_bind (rest_read (\<lambda>s. so_get_node ops s nid) w)
       (ok_or (AppError 404 (''Node '' @ nid @ '' not found'')))"

definition rest_get_node ::
  "'s storage_ops \<Rightarrow> env \<Rightarrow> rest_context \<Rightarrow> string \<Rightarrow> 's world \<Rightarrow> (app_error + node_json) \<times> 's world" where
  "rest_get_node ops e x nid w =
     (case rest_load_node ops nid w of
        Inl err \<Rightarrow> (Inl err, w)
      | Inr n \<Rightarrow>
          (case rest_read (\<lambda>s. so_get_policy ops s nid) w of
             Inl err \<Rightarrow> (Inl err, w)
           | Inr p \<Rightarrow> (let (now, w) = clock e w in (Inr (node_to_json x now n p), w))))"

text \<open>The bus of the REST service is always there.\<close>

definition rest_emit_node :: "env \<Rightarrow> (time \<Rightarrow> node_event) \<Rightarrow> 's world \<Rightarrow> 's world" where
  "rest_emit_node e ev w =
     (let (t, w) = clock e w in w\<lparr> w_events := w_events w @ [NodeEv (ev t)] \<rparr>)"

definition rest_remove_node ::
  "'s storage_ops \<Rightarrow> env \<Rightarrow> rest_context \<Rightarrow> string \<Rightarrow> 's world \<Rightarrow> (app_error + ack) \<times> 's world" where
  "rest_remove_node ops e x nid = leader_only x (\<lambda>w.
     let before = (case blocking_read (\<lambda>s. so_get_node ops s nid) w of Inl _ \<Rightarrow> None | Inr n \<Rightarrow> n)
     in case rest_blocking (\<lambda>s. so_remove_node ops s nid) w of
          (Inl err, w) \<Rightarrow> (Inl err, w)
        | (Inr removed, w) \<Rightarrow>
            (Inr \<lparr> ack_success = removed,
                   ack_message = (if removed then ''Node removed'' else ''Node not found'') \<rparr>,
             if removed then
               record_audit ops e x ''api'' ''remove_node'' ''node'' nid (JObj [])
                 (case before of
                    Some n \<Rightarrow> rest_emit_node e (\<lambda>t. NodeRemoved (n_node_id n) (n_hostname n) (n_labels n) t) w
                  | None \<Rightarrow> w)
             else w))"

definition rest_set_annotations ::
  "'s storage_ops \<Rightarrow> env \<Rightarrow> rest_context \<Rightarrow> string \<Rightarrow> (string, string) hmap \<Rightarrow> string list \<Rightarrow> 's world \<Rightarrow>
     (app_error + ack) \<times> 's world" where
  "rest_set_annotations ops e x nid annotations remove_keys = leader_only x (\<lambda>w.
     case rest_blocking (\<lambda>s. so_update_annotations ops s nid annotations remove_keys) w of
       (Inl err, w) \<Rightarrow> (Inl err, w)
     | (Inr _, w) \<Rightarrow>
         (Inr \<lparr> ack_success = True, ack_message = ''Annotations updated'' \<rparr>,
          record_audit ops e x ''api'' ''set_annotations'' ''node'' nid
            (JObj [(''set'', JObj (map (\<lambda>(k, v). (k, JStr v)) annotations)),
                      (''remove'', JArr (map JStr remove_keys))]) w))"

subsection \<open>Policies and rollback\<close>

record policy_json =
  pj_deployed_at :: string
  pj_policy :: policy

text \<open>\<open>PolicyJson\<close> has the fields of the policy, with the time of the deploy printed.\<close>

definition rest_get_policy ::
  "'s storage_ops \<Rightarrow> rest_context \<Rightarrow> string \<Rightarrow> 's world \<Rightarrow> app_error + policy_json" where
  "rest_get_policy ops x nid w =
     res_bind (rest_read (\<lambda>s. so_get_policy ops s nid) w) (\<lambda>p.
     res_bind (ok_or (AppError 404 (''No policy for node '' @ nid)) p) (\<lambda>p.
       Inr \<lparr> pj_deployed_at = rx_rfc3339 x (pol_deployed_at p), pj_policy = p \<rparr>))"

record policy_version_json =
  vj_deployed_at :: string
  vj_version :: policy_version

definition rest_get_policy_history ::
  "'s storage_ops \<Rightarrow> rest_context \<Rightarrow> string \<Rightarrow> u32 \<Rightarrow> 's world \<Rightarrow> app_error + policy_version_json list" where
  "rest_get_policy_history ops x nid limit w =
     res_bind (rest_read (\<lambda>s. so_get_policy_history ops s nid limit) w) (\<lambda>vs.
       Inr (map (\<lambda>v. \<lparr> vj_deployed_at = rx_rfc3339 x (pv_deployed_at v), vj_version = v \<rparr>) vs))"

record deployment_json =
  dj_id :: string
  dj_node_id :: string
  dj_policy_version :: u64
  dj_policy_hash :: string
  dj_deployed_at :: string
  dj_result :: string
  dj_message :: string

definition rest_get_deployment_history ::
  "'s storage_ops \<Rightarrow> rest_context \<Rightarrow> string \<Rightarrow> u32 \<Rightarrow> 's world \<Rightarrow> app_error + deployment_json list" where
  "rest_get_deployment_history ops x nid limit w =
     res_bind (rest_read (\<lambda>s. so_get_deployments ops s nid limit) w) (\<lambda>rs.
       Inr (map (\<lambda>r. \<lparr> dj_id = dr_id r, dj_node_id = dr_node_id r,
                        dj_policy_version = dr_policy_version r, dj_policy_hash = dr_policy_hash r,
                        dj_deployed_at = rx_rfc3339 x (dr_deployed_at r),
                        dj_result = deployment_result_to_string (dr_result r),
                        dj_message = dr_message r \<rparr>) rs))"

definition rest_rollback_target ::
  "policy_version list \<Rightarrow> u64 \<Rightarrow> app_error + rollback_response + policy_version" where
  "rest_rollback_target versions target =
     (if versions = [] then Inr (Inl (rollback_failed ''No policy history available''))
      else if target = 0 then
        (if length versions < 2
         then Inr (Inl (rollback_failed ''No previous version to rollback to''))
         else Inr (Inr (versions ! 1)))
      else
        (case List.find (\<lambda>v. pv_version v = target) versions of
           Some v \<Rightarrow> Inr (Inr v)
         | None \<Rightarrow>
             Inl (AppError 404 (''Policy version '' @ show_nat (unat target) @ '' not found''))))"

definition rest_rollback_response :: "policy_version list \<Rightarrow> u64 \<Rightarrow> deploy_outcome \<Rightarrow> rollback_response" where
  "rest_rollback_response versions target_version out =
     (let no_change = starts_with ''No change:'' (do_message out)
      in \<lparr> rb_success = do_success out,
           rb_message =
             (if do_success out then
                if no_change then do_message out
                else ''Rolled back to version '' @ show_nat (unat target_version)
              else do_message out),
           rb_version =
             (if do_success out then
                if no_change then (case versions of v # _ \<Rightarrow> pv_version v | [] \<Rightarrow> target_version)
                else target_version
              else 0) \<rparr>)"

text \<open>A deploy between \<open>begin_deploy\<close> and \<open>end_deploy\<close>.\<close>

definition rest_guarded_deploy ::
  "'s storage_ops \<Rightarrow> env \<Rightarrow> string \<Rightarrow> node \<Rightarrow> string \<Rightarrow> compile_options \<Rightarrow> 's world \<Rightarrow>
     (app_error + deploy_outcome) \<times> 's world" where
  "rest_guarded_deploy ops e nid n rules_yaml opts w =
     (case rest_blocking (\<lambda>s. so_begin_deploy ops s nid) w of
        (Inl err, w) \<Rightarrow> (Inl err, w)
      | (Inr _, w) \<Rightarrow>
          (let (out, w) = deploy_to_node ops e n rules_yaml opts w
           in (Inr out, w\<lparr> w_store := so_end_deploy ops (w_store w) nid \<rparr>)))"

definition rest_rollback_policy ::
  "'s storage_ops \<Rightarrow> env \<Rightarrow> rest_context \<Rightarrow> string \<Rightarrow> u64 \<Rightarrow> 's world \<Rightarrow>
     (app_error + rollback_response) \<times> 's world" where
  "rest_rollback_policy ops e x nid target = leader_only x (\<lambda>w.
     case rest_load_node ops nid w of
       Inl err \<Rightarrow> (Inl err, w)
     | Inr n \<Rightarrow>
         (case rest_read (\<lambda>s. so_get_policy_history ops s nid 10) w of
            Inl err \<Rightarrow> (Inl err, w)
          | Inr versions \<Rightarrow>
              (case rest_rollback_target versions target of
                 Inl err \<Rightarrow> (Inl err, w)
               | Inr (Inl early) \<Rightarrow> (Inr early, w)
               | Inr (Inr v) \<Rightarrow>
                   (case rest_guarded_deploy ops e nid n (pv_rules_yaml v) (compile_options_of_version v) w of
                      (Inl err, w) \<Rightarrow> (Inl err, w)
                    | (Inr out, w) \<Rightarrow> (Inr (rest_rollback_response versions (pv_version v) out), w)))))"

subsection \<open>Counters and fleet status\<close>

record counter_json =
  cj_node_id :: string
  cj_counters :: "rule_counter list"
  cj_collected_at :: string

definition rest_get_node_counters ::
  "'s storage_ops \<Rightarrow> env \<Rightarrow> rest_context \<Rightarrow> string \<Rightarrow> 's world \<Rightarrow> (app_error + counter_json) \<times> 's world" where
  "rest_get_node_counters ops e x nid w =
     (case rest_read (\<lambda>s. so_get_counters ops s nid) w of
        Inl err \<Rightarrow> (Inl err, w)
      | Inr cs \<Rightarrow>
          (let (now, w) = clock e w
           in (Inr \<lparr> cj_node_id = nid, cj_counters = (case cs of Some c \<Rightarrow> c | None \<Rightarrow> []),
                     cj_collected_at = rx_rfc3339 x now \<rparr>, w)))"

record flow_counter_set_json =
  fj_node_id :: string
  fj_flow_counters :: "flow_counter list"
  fj_collected_at :: string

definition rest_get_node_flow_counters ::
  "'s storage_ops \<Rightarrow> env \<Rightarrow> rest_context \<Rightarrow> string \<Rightarrow> 's world \<Rightarrow>
     (app_error + flow_counter_set_json) \<times> 's world" where
  "rest_get_node_flow_counters ops e x nid w =
     (case rest_read (\<lambda>s. so_get_flow_counters ops s nid) w of
        Inl err \<Rightarrow> (Inl err, w)
      | Inr fs \<Rightarrow>
          (let (now, w) = clock e w
           in (Inr \<lparr> fj_node_id = nid, fj_flow_counters = (case fs of Some c \<Rightarrow> c | None \<Rightarrow> []),
                     fj_collected_at = rx_rfc3339 x now \<rparr>, w)))"

fun rest_collect_counters ::
  "'s storage_ops \<Rightarrow> env \<Rightarrow> rest_context \<Rightarrow> node list \<Rightarrow> 's world \<Rightarrow>
     (app_error + counter_json list) \<times> 's world" where
  "rest_collect_counters ops e x [] w = (Inr [], w)"
| "rest_collect_counters ops e x (n # ns) w =
     (case rest_read (\<lambda>s. so_get_counters ops s (n_node_id n)) w of
        Inl err \<Rightarrow> (Inl err, w)
      | Inr None \<Rightarrow> rest_collect_counters ops e x ns w
      | Inr (Some cs) \<Rightarrow>
          (let (now, w) = clock e w
           in case rest_collect_counters ops e x ns w of
                (Inl err, w) \<Rightarrow> (Inl err, w)
              | (Inr rest, w) \<Rightarrow>
                  (Inr (\<lparr> cj_node_id = n_node_id n, cj_counters = cs,
                          cj_collected_at = rx_rfc3339 x now \<rparr> # rest), w)))"

definition rest_get_aggregate_counters ::
  "'s storage_ops \<Rightarrow> env \<Rightarrow> rest_context \<Rightarrow> string option \<Rightarrow> 's world \<Rightarrow>
     (app_error + counter_json list) \<times> 's world" where
  "rest_get_aggregate_counters ops e x label w =
     (case rest_read (\<lambda>s. so_list_nodes ops s (parse_label_filter label)) w of
        Inl err \<Rightarrow> (Inl err, w)
      | Inr nodes \<Rightarrow> rest_collect_counters ops e x nodes w)"

fun rest_collect_flow_counters ::
  "'s storage_ops \<Rightarrow> env \<Rightarrow> rest_context \<Rightarrow> node list \<Rightarrow> 's world \<Rightarrow>
     (app_error + flow_counter_set_json list) \<times> 's world" where
  "rest_collect_flow_counters ops e x [] w = (Inr [], w)"
| "rest_collect_flow_counters ops e x (n # ns) w =
     (case rest_read (\<lambda>s. so_get_flow_counters ops s (n_node_id n)) w of
        Inl err \<Rightarrow> (Inl err, w)
      | Inr None \<Rightarrow> rest_collect_flow_counters ops e x ns w
      | Inr (Some fs) \<Rightarrow>
          (let (now, w) = clock e w
           in case rest_collect_flow_counters ops e x ns w of
                (Inl err, w) \<Rightarrow> (Inl err, w)
              | (Inr rest, w) \<Rightarrow>
                  (Inr (\<lparr> fj_node_id = n_node_id n, fj_flow_counters = fs,
                          fj_collected_at = rx_rfc3339 x now \<rparr> # rest), w)))"

definition rest_get_aggregate_flow_counters ::
  "'s storage_ops \<Rightarrow> env \<Rightarrow> rest_context \<Rightarrow> string option \<Rightarrow> 's world \<Rightarrow>
     (app_error + flow_counter_set_json list) \<times> 's world" where
  "rest_get_aggregate_flow_counters ops e x label w =
     (case rest_read (\<lambda>s. so_list_nodes ops s (parse_label_filter label)) w of
        Inl err \<Rightarrow> (Inl err, w)
      | Inr nodes \<Rightarrow> rest_collect_flow_counters ops e x nodes w)"

record fleet_node_json =
  gj_node_id :: string
  gj_hostname :: string
  gj_state :: string
  gj_policy_hash :: string
  gj_uptime_seconds :: u64
  gj_last_heartbeat_age_seconds :: f64
  gj_last_deploy_time :: "string option"

record fleet_status_json =
  ej_total_nodes :: u32
  ej_nodes_by_state :: "(string, u32) hmap"
  ej_nodes :: "fleet_node_json list"

definition fleet_node_to_json :: "rest_context \<Rightarrow> time \<Rightarrow> node \<Rightarrow> policy option \<Rightarrow> fleet_node_json" where
  "fleet_node_to_json x now n p =
     \<lparr> gj_node_id = n_node_id n, gj_hostname = n_hostname n, gj_state = node_state_to_string (n_state n),
       gj_policy_hash = policy_hash_of p, gj_uptime_seconds = n_uptime_seconds n,
       gj_last_heartbeat_age_seconds = heartbeat_age now n,
       gj_last_deploy_time = map_option (\<lambda>q. rx_rfc3339 x (pol_deployed_at q)) p \<rparr>"

definition rest_get_fleet_status ::
  "'s storage_ops \<Rightarrow> env \<Rightarrow> rest_context \<Rightarrow> string option \<Rightarrow> 's world \<Rightarrow>
     (app_error + fleet_status_json) \<times> 's world" where
  "rest_get_fleet_status ops e x label w =
     (case rest_read (\<lambda>s. so_list_nodes ops s (parse_label_filter label)) w of
        Inl err \<Rightarrow> (Inl err, w)
      | Inr nodes \<Rightarrow>
          (case rest_read (\<lambda>s. so_get_policies_for_nodes ops s (map n_node_id nodes)) w of
             Inl err \<Rightarrow> (Inl err, w)
           | Inr policies \<Rightarrow>
               (let (now, w) = clock e w
                in (Inr \<lparr> ej_total_nodes = word_of_nat (length nodes),
                          ej_nodes_by_state = foldl count_node_state [] nodes,
                          ej_nodes = map (\<lambda>n. fleet_node_to_json x now n (map_of policies (n_node_id n))) nodes \<rparr>,
                    w))))"

subsection \<open>Deploys\<close>

text \<open>The compile options of a body, with the defaults of the missing fields already filled in.\<close>

definition body_defaults :: compile_options where
  "body_defaults =
     \<lparr> co_counters = False, co_rate_limit = False, co_conntrack = False, co_axi = False,
       co_ports = 1, co_target = ''standalone'', co_dynamic = False, co_dynamic_entries = 16,
       co_width = 8, co_ptp = False, co_rss = False, co_rss_queues = 4, co_int_enabled = False,
       co_int_switch_id = 0 \<rparr>"

record rest_deploy_request =
  rd_node_id :: string
  rd_rules_yaml :: string
  rd_options :: compile_options
  rd_dry_run :: bool

record dry_run_node =
  dn_node_id :: string
  dn_hostname :: string
  dn_current_policy_hash :: string
  dn_new_policy_hash :: string
  dn_policy_changed :: bool

record dry_run_result =
  dt_valid :: bool
  dt_validation_errors :: "string list"
  dt_target_nodes :: "dry_run_node list"

record rest_deploy_response =
  rr_success :: bool
  rr_message :: string
  rr_warnings :: "string list"
  rr_dry_run_result :: "dry_run_result option"

definition dry_run ::
  "env \<Rightarrow> rest_context \<Rightarrow> rest_deploy_request \<Rightarrow> node \<Rightarrow> policy option \<Rightarrow> rest_deploy_response" where
  "dry_run e x body n current_policy =
     (let validation_errors =
            (case rx_yaml_error x (rd_rules_yaml body) of
               Some msg \<Rightarrow> [''YAML parse error: '' @ msg] | None \<Rightarrow> []);
          new_hash = e_policy_hash e (rd_rules_yaml body);
          current_hash = policy_hash_of current_policy
      in \<lparr> rr_success = True, rr_message = ''Dry-run complete'', rr_warnings = [],
           rr_dry_run_result = Some
             \<lparr> dt_valid = (validation_errors = []), dt_validation_errors = validation_errors,
               dt_target_nodes =
                 [\<lparr> dn_node_id = n_node_id n, dn_hostname = n_hostname n,
                    dn_current_policy_hash = current_hash, dn_new_policy_hash = new_hash,
                    dn_policy_changed = (current_hash \<noteq> new_hash) \<rparr>] \<rparr> \<rparr>)"

definition rest_deploy_policy ::
  "'s storage_ops \<Rightarrow> env \<Rightarrow> rest_context \<Rightarrow> rest_deploy_request \<Rightarrow> 's world \<Rightarrow>
     (app_error + rest_deploy_response) \<times> 's world" where
  "rest_deploy_policy ops e x body = leader_only x (\<lambda>w.
     case rest_load_node ops (rd_node_id body) w of
       Inl err \<Rightarrow> (Inl err, w)
     | Inr n \<Rightarrow>
         if rd_dry_run body then
           (case rest_read (\<lambda>s. so_get_policy ops s (rd_node_id body)) w of
              Inl err \<Rightarrow> (Inl err, w)
            | Inr p \<Rightarrow> (Inr (dry_run e x body n p), w))
         else
           (case rest_guarded_deploy ops e (rd_node_id body) n (rd_rules_yaml body) (rd_options body) w of
              (Inl err, w) \<Rightarrow> (Inl err, w)
            | (Inr out, w) \<Rightarrow>
                (Inr \<lparr> rr_success = do_success out, rr_message = do_message out,
                       rr_warnings = do_warnings out, rr_dry_run_result = None \<rparr>,
                 record_audit ops e x ''api'' ''deploy'' ''node'' (rd_node_id body)
                   (JObj [(''success'', JBool (do_success out))]) w)))"

record rest_batch_request =
  rq_label_filter :: "(string, string) hmap"
  rq_rules_yaml :: string
  rq_options :: compile_options
  rq_dry_run :: bool

record node_deploy_result_json =
  rj_node_id :: string
  rj_hostname :: string
  rj_success :: bool
  rj_message :: string

record batch_deploy_result_json =
  bj_total_nodes :: u32
  bj_succeeded :: u32
  bj_failed :: u32
  bj_results :: "node_deploy_result_json list"

text \<open>The host names are looked up in a map built from the nodes.\<close>

definition hostname_map :: "node list \<Rightarrow> (string, string) hmap" where
  "hostname_map nodes = hm_extend [] (map (\<lambda>n. (n_node_id n, n_hostname n)) nodes)"

definition rest_batch_deploy_policy ::
  "'s storage_ops \<Rightarrow> env \<Rightarrow> rest_context \<Rightarrow> rest_batch_request \<Rightarrow> 's world \<Rightarrow>
     (app_error + batch_deploy_result_json) \<times> 's world" where
  "rest_batch_deploy_policy ops e x body = leader_only x (\<lambda>w.
     case rest_read (\<lambda>s. so_list_nodes ops s (rq_label_filter body)) w of
       Inl err \<Rightarrow> (Inl err, w)
     | Inr nodes \<Rightarrow>
         if nodes = [] then
           (Inr \<lparr> bj_total_nodes = 0, bj_succeeded = 0, bj_failed = 0, bj_results = [] \<rparr>, w)
         else
           (let (r, w) = deploy_to_nodes ops e nodes (rq_rules_yaml body) (rq_options body) w;
                host = (\<lambda>nid. case map_of (hostname_map nodes) nid of Some h \<Rightarrow> h | None \<Rightarrow> [])
            in (Inr \<lparr> bj_total_nodes = ar_total r, bj_succeeded = ar_succeeded r, bj_failed = ar_failed r,
                      bj_results = map (\<lambda>nr. \<lparr> rj_node_id = nar_node_id nr,
                        rj_hostname = host (nar_node_id nr), rj_success = nar_success nr,
                        rj_message = nar_message nr \<rparr>) (ar_node_results r) \<rparr>, w)))"

end
