(* ===== verification/Rest_Records.thy ===== *)
theory Rest_Records
  imports Rest_Api
begin

text \<open>
  The rest of \<^verbatim>\<open>pacinet-server/src/rest.rs\<close>: the handlers of FSM definitions and instances,
  of the audit log, the templates, the webhook history and the event history, the three event
  streams, and the health check.  As in \<open>Rest_Api\<close>, a write starts with the leader check; only the
  handlers that call \<open>record_audit\<close> in the source leave an audit entry.
\<close>

subsection \<open>FSM definitions\<close>

definition rest_list_fsm_definitions ::
  "'s storage_ops \<Rightarrow> string option \<Rightarrow> 's world \<Rightarrow> app_error + definition_summary list" where
  "rest_list_fsm_definitions ops kind w =
     res_bind (case kind of
                 None \<Rightarrow> Inr None
               | Some k \<Rightarrow> map_err (AppError 400) (res_bind (fsm_kind_from_str k) (\<lambda>x. Inr (Some x)))) (\<lambda>k.
     res_bind (rest_read (\<lambda>s. so_list_fsm_definitions ops s k) w) (\<lambda>ds.
       Inr (map (\<lambda>d. \<lparr> dm_name = fd_name d, dm_kind = fsm_kind_to_string (fd_kind d),
                        dm_description = fd_description d,
                        dm_state_count = word_of_nat (length (fd_states d)),
                        dm_initial_state = fd_initial d \<rparr>) ds)))"

definition rest_get_fsm_definition ::
  "'s storage_ops \<Rightarrow> env \<Rightarrow> string \<Rightarrow> 's world \<Rightarrow> app_error + definition_info" where
  "rest_get_fsm_definition ops e name w =
     res_bind (rest_read (\<lambda>s. so_get_fsm_definition ops s name) w) (\<lambda>d.
     res_bind (ok_or (AppError 404 (''FSM definition '' @ quoted name @ '' not found'')) d) (\<lambda>d.
     res_bind (map_err (AppError 500) (e_to_yaml e d)) (\<lambda>yaml.
       Inr \<lparr> dn_name = fd_name d, dn_kind = fsm_kind_to_string (fd_kind d),
             dn_description = fd_description d, dn_yaml = yaml \<rparr>)))"

definition rest_create_fsm_definition ::
  "'s storage_ops \<Rightarrow> env \<Rightarrow> rest_context \<Rightarrow> string \<Rightarrow> 's world \<Rightarrow> (app_error + create_response) \<times> 's world" where
  "rest_create_fsm_definition ops e x yaml = leader_only x (\<lambda>w.
     case e_from_yaml e yaml of
       Inl err \<Rightarrow> (Inl (AppError 400 (''Invalid YAML: '' @ fsm_error_to_string (YamlParse err))), w)
     | Inr d \<Rightarrow>
         (case validate d of
            Inl err \<Rightarrow> (Inl (AppError 400 (''Invalid definition: '' @ fsm_error_to_string err)), w)
          | Inr _ \<Rightarrow>
              (let (now, w) = clock e w
               in case rest_blocking (\<lambda>s. so_store_fsm_definition ops now s d) w of
                    (Inl err, w) \<Rightarrow> (Inl err, w)
                  | (Inr _, w) \<Rightarrow>
                      (Inr \<lparr> cp_success = True, cp_name = fd_name d,
                             cp_message = ''FSM definition '' @ quoted (fd_name d) @ '' created'' \<rparr>,
                       record_audit ops e x ''api'' ''create_fsm_definition'' ''fsm_definition'' (fd_name d)
                         (JObj []) w))))"

definition rest_delete_fsm_definition ::
  "'s storage_ops \<Rightarrow> rest_context \<Rightarrow> string \<Rightarrow> 's world \<Rightarrow> (app_error + ack) \<times> 's world" where
  "rest_delete_fsm_definition ops x name = leader_only x (\<lambda>w.
     case rest_blocking (\<lambda>s. so_delete_fsm_definition ops s name) w of
       (Inl err, w) \<Rightarrow> (Inl err, w)
     | (Inr deleted, w) \<Rightarrow>
         (Inr \<lparr> ack_success = deleted,
                ack_message = ''FSM definition '' @ quoted name @
                  (if deleted then '' deleted'' else '' not found'') \<rparr>, w))"

subsection \<open>FSM instances\<close>

record fsm_transition_json =
  tj_from_state :: string
  tj_to_state :: string
  tj_trigger :: string
  tj_timestamp :: string
  tj_message :: string

record fsm_instance_json =
  ij_instance_id :: string
  ij_definition_name :: string
  ij_current_state :: string
  ij_status :: string
  ij_created_at :: string
  ij_updated_at :: string
  ij_deployed_nodes :: u32
  ij_failed_nodes :: u32
  ij_target_nodes :: u32
  ij_history :: "fsm_transition_json list"

definition instance_to_json :: "rest_context \<Rightarrow> fsm_instance \<Rightarrow> fsm_instance_json" where
  "instance_to_json x i =
     \<lparr> ij_instance_id = fi_instance_id i, ij_definition_name = fi_definition_name i,
       ij_current_state = fi_current_state i, ij_status = status_to_string (fi_status i),
       ij_created_at = rx_rfc3339 x (fi_created_at i),
       ij_updated_at = rx_rfc3339 x (fi_updated_at i),
       ij_deployed_nodes = word_of_nat (length (cx_deployed_nodes (fi_context i))),
       ij_failed_nodes = word_of_nat (length (cx_failed_nodes (fi_context i))),
       ij_target_nodes = word_of_nat (length (cx_target_nodes (fi_context i))),
       ij_history = map (\<lambda>t. \<lparr> tj_from_state = tr_from_state t, tj_to_state = tr_to_state t,
                                tj_trigger = trigger_to_string (tr_trigger t),
                                tj_timestamp = rx_rfc3339 x (tr_timestamp t),
                                tj_message = tr_message t \<rparr>) (fi_history i) \<rparr>"

definition rest_list_fsm_instances ::
  "'s storage_ops \<Rightarrow> rest_context \<Rightarrow> string option \<Rightarrow> string option \<Rightarrow> 's world \<Rightarrow>
     app_error + fsm_instance_json list" where
  "rest_list_fsm_instances ops x status definition_name w =
     res_bind (case status of
                 None \<Rightarrow> Inr None
               | Some k \<Rightarrow> map_err (AppError 400) (res_bind (status_from_str k) (\<lambda>y. Inr (Some y)))) (\<lambda>st.
     res_bind (rest_read (\<lambda>s. so_list_fsm_instances ops s definition_name st) w) (\<lambda>is.
       Inr (map (instance_to_json x) is)))"

definition rest_get_fsm_instance ::
  "'s storage_ops \<Rightarrow> rest_context \<Rightarrow> string \<Rightarrow> 's world \<Rightarrow> app_error + fsm_instance_json" where
  "rest_get_fsm_instance ops x iid w =
     res_bind (rest_read (\<lambda>s. so_get_fsm_instance ops s iid) w) (\<lambda>i.
     res_bind (ok_or (AppError 404 (''FSM instance '' @ quoted iid @ '' not found'')) i) (\<lambda>i.
       Inr (instance_to_json x i)))"

record rest_start_request =
  rs_definition_name :: string
  rs_rules_yaml :: string
  rs_options :: compile_options
  rs_target_label_filter :: "(string, string) hmap"

definition rest_start_fsm ::
  "'s storage_ops \<Rightarrow> env \<Rightarrow> rest_context \<Rightarrow> rest_start_request \<Rightarrow> 's world \<Rightarrow>
     (app_error + start_fsm_response) \<times> 's world" where
  "rest_start_fsm ops e x body = leader_only x (\<lambda>w.
     let opts = Some (fsm_options_of (rs_options body))
     in case (if rs_target_label_filter body \<noteq> [] then
                start_adaptive_instance ops e (rs_definition_name body)
                  (if rs_rules_yaml body = [] then None else Some (rs_rules_yaml body)) opts
                  (rs_target_label_filter body) w
              else start_instance ops e (rs_definition_name body) (rs_rules_yaml body) opts w) of
          (Inr i, w) \<Rightarrow>
            (Inr \<lparr> sp_success = True, sp_instance_id = fi_instance_id i,
                   sp_message = ''FSM instance started'' \<rparr>, w)
        | (Inl err, w) \<Rightarrow>
            (Inr \<lparr> sp_success = False, sp_instance_id = [],
                   sp_message = pacinet_error_to_string err \<rparr>, w))"

definition rest_advance_fsm ::
  "'s storage_ops \<Rightarrow> env \<Rightarrow> rest_context \<Rightarrow> string \<Rightarrow> string option \<Rightarrow> 's world \<Rightarrow>
     (app_error + advance_response) \<times> 's world" where
  "rest_advance_fsm ops e x iid target_state = leader_only x (\<lambda>w.
     case advance_instance ops e iid target_state w of
       (Inr i, w) \<Rightarrow>
         (Inr \<lparr> ap_success = True, ap_current_state = fi_current_state i,
                ap_message = ''FSM advanced'' \<rparr>, w)
     | (Inl err, w) \<Rightarrow>
         (Inr \<lparr> ap_success = False, ap_current_state = [],
                ap_message = pacinet_error_to_string err \<rparr>, w))"

definition rest_cancel_fsm ::
  "'s storage_ops \<Rightarrow> env \<Rightarrow> rest_context \<Rightarrow> string \<Rightarrow> string \<Rightarrow> 's world \<Rightarrow> (app_error + ack) \<times> 's world" where
  "rest_cancel_fsm ops e x iid reason = leader_only x (\<lambda>w.
     case cancel_instance ops e iid reason w of
       (Inr _, w) \<Rightarrow> (Inr \<lparr> ack_success = True, ack_message = ''FSM instance cancelled'' \<rparr>, w)
     | (Inl err, w) \<Rightarrow> (Inr \<lparr> ack_success = False, ack_message = pacinet_error_to_string err \<rparr>, w))"

subsection \<open>Audit log, templates, webhook history\<close>

record audit_entry_json =
  aj_id :: string
  aj_timestamp :: string
  aj_actor :: string
  aj_action :: string
  aj_resource_type :: string
  aj_resource_id :: string
  aj_details :: json_value

definition parse_since :: "rest_context \<Rightarrow> string option \<Rightarrow> time option" where
  "parse_since x since = Option.bind since (rx_parse_rfc3339 x)"

definition json_or_null :: "rest_context \<Rightarrow> string \<Rightarrow> json_value" where
  "json_or_null x s = (case rx_parse_json x s of Some j \<Rightarrow> j | None \<Rightarrow> JNull)"

definition rest_get_audit_log ::
  "'s storage_ops \<Rightarrow> rest_context \<Rightarrow> string option \<Rightarrow> string option \<Rightarrow> string option \<Rightarrow> string option \<Rightarrow>
     u32 \<Rightarrow> 's world \<Rightarrow> app_error + audit_entry_json list" where
  "rest_get_audit_log ops x action resource_type resource_id since limit w =
     res_bind (rest_read (\<lambda>s. so_query_audit ops s action resource_type resource_id (parse_since x since) limit) w)
       (\<lambda>as. Inr (map (\<lambda>a. \<lparr> aj_id = ae_id a, aj_timestamp = rx_rfc3339 x (ae_timestamp a),
                              aj_actor = ae_actor a, aj_action = ae_action a,
                              aj_resource_type = ae_resource_type a, aj_resource_id = ae_resource_id a,
                              aj_details = json_or_null x (ae_details a) \<rparr>) as))"

record template_summary_json =
  sj_name :: string
  sj_description :: string
  sj_tags :: "string list"
  sj_created_at :: string
  sj_updated_at :: string

definition rest_list_templates ::
  "'s storage_ops \<Rightarrow> rest_context \<Rightarrow> string option \<Rightarrow> 's world \<Rightarrow> app_error + template_summary_json list" where
  "rest_list_templates ops x tag w =
     res_bind (rest_read (\<lambda>s. so_list_templates ops s tag) w) (\<lambda>ts.
       Inr (map (\<lambda>t. \<lparr> sj_name = tpl_name t, sj_description = tpl_description t, sj_tags = tpl_tags t,
                        sj_created_at = rx_rfc3339 x (tpl_created_at t),
                        sj_updated_at = rx_rfc3339 x (tpl_updated_at t) \<rparr>) ts))"

record template_json =
  mj_name :: string
  mj_description :: string
  mj_rules_yaml :: string
  mj_tags :: "string list"
  mj_created_at :: string
  mj_updated_at :: string

definition rest_get_template ::
  "'s storage_ops \<Rightarrow> rest_context \<Rightarrow> string \<Rightarrow> 's world \<Rightarrow> app_error + template_json" where
  "rest_get_template ops x name w =
     res_bind (rest_read (\<lambda>s. so_get_template ops s name) w) (\<lambda>t.
     res_bind (ok_or (AppError 404 (''Template '' @ quoted name @ '' not found'')) t) (\<lambda>t.
       Inr \<lparr> mj_name = tpl_name t, mj_description = tpl_description t,
             mj_rules_yaml = tpl_rules_yaml t, mj_tags = tpl_tags t,
             mj_created_at = rx_rfc3339 x (tpl_created_at t),
             mj_updated_at = rx_rfc3339 x (tpl_updated_at t) \<rparr>))"

definition rest_create_template ::
  "'s storage_ops \<Rightarrow> env \<Rightarrow> rest_context \<Rightarrow> template_request \<Rightarrow> 's world \<Rightarrow> (app_error + ack) \<times> 's world" where
  "rest_create_template ops e x body = leader_only x (\<lambda>w.
     let (now, w) = clock e w;
         t = \<lparr> tpl_name = tq_name body, tpl_description = tq_description body,
               tpl_rules_yaml = tq_rules_yaml body, tpl_tags = tq_tags body,
               tpl_created_at = now, tpl_updated_at = now \<rparr>
     in case rest_blocking (\<lambda>s. so_store_template ops s t) w of
          (Inl err, w) \<Rightarrow> (Inl err, w)
        | (Inr _, w) \<Rightarrow>
            (Inr \<lparr> ack_success = True,
                   ack_message = ''Template '' @ quoted (tq_name body) @ '' created'' \<rparr>,
             record_audit ops e x ''api'' ''create_template'' ''template'' (tq_name body) (JObj []) w))"

definition rest_delete_template ::
  "'s storage_ops \<Rightarrow> env \<Rightarrow> rest_context \<Rightarrow> string \<Rightarrow> 's world \<Rightarrow> (app_error + ack) \<times> 's world" where
  "rest_delete_template ops e x name = leader_only x (\<lambda>w.
     case rest_blocking (\<lambda>s. so_delete_template ops s name) w of
       (Inl err, w) \<Rightarrow> (Inl err, w)
     | (Inr deleted, w) \<Rightarrow>
         (Inr \<lparr> ack_success = deleted,
                ack_message = ''Template '' @ quoted name @
                  (if deleted then '' deleted'' else '' not found'') \<rparr>,
          if deleted then record_audit ops e x ''api'' ''delete_template'' ''template'' name (JObj []) w
          else w))"

record webhook_delivery_json =
  hj_timestamp :: string
  hj_delivery :: webhook_delivery

text \<open>\<open>WebhookDeliveryJson\<close> has the fields of the delivery, with its time printed.\<close>

definition rest_get_webhook_history ::
  "'s storage_ops \<Rightarrow> rest_context \<Rightarrow> string option \<Rightarrow> u32 \<Rightarrow> 's world \<Rightarrow>
     app_error + webhook_delivery_json list" where
  "rest_get_webhook_history ops x iid limit w =
     res_bind (rest_read (\<lambda>s. so_query_webhook_deliveries ops s iid limit) w) (\<lambda>ds.
       Inr (map (\<lambda>d. \<lparr> hj_timestamp = rx_rfc3339 x (wd_timestamp d), hj_delivery = d \<rparr>) ds))"

subsection \<open>Event streams and event history\<close>

text \<open>A stream yields, for what its receiver gets from the bus, the selected events in order.\<close>

record node_event_json =
  vn_event_type :: string
  vn_node_id :: string
  vn_hostname :: string
  vn_labels :: "(string, string) hmap"
  vn_old_state :: string
  vn_new_state :: string
  vn_timestamp :: string

fun node_event_to_json :: "rest_context \<Rightarrow> node_event \<Rightarrow> node_event_json" where
  "node_event_to_json x (NodeRegistered nid h ls t) =
     \<lparr> vn_event_type = ''registered'', vn_node_id = nid, vn_hostname = h, vn_labels = ls,
       vn_old_state = [], vn_new_state = ''registered'', vn_timestamp = rx_rfc3339 x t \<rparr>"
| "node_event_to_json x (StateChanged nid h ls old new t) =
     \<lparr> vn_event_type = ''state_changed'', vn_node_id = nid, vn_hostname = h, vn_labels = ls,
       vn_old_state = old, vn_new_state = new, vn_timestamp = rx_rfc3339 x t \<rparr>"
| "node_event_to_json x (HeartbeatStale nid h ls t) =
     \<lparr> vn_event_type = ''heartbeat_stale'', vn_node_id = nid, vn_hostname = h, vn_labels = ls,
       vn_old_state = [], vn_new_state = ''offline'', vn_timestamp = rx_rfc3339 x t \<rparr>"
| "node_event_to_json x (NodeRemoved nid h ls t) =
     \<lparr> vn_event_type = ''removed'', vn_node_id = nid, vn_hostname = h, vn_labels = ls,
       vn_old_state = [], vn_new_state = [], vn_timestamp = rx_rfc3339 x t \<rparr>"

record counter_event_json =
  vc_node_id :: string
  vc_counters :: "counter_rate_data list"
  vc_collected_at :: string

definition counter_event_to_json :: "rest_context \<Rightarrow> counter_event \<Rightarrow> counter_event_json" where
  "counter_event_to_json x ev =
     \<lparr> vc_node_id = ce_node_id ev, vc_counters = ce_counters ev,
       vc_collected_at = rx_rfc3339 x (ce_collected_at ev) \<rparr>"

text \<open>An empty string field of \<open>FsmEventJson\<close> is left out of the JSON text, as is \<open>None\<close>.\<close>

record fsm_event_json =
  vf_event_type :: string
  vf_instance_id :: string
  vf_definition_name :: string
  vf_from_state :: string
  vf_to_state :: string
  vf_trigger :: string
  vf_message :: string
  vf_deployed_nodes :: "u32 option"
  vf_failed_nodes :: "u32 option"
  vf_target_nodes :: "u32 option"
  vf_final_status :: "string option"
  vf_timestamp :: string

fun fsm_event_to_json :: "rest_context \<Rightarrow> fsm_event \<Rightarrow> fsm_event_json" where
  "fsm_event_to_json x (Transition i d f t tr m ts) =
     \<lparr> vf_event_type = ''transition'', vf_instance_id = i, vf_definition_name = d, vf_from_state = f,
       vf_to_state = t, vf_trigger = tr, vf_message = m, vf_deployed_nodes = None,
       vf_failed_nodes = None, vf_target_nodes = None, vf_final_status = None,
       vf_timestamp = rx_rfc3339 x ts \<rparr>"
| "fsm_event_to_json x (DeployProgress i d dn fn tn ts) =
     \<lparr> vf_event_type = ''deploy_progress'', vf_instance_id = i, vf_definition_name = d,
       vf_from_state = [], vf_to_state = [], vf_trigger = [], vf_message = [],
       vf_deployed_nodes = Some dn, vf_failed_nodes = Some fn, vf_target_nodes = Some tn,
       vf_final_status = None, vf_timestamp = rx_rfc3339 x ts \<rparr>"
| "fsm_event_to_json x (InstanceCompleted i d st ts) =
     \<lparr> vf_event_type = ''instance_completed'', vf_instance_id = i, vf_definition_name = d,
       vf_from_state = [], vf_to_state = [], vf_trigger = [], vf_message = [],
       vf_deployed_nodes = None, vf_failed_nodes = None, vf_target_nodes = None,
       vf_final_status = Some st, vf_timestamp = rx_rfc3339 x ts \<rparr>"

definition sse_node_events :: "rest_context \<Rightarrow> string option \<Rightarrow> node_event list \<Rightarrow> node_event_json list" where
  "sse_node_events x label received =
     (let label_filter = parse_label_filter label
      in map (node_event_to_json x)
           (filter (\<lambda>ev. label_filter = [] \<or> node_event_selected label_filter ev) received))"

definition sse_counter_events ::
  "rest_context \<Rightarrow> string option \<Rightarrow> counter_event list \<Rightarrow> counter_event_json list" where
  "sse_counter_events x filter_node received =
     map (counter_event_to_json x)
       (filter (\<lambda>ev. is_none_or (\<lambda>nid. ce_node_id ev = nid) filter_node) received)"

definition sse_fsm_events :: "rest_context \<Rightarrow> string option \<Rightarrow> fsm_event list \<Rightarrow> fsm_event_json list" where
  "sse_fsm_events x filter_instance received =
     map (fsm_event_to_json x) (filter (fsm_event_selected filter_instance) received)"

record persistent_event_json =
  ej_id :: string
  ej_event_type :: string
  ej_source :: string
  ej_payload :: json_value
  ej_timestamp :: string

definition rest_get_event_history ::
  "'s storage_ops \<Rightarrow> rest_context \<Rightarrow> string option \<Rightarrow> string option \<Rightarrow> string option \<Rightarrow> string option \<Rightarrow>
     u32 \<Rightarrow> 's world \<Rightarrow> app_error + persistent_event_json list" where
  "rest_get_event_history ops x event_type source since until limit w =
     res_bind (rest_read (\<lambda>s. so_query_events ops s event_type source (parse_since x since)
        (parse_since x until) limit) w)
       (\<lambda>es. Inr (map (\<lambda>ev. \<lparr> ej_id = pe_id ev, ej_event_type = pe_event_type ev,
                               ej_source = pe_source ev, ej_payload = json_or_null x (pe_payload ev),
                               ej_timestamp = rx_rfc3339 x (pe_timestamp ev) \<rparr>) es))"

text \<open>The health check, the one route in front of which there is no authentication.\<close>

record health_response =
  he_status :: string
  he_auth_required :: bool
  he_role :: string

definition health_check :: "rest_context \<Rightarrow> health_response" where
  "health_check x =
     \<lparr> he_status = ''ok'', he_auth_required = (rx_api_key x \<noteq> None),
       he_role = (if rx_leader x then ''leader'' else ''standby'') \<rparr>"

end
