(* ===== verification/Main_Loops.thy ===== *)
theory Main_Loops
  imports Fsm_Run
begin

text \<open>
  Leader election (\<^verbatim>\<open>pacinet-server/src/leader.rs\<close> over the lease table of
  \<^verbatim>\<open>pacinet-server/src/storage/sqlite.rs\<close>) and the background loops that
  \<^verbatim>\<open>pacinet-server/src/main.rs\<close> starts: the leader loop, the FSM tick, the persistence of
  events and the reaper of stale nodes.

  The lemmas show that a lease excludes other controllers until it has expired, what one tick of
  each loop does, and that the loops only write when the flag of the configuration is set, which in
  HA mode nothing ever sets.
\<close>

subsection \<open>The lease\<close>

record lease_row =
  lr_controller_id :: string
  lr_expires_at :: time

type_synonym lease_table = "lease_row option"

text \<open>\<open>fault\<close> is the error of the database, if a statement fails; the transaction is then rolled
  back.\<close>

definition sqlite_try_acquire_lease ::
  "string option \<Rightarrow> time \<Rightarrow> lease_table \<Rightarrow> string \<Rightarrow> u64 \<Rightarrow> bool outcome \<times> lease_table" where
  "sqlite_try_acquire_lease fault now table controller_id duration_secs =
     (case fault of
        Some err \<Rightarrow> (Inl (Internal err), table)
      | None \<Rightarrow>
          (let mine = Some \<lparr> lr_controller_id = controller_id,
                             lr_expires_at = now + secs (sint duration_secs) \<rparr>
           in case table of
                None \<Rightarrow> (Inr True, mine)
              | Some row \<Rightarrow>
                  if lr_controller_id row = controller_id then (Inr True, mine)
                  else if now > lr_expires_at row then (Inr True, mine)
                  else (Inr False, table)))"

definition sqlite_get_leader :: "lease_table \<Rightarrow> (string \<times> time) option outcome" where
  "sqlite_get_leader table = Inr (map_option (\<lambda>row. (lr_controller_id row, lr_expires_at row)) table)"

record leader_election =
  le_controller_id :: string
  le_lease_secs :: u64
  le_is_leader :: bool

definition leader_election_new :: "string \<Rightarrow> u64 \<Rightarrow> leader_election" where
  "leader_election_new controller_id lease_secs =
     \<lparr> le_controller_id = controller_id, le_lease_secs = lease_secs, le_is_leader = False \<rparr>"

text \<open>\<open>LeaderElection::try_acquire\<close>; the flag keeps its value when the storage call fails.  A tick of
  \<open>run\<close> does the same without the result.\<close>

definition try_acquire ::
  "('s \<Rightarrow> string \<Rightarrow> u64 \<Rightarrow> bool outcome \<times> 's) \<Rightarrow> leader_election \<Rightarrow> 's \<Rightarrow>
     (bool \<times> leader_election) \<times> 's" where
  "try_acquire acquire le s =
     (case acquire s (le_controller_id le) (le_lease_secs le) of
        (Inr acquired, s) \<Rightarrow> ((acquired, le\<lparr> le_is_leader := acquired \<rparr>), s)
      | (Inl _, s) \<Rightarrow> ((False, le), s))"

definition leader_tick ::
  "('s \<Rightarrow> string \<Rightarrow> u64 \<Rightarrow> bool outcome \<times> 's) \<Rightarrow> leader_election \<Rightarrow> 's \<Rightarrow> leader_election \<times> 's" where
  "leader_tick acquire le s =
     (case try_acquire acquire le s of ((_, le), s) \<Rightarrow> (le, s))"

text \<open>A series of lease calls by several controllers, each with its clock reading.\<close>

record lease_call =
  lc_time :: time
  lc_controller :: string
  lc_secs :: u64
  lc_fault :: "string option"

definition lease_step :: "lease_call \<Rightarrow> lease_table \<Rightarrow> bool outcome \<times> lease_table" where
  "lease_step c table =
     sqlite_try_acquire_lease (lc_fault c) (lc_time c) table (lc_controller c) (lc_secs c)"

definition lease_run :: "lease_call list \<Rightarrow> lease_table \<Rightarrow> lease_table" where
  "lease_run cs table = foldl (\<lambda>t c. snd (lease_step c t)) table cs"

definition acquires :: "lease_call \<Rightarrow> lease_table \<Rightarrow> bool" where
  "acquires c table = (fst (lease_step c table) = Inr True)"

definition lease_end :: "lease_call \<Rightarrow> time" where
  "lease_end c = lc_time c + secs (sint (lc_secs c))"

lemma acquires_iff:
  "acquires c table \<longleftrightarrow> lc_fault c = None \<and>
     (\<forall>row. table = Some row \<longrightarrow> lr_controller_id row = lc_controller c \<or> lr_expires_at row < lc_time c)"
  by (auto simp: acquires_def lease_step_def sqlite_try_acquire_lease_def Let_def split: option.splits)

lemma lease_step_table:
  "snd (lease_step c table) =
     (if acquires c table
      then Some \<lparr> lr_controller_id = lc_controller c, lr_expires_at = lease_end c \<rparr> else table)"
  by (auto simp: acquires_def lease_step_def sqlite_try_acquire_lease_def lease_end_def Let_def
      split: option.splits)

lemma lease_held:
  assumes "acquires a table" and "sorted (map lc_time (a # ys))"
    and "\<forall>c \<in> set ys. lc_controller c = lc_controller a \<longrightarrow> lc_secs c = lc_secs a"
    and "\<forall>c \<in> set ys. lc_controller c \<noteq> lc_controller a \<longrightarrow> lc_time c \<le> lease_end a"
  shows "\<exists>row. lease_run (a # ys) table = Some row \<and>
    lr_controller_id row = lc_controller a \<and> lease_end a \<le> lr_expires_at row"
  using assms(2-4)
proof (induction ys rule: rev_induct)
  case Nil
  then show ?case using assms(1) by (simp add: lease_run_def lease_step_table)
next
  case (snoc c ys)
  have "sorted (map lc_time (a # ys))" using snoc.prems(1) by (simp add: sorted_append)
  with snoc obtain row where row: "lease_run (a # ys) table = Some row"
    "lr_controller_id row = lc_controller a" "lease_end a \<le> lr_expires_at row" by auto
  have run: "lease_run (a # ys @ [c]) table = snd (lease_step c (Some row))"
    using row(1) by (simp add: lease_run_def)
  have le: "lc_time a \<le> lc_time c" using snoc.prems(1) by (simp add: sorted_append)
  show ?case
  proof (cases "lc_controller c = lc_controller a")
    case True
    then have "lease_end a \<le> lease_end c" using le snoc.prems(2) by (simp add: lease_end_def)
    with row True show ?thesis by (simp add: run lease_step_table)
  next
    case False
    then have "\<not> acquires c (Some row)" using snoc.prems(3) row by (auto simp: acquires_iff)
    with row show ?thesis by (simp add: run lease_step_table)
  qed
qed

text \<open>C18: A lease excludes: when one controller has acquired it and another one acquires it later, the
  time of the second is past the end of the first one's lease, whatever calls (also failing ones)
  lie between, as long as the clock readings do not decrease and a controller always asks for the
  same duration.\<close>

theorem lease_mutual_exclusion:
  assumes "sorted (map lc_time (a # ys @ [b]))"
    and "\<forall>c \<in> set ys. lc_controller c = lc_controller a \<longrightarrow> lc_secs c = lc_secs a"
    and "acquires a table" and "acquires b (lease_run (a # ys) table)"
    and "lc_controller b \<noteq> lc_controller a"
  shows "lease_end a < lc_time b"
proof (rule ccontr)
  assume n: "\<not> lease_end a < lc_time b"
  have s: "sorted (map lc_time (a # ys))" "\<forall>c \<in> set ys. lc_time c \<le> lc_time b"
    using assms(1) by (auto simp: sorted_append)
  from lease_held [OF assms(3) s(1) assms(2)] n s(2)
  obtain row where "lease_run (a # ys) table = Some row" "lr_controller_id row = lc_controller a"
    "lease_end a \<le> lr_expires_at row" by force
  with assms(4,5) n show False by (auto simp: acquires_iff)
qed

lemma lease_free_after_expiry:
  "lc_fault c = None \<Longrightarrow> (\<And>row. table = Some row \<Longrightarrow> lr_expires_at row < lc_time c) \<Longrightarrow>
     acquires c table"
  by (auto simp: acquires_iff)

text \<open>The flags of two controllers can both be set: a controller clears its flag only in a call of its
  own, so one that does not run keeps it after its lease has been taken over.\<close>

lemma two_leader_flags:
  fixes A B :: leader_election
  defines "A \<equiv> leader_election_new ''a'' 30" and "B \<equiv> leader_election_new ''b'' 30"
  defines "ra \<equiv> try_acquire (sqlite_try_acquire_lease None 0) A None"
  defines "rb \<equiv> try_acquire (sqlite_try_acquire_lease None (secs 31)) B (snd ra)"
  shows "le_is_leader (snd (fst ra)) \<and> le_is_leader (snd (fst rb)) \<and>
    sqlite_get_leader (snd rb) = Inr (Some (''b'', secs 61))"
  by (simp add: ra_def rb_def A_def B_def try_acquire_def leader_election_new_def
      sqlite_try_acquire_lease_def sqlite_get_leader_def Let_def)

subsection \<open>The background loops\<close>

text \<open>A tick of the FSM loop, and the persistence of one event from the bus.\<close>

definition fsm_tick :: "'s storage_ops \<Rightarrow> env \<Rightarrow> bool \<Rightarrow> 's world \<Rightarrow> 's world" where
  "fsm_tick ops e is_leader w = (if is_leader then evaluate_all ops e w else w)"

definition store_event :: "'s storage_ops \<Rightarrow> persistent_event \<Rightarrow> 's world \<Rightarrow> 's world" where
  "store_event ops pe w = w\<lparr> w_store := snd (so_store_event ops (w_store w) pe) \<rparr>"

definition persist_event ::
  "'s storage_ops \<Rightarrow> env \<Rightarrow> bool \<Rightarrow> bool \<Rightarrow> domain_event \<Rightarrow> 's world \<Rightarrow> 's world" where
  "persist_event ops e is_leader persist_counter_events ev w =
     (case ev of
        FsmEv f \<Rightarrow>
          if \<not> is_leader then w
          else (let (uuid, w) = new_uuid e w
                in store_event ops (fsm_event_to_persistent uuid (\<lambda>x. e_json e (FsmEv x)) f) w)
      | CounterEv c \<Rightarrow>
          if \<not> persist_counter_events then w
          else if \<not> is_leader then w
          else (let (uuid, w) = new_uuid e w
                in store_event ops (counter_event_to_persistent uuid (\<lambda>x. e_json e (CounterEv x)) c) w)
      | NodeEv n \<Rightarrow>
          if \<not> is_leader then w
          else (let (uuid, w) = new_uuid e w
                in store_event ops (node_event_to_persistent uuid (\<lambda>x. e_json e (NodeEv x)) n) w))"

text \<open>The reaper: eviction on every controller, the rest on the leader.\<close>

fun announce_stale :: "'s storage_ops \<Rightarrow> env \<Rightarrow> string list \<Rightarrow> 's world \<Rightarrow> 's world" where
  "announce_stale ops e [] w = w"
| "announce_stale ops e (nid # nids) w =
     announce_stale ops e nids
       (case so_get_node ops (w_store w) nid of
          Inr (Some n) \<Rightarrow>
            emit_now e (\<lambda>t. NodeEv (HeartbeatStale (n_node_id n) (n_hostname n) (n_labels n) t)) w
        | _ \<Rightarrow> w)"

definition mark_stale :: "'s storage_ops \<Rightarrow> env \<Rightarrow> 's world \<Rightarrow> 's world" where
  "mark_stale ops e w =
     (let (now, w) = clock e w
      in case so_mark_stale_nodes ops now (w_store w) (stale_threshold e) of
           (Inr stale, s') \<Rightarrow> announce_stale ops e stale (w\<lparr> w_store := s' \<rparr>)
         | (Inl _, s') \<Rightarrow> w\<lparr> w_store := s' \<rparr>)"

definition prune_old_events :: "'s storage_ops \<Rightarrow> env \<Rightarrow> u64 \<Rightarrow> 's world \<Rightarrow> 's world" where
  "prune_old_events ops e max_age_days w =
     (if max_age_days > 0 then
        (let (now, w) = clock e w
         in w\<lparr> w_store := snd (so_prune_events ops (w_store w)
                (now - secs (86400 * sint max_age_days))) \<rparr>)
      else w)"

definition reaper_tick :: "'s storage_ops \<Rightarrow> env \<Rightarrow> bool \<Rightarrow> u64 \<Rightarrow> 's world \<Rightarrow> 's world" where
  "reaper_tick ops e is_leader max_age_days w =
     (let (now, w) = clock e w;
          w = w\<lparr> w_cache := cache_evict_expired now (w_cache w) \<rparr>
      in if \<not> is_leader then w
         else prune_old_events ops e max_age_days (mark_stale ops e w))"

text \<open>The wiring of \<open>main\<close>: the flag the loops read is the one of the configuration; the leader loop
  writes the flag of its own \<open>LeaderElection\<close>.\<close>

record controller =
  ctl_config_is_leader :: bool
  ctl_election :: "leader_election option"

definition start_controller :: "string option \<Rightarrow> u64 \<Rightarrow> controller" where
  "start_controller cluster_id lease_secs =
     (case cluster_id of
        Some cid \<Rightarrow> \<lparr> ctl_config_is_leader = False,
                      ctl_election = Some (leader_election_new cid lease_secs) \<rparr>
      | None \<Rightarrow> \<lparr> ctl_config_is_leader = True, ctl_election = None \<rparr>)"

definition controller_tick ::
  "('s \<Rightarrow> string \<Rightarrow> u64 \<Rightarrow> bool outcome \<times> 's) \<Rightarrow> controller \<Rightarrow> 's \<Rightarrow> controller \<times> 's" where
  "controller_tick acquire c s =
     (case ctl_election c of
        None \<Rightarrow> (c, s)
      | Some le \<Rightarrow> (case leader_tick acquire le s of
                      (le, s) \<Rightarrow> (c\<lparr> ctl_election := Some le \<rparr>, s)))"

inductive controller_reachable ::
  "('s \<Rightarrow> string \<Rightarrow> u64 \<Rightarrow> bool outcome \<times> 's) set \<Rightarrow> string option \<Rightarrow> u64 \<Rightarrow> controller \<times> 's \<Rightarrow> bool"
  for calls cluster_id lease_secs where
  start: "controller_reachable calls cluster_id lease_secs (start_controller cluster_id lease_secs, s)"
| tick: "controller_reachable calls cluster_id lease_secs (c, s) \<Longrightarrow> acquire \<in> calls \<Longrightarrow>
    controller_reachable calls cluster_id lease_secs (controller_tick acquire c s)"
| outside: "controller_reachable calls cluster_id lease_secs (c, s) \<Longrightarrow>
    controller_reachable calls cluster_id lease_secs (c, s')"

lemma config_flag_constant:
  "controller_reachable calls cid ls cs \<Longrightarrow> ctl_config_is_leader (fst cs) = (cid = None)"
proof (induction rule: controller_reachable.induct)
  case (tick c s acquire)
  then show ?case by (simp add: controller_tick_def case_prod_unfold split: option.split)
qed (simp_all add: start_controller_def split: option.split)

text \<open>In HA mode no controller ever acts as leader: whatever the lease calls return, the flag the
  background loops read stays cleared, so no instance is evaluated, no event is stored and no
  node is marked stale, on the holder of the lease too.\<close>

theorem ha_mode_never_leads:
  assumes "controller_reachable calls (Some cluster_id) lease_secs (c, s)"
  defines "leads \<equiv> ctl_config_is_leader c"
  shows "fsm_tick ops e leads w = w \<and> persist_event ops e leads pc ev w = w \<and>
    w_store (reaper_tick ops e leads days w) = w_store w"
  using config_flag_constant [OF assms(1)]
  by (simp add: leads_def fsm_tick_def persist_event_def reaper_tick_def Let_def case_prod_unfold
      split: domain_event.split)

lemma announce_stale_events:
  assumes "e_event_bus e"
    and "\<And>nid. nid \<in> set nids \<Longrightarrow> \<exists>n. so_get_node ops (w_store w) nid = Inr (Some n) \<and> n_node_id n = nid"
  shows "w_store (announce_stale ops e nids w) = w_store w \<and>
    (\<exists>evs. w_events (announce_stale ops e nids w) = w_events w @ map NodeEv evs \<and>
       map ne_node_id evs = nids \<and> (\<forall>ev \<in> set evs. node_event_type ev = ''node.heartbeat_stale''))"
  using assms(2)
proof (induction nids arbitrary: w)
  case (Cons nid nids)
  obtain n where n: "so_get_node ops (w_store w) nid = Inr (Some n)" "n_node_id n = nid"
    using Cons.prems [of nid] by auto
  define ev where "ev = HeartbeatStale (n_node_id n) (n_hostname n) (n_labels n) (e_now e (w_ticks w))"
  define w1 where "w1 = w\<lparr> w_ticks := Suc (w_ticks w), w_events := w_events w @ [NodeEv ev] \<rparr>"
  have a: "announce_stale ops e (nid # nids) w = announce_stale ops e nids w1"
    using assms(1) n by (simp add: emit_now_def clock_def emit_def w1_def ev_def)
  have "w_store w1 = w_store w" "w_events w1 = w_events w @ [NodeEv ev]" by (simp_all add: w1_def)
  with Cons.IH [of w1] Cons.prems obtain evs where
    "w_store (announce_stale ops e nids w1) = w_store w"
    "w_events (announce_stale ops e nids w1) = (w_events w @ [NodeEv ev]) @ map NodeEv evs"
    "map ne_node_id evs = nids" "\<forall>ev \<in> set evs. node_event_type ev = ''node.heartbeat_stale''" by auto
  then show ?case
    unfolding a by (intro conjI exI [of _ "ev # evs"]) (simp_all add: ev_def n(2))
qed simp

text \<open>One reaper round on the leader takes exactly the stale nodes offline and announces each of
  them once on the event bus, in the order in which the storage reports them.\<close>

theorem reaper_announces_stale_nodes:
  assumes "mem_inv (w_store w)" and "e_event_bus e"
  shows "\<exists>ids evs. w_events (mark_stale memory_ops e w) = w_events w @ map NodeEv evs \<and>
    map ne_node_id evs = ids \<and> distinct ids \<and>
    (\<forall>ev \<in> set evs. node_event_type ev = ''node.heartbeat_stale'') \<and>
    (\<forall>nid. nid \<in> set ids \<longleftrightarrow> (\<exists>n. map_of (ms_nodes (w_store w)) nid = Some n \<and>
       is_stale (e_now e (w_ticks w)) (stale_threshold e) n)) \<and>
    (\<forall>nid. map_of (ms_nodes (w_store (mark_stale memory_ops e w))) nid = map_option
       (\<lambda>n. if nid \<in> set ids then n\<lparr> n_state := Offline \<rparr> else n) (map_of (ms_nodes (w_store w)) nid))"
proof -
  let ?now = "e_now e (w_ticks w)" and ?th = "stale_threshold e"
  let ?ids = "stale_ids ?now ?th (w_store w)"
  obtain s' where s': "mem_mark_stale_nodes ?now (w_store w) ?th = (Inr ?ids, s')"
    and n': "ms_nodes s' = map (\<lambda>(k, n). (k, if is_stale ?now ?th n then n\<lparr> n_state := Offline \<rparr> else n))
      (ms_nodes (w_store w))"
    by (simp add: mem_mark_stale_nodes_eq)
  let ?w1 = "w\<lparr> w_ticks := Suc (w_ticks w), w_store := s' \<rparr>"
  have inv: "mem_inv s'" using mem_mark_stale_nodes_inv [OF assms(1), of ?now ?th] s' by simp
  note spec = stale_ids_spec [OF assms(1), where now = ?now and threshold = ?th]
  have "\<exists>n. so_get_node memory_ops (w_store ?w1) nid = Inr (Some n) \<and> n_node_id n = nid"
    if m: "nid \<in> set ?ids" for nid
  proof -
    obtain n where "map_of (ms_nodes (w_store w)) nid = Some n"
      using m spec(2) [of nid] by blast
    then obtain n' where "map_of (ms_nodes s') nid = Some n'"
      by (simp add: n' map_of_map_values)
    then show ?thesis using mem.node_key [OF inv, of nid n'] by (simp add: mem_get_node_def)
  qed
  from announce_stale_events [OF assms(2) this]
  obtain evs where evs: "w_store (announce_stale memory_ops e ?ids ?w1) = s'"
    "w_events (announce_stale memory_ops e ?ids ?w1) = w_events w @ map NodeEv evs"
    "map ne_node_id evs = ?ids" "\<forall>ev \<in> set evs. node_event_type ev = ''node.heartbeat_stale''" by auto
  have eq: "mark_stale memory_ops e w = announce_stale memory_ops e ?ids ?w1"
    by (simp add: mark_stale_def clock_def Let_def s')
  have st: "map_of (ms_nodes s') nid = map_option
      (\<lambda>n. if nid \<in> set ?ids then n\<lparr> n_state := Offline \<rparr> else n) (map_of (ms_nodes (w_store w)) nid)" for nid
    using spec(2) [of nid] by (cases "map_of (ms_nodes (w_store w)) nid") (auto simp: n' map_of_map_values)
  show ?thesis
    unfolding eq using evs spec st by (intro exI [of _ ?ids] exI [of _ evs]) simp
qed

end
