(* ===== verification/Api_Run.thy ===== *)
theory Api_Run
  imports Management_Api Main_Loops
begin

text \<open>
  Properties of the management service and of the deploy guard: every handler that takes the guard
  gives it back, errors change nothing, a rollback restores the content of the version it names, a
  batch deploy accounts for every node, only well-formed FSM definitions are stored, and the
  streamed node events carry the states of the domain events.  \<^verbatim>\<open>Deploy_Tasks.thy\<close> lets deploys
  interleave.
\<close>

subsection \<open>The handlers that deploy\<close>

text \<open>The nodes a batch is for.\<close>

definition batch_nodes :: "astore \<Rightarrow> (string, string) hmap \<Rightarrow> string set" where
  "batch_nodes a label_filter = {nid. \<exists>n. as_nodes a nid = Some n \<and> labels_match label_filter n}"

context storage
begin

lemma guarded_deploy_frame:
  assumes "inv (w_store w)" and "n_node_id n = dq_node_id req"
    and "guarded_deploy ops e req n w = (r, w')"
  shows "inv (w_store w') \<and>
    deploy_frame ({dq_node_id req} - as_deploying (abs (w_store w))) (abs (w_store w)) (abs (w_store w')) \<and>
    (res_is_ok r \<longleftrightarrow> dq_node_id req \<notin> as_deploying (abs (w_store w)))"
proof -
  let ?nid = "dq_node_id req"
  obtain g s1 where g: "so_begin_deploy ops (w_store w) ?nid = (g, s1)" by (metis surj_pair)
  have ok: "res_is_ok g \<longleftrightarrow> ?nid \<notin> as_deploying (abs (w_store w))"
    using begin_deploy_exclusive [OF assms(1), of ?nid] g by simp
  show ?thesis
  proof (cases g)
    case (Inl err)
    then have "w' = w\<lparr> w_store := s1 \<rparr>" "r = Inl (status_from err)"
      using assms(3) g by (simp_all add: guarded_deploy_def blocking_def)
    then show ?thesis using refused_deploy_kept [OF assms(1)] g Inl ok by auto
  next
    case (Inr u)
    let ?opts = "options_or_default (dq_options req)"
    obtain out w2 where d: "deploy_to_node ops e n (dq_rules_yaml req) ?opts (w\<lparr> w_store := s1 \<rparr>) = (out, w2)"
      by (metis surj_pair)
    have w': "w' = w2\<lparr> w_store := so_end_deploy ops (w_store w2) ?nid \<rparr>" "res_is_ok r"
      using assms(3) g Inr d by (auto simp: guarded_deploy_def do_deploy_def blocking_def Let_def)
    have "kept ?nid s1 (w_store w2)"
      using kept_deploy_to_node [of n "w\<lparr> w_store := s1 \<rparr>" e "dq_rules_yaml req" ?opts] d assms(2) by simp
    note k = guarded_deploy_kept [OF assms(1) g [unfolded Inr] this]
    have "?nid \<notin> as_deploying (abs (w_store w))" using ok Inr by simp
    then have "{?nid} - as_deploying (abs (w_store w)) = {?nid}" by blast
    then show ?thesis using k w' ok Inr by simp
  qed
qed

lemma load_node_eq:
  "inv (w_store w) \<Longrightarrow> load_node ops nid w =
     ok_or (not_found (''Node '' @ nid @ '' not found'')) (as_nodes (abs (w_store w)) nid)"
  using get_node [of "w_store w" nid] by (simp add: load_node_def blocking_read_def)

lemma deploy_policy_frame:
  assumes "inv (w_store w)" and "deploy_policy ops e req w = (r, w')"
  shows "inv (w_store w') \<and>
    deploy_frame ({dq_node_id req} - as_deploying (abs (w_store w))) (abs (w_store w)) (abs (w_store w')) \<and>
    (res_is_ok r \<longleftrightarrow> as_nodes (abs (w_store w)) (dq_node_id req) \<noteq> None \<and>
       dq_node_id req \<notin> as_deploying (abs (w_store w)))"
proof (cases "as_nodes (abs (w_store w)) (dq_node_id req)")
  case None
  then show ?thesis using assms by (auto simp: deploy_policy_def load_node_eq)
next
  case (Some n)
  then show ?thesis
    using guarded_deploy_frame [OF assms(1) node_key [OF assms(1) Some], of e r w'] assms
    by (simp add: deploy_policy_def load_node_eq)
qed

lemma rollback_policy_frame:
  assumes "inv (w_store w)" and "rollback_policy ops e nid target w = (r, w')"
  shows "inv (w_store w') \<and>
    deploy_frame ({nid} - as_deploying (abs (w_store w))) (abs (w_store w)) (abs (w_store w'))"
proof (cases "as_nodes (abs (w_store w)) nid")
  case None
  then show ?thesis using assms by (auto simp: rollback_policy_def load_node_eq)
next
  case (Some n)
  have k: "n_node_id n = nid" by (rule node_key [OF assms(1) Some])
  obtain vs where vs: "so_get_policy_history ops (w_store w) nid 10 = Inr vs"
    using get_policy_history [OF assms(1)] by blast
  show ?thesis
  proof (cases "\<exists>v. rollback_target_version vs target = Inr (Inr v)")
    case False
    then have "w' = w" using assms Some vs
      by (auto simp: rollback_policy_def load_node_eq blocking_read_def split: sum.splits)
    then show ?thesis using assms(1) by simp
  next
    case True
    then obtain v where v: "rollback_target_version vs target = Inr (Inr v)" by blast
    let ?req = "\<lparr> dq_node_id = nid, dq_rules_yaml = pv_rules_yaml v,
        dq_options = Some (compile_options_of_version v), dq_dry_run = False \<rparr>"
    obtain x w1 where g: "guarded_deploy ops e ?req n w = (x, w1)" by (metis surj_pair)
    have "w1 = w'" using assms Some vs v g
      by (auto simp: rollback_policy_def load_node_eq blocking_read_def split: sum.splits)
    then show ?thesis using guarded_deploy_frame [OF assms(1) _ g] k by simp
  qed
qed

lemma batch_tasks_frame:
  assumes "inv (w_store w)" and "batch_tasks ops e req ns w = (rs, w')"
  shows "inv (w_store w') \<and> map nr_node_id rs = map n_node_id ns \<and>
    deploy_frame (n_node_id ` set ns - as_deploying (abs (w_store w))) (abs (w_store w)) (abs (w_store w'))"
  using assms
proof (induction ns arbitrary: w rs)
  case (Cons n ns)
  let ?req = "\<lparr> dq_node_id = n_node_id n, dq_rules_yaml = bq_rules_yaml req,
      dq_options = bq_options req, dq_dry_run = False \<rparr>"
  obtain x w1 where g: "guarded_deploy ops e ?req n w = (x, w1)" by (metis surj_pair)
  obtain rs' w2 where b: "batch_tasks ops e req ns w1 = (rs', w2)" by (metis surj_pair)
  have eq: "w2 = w'" "\<exists>r. rs = r # rs' \<and> nr_node_id r = n_node_id n"
    using Cons.prems(2) g b by (auto simp: batch_task_def Let_def split: sum.splits)
  have f: "inv (w_store w1)"
    "deploy_frame ({n_node_id n} - as_deploying (abs (w_store w))) (abs (w_store w)) (abs (w_store w1))"
    using guarded_deploy_frame [OF Cons.prems(1) _ g] by simp_all
  note ih = Cons.IH [OF f(1) b [unfolded eq(1)]]
  let ?D = "as_deploying (abs (w_store w))"
  have D: "as_deploying (abs (w_store w1)) = ?D" by (rule deploy_frame_guard [OF f(2)])
  have "deploy_frame (n_node_id ` set (n # ns) - ?D) (abs (w_store w)) (abs (w_store w1))"
    by (rule deploy_frame_mono [OF f(2)]) auto
  moreover have "deploy_frame (n_node_id ` set (n # ns) - ?D) (abs (w_store w1)) (abs (w_store w'))"
    by (rule deploy_frame_mono [where X = "n_node_id ` set ns - ?D"]) (use ih D in auto)
  ultimately have "deploy_frame (n_node_id ` set (n # ns) - ?D) (abs (w_store w)) (abs (w_store w'))"
    by (rule deploy_frame_trans)
  then show ?case using ih eq by auto
qed auto

lemma batch_deploy_policy_frame:
  fixes order :: "node list \<Rightarrow> node list"
  assumes "inv (w_store w)" and "batch_deploy_policy ops e order req w = (r, w')"
    and "\<And>ns. set (order ns) = set ns"
  shows "inv (w_store w') \<and> deploy_frame
    (batch_nodes (abs (w_store w)) (bq_label_filter req) - as_deploying (abs (w_store w)))
    (abs (w_store w)) (abs (w_store w'))"
proof -
  obtain ns where l: "blocking_read (\<lambda>s. so_list_nodes ops s (bq_label_filter req)) w = Inr ns"
    and ns: "\<forall>n. n \<in> set ns \<longleftrightarrow>
      as_nodes (abs (w_store w)) (n_node_id n) = Some n \<and> labels_match (bq_label_filter req) n"
    using list_nodes [OF assms(1), of "bq_label_filter req"] by (auto simp: blocking_read_def)
  have "n_node_id ` set (order ns) = batch_nodes (abs (w_store w)) (bq_label_filter req)"
    unfolding assms(3) batch_nodes_def using ns node_key [OF assms(1)] by force
  moreover have "w' = w \<or> w' = snd (batch_tasks ops e req (order ns) w)"
    using l assms(2) by (auto simp: batch_deploy_policy_def Let_def case_prod_unfold split: if_splits)
  ultimately show ?thesis
    using batch_tasks_frame [OF assms(1) prod.collapse [symmetric], of e req "order ns"] assms(1) by auto
qed

end

subsection \<open>Properties of the handlers\<close>

text \<open>C24: Every handler that deploys gives the guard back: after a deploy, a rollback or a batch deploy,
  whatever the agents answer, the set of guarded nodes is what it was before.  Of the nodes, their
  policies, versions and deployment records, only those of unguarded nodes that the request
  names (for a batch: whose labels match its filter) have changed, no node has come or gone, and definitions and instances are as
  they were.  (\<open>order\<close> is the order in which the tasks of a batch take the nodes.)\<close>

theorem handlers_release_guard:
  fixes w :: "mem_storage world" and e req nid target breq and order :: "node list \<Rightarrow> node list"
  assumes "mem_inv (w_store w)" and "\<And>ns. set (order ns) = set ns"
  defines "D \<equiv> ms_deploying (w_store w)" and "a \<equiv> mem_abs (w_store w)"
  defines "w1 \<equiv> snd (deploy_policy memory_ops e req w)"
    and "w2 \<equiv> snd (rollback_policy memory_ops e nid target w)"
    and "w3 \<equiv> snd (batch_deploy_policy memory_ops e order breq w)"
  shows "ms_deploying (w_store w1) = D \<and> deploy_frame ({dq_node_id req} - D) a (mem_abs (w_store w1)) \<and>
    ms_deploying (w_store w2) = D \<and> deploy_frame ({nid} - D) a (mem_abs (w_store w2)) \<and>
    ms_deploying (w_store w3) = D \<and> deploy_frame
      ({m. \<exists>n. map_of (ms_nodes (w_store w)) m = Some n \<and> labels_match (bq_label_filter breq) n} - D)
      a (mem_abs (w_store w3)) \<and>
    mem_inv (w_store w1) \<and> mem_inv (w_store w2) \<and> mem_inv (w_store w3)"
proof -
  have f1: "mem_inv (w_store w1)" "deploy_frame ({dq_node_id req} - D) a (mem_abs (w_store w1))"
    using mem.deploy_policy_frame [OF assms(1), of e req "fst (deploy_policy memory_ops e req w)" w1]
    by (simp_all add: w1_def D_def a_def)
  have f2: "mem_inv (w_store w2)" "deploy_frame ({nid} - D) a (mem_abs (w_store w2))"
    using mem.rollback_policy_frame [OF assms(1), of e nid target
        "fst (rollback_policy memory_ops e nid target w)" w2]
    by (simp_all add: w2_def D_def a_def)
  have f3: "mem_inv (w_store w3)" "deploy_frame
      ({m. \<exists>n. map_of (ms_nodes (w_store w)) m = Some n \<and> labels_match (bq_label_filter breq) n} - D)
      a (mem_abs (w_store w3))"
    using mem.batch_deploy_policy_frame [OF assms(1) _ assms(2), of e breq
        "fst (batch_deploy_policy memory_ops e order breq w)" w3]
    by (simp_all add: w3_def D_def a_def batch_nodes_def)
  show ?thesis
    using f1 f2 f3 deploy_frame_guard [OF f1(2)] deploy_frame_guard [OF f2(2)] deploy_frame_guard [OF f3(2)]
    by (simp add: a_def D_def)
qed

text \<open>A deploy request is refused, and the whole world left as it is, exactly when the node is unknown
  (\<open>NOT_FOUND\<close>) or a deploy of it is in progress (\<open>ABORTED\<close>).\<close>

theorem deploy_policy_refusals:
  assumes "mem_inv (w_store w)"
  shows "(\<forall>st. fst (deploy_policy memory_ops e req w) = Inl st \<longrightarrow>
      snd (deploy_policy memory_ops e req w) = w \<and>
      (map_of (ms_nodes (w_store w)) (dq_node_id req) = None \<and> st_code st = CNotFound \<or>
       dq_node_id req \<in> ms_deploying (w_store w) \<and> st_code st = CAborted)) \<and>
    ((\<exists>resp. fst (deploy_policy memory_ops e req w) = Inr resp) \<longleftrightarrow>
       map_of (ms_nodes (w_store w)) (dq_node_id req) \<noteq> None \<and>
       dq_node_id req \<notin> ms_deploying (w_store w))"
  by (auto simp: deploy_policy_def load_node_def blocking_read_def mem_get_node_def guarded_deploy_def
      blocking_def mem_begin_deploy_def do_deploy_def Let_def case_prod_unfold not_found_def
      status_from_def ok_or_def split: option.splits)

lemma dry_run_ignored:
  "deploy_policy ops e (req\<lparr> dq_dry_run := b \<rparr>) w = deploy_policy ops e req w"
  "batch_deploy_policy ops e order (breq\<lparr> bq_dry_run := b \<rparr>) w = batch_deploy_policy ops e order breq w"
proof -
  have "batch_task ops e (breq\<lparr> bq_dry_run := b \<rparr>) n w = batch_task ops e breq n w" for n w
    by (simp add: batch_task_def)
  then have bt: "batch_tasks ops e (breq\<lparr> bq_dry_run := b \<rparr>) ns w = batch_tasks ops e breq ns w" for ns w
    by (induction ns arbitrary: w) simp_all
  show "batch_deploy_policy ops e order (breq\<lparr> bq_dry_run := b \<rparr>) w = batch_deploy_policy ops e order breq w"
    unfolding batch_deploy_policy_def bt by simp
  have sel: "dq_node_id (req\<lparr> dq_dry_run := b \<rparr>) = dq_node_id req"
    "dq_rules_yaml (req\<lparr> dq_dry_run := b \<rparr>) = dq_rules_yaml req"
    "dq_options (req\<lparr> dq_dry_run := b \<rparr>) = dq_options req" by simp_all
  show "deploy_policy ops e (req\<lparr> dq_dry_run := b \<rparr>) w = deploy_policy ops e req w"
    unfolding deploy_policy_def guarded_deploy_def do_deploy_def sel by (rule refl)
qed

text \<open>C38: Only well-formed definitions are stored: creating a definition succeeds exactly when the text
  parses and the definition it describes is well-formed, and then that definition is stored under
  its name; otherwise the request is answered with \<open>INVALID_ARGUMENT\<close> and nothing changes.\<close>

theorem create_fsm_definition_stores_wf:
  fixes w :: "mem_storage world" and e yaml
  defines "r \<equiv> create_fsm_definition memory_ops e yaml w"
  shows "(\<exists>d. e_from_yaml e yaml = Inr d \<and> fsm_wf d \<and> res_is_ok (fst r) \<and>
      map_of (ms_fsm_definitions (w_store (snd r))) =
        (map_of (ms_fsm_definitions (w_store w)))(fd_name d \<mapsto> d)) \<or>
    ((\<forall>d. e_from_yaml e yaml = Inr d \<longrightarrow> \<not> fsm_wf d) \<and> snd r = w \<and>
      (\<exists>msg. fst r = Inl (Status CInvalidArgument msg)))"
proof (cases "e_from_yaml e yaml")
  case (Inl err)
  then show ?thesis by (simp add: r_def create_fsm_definition_def invalid_argument_def)
next
  case (Inr d)
  then show ?thesis
    using validate_ok_iff [of d]
    by (cases "validate d")
      (auto simp: r_def create_fsm_definition_def invalid_argument_def blocking_def Let_def
        case_prod_unfold mem_store_fsm_definition_def)
qed

text \<open>The stream of node events tells state changes faithfully: the numbers sent for a
  \<open>StateChanged\<close> event decode to the states the event was made from.\<close>

theorem streamed_states_round_trip:
  "map_option node_state_from_proto (proto_node_state_of_num (pn_old_state (domain_node_to_proto
      (StateChanged nid h ls (node_state_to_string old) (node_state_to_string new) t)))) = Some old \<and>
   map_option node_state_from_proto (proto_node_state_of_num (pn_new_state (domain_node_to_proto
      (StateChanged nid h ls (node_state_to_string old) (node_state_to_string new) t)))) = Some new"
proof -
  have "node_state_from_str (node_state_to_string s) = Inr s" for s
    by (simp add: node_state_from_str_iff)
  then show ?thesis by (simp add: state_number_def)
qed

subsection \<open>Rollback\<close>

lemma guarded_deploy_accepted:
  fixes w :: "mem_storage world" and e req n
  defines "nid \<equiv> n_node_id n" and "r \<equiv> dq_rules_yaml req"
    and "opts \<equiv> normalize_options (options_or_default (dq_options req))"
  defines "q \<equiv> deploy_request e n r opts"
    and "p \<equiv> policy_of_request nid r (e_policy_hash e r) (e_now e (w_ticks w)) opts"
    and "v \<equiv> word_of_nat (length (mem_versions (w_store w) nid)) + 1"
  assumes "mem_inv (w_store w)" and "map_of (ms_nodes (w_store w)) nid = Some n"
    and "dq_node_id req = nid" and "nid \<notin> ms_deploying (w_store w)" and "capable n opts"
    and "reply_result (e_agent e (length (w_requests w)) q) = Success"
    and "n_state n = Active \<longrightarrow> (\<forall>p. map_of (ms_policies (w_store w)) nid = Some p \<longrightarrow>
      \<not> policy_matches_request p r (e_policy_hash e r) opts)"
  shows "\<exists>resp w'. guarded_deploy memory_ops e req n w = (Inr resp, w') \<and> ds_success resp \<and>
    w_requests w' = w_requests w @ [q] \<and> map_of (ms_policies (w_store w')) nid = Some p \<and>
    mem_versions (w_store w') nid = mem_versions (w_store w) nid @ [version_of_policy v p]"
proof -
  let ?s1 = "(w_store w)\<lparr> ms_deploying := insert nid (ms_deploying (w_store w)) \<rparr>"
  let ?w1 = "w\<lparr> w_store := ?s1 \<rparr>"
  have i: "mem_inv ?s1" and vs: "mem_versions ?s1 = mem_versions (w_store w)"
    using assms(7) by (simp_all add: mem_inv_def mem_versions_def fun_eq_iff)
  obtain w2 where d: "deploy_changed memory_ops e n r (e_policy_hash e r) opts ?w1 =
      (reply_outcome e (e_agent e (length (w_requests w)) q) v, w2)"
    and reqs: "w_requests w2 = w_requests w @ [q]"
    and a: "mem_abs (w_store w2) = deployed n p
      (deploy_record e (w_uuids w) p v (e_agent e (length (w_requests w)) q)) (mem_abs ?s1)"
    using mem.deploy_changed_effect [where w = ?w1 and n = n and e = e and r = r and opts = opts
        and hash = "e_policy_hash e r"] i assms(8) vs
    by (auto simp: nid_def q_def p_def v_def)
  have dep: "deploy_to_node memory_ops e n r (options_or_default (dq_options req)) ?w1 =
      (reply_outcome e (e_agent e (length (w_requests w)) q) v, w2)"
    using deploy_to_node_changed [of n "options_or_default (dq_options req)" ?w1 r e] assms(11,13) d
    by (simp add: opts_def nid_def)
  have "map_of (ms_policies (w_store w2)) = as_policies (mem_abs (w_store w2))"
    "mem_versions (w_store w2) = as_versions (mem_abs (w_store w2))" by simp_all
  then have "map_of (ms_policies (w_store w2)) nid = Some p"
    "mem_versions (w_store w2) nid = mem_versions (w_store w) nid @ [version_of_policy v p]"
    using a vs by (simp_all add: deployed_def Let_def nid_def v_def)
  then show ?thesis
    using dep reqs assms(9,10,12)
    by (simp add: guarded_deploy_def do_deploy_def blocking_def mem_begin_deploy_def Let_def r_def
        deploy_response_def reply_outcome_def mem_end_deploy_def mem_versions_def)
qed

text \<open>C14: A rollback without a target restores the version before the current one: when the node is
  free and capable, the agent accepts, and the node is not active with a policy that already matches
  the second newest version, then the rules and options of that version are sent to
  the agent, become the current policy and the newest version, no older version is touched, and the
  answer names the restored version (unless the agent's message claims that nothing changed).\<close>

theorem rollback_restores_previous:
  fixes w :: "mem_storage world" and e nid n vs v cur
  defines "r \<equiv> pv_rules_yaml v" and "opts \<equiv> normalize_options (compile_options_of_version v)"
  defines "q \<equiv> deploy_request e n r opts"
  assumes "mem_inv (w_store w)" and "map_of (ms_nodes (w_store w)) nid = Some n"
    and "nid \<notin> ms_deploying (w_store w)" and "mem_versions (w_store w) nid = vs @ [v, cur]"
    and "capable n opts" and "reply_result (e_agent e (length (w_requests w)) q) = Success"
    and "n_state n = Active \<longrightarrow> (\<forall>p. map_of (ms_policies (w_store w)) nid = Some p \<longrightarrow>
      \<not> policy_matches_request p r (e_policy_hash e r) opts)"
  shows "\<exists>resp w' p new. rollback_policy memory_ops e nid 0 w = (Inr resp, w') \<and> rb_success resp \<and>
    w_requests w' = w_requests w @ [q] \<and>
    map_of (ms_policies (w_store w')) nid = Some p \<and> policy_matches_request p r (e_policy_hash e r) opts \<and>
    mem_versions (w_store w') nid = vs @ [v, cur, new] \<and> pv_rules_yaml new = r \<and>
    compile_options_of_version new = opts \<and>
    rb_version resp = (if starts_with ''No change:'' (rb_message resp) then pv_version cur else pv_version v)"
proof -
  have k: "n_node_id n = nid" using mem.node_key [OF assms(4), of nid n] assms(5) by simp
  let ?req = "\<lparr> dq_node_id = nid, dq_rules_yaml = r,
      dq_options = Some (compile_options_of_version v), dq_dry_run = False \<rparr>"
  obtain resp w' where g: "guarded_deploy memory_ops e ?req n w = (Inr resp, w')" "ds_success resp"
    "w_requests w' = w_requests w @ [q]"
    and p: "map_of (ms_policies (w_store w')) nid =
        Some (policy_of_request nid r (e_policy_hash e r) (e_now e (w_ticks w)) opts)"
      "mem_versions (w_store w') nid = mem_versions (w_store w) nid @
        [version_of_policy (word_of_nat (length (mem_versions (w_store w) nid)) + 1)
          (policy_of_request nid r (e_policy_hash e r) (e_now e (w_ticks w)) opts)]"
    using guarded_deploy_accepted [where w = w and e = e and n = n and req = ?req] assms k
    by (auto simp: options_or_default_def)
  have h: "so_get_policy_history memory_ops (w_store w) nid 10 = Inr (cur # v # take 8 (rev vs))"
    using assms(7) by (simp add: mem_get_policy_history_abs)
  have "rollback_policy memory_ops e nid 0 w =
      (Inr (rollback_response_of (cur # v # take 8 (rev vs)) (pv_version v) resp), w')"
    using g(1) h assms(5)
    by (simp add: rollback_policy_def load_node_def blocking_read_def mem_get_node_def
        rollback_target_version_def r_def)
  then show ?thesis
    using g p assms(7)
    by (auto simp: rollback_response_of_def Let_def starts_with_def version_of_policy_def
        policy_matches_request_def policy_of_request_def compile_options_of_version_def)
qed

end
