(* ===== verification/Rest_Run.thy ===== *)
theory Rest_Run
  imports Rest_Records Api_Run
begin

text \<open>
  Properties of the REST service: which requests the authentication lets through, that a standby
  controller writes nothing, that the REST handlers of deploys, rollbacks and FSM instances do what
  the gRPC handlers do (up to the encoding of the answer and the audit entry), that a dry run
  writes nothing, and how label queries are read.
\<close>

subsection \<open>Authentication\<close>

lemma first_in_Cons:
  "(\<exists>pre p post. a # ps = pre @ p # post \<and> \<not> list_ex P pre \<and> R p) \<longleftrightarrow>
     R a \<or> \<not> P a \<and> (\<exists>pre p post. ps = pre @ p # post \<and> \<not> list_ex P pre \<and> R p)"
  (is "?l \<longleftrightarrow> ?r")
proof
  assume ?l
  then obtain pre p post where *: "a # ps = pre @ p # post" "\<not> list_ex P pre" "R p" by blast
  then show ?r by (cases pre) (auto simp del: list_ex_iff)
next
  assume ?r
  then show ?l
  proof
    assume "R a"
    then have "a # ps = [] @ a # ps \<and> \<not> list_ex P [] \<and> R a" by simp
    then show ?l by blast
  next
    assume "\<not> P a \<and> (\<exists>pre p post. ps = pre @ p # post \<and> \<not> list_ex P pre \<and> R p)"
    then obtain pre p post where "\<not> P a" "ps = pre @ p # post" "\<not> list_ex P pre" "R p" by blast
    then have "a # ps = (a # pre) @ p # post \<and> \<not> list_ex P (a # pre) \<and> R p" by simp
    then show ?l by blast
  qed
qed

lemma find_token_iff:
  "(case List.find P ps of None \<Rightarrow> False | Some p \<Rightarrow> Q p) \<longleftrightarrow>
     (\<exists>pre p post. ps = pre @ p # post \<and> \<not> list_ex P pre \<and> P p \<and> Q p)"
proof (induction ps)
  case (Cons a ps)
  then show ?case unfolding first_in_Cons [where R = "\<lambda>p. P p \<and> Q p"] by simp
qed simp

lemma strip_prefix_eq:
  "(case strip_prefix p v of None \<Rightarrow> False | Some s \<Rightarrow> s = k) \<longleftrightarrow> v = p @ k"
proof -
  have "(case strip_prefix p v of None \<Rightarrow> False | Some s \<Rightarrow> s = k) \<longleftrightarrow> strip_prefix p v = Some k"
    by (simp split: option.split)
  then show ?thesis by (simp only: strip_prefix_iff)
qed

lemma header_ok_iff: "header_ok key auth \<longleftrightarrow> auth = Some (''Bearer '' @ key)"
  unfolding header_ok_def strip_prefix_eq by (cases auth) (simp_all only: option.simps)

lemma starts_with_drop: "starts_with p s \<and> drop (length p) s = t \<longleftrightarrow> s = p @ t"
  by (auto simp: starts_with_def take_is_prefix) (metis append_take_drop_id)

lemma token_ok_iff:
  "token_ok key query \<longleftrightarrow>
     (\<exists>q pre post. query = Some q \<and> split_on (CHR ''&'') q = pre @ (''token='' @ key) # post \<and>
        \<not> list_ex (starts_with ''token='') pre)"
proof -
  have d: "starts_with ''token='' p \<and> drop 6 p = key \<longleftrightarrow> p = ''token='' @ key" for p
    using starts_with_drop [of "''token=''" p key] by (simp add: eval_nat_numeral)
  show ?thesis
    unfolding token_ok_def find_token_iff d by (cases query) (auto simp only: option.simps)
qed

text \<open>With an API key configured, a request reaches its handler exactly when its \<open>Authorization\<close>
  header is \<open>Bearer\<close> with the key, or the first \<open>token\<close> parameter of its query is the key; any other
  request is answered 401 and changes nothing.  Without a key every request passes.\<close>

theorem auth_middleware_exact:
  "auth_middleware x auth query next_handler w =
     (if rx_api_key x = None \<or>
         (\<exists>key. rx_api_key x = Some key \<and>
            (auth = Some (''Bearer '' @ key) \<or>
             (\<exists>q pre post. query = Some q \<and> split_on (CHR ''&'') q = pre @ (''token='' @ key) # post \<and>
                \<not> list_ex (starts_with ''token='') pre)))
      then next_handler w else (Inl (AppError 401 ''Unauthorized''), w))"
proof (cases "rx_api_key x")
  case (Some key)
  have "auth_middleware x auth query next_handler w =
      (if header_ok key auth \<or> token_ok key query then next_handler w
       else (Inl (AppError 401 ''Unauthorized''), w))"
    by (simp add: auth_middleware_def Some)
  then show ?thesis unfolding Some header_ok_iff token_ok_iff by (simp only: option.inject option.distinct ex_simps simp_thms)
qed (simp add: auth_middleware_def)

subsection \<open>Standby\<close>

lemma leader_only_standby: "\<not> rx_leader x \<Longrightarrow> leader_only x h w = (Inl (AppError 503 standby_message), w)"
  by (simp add: leader_only_def require_leader_def)

lemma leader_only_leader: "rx_leader x \<Longrightarrow> leader_only x h w = h w"
  by (simp add: leader_only_def require_leader_def)

text \<open>In HA mode the dashboard cannot change anything: since the leader flag of the configuration
  stays cleared in every state the controller reaches, the holder of the lease included, every write
  of the REST service is refused with 503 and leaves the world as it is.\<close>

theorem ha_mode_refuses_rest_writes:
  assumes "controller_reachable calls (Some cid) lease_secs (c, s)"
    and "rx_leader x = ctl_config_is_leader c"
  defines "refused \<equiv> AppError 503 standby_message"
  shows "rest_remove_node ops e x nid w = (Inl refused, w) \<and>
    rest_set_annotations ops e x nid annotations keys w = (Inl refused, w) \<and>
    rest_rollback_policy ops e x nid target w = (Inl refused, w) \<and>
    rest_deploy_policy ops e x body w = (Inl refused, w) \<and>
    rest_batch_deploy_policy ops e x batch w = (Inl refused, w) \<and>
    rest_create_fsm_definition ops e x yaml w = (Inl refused, w) \<and>
    rest_delete_fsm_definition ops x name w = (Inl refused, w) \<and>
    rest_start_fsm ops e x start w = (Inl refused, w) \<and>
    rest_advance_fsm ops e x iid state w = (Inl refused, w) \<and>
    rest_cancel_fsm ops e x iid reason w = (Inl refused, w) \<and>
    rest_create_template ops e x template w = (Inl refused, w) \<and>
    rest_delete_template ops e x name w = (Inl refused, w)"
proof -
  have "\<not> rx_leader x" using config_flag_constant [OF assms(1)] assms(2) by simp
  note r = leader_only_standby [OF this, folded refused_def]
  show ?thesis
    by (simp add: r rest_remove_node_def rest_set_annotations_def rest_rollback_policy_def
        rest_deploy_policy_def rest_batch_deploy_policy_def rest_create_fsm_definition_def
        rest_delete_fsm_definition_def rest_start_fsm_def rest_advance_fsm_def rest_cancel_fsm_def
        rest_create_template_def rest_delete_template_def)
qed

subsection \<open>Agreement with the gRPC service\<close>

text \<open>The gRPC request of a REST body, and the answers translated.\<close>

definition as_grpc_deploy :: "rest_deploy_request \<Rightarrow> deploy_policy_request" where
  "as_grpc_deploy body =
     \<lparr> dq_node_id = rd_node_id body, dq_rules_yaml = rd_rules_yaml body,
       dq_options = Some (rd_options body), dq_dry_run = rd_dry_run body \<rparr>"

definition as_rest_deploy :: "deploy_policy_response \<Rightarrow> rest_deploy_response" where
  "as_rest_deploy resp =
     \<lparr> rr_success = ds_success resp, rr_message = ds_message resp, rr_warnings = ds_warnings resp,
       rr_dry_run_result = None \<rparr>"

definition as_rest :: "(status + 'a) \<times> 's world \<Rightarrow> (app_error + 'a) \<times> 's world" where
  "as_rest = map_prod (map_err app_error_from) (\<lambda>w. w)"

definition as_grpc_start :: "rest_start_request \<Rightarrow> start_fsm_request" where
  "as_grpc_start body =
     \<lparr> sq_definition_name = rs_definition_name body, sq_rules_yaml = rs_rules_yaml body,
       sq_options = Some (rs_options body), sq_target_label_filter = rs_target_label_filter body \<rparr>"

lemma rest_load_node_eq: "rest_load_node ops nid w = map_err app_error_from (load_node ops nid w)"
  by (cases "blocking_read (\<lambda>s. so_get_node ops s nid) w")
    (auto simp: rest_load_node_def load_node_def rest_read_def ok_or_def app_error_from_def not_found_def
      split: option.split)

lemma rest_guarded_deploy_cases:
  obtains (refused) st w' where
      "guarded_deploy ops e \<lparr> dq_node_id = nid, dq_rules_yaml = r, dq_options = Some opts, dq_dry_run = b \<rparr> n w =
         (Inl st, w')"
      "rest_guarded_deploy ops e nid n r opts w = (Inl (app_error_from st), w')"
  | (deployed) out w' where
      "guarded_deploy ops e \<lparr> dq_node_id = nid, dq_rules_yaml = r, dq_options = Some opts, dq_dry_run = b \<rparr> n w =
         (Inr (deploy_response out), w')"
      "rest_guarded_deploy ops e nid n r opts w = (Inr out, w')"
proof (cases "blocking (\<lambda>s. so_begin_deploy ops s nid) w")
  case (Pair g w1)
  then show thesis
    by (cases g; cases "deploy_to_node ops e n r opts w1")
      (auto intro: refused deployed simp: guarded_deploy_def rest_guarded_deploy_def rest_blocking_def
        do_deploy_def options_or_default_def)
qed

lemma rest_rollback_target_eq:
  "rest_rollback_target versions target = map_err app_error_from (rollback_target_version versions target)"
  by (auto simp: rest_rollback_target_def rollback_target_version_def app_error_from_def not_found_def
      split: option.split)

lemma deploy_response_simps [simp]:
  "ds_success (deploy_response out) = do_success out"
  "ds_message (deploy_response out) = do_message out"
  "ds_warnings (deploy_response out) = do_warnings out"
  by (simp_all add: deploy_response_def)

lemma rest_rollback_response_eq:
  "rest_rollback_response versions v out = rollback_response_of versions v (deploy_response out)"
  unfolding rest_rollback_response_def rollback_response_of_def deploy_response_simps by (rule refl)

lemma rest_rollback_eq:
  "rx_leader x \<Longrightarrow> rest_rollback_policy ops e x nid target w = as_rest (rollback_policy ops e nid target w)"
proof -
  assume leader: "rx_leader x"
  show ?thesis
  proof (cases "load_node ops nid w")
    case (Inl st)
    then show ?thesis using leader
      by (simp add: rest_rollback_policy_def leader_only_leader rollback_policy_def rest_load_node_eq as_rest_def)
  next
    case (Inr n)
    note node = this
    show ?thesis
    proof (cases "blocking_read (\<lambda>s. so_get_policy_history ops s nid 10) w")
      case (Inl st)
      then show ?thesis using leader node
        by (simp add: rest_rollback_policy_def leader_only_leader rollback_policy_def rest_load_node_eq
            rest_read_def as_rest_def)
    next
      case (Inr vs)
      show ?thesis
      proof (cases "\<exists>v. rollback_target_version vs target = Inr (Inr v)")
        case True
        then obtain v where v: "rollback_target_version vs target = Inr (Inr v)" by blast
        show ?thesis
          by (rule rest_guarded_deploy_cases [of ops e nid "pv_rules_yaml v" "compile_options_of_version v" False n w])
            (use leader node Inr v in \<open>simp_all add: rest_rollback_policy_def leader_only_leader
              rollback_policy_def rest_load_node_eq rest_read_def as_rest_def rest_rollback_target_eq
              rest_rollback_response_eq\<close>)
      next
        case False
        then show ?thesis using leader node Inr
          by (cases "rollback_target_version vs target")
            (auto simp: rest_rollback_policy_def leader_only_leader rollback_policy_def rest_load_node_eq
              rest_read_def as_rest_def rest_rollback_target_eq split: sum.split)
      qed
    qed
  qed
qed

lemma rest_deploy_eq:
  assumes "rx_leader x" and "\<not> rd_dry_run body"
  shows "rest_deploy_policy ops e x body w =
    (case deploy_policy ops e (as_grpc_deploy body) w of
       (Inl st, w) \<Rightarrow> (Inl (app_error_from st), w)
     | (Inr resp, w) \<Rightarrow>
         (Inr (as_rest_deploy resp),
          record_audit ops e x ''api'' ''deploy'' ''node'' (rd_node_id body)
            (JObj [(''success'', JBool (ds_success resp))]) w))"
proof (cases "load_node ops (rd_node_id body) w")
  case (Inl st)
  then show ?thesis using assms
    by (simp add: rest_deploy_policy_def leader_only_leader deploy_policy_def rest_load_node_eq as_grpc_deploy_def)
next
  case (Inr n)
  show ?thesis
    by (rule rest_guarded_deploy_cases [of ops e "rd_node_id body" "rd_rules_yaml body" "rd_options body"
          "rd_dry_run body" n w])
      (use assms Inr in \<open>simp_all add: rest_deploy_policy_def leader_only_leader deploy_policy_def
        rest_load_node_eq as_grpc_deploy_def as_rest_deploy_def deploy_response_def\<close>)
qed

lemma rest_fsm_eq:
  assumes "rx_leader x"
  shows "rest_start_fsm ops e x body w = map_prod Inr (\<lambda>w. w) (start_fsm ops e (as_grpc_start body) w)"
    and "rest_advance_fsm ops e x iid (non_empty target) w =
      map_prod Inr (\<lambda>w. w) (advance_fsm ops e iid target w)"
    and "rest_cancel_fsm ops e x iid reason w = map_prod Inr (\<lambda>w. w) (cancel_fsm ops e iid reason w)"
  using assms
  by (auto simp: rest_start_fsm_def rest_advance_fsm_def rest_cancel_fsm_def leader_only_leader start_fsm_def
      advance_fsm_def cancel_fsm_def as_grpc_start_def non_empty_def Let_def split: sum.split prod.split)

text \<open>C39: On the leader the REST service does what the gRPC service does: a rollback, a deploy that is no
  dry run, and the start, advance and cancellation of an FSM instance have the same effect on the
  world and the same answer, errors as HTTP codes; the deploy adds its audit entry.\<close>

theorem rest_agrees_with_grpc:
  assumes "rx_leader x" and "\<not> rd_dry_run body"
  shows "rest_rollback_policy ops e x nid target w = as_rest (rollback_policy ops e nid target w) \<and>
    rest_deploy_policy ops e x body w =
      (case deploy_policy ops e (as_grpc_deploy body) w of
         (Inl st, w) \<Rightarrow> (Inl (app_error_from st), w)
       | (Inr resp, w) \<Rightarrow>
           (Inr (as_rest_deploy resp),
            record_audit ops e x ''api'' ''deploy'' ''node'' (rd_node_id body)
              (JObj [(''success'', JBool (ds_success resp))]) w)) \<and>
    rest_start_fsm ops e x start w = map_prod Inr (\<lambda>w. w) (start_fsm ops e (as_grpc_start start) w) \<and>
    rest_advance_fsm ops e x iid (non_empty state) w =
      map_prod Inr (\<lambda>w. w) (advance_fsm ops e iid state w) \<and>
    rest_cancel_fsm ops e x iid reason w = map_prod Inr (\<lambda>w. w) (cancel_fsm ops e iid reason w)"
  by (intro conjI rest_rollback_eq rest_deploy_eq rest_fsm_eq assms)

text \<open>A dry run writes nothing; a batch deploy writes all the same, since its flag is never read.\<close>

lemma rest_dry_run_reads_only:
  "rd_dry_run body \<Longrightarrow> snd (rest_deploy_policy ops e x body w) = w"
  by (auto simp: rest_deploy_policy_def leader_only_def require_leader_def split: sum.splits)

lemma rest_batch_dry_run_ignored:
  "rest_batch_deploy_policy ops e x (batch\<lparr> rq_dry_run := b \<rparr>) w = rest_batch_deploy_policy ops e x batch w"
proof -
  have sel: "rq_label_filter (batch\<lparr> rq_dry_run := b \<rparr>) = rq_label_filter batch"
    "rq_rules_yaml (batch\<lparr> rq_dry_run := b \<rparr>) = rq_rules_yaml batch"
    "rq_options (batch\<lparr> rq_dry_run := b \<rparr>) = rq_options batch" by simp_all
  show ?thesis unfolding rest_batch_deploy_policy_def sel by (rule refl)
qed

subsection \<open>Label queries\<close>

text \<open>A label query spells the labels as \<open>k=v,k=v,\<dots>\<close>; read back, it is those labels.\<close>

fun render_labels :: "(string \<times> string) list \<Rightarrow> string" where
  "render_labels [] = []"
| "render_labels [(k, v)] = k @ CHR ''='' # v"
| "render_labels ((k, v) # kvs) = k @ CHR ''='' # v @ CHR '','' # render_labels kvs"

definition plain_label :: "string \<times> string \<Rightarrow> bool" where
  "plain_label kv \<longleftrightarrow> CHR ''='' \<notin> set (fst kv) \<and> CHR '','' \<notin> set (fst kv) \<and> CHR '','' \<notin> set (snd kv)"

lemma split_render_labels:
  "kvs \<noteq> [] \<Longrightarrow> list_all plain_label kvs \<Longrightarrow>
     split_on (CHR '','') (render_labels kvs) = map (\<lambda>(k, v). k @ CHR ''='' # v) kvs"
proof (induction kvs rule: render_labels.induct)
  case (2 k v)
  then show ?case by (simp add: plain_label_def split_on_plain)
next
  case (3 k v kv kvs)
  then show ?case
    using split_on_append [of "CHR '',''" "k @ CHR ''='' # v" "render_labels (kv # kvs)"]
    by (simp add: plain_label_def)
qed simp

lemma insert_rendered:
  "list_all plain_label kvs \<Longrightarrow>
     foldl (\<lambda>m pair. case split_once (CHR ''='') pair of
                       Some (k, v) \<Rightarrow> hm_insert k v m
                     | None \<Rightarrow> m) m (map (\<lambda>(k, v). k @ CHR ''='' # v) kvs) = hm_extend m kvs"
  by (induction kvs arbitrary: m) (auto simp: plain_label_def hm_extend_def)

lemma parse_rendered_labels:
  "list_all plain_label kvs \<Longrightarrow> parse_label_filter (Some (render_labels kvs)) = hm_extend [] kvs"
proof (cases "kvs = []")
  case True
  then show ?thesis by (simp add: parse_label_filter_def hm_extend_def split_once_def)
next
  case False
  assume "list_all plain_label kvs"
  with False show ?thesis by (simp add: parse_label_filter_def split_render_labels insert_rendered)
qed

end
