(* ===== verification/Mem_Run.thy ===== *)
theory Mem_Run
  imports Mem_Storage
begin

text \<open>
  The in-memory backend of \<^verbatim>\<open>pacinet-server/src/storage/memory.rs\<close> as a whole.  The first part shows
  that every state-changing method implements an operation on maps and logs.  The second part takes
  \<open>remove_node\<close> apart: it holds the write lock of one map at a time, so other calls run between its six
  removals.  The interleaving is a step relation; what holds in it of the policies and their
  versions, and what does not, is shown there.
\<close>

subsection \<open>Refinement\<close>

text \<open>The rest of the contents, beside \<open>astore\<close>.\<close>

record store_rest =
  sr_counters :: "string \<rightharpoonup> rule_counter list"
  sr_flow_counters :: "string \<rightharpoonup> flow_counter list"
  sr_events :: "persistent_event list"
  sr_audit :: "audit_entry list"
  sr_templates :: "string \<rightharpoonup> policy_template"
  sr_deliveries :: "webhook_delivery list"

definition mem_rest :: "mem_storage \<Rightarrow> store_rest" where
  "mem_rest s =
     \<lparr> sr_counters = map_of (ms_counters s), sr_flow_counters = map_of (ms_flow_counters s),
       sr_events = ms_events s, sr_audit = ms_audit_log s, sr_templates = map_of (ms_templates s),
       sr_deliveries = ms_webhook_deliveries s \<rparr>"

type_synonym contents = "astore \<times> store_rest"

definition mem_contents :: "mem_storage \<Rightarrow> contents" where
  "mem_contents s = (mem_abs s, mem_rest s)"

definition on_main :: "(astore \<Rightarrow> 'r \<times> astore) \<Rightarrow> contents \<Rightarrow> 'r \<times> contents" where
  "on_main f c = (case c of (a, r) \<Rightarrow> (case f a of (x, a') \<Rightarrow> (x, a', r)))"

definition on_rest :: "(store_rest \<Rightarrow> 'r \<times> store_rest) \<Rightarrow> contents \<Rightarrow> 'r \<times> contents" where
  "on_rest f c = (case c of (a, r) \<Rightarrow> (case f r of (x, r') \<Rightarrow> (x, a, r')))"

text \<open>The abstract operations \<open>Storage_Trait\<close> does not have.\<close>

definition a_modify_node :: "string \<Rightarrow> (node \<Rightarrow> node) \<Rightarrow> astore \<Rightarrow> astore" where
  "a_modify_node nid f a = a\<lparr> as_nodes := (as_nodes a)(nid := map_option f (as_nodes a nid)) \<rparr>"

definition a_register_node :: "node \<Rightarrow> astore \<Rightarrow> string outcome \<times> astore" where
  "a_register_node n a = (Inr (n_node_id n), a\<lparr> as_nodes := (as_nodes a)(n_node_id n \<mapsto> n) \<rparr>)"

definition a_update_heartbeat :: "time \<Rightarrow> string \<Rightarrow> node_state \<Rightarrow> u64 \<Rightarrow> astore \<Rightarrow> bool outcome \<times> astore" where
  "a_update_heartbeat now nid st up a =
     (Inr (as_nodes a nid \<noteq> None),
      a_modify_node nid (\<lambda>n. n\<lparr> n_last_heartbeat := now, n_state := st, n_uptime_seconds := up \<rparr>) a)"

definition a_update_annotations ::
  "string \<Rightarrow> (string, string) hmap \<Rightarrow> string list \<Rightarrow> astore \<Rightarrow> unit outcome \<times> astore" where
  "a_update_annotations nid sets removes a =
     (if as_nodes a nid = None then (Inl (NodeNotFound nid), a)
      else (Inr (), a_modify_node nid
             (n_annotations_update (\<lambda>m. hm_extend (fold hm_remove removes m) sets)) a))"

definition a_mark_stale :: "time \<Rightarrow> time \<Rightarrow> astore \<Rightarrow> astore" where
  "a_mark_stale now threshold a =
     a\<lparr> as_nodes := (\<lambda>nid. map_option
          (\<lambda>n. if is_stale now threshold n then n\<lparr> n_state := Offline \<rparr> else n) (as_nodes a nid)) \<rparr>"

definition a_store_fsm_definition :: "fsm_definition \<Rightarrow> astore \<Rightarrow> unit outcome \<times> astore" where
  "a_store_fsm_definition d a = (Inr (), a\<lparr> as_definitions := (as_definitions a)(fd_name d \<mapsto> d) \<rparr>)"

definition a_delete_fsm_definition :: "string \<Rightarrow> astore \<Rightarrow> bool outcome \<times> astore" where
  "a_delete_fsm_definition nm a =
     (Inr (as_definitions a nm \<noteq> None), a\<lparr> as_definitions := (as_definitions a)(nm := None) \<rparr>)"

text \<open>The newest \<open>n\<close> entries of a log.\<close>

definition keep_last :: "nat \<Rightarrow> 'a list \<Rightarrow> 'a list" where
  "keep_last n xs = drop (length xs - n) xs"

lemma push_bounded_keep_last: "push_bounded n xs x = keep_last n (xs @ [x])"
  by (simp add: push_bounded_def keep_last_def Let_def)

text \<open>A method that is given by its effect on the main contents, and touches nothing else.\<close>

lemma on_mainI:
  assumes "\<And>r s'. f s = (r, s') \<Longrightarrow> g (mem_abs s) = (r, mem_abs s')" and "mem_rest (snd (f s)) = mem_rest s"
  shows "map_prod (\<lambda>x. x) mem_contents (f s) = on_main g (mem_contents s)"
  using assms(1) [of "fst (f s)" "snd (f s)"] assms(2)
  by (simp add: on_main_def mem_contents_def map_prod_def case_prod_unfold)

lemma on_restI:
  assumes "mem_abs (snd (f s)) = mem_abs s" and "g (mem_rest s) = (fst (f s), mem_rest (snd (f s)))"
  shows "map_prod (\<lambda>x. x) mem_contents (f s) = on_rest g (mem_contents s)"
  using assms by (simp add: on_rest_def mem_contents_def map_prod_def case_prod_unfold)

lemma mem_abs_node_ops:
  "mem_register_node s n = (r1, s') \<Longrightarrow> a_register_node n (mem_abs s) = (r1, mem_abs s')"
  "mem_update_heartbeat now s nid st up = (r2, s') \<Longrightarrow>
     a_update_heartbeat now nid st up (mem_abs s) = (r2, mem_abs s')"
  "mem_update_annotations s nid sets removes = (r3, s') \<Longrightarrow>
     a_update_annotations nid sets removes (mem_abs s) = (r3, mem_abs s')"
  "mem_store_fsm_definition now s d = (r3, s') \<Longrightarrow> a_store_fsm_definition d (mem_abs s) = (r3, mem_abs s')"
  "mem_delete_fsm_definition s nm = (r2, s') \<Longrightarrow> a_delete_fsm_definition nm (mem_abs s) = (r2, mem_abs s')"
  by (auto simp: mem_register_node_def a_register_node_def mem_update_heartbeat_def a_update_heartbeat_def
      mem_update_annotations_def a_update_annotations_def mem_store_fsm_definition_def
      a_store_fsm_definition_def mem_delete_fsm_definition_def a_delete_fsm_definition_def
      a_modify_node_def mem_abs_def fun_eq_iff mem_versions_def map_of_modify split: option.splits)

lemma mem_mark_stale_refined:
  "mem_contents (snd (mem_mark_stale_nodes now s threshold)) =
     apfst (a_mark_stale now threshold) (mem_contents s)"
  by (auto simp: mem_mark_stale_nodes_def mem_contents_def a_mark_stale_def mem_abs_def mem_rest_def
      mem_versions_def fun_eq_iff map_of_map_values)

lemma mem_rest_same:
  "mem_rest (snd (mem_register_node s n)) = mem_rest s"
  "mem_rest (snd (mem_update_heartbeat now s nid st up)) = mem_rest s"
  "mem_rest (snd (mem_update_node_state s nid st)) = mem_rest s"
  "mem_rest (snd (mem_update_annotations s nid sets removes)) = mem_rest s"
  "mem_rest (snd (mem_store_policy s p)) = mem_rest s"
  "mem_rest (snd (mem_record_deployment s d)) = mem_rest s"
  "mem_rest (snd (mem_begin_deploy s nid)) = mem_rest s"
  "mem_rest (mem_end_deploy s nid) = mem_rest s"
  "mem_rest (snd (mem_store_fsm_definition now s fd)) = mem_rest s"
  "mem_rest (snd (mem_delete_fsm_definition s nm)) = mem_rest s"
  "mem_rest (snd (mem_store_fsm_instance s i)) = mem_rest s"
  "mem_rest (snd (mem_update_fsm_instance s i)) = mem_rest s"
  by (simp_all add: mem_rest_def mem_register_node_def mem_update_heartbeat_def mem_update_node_state_def
      mem_update_annotations_def mem_store_policy_def Let_def mem_record_deployment_def
      mem_begin_deploy_def mem_end_deploy_def mem_store_fsm_definition_def mem_delete_fsm_definition_def
      mem_store_fsm_instance_def mem_update_fsm_instance_def split: option.split)

lemma mem_guard_refined: "mem_contents (mem_end_deploy s nid) = apfst (\<lambda>a. a_end_deploy a nid) (mem_contents s)"
  by (simp add: mem_contents_def mem_end_deploy_abs mem_rest_same)

lemma mem_remove_refined:
  "map_prod (\<lambda>r. r) mem_contents (mem_remove_node s nid) =
     (case a_remove_node (fst (mem_contents s)) nid of (r, a) \<Rightarrow>
        (r, a, (snd (mem_contents s))\<lparr> sr_counters := (sr_counters (snd (mem_contents s)))(nid := None),
           sr_flow_counters := (sr_flow_counters (snd (mem_contents s)))(nid := None) \<rparr>))"
  using mem_remove_node_abs [of s nid "fst (mem_remove_node s nid)" "snd (mem_remove_node s nid)"]
  by (simp add: mem_contents_def map_prod_def case_prod_unfold) (simp add: mem_remove_node_def mem_rest_def)

lemmas mem_log_defs = mem_store_counters_def mem_store_flow_counters_def mem_store_event_def mem_prune_events_def
  mem_store_audit_def mem_store_template_def mem_delete_template_def mem_store_webhook_delivery_def

lemma mem_pruned: "length xs - length (filter (\<lambda>ev. older \<le> pe_timestamp ev) xs) =
    length (filter (\<lambda>ev. pe_timestamp ev < older) xs)"
  using sum_length_filter_compl [of "\<lambda>ev. older \<le> pe_timestamp ev" xs] by (simp add: not_le)

lemma mem_log_refined:
  "map_prod (\<lambda>r. r) mem_contents (mem_store_counters s nid cs) =
     on_rest (\<lambda>r. (Inr (), r\<lparr> sr_counters := (sr_counters r)(nid \<mapsto> cs) \<rparr>)) (mem_contents s)"
  "map_prod (\<lambda>r. r) mem_contents (mem_store_flow_counters s nid fs) =
     on_rest (\<lambda>r. (Inr (), r\<lparr> sr_flow_counters := (sr_flow_counters r)(nid \<mapsto> fs) \<rparr>)) (mem_contents s)"
  "map_prod (\<lambda>r. r) mem_contents (mem_store_event s ev) =
     on_rest (\<lambda>r. (Inr (), r\<lparr> sr_events := keep_last 10000 (sr_events r @ [ev]) \<rparr>)) (mem_contents s)"
  "map_prod (\<lambda>r. r) mem_contents (mem_prune_events s older) =
     on_rest (\<lambda>r. (Inr (word_of_nat (length (filter (\<lambda>ev. pe_timestamp ev < older) (sr_events r)))),
       r\<lparr> sr_events := filter (\<lambda>ev. older \<le> pe_timestamp ev) (sr_events r) \<rparr>)) (mem_contents s)"
  "map_prod (\<lambda>r. r) mem_contents (mem_store_audit s en) =
     on_rest (\<lambda>r. (Inr (), r\<lparr> sr_audit := keep_last 10000 (sr_audit r @ [en]) \<rparr>)) (mem_contents s)"
  "map_prod (\<lambda>r. r) mem_contents (mem_store_template s tp) =
     on_rest (\<lambda>r. (Inr (), r\<lparr> sr_templates := (sr_templates r)(tpl_name tp \<mapsto> tp) \<rparr>)) (mem_contents s)"
  "map_prod (\<lambda>r. r) mem_contents (mem_delete_template s nm) =
     on_rest (\<lambda>r. (Inr (sr_templates r nm \<noteq> None), r\<lparr> sr_templates := (sr_templates r)(nm := None) \<rparr>))
       (mem_contents s)"
  "map_prod (\<lambda>r. r) mem_contents (mem_store_webhook_delivery s wd) =
     on_rest (\<lambda>r. (Inr (), r\<lparr> sr_deliveries := sr_deliveries r @ [wd] \<rparr>)) (mem_contents s)"
  by (rule on_restI; simp add: mem_log_defs fun_eq_iff mem_abs_def mem_versions_def mem_rest_def Let_def mem_pruned
      push_bounded_keep_last max_memory_events_def max_memory_audit_def)+

text \<open>C16: The in-memory backend refines maps and logs: each of its 22 methods that change the state gives
  the result of an abstract operation (of \<open>mark_stale_nodes\<close>, whose result is a list in the order of
  a hash map, only the effect) and commutes with the abstraction of the whole contents.  Ten touch
  nodes, policies, versions, deployments and the guard, four definitions and instances, eight
  counters, events, audit entries, templates and deliveries, of which events and audit entries are
  kept up to the newest 10000.\<close>

theorem mem_storage_refines_abstract_store:
  fixes s :: mem_storage
  defines "c \<equiv> mem_contents s"
  shows
  "map_prod (\<lambda>r. r) mem_contents (mem_register_node s n) = on_main (a_register_node n) c \<and>
   map_prod (\<lambda>r. r) mem_contents (mem_remove_node s nid) =
     (case a_remove_node (fst c) nid of (r, a) \<Rightarrow>
        (r, a, (snd c)\<lparr> sr_counters := (sr_counters (snd c))(nid := None),
                        sr_flow_counters := (sr_flow_counters (snd c))(nid := None) \<rparr>)) \<and>
   map_prod (\<lambda>r. r) mem_contents (mem_update_heartbeat now s nid st up) = on_main (a_update_heartbeat now nid st up) c \<and>
   map_prod (\<lambda>r. r) mem_contents (mem_update_node_state s nid st) = on_main (\<lambda>a. a_update_node_state a nid st) c \<and>
   mem_contents (snd (mem_mark_stale_nodes now s threshold)) = apfst (a_mark_stale now threshold) c \<and>
   map_prod (\<lambda>r. r) mem_contents (mem_update_annotations s nid sets removes) =
     on_main (a_update_annotations nid sets removes) c \<and>
   map_prod (\<lambda>r. r) mem_contents (mem_store_policy s p) = on_main (\<lambda>a. a_store_policy a p) c \<and>
   map_prod (\<lambda>r. r) mem_contents (mem_record_deployment s d) = on_main (\<lambda>a. a_record_deployment a d) c \<and>
   map_prod (\<lambda>r. r) mem_contents (mem_begin_deploy s nid) = on_main (\<lambda>a. a_begin_deploy a nid) c \<and>
   mem_contents (mem_end_deploy s nid) = apfst (\<lambda>a. a_end_deploy a nid) c \<and>
   map_prod (\<lambda>r. r) mem_contents (mem_store_fsm_definition now s fd) = on_main (a_store_fsm_definition fd) c \<and>
   map_prod (\<lambda>r. r) mem_contents (mem_delete_fsm_definition s nm) = on_main (a_delete_fsm_definition nm) c \<and>
   map_prod (\<lambda>r. r) mem_contents (mem_store_fsm_instance s i) = on_main (\<lambda>a. a_store_fsm_instance a i) c \<and>
   map_prod (\<lambda>r. r) mem_contents (mem_update_fsm_instance s i) = on_main (\<lambda>a. a_update_fsm_instance a i) c \<and>
   map_prod (\<lambda>r. r) mem_contents (mem_store_counters s nid cs) =
     on_rest (\<lambda>r. (Inr (), r\<lparr> sr_counters := (sr_counters r)(nid \<mapsto> cs) \<rparr>)) c \<and>
   map_prod (\<lambda>r. r) mem_contents (mem_store_flow_counters s nid fs) =
     on_rest (\<lambda>r. (Inr (), r\<lparr> sr_flow_counters := (sr_flow_counters r)(nid \<mapsto> fs) \<rparr>)) c \<and>
   map_prod (\<lambda>r. r) mem_contents (mem_store_event s ev) =
     on_rest (\<lambda>r. (Inr (), r\<lparr> sr_events := keep_last 10000 (sr_events r @ [ev]) \<rparr>)) c \<and>
   map_prod (\<lambda>r. r) mem_contents (mem_prune_events s older) =
     on_rest (\<lambda>r. (Inr (word_of_nat (length (filter (\<lambda>ev. pe_timestamp ev < older) (sr_events r)))),
       r\<lparr> sr_events := filter (\<lambda>ev. older \<le> pe_timestamp ev) (sr_events r) \<rparr>)) c \<and>
   map_prod (\<lambda>r. r) mem_contents (mem_store_audit s en) =
     on_rest (\<lambda>r. (Inr (), r\<lparr> sr_audit := keep_last 10000 (sr_audit r @ [en]) \<rparr>)) c \<and>
   map_prod (\<lambda>r. r) mem_contents (mem_store_template s tp) =
     on_rest (\<lambda>r. (Inr (), r\<lparr> sr_templates := (sr_templates r)(tpl_name tp \<mapsto> tp) \<rparr>)) c \<and>
   map_prod (\<lambda>r. r) mem_contents (mem_delete_template s nm) =
     on_rest (\<lambda>r. (Inr (sr_templates r nm \<noteq> None), r\<lparr> sr_templates := (sr_templates r)(nm := None) \<rparr>)) c \<and>
   map_prod (\<lambda>r. r) mem_contents (mem_store_webhook_delivery s wd) =
     on_rest (\<lambda>r. (Inr (), r\<lparr> sr_deliveries := sr_deliveries r @ [wd] \<rparr>)) c"
  unfolding c_def
  by (intro conjI on_mainI mem_log_refined mem_mark_stale_refined mem_guard_refined mem_remove_refined)
    (simp_all add: mem_abs_node_ops mem_rest_same mem_update_node_state_abs mem_store_policy_abs
      mem_record_deployment_abs mem_begin_deploy_abs mem_store_fsm_instance_abs mem_update_fsm_instance_abs)

subsection \<open>Removals in progress\<close>

text \<open>The removals of \<open>remove_node\<close>, each under the lock of its own map.\<close>

definition removals :: "string \<Rightarrow> (mem_storage \<Rightarrow> mem_storage) list" where
  "removals nid =
     [\<lambda>s. s\<lparr> ms_policies := hm_remove nid (ms_policies s) \<rparr>,
      \<lambda>s. s\<lparr> ms_counters := hm_remove nid (ms_counters s) \<rparr>,
      \<lambda>s. s\<lparr> ms_flow_counters := hm_remove nid (ms_flow_counters s) \<rparr>,
      \<lambda>s. s\<lparr> ms_policy_versions := hm_remove nid (ms_policy_versions s) \<rparr>,
      \<lambda>s. s\<lparr> ms_deploying := ms_deploying s - {nid} \<rparr>,
      \<lambda>s. s\<lparr> ms_nodes := hm_remove nid (ms_nodes s) \<rparr>]"

lemma removals_in_turn: "snd (mem_remove_node s nid) = fold (\<lambda>f. f) (removals nid) s"
  by (simp add: mem_remove_node_def removals_def)

text \<open>A node between the removal of its policy and that of its versions, where \<open>(nid, k)\<close> is a removal of
  the node \<open>nid\<close> that comes to its step \<open>k\<close> next.\<close>

definition half_removed :: "(string \<times> nat) list \<Rightarrow> string \<Rightarrow> bool" where
  "half_removed rs nid \<longleftrightarrow> list_ex (\<lambda>(m, k). m = nid \<and> 1 \<le> k \<and> k \<le> 3) rs"

text \<open>Any number of removals may be in progress, and other calls run in between.  With \<open>careful\<close> set, no
  policy is stored for a node that is half removed; the code does not check that.\<close>

inductive mem_run :: "bool \<Rightarrow> mem_storage \<Rightarrow> (string \<times> nat) list \<Rightarrow> bool" for careful where
  start: "mem_run careful mem_default []"
| call: "mem_run careful s rs \<Longrightarrow> mem_call s s' \<Longrightarrow> mem_run careful s' rs"
| store: "mem_run careful s rs \<Longrightarrow> careful \<longrightarrow> \<not> half_removed rs (pol_node_id p) \<Longrightarrow>
    mem_run careful (snd (mem_store_policy s p)) rs"
| remove: "mem_run careful s rs \<Longrightarrow> mem_run careful s (rs @ [(nid, 0)])"
| removal: "mem_run careful s (rs @ (nid, k) # qs) \<Longrightarrow> k < 6 \<Longrightarrow>
    mem_run careful ((removals nid ! k) s) (rs @ (nid, Suc k) # qs)"
| removed: "mem_run careful s (rs @ (nid, 6) # qs) \<Longrightarrow> mem_run careful s (rs @ qs)"

definition numbered_versions :: "mem_storage \<Rightarrow> bool" where
  "numbered_versions s \<longleftrightarrow>
     (\<forall>nid. \<forall>k < length (mem_versions s nid). pv_version (mem_versions s nid ! k) = word_of_nat (Suc k))"

definition current_versions :: "(string \<times> nat) list \<Rightarrow> mem_storage \<Rightarrow> bool" where
  "current_versions rs s \<longleftrightarrow>
     (\<forall>nid. if half_removed rs nid then map_of (ms_policies s) nid = None
        else versions_ok nid (mem_versions s nid) (map_of (ms_policies s) nid))"

lemma half_removed_simps [simp]:
  "\<not> half_removed [] nid"
  "half_removed ((m, k) # rs) nid \<longleftrightarrow> m = nid \<and> 1 \<le> k \<and> k \<le> 3 \<or> half_removed rs nid"
  "half_removed (rs @ qs) nid \<longleftrightarrow> half_removed rs nid \<or> half_removed qs nid"
  by (auto simp: half_removed_def)

lemma mem_call_policies: "mem_call s s' \<Longrightarrow> ms_policies s' = ms_policies s \<and> mem_versions s' = mem_versions s"
  by (induction rule: mem_call.induct)
    (simp_all add: fun_eq_iff mem_versions_def mem_register_node_def mem_update_heartbeat_def
      mem_update_node_state_def mem_mark_stale_nodes_def mem_update_annotations_def mem_log_defs Let_def
      mem_record_deployment_def mem_begin_deploy_def mem_end_deploy_def mem_store_fsm_definition_def
      mem_delete_fsm_definition_def mem_store_fsm_instance_def mem_update_fsm_instance_def
      split: option.split)

lemma mem_store_policy_versions:
  "mem_versions (snd (mem_store_policy s p)) = (mem_versions s)(pol_node_id p := mem_versions s (pol_node_id p) @
     [version_of_policy (word_of_nat (length (mem_versions s (pol_node_id p))) + 1) p])"
  "ms_policies (snd (mem_store_policy s p)) = hm_insert (pol_node_id p) p (ms_policies s)"
  by (auto simp: mem_store_policy_def mem_versions_def Let_def fun_eq_iff)

lemma removal_effect:
  assumes "k < 6"
  shows "mem_versions ((removals nid ! k) s) = (if k = 3 then (mem_versions s)(nid := []) else mem_versions s)"
    and "map_of (ms_policies ((removals nid ! k) s)) =
      (if k = 0 then (map_of (ms_policies s))(nid := None) else map_of (ms_policies s))"
proof -
  have "k = 0 \<or> k = 1 \<or> k = 2 \<or> k = 3 \<or> k = 4 \<or> k = 5" using assms by arith
  then show "mem_versions ((removals nid ! k) s) = (if k = 3 then (mem_versions s)(nid := []) else mem_versions s)"
    and "map_of (ms_policies ((removals nid ! k) s)) =
      (if k = 0 then (map_of (ms_policies s))(nid := None) else map_of (ms_policies s))"
    by (elim disjE; simp add: removals_def mem_versions_def fun_eq_iff)+
qed

lemma mem_run_numbered: "mem_run careful s rs \<Longrightarrow> numbered_versions s"
proof (induction rule: mem_run.induct)
  case (call s rs s')
  then show ?case using mem_call_policies [of s s'] by (simp add: numbered_versions_def)
next
  case (store s rs p)
  then show ?case
    by (auto simp: numbered_versions_def mem_store_policy_versions nth_append version_of_policy_def less_Suc_eq
        add.commute)
next
  case (removal s rs nid k qs)
  then show ?case by (simp add: numbered_versions_def removal_effect)
qed (simp_all add: numbered_versions_def mem_default_def mem_versions_def)

lemma versions_ok_none [simp]: "versions_ok nid [] None"
  by (simp add: versions_ok_def)

lemma mem_run_current: "mem_run True s rs \<Longrightarrow> current_versions rs s"
proof (induction rule: mem_run.induct)
  case start
  then show ?case by (simp add: current_versions_def mem_default_def mem_versions_def)
next
  case (call s rs s')
  then show ?case using mem_call_policies [of s s'] by (simp add: current_versions_def)
next
  case (store s rs p)
  let ?nid = "pol_node_id p"
  have "versions_ok ?nid (mem_versions s ?nid) (map_of (ms_policies s) ?nid)"
    using store by (auto simp: current_versions_def dest: spec [of _ ?nid])
  from versions_ok_append [OF this refl] show ?case
    using store by (auto simp: current_versions_def mem_store_policy_versions)
next
  case (remove s rs nid)
  then show ?case by (simp add: current_versions_def)
next
  case (removal s rs nid k qs)
  let ?s' = "(removals nid ! k) s" and ?rs = "rs @ (nid, k) # qs" and ?rs' = "rs @ (nid, Suc k) # qs"
  have "if half_removed ?rs' m then map_of (ms_policies ?s') m = None
      else versions_ok m (mem_versions ?s' m) (map_of (ms_policies ?s') m)" for m
  proof (cases "m = nid")
    case False
    then show ?thesis using removal by (auto simp: current_versions_def removal_effect)
  next
    case True
    have "if half_removed ?rs nid then map_of (ms_policies s) nid = None
        else versions_ok nid (mem_versions s nid) (map_of (ms_policies s) nid)"
      using removal.IH by (simp add: current_versions_def)
    then show ?thesis using True removal.hyps(2) by (auto simp: removal_effect split: if_splits)
  qed
  then show ?case by (simp add: current_versions_def)
qed (simp add: current_versions_def)

text \<open>C4: However calls of the in-memory backend interleave with removals of nodes, which take several
  steps, the policy versions of a node are numbered 1, 2, ..., n without a gap, and
  \<open>get_policy_history\<close> returns the newest of them first.  When moreover no policy is stored for a
  node between the removal of its policy and that of its versions, then for every node that is not in
  between a current policy exists exactly when there is a version, and has the content of the newest.\<close>

theorem mem_policy_versions_contiguous:
  assumes "mem_run careful s rs"
  shows "\<exists>vs. map pv_version vs = map word_of_nat [1..<Suc (length vs)] \<and>
    (\<forall>limit. mem_get_policy_history s nid limit = Inr (take (unat limit) (rev vs))) \<and>
    (careful \<and> \<not> half_removed rs nid \<longrightarrow>
      (mem_get_policy s nid = Inr None \<longleftrightarrow> vs = []) \<and>
      (\<forall>p. mem_get_policy s nid = Inr (Some p) \<longrightarrow>
         last vs = version_of_policy (word_of_nat (length vs)) p \<and> pol_node_id p = nid))"
proof -
  have n: "map pv_version (mem_versions s nid) = map word_of_nat [1..<Suc (length (mem_versions s nid))]"
    using mem_run_numbered [OF assms]
    by (intro nth_equalityI) (auto simp: numbered_versions_def simp del: upt_Suc)
  have "versions_ok nid (mem_versions s nid) (map_of (ms_policies s) nid)" if careful "\<not> half_removed rs nid"
    using mem_run_current [of s rs] assms that by (auto simp: current_versions_def)
  with n show ?thesis
    by (intro exI [of _ "mem_versions s nid"])
      (auto simp: mem_get_policy_history_abs mem_get_policy_def versions_ok_def split: option.splits)
qed

text \<open>Without that care a policy stored during a removal stays without a version.\<close>

lemma removal_loses_versions:
  "\<exists>s. mem_run False s [] \<and> mem_get_policy s (pol_node_id p) = Inr (Some p) \<and>
     mem_get_policy_history s (pol_node_id p) limit = Inr []"
proof -
  let ?nid = "pol_node_id p"
  let ?s1 = "snd (mem_store_policy ((removals ?nid ! 2) ((removals ?nid ! 1) ((removals ?nid ! 0) mem_default))) p)"
  let ?s = "(removals ?nid ! 5) ((removals ?nid ! 4) ((removals ?nid ! 3) ?s1))"
  have r: "mem_run False s [(?nid, k)] \<Longrightarrow> k < 6 \<Longrightarrow> mem_run False ((removals ?nid ! k) s) [(?nid, Suc k)]" for s k
    using mem_run.removal [of False s "[]" ?nid k "[]"] by simp
  have "mem_run False mem_default [(?nid, 0)]"
    using mem_run.remove [OF mem_run.start, of False ?nid] by simp
  from r [OF r [OF r [OF this]]]
  have "mem_run False ((removals ?nid ! 2) ((removals ?nid ! 1) ((removals ?nid ! 0) mem_default))) [(?nid, 3)]"
    by (simp add: eval_nat_numeral)
  then have "mem_run False ?s1 [(?nid, 3)]" by (rule mem_run.store) simp
  from r [OF r [OF r [OF this]]] have "mem_run False ?s [(?nid, 6)]" by (simp add: eval_nat_numeral)
  then have "mem_run False ?s []" using mem_run.removed [of False ?s "[]" ?nid "[]"] by simp
  moreover have "mem_get_policy ?s ?nid = Inr (Some p)" "mem_get_policy_history ?s ?nid limit = Inr []"
    by (simp_all add: mem_get_policy_def mem_get_policy_history_abs removal_effect mem_store_policy_versions)
  ultimately show ?thesis by blast
qed

end
