(* ===== verification/Deploy_Tasks.thy ===== *)
theory Deploy_Tasks
  imports Api_Run Mem_Run
begin

text \<open>
  Deploys that interleave.  \<open>deploy_policy\<close> of \<^verbatim>\<open>pacinet-server/src/service.rs\<close>, with \<open>deploy_to_node\<close> of
  \<^verbatim>\<open>deploy.rs\<close> inside it, is cut at every point where it waits: a task goes from one storage call or
  agent call to the next, and between two of its steps any other task may run.  The first theorem
  puts the pieces together again: a task that runs without interruption is \<open>deploy_policy\<close>.

  A step relation runs any number of tasks: deploys under the guard (\<open>deploy_policy\<close>, the rollback, the
  tasks of a batch, their REST twins and the deploy actions of the FSM engine all take it in this way)
  and the rollbacks of the FSM engine, which do not take it.  A client may go away, and then its task is
  dropped where it waits; nodes may be removed, which drops their guard; the rest of the world may
  change in any way that leaves the guard alone.
\<close>

subsection \<open>The steps of a deploy\<close>

record deploy_job =
  dj_guarded :: bool
  dj_req :: deploy_policy_request
  dj_node :: node

datatype deploy_task =
    NoTask
  | Load deploy_policy_request
  | Begin deploy_policy_request node
  | ReadPolicy deploy_job
  | ReadVersion deploy_job
  | RecordSame deploy_job u64
  | StorePolicy deploy_job
  | SetDeploying deploy_job time u64
  | Forward deploy_job time u64
  | Settle deploy_job time u64 agent_reply
  | Record deploy_job time u64 agent_reply
  | End deploy_job deploy_outcome
  | Done "status + deploy_policy_response"

definition job_options :: "deploy_job \<Rightarrow> compile_options" where
  "job_options j = normalize_options (options_or_default (dq_options (dj_req j)))"

definition job_hash :: "env \<Rightarrow> deploy_job \<Rightarrow> string" where
  "job_hash e j = e_policy_hash e (dq_rules_yaml (dj_req j))"

text \<open>What the answer of the agent leads to: message, warnings, result and the state of the node.\<close>

definition verdict :: "env \<Rightarrow> agent_reply \<Rightarrow> (string \<times> string list \<times> deployment_result) \<times> node_state" where
  "verdict e reply =
     (case reply of
        AgentResponse success message warnings \<Rightarrow>
          if success then ((message, warnings, Success), Active) else ((message, warnings, AgentFailure), Error)
      | AgentError err \<Rightarrow>
          ((''Failed to reach agent: '' @ err, [''Policy stored locally but agent unreachable''],
            AgentUnreachable), Error)
      | AgentTimeout \<Rightarrow>
          ((''Agent communication timed out ('' @ show_nat (unat (e_deploy_timeout e)) @ ''s)'',
            [''Policy stored locally but agent timed out''], Timeout), Error))"

fun task_step :: "'s storage_ops \<Rightarrow> env \<Rightarrow> deploy_task \<Rightarrow> 's world \<Rightarrow> deploy_task \<times> 's world" where
  "task_step ops e (Load req) w =
     (case load_node ops (dq_node_id req) w of
        Inl st \<Rightarrow> (Done (Inl st), w)
      | Inr n \<Rightarrow> (Begin req n, w))"
| "task_step ops e (Begin req n) w =
     (case blocking (\<lambda>s. so_begin_deploy ops s (dq_node_id req)) w of
        (Inl st, w) \<Rightarrow> (Done (Inl st), w)
      | (Inr _, w) \<Rightarrow> (ReadPolicy \<lparr> dj_guarded = True, dj_req = req, dj_node = n \<rparr>, w))"
| "task_step ops e (ReadPolicy j) w =
     (case ensure_node_capabilities (dj_node j) (job_options j) of
        Inl msg \<Rightarrow> (End j (failure_outcome msg), w)
      | Inr _ \<Rightarrow>
          (case blocking_read (\<lambda>s. so_get_policy ops s (n_node_id (dj_node j))) w of
             Inl err \<Rightarrow> (End j (failure_outcome (''Failed to read current policy: '' @ e_show_status e err)), w)
           | Inr current \<Rightarrow>
               (if n_state (dj_node j) = Active \<and>
                   (case current of
                      Some p \<Rightarrow> policy_matches_request p (dq_rules_yaml (dj_req j)) (job_hash e j) (job_options j)
                    | None \<Rightarrow> False)
                then ReadVersion j else StorePolicy j, w)))"
| "task_step ops e (ReadVersion j) w =
     (case blocking_read (\<lambda>s. so_get_policy_history ops s (n_node_id (dj_node j)) 1) w of
        Inl err \<Rightarrow> (End j (failure_outcome (''Failed to read policy history: '' @ e_show_status e err)), w)
      | Inr v \<Rightarrow> (RecordSame j (case v of [] \<Rightarrow> 0 | p # _ \<Rightarrow> pv_version p), w))"
| "task_step ops e (RecordSame j version) w =
     (let (uuid, w) = new_uuid e w;
          (now, w) = clock e w
      in (End j \<lparr> do_success = True, do_message = no_change_message, do_warnings = [],
                  do_result = Success, do_version = version \<rparr>,
          record_deployment ops
            \<lparr> dr_id = uuid, dr_node_id = n_node_id (dj_node j), dr_policy_version = version,
              dr_policy_hash = job_hash e j, dr_deployed_at = now, dr_result = Success,
              dr_message = no_change_message \<rparr> w))"
| "task_step ops e (StorePolicy j) w =
     (let (now, w) = clock e w;
          policy = policy_of_request (n_node_id (dj_node j)) (dq_rules_yaml (dj_req j)) (job_hash e j) now
            (job_options j)
      in case blocking (\<lambda>s. so_store_policy ops s policy) w of
           (Inl err, w) \<Rightarrow> (End j (failure_outcome (''Failed to store policy: '' @ e_show_status e err)), w)
         | (Inr version, w) \<Rightarrow> (SetDeploying j now version, w))"
| "task_step ops e (SetDeploying j now version) w =
     (Forward j now version, set_node_state ops (n_node_id (dj_node j)) Deploying w)"
| "task_step ops e (Forward j now version) w =
     (case call_agent e
             \<lparr> aq_address = agent_address e (dj_node j), aq_rules_yaml = dq_rules_yaml (dj_req j),
               aq_options = Some (job_options j) \<rparr> w of
        (reply, w) \<Rightarrow> (Settle j now version reply, w))"
| "task_step ops e (Settle j now version reply) w =
     (Record j now version reply, set_node_state ops (n_node_id (dj_node j)) (snd (verdict e reply)) w)"
| "task_step ops e (Record j now version reply) w =
     (let (uuid, w) = new_uuid e w;
          (message, warnings, result) = fst (verdict e reply)
      in (End j \<lparr> do_success = (result = Success), do_message = message, do_warnings = warnings,
                  do_result = result, do_version = version \<rparr>,
          record_deployment ops
            \<lparr> dr_id = uuid, dr_node_id = n_node_id (dj_node j), dr_policy_version = version,
              dr_policy_hash = job_hash e j, dr_deployed_at = now, dr_result = result,
              dr_message = message \<rparr> w))"
| "task_step ops e (End j out) w =
     (Done (Inr (deploy_response out)),
      if dj_guarded j then w\<lparr> w_store := so_end_deploy ops (w_store w) (dq_node_id (dj_req j)) \<rparr> else w)"
| "task_step ops e (Done r) w = (Done r, w)"
| "task_step ops e NoTask w = (NoTask, w)"

text \<open>So many steps of a task, without interruption.\<close>

fun task_run :: "'s storage_ops \<Rightarrow> env \<Rightarrow> nat \<Rightarrow> deploy_task \<Rightarrow> 's world \<Rightarrow> deploy_task \<times> 's world" where
  "task_run ops e 0 t w = (t, w)"
| "task_run ops e (Suc k) t w = (case task_step ops e t w of (t', w') \<Rightarrow> task_run ops e k t' w')"

lemma task_run_Done [simp]: "task_run ops e k (Done r) w = (Done r, w)"
  by (induction k) simp_all

lemma task_run_numeral: "task_run ops e (numeral k) t w =
    task_run ops e (pred_numeral k) (fst (task_step ops e t w)) (snd (task_step ops e t w))"
  by (simp add: numeral_eq_Suc case_prod_unfold)

lemma forward_and_settle_verdict:
  "forward_and_settle ops e n r opts w =
     (let (reply, w) = call_agent e \<lparr> aq_address = agent_address e n, aq_rules_yaml = r, aq_options = Some opts \<rparr> w
      in (fst (verdict e reply), set_node_state ops (n_node_id n) (snd (verdict e reply)) w))"
  by (simp add: forward_and_settle_def verdict_def Let_def case_prod_unfold split: agent_reply.split)

lemmas step_defs = Let_def case_prod_unfold job_options_def job_hash_def

text \<open>From the first read to the end, a task is \<open>deploy_to_node\<close>.\<close>

lemma run_End: "0 < k \<Longrightarrow> task_run ops e k (End j out) w = task_run ops e 1 (End j out) w"
  by (cases k) simp_all

lemma run_deploy_changed:
  fixes ops :: "'s storage_ops" and e :: env and j :: deploy_job and w :: "'s world"
  defines "d \<equiv> deploy_changed ops e (dj_node j) (dq_rules_yaml (dj_req j)) (job_hash e j) (job_options j) w"
  shows "task_run ops e 6 (StorePolicy j) w = task_run ops e 1 (End j (fst d)) (snd d)"
  by (cases "fst (blocking (\<lambda>s. so_store_policy ops s (policy_of_request (n_node_id (dj_node j))
        (dq_rules_yaml (dj_req j)) (job_hash e j) (fst (clock e w)) (job_options j))) (snd (clock e w)))")
    (simp_all add: d_def deploy_changed_def forward_and_settle_verdict task_run_numeral run_End step_defs)

lemma run_deploy_unchanged:
  fixes ops :: "'s storage_ops" and e :: env and j :: deploy_job and w :: "'s world"
  defines "d \<equiv> deploy_unchanged ops e (n_node_id (dj_node j)) (job_hash e j) w"
  shows "task_run ops e 6 (ReadVersion j) w = task_run ops e 1 (End j (fst d)) (snd d)"
  by (cases "blocking_read (\<lambda>s. so_get_policy_history ops s (n_node_id (dj_node j)) 1) w")
    (simp_all add: d_def deploy_unchanged_def task_run_numeral run_End step_defs)

lemma run_deploy_to_node:
  fixes ops :: "'s storage_ops" and e :: env and j :: deploy_job and w :: "'s world"
  defines "d \<equiv> deploy_to_node ops e (dj_node j) (dq_rules_yaml (dj_req j))
    (options_or_default (dq_options (dj_req j))) w"
  shows "task_run ops e 7 (ReadPolicy j) w = task_run ops e 1 (End j (fst d)) (snd d)"
proof (cases "ensure_node_capabilities (dj_node j) (job_options j)")
  case (Inl msg)
  then show ?thesis by (simp add: d_def deploy_to_node_def task_run_numeral run_End step_defs)
next
  case ok: (Inr u)
  show ?thesis
  proof (cases "blocking_read (\<lambda>s. so_get_policy ops s (n_node_id (dj_node j))) w")
    case (Inl err)
    with ok show ?thesis by (simp add: d_def deploy_to_node_def task_run_numeral run_End step_defs)
  next
    case (Inr current)
    have seven: "task_run ops e 7 t w = task_run ops e 6 (fst (task_step ops e t w)) (snd (task_step ops e t w))"
      for t by (simp add: task_run_numeral [of _ _ "num.Bit1 (num.Bit1 num.One)"])
    show ?thesis
      by (cases "n_state (dj_node j) = Active \<and> (case current of Some p \<Rightarrow>
            policy_matches_request p (dq_rules_yaml (dj_req j)) (job_hash e j) (job_options j) | None \<Rightarrow> False)")
        (use ok Inr run_deploy_changed [of ops e j w] run_deploy_unchanged [of ops e j w] in
          \<open>simp_all only: d_def deploy_to_node_def seven job_options_def job_hash_def Let_def sum.case if_True if_False
             task_step.simps fst_conv snd_conv simp_thms\<close>)
  qed
qed

text \<open>A task that nothing interrupts is \<open>deploy_policy\<close>: load, take the guard or be refused, deploy,
  give the guard back.\<close>

lemma run_deploy_policy:
  "task_run ops e 9 (Load req) w = (Done (fst (deploy_policy ops e req w)), snd (deploy_policy ops e req w))"
proof (cases "load_node ops (dq_node_id req) w")
  case (Inl st)
  then show ?thesis by (simp add: deploy_policy_def task_run_numeral)
next
  case (Inr n)
  have nine: "task_run ops e 9 t w = task_run ops e 8 (fst (task_step ops e t w)) (snd (task_step ops e t w))" for t w
    by (simp add: task_run_numeral [of _ _ "num.Bit1 (num.Bit0 (num.Bit0 num.One))"])
  have eight: "task_run ops e 8 t w = task_run ops e 7 (fst (task_step ops e t w)) (snd (task_step ops e t w))" for t w
    by (simp add: task_run_numeral [of _ _ "num.Bit0 (num.Bit0 (num.Bit0 num.One))"])
  show ?thesis
  proof (cases "fst (blocking (\<lambda>s. so_begin_deploy ops s (dq_node_id req)) w)")
    case (Inl st)
    with Inr show ?thesis by (simp add: deploy_policy_def guarded_deploy_def nine eight case_prod_unfold)
  next
    case (Inr u)
    with \<open>load_node ops (dq_node_id req) w = Inr n\<close> show ?thesis
      by (simp add: deploy_policy_def guarded_deploy_def do_deploy_def nine eight run_deploy_to_node
          case_prod_unfold Let_def)
  qed
qed


subsection \<open>Deploys that interleave\<close>

text \<open>The job a task has, and the guard it holds: from \<open>begin_deploy\<close> to \<open>end_deploy\<close>.\<close>

fun task_job :: "deploy_task \<Rightarrow> deploy_job option" where
  "task_job (ReadPolicy j) = Some j"
| "task_job (ReadVersion j) = Some j"
| "task_job (RecordSame j _) = Some j"
| "task_job (StorePolicy j) = Some j"
| "task_job (SetDeploying j _ _) = Some j"
| "task_job (Forward j _ _) = Some j"
| "task_job (Settle j _ _ _) = Some j"
| "task_job (Record j _ _ _) = Some j"
| "task_job (End j _) = Some j"
| "task_job _ = None"

definition guard_of :: "deploy_task \<Rightarrow> string set" where
  "guard_of t = (case task_job t of Some j \<Rightarrow> if dj_guarded j then {dq_node_id (dj_req j)} else {} | None \<Rightarrow> {})"

text \<open>
  The tasks at work, by number, and the guards of the tasks that were dropped.  A request is
  submitted (\<open>submit\<close>), or a handler that has read its node takes the guard for it (\<open>begin\<close>: the
  rollback of the API, a task of a batch, a node of an engine deploy), or the engine rolls a node back
  without the guard (\<open>unguarded\<close>); a task makes a step, or returns; it is dropped because its client
  went away (\<open>drop\<close>; a storage call under way still runs, which is \<open>step\<close> and then \<open>drop\<close>); a removal
  of a node drops its guard; anything else may happen that leaves the guard alone and keeps the
  nodes under their own ids.  With \<open>careful\<close> set, no node is removed while a task holds its guard; the
  code does not check that.
\<close>

inductive deploys_step ::
  "env \<Rightarrow> bool \<Rightarrow> mem_storage world \<times> (nat \<Rightarrow> deploy_task) \<times> string set \<Rightarrow>
     mem_storage world \<times> (nat \<Rightarrow> deploy_task) \<times> string set \<Rightarrow> bool"
  for e careful where
  submit: "ts c = NoTask \<Longrightarrow> deploys_step e careful (w, ts, lost) (w, ts(c := Load req), lost)"
| begin_node: "ts c = NoTask \<Longrightarrow> n_node_id n = dq_node_id req \<Longrightarrow>
    deploys_step e careful (w, ts, lost) (w, ts(c := Begin req n), lost)"
| unguarded: "ts c = NoTask \<Longrightarrow> n_node_id n = dq_node_id req \<Longrightarrow>
    deploys_step e careful (w, ts, lost)
      (w, ts(c := ReadPolicy \<lparr> dj_guarded = False, dj_req = req, dj_node = n \<rparr>), lost)"
| step: "task_step memory_ops e (ts c) w = (t', w') \<Longrightarrow>
    deploys_step e careful (w, ts, lost) (w', ts(c := t'), lost)"
| return: "ts c = Done r \<Longrightarrow> deploys_step e careful (w, ts, lost) (w, ts(c := NoTask), lost)"
| drop: "deploys_step e careful (w, ts, lost) (w, ts(c := NoTask), lost \<union> guard_of (ts c))"
| removal: "careful \<longrightarrow> (\<forall>c. nid \<notin> guard_of (ts c)) \<Longrightarrow>
    deploys_step e careful (w, ts, lost) (w\<lparr> w_store := (removals nid ! 4) (w_store w) \<rparr>, ts, lost - {nid})"
| other: "ms_deploying (w_store w') = ms_deploying (w_store w) \<Longrightarrow> keys_ok n_node_id (ms_nodes (w_store w')) \<Longrightarrow>
    deploys_step e careful (w, ts, lost) (w', ts, lost)"

text \<open>The request a task that has not begun works for, and the node it has read.\<close>

fun own_node :: "deploy_task \<Rightarrow> bool" where
  "own_node (Begin req n) = (n_node_id n = dq_node_id req)"
| "own_node t = (case task_job t of Some j \<Rightarrow> n_node_id (dj_node j) = dq_node_id (dj_req j) | None \<Rightarrow> True)"

definition guards_held :: "mem_storage world \<times> (nat \<Rightarrow> deploy_task) \<times> string set \<Rightarrow> bool" where
  "guards_held x \<longleftrightarrow>
     (case x of (w, ts, lost) \<Rightarrow>
        (\<forall>c d. c \<noteq> d \<longrightarrow> guard_of (ts c) \<inter> guard_of (ts d) = {}) \<and>
        (\<forall>c. guard_of (ts c) \<inter> lost = {}) \<and>
        ms_deploying (w_store w) = lost \<union> (\<Union>c. guard_of (ts c)) \<and>
        keys_ok n_node_id (ms_nodes (w_store w)) \<and> (\<forall>c. own_node (ts c)))"

lemma deploying_untouched [simp]:
  "ms_deploying (snd (mem_update_node_state s nid st)) = ms_deploying s"
  "ms_deploying (snd (mem_record_deployment s r)) = ms_deploying s"
  "ms_deploying (snd (mem_store_policy s p)) = ms_deploying s"
  by (simp_all add: mem_update_node_state_def mem_record_deployment_def mem_store_policy_def Let_def
      split: option.split)

lemma nodes_keyed [simp]:
  "keys_ok n_node_id (ms_nodes s) \<Longrightarrow> keys_ok n_node_id (ms_nodes (snd (mem_update_node_state s nid st)))"
  "ms_nodes (snd (mem_record_deployment s r)) = ms_nodes s"
  "ms_nodes (snd (mem_store_policy s p)) = ms_nodes s"
  by (simp_all add: mem_update_node_state_def mem_record_deployment_def mem_store_policy_def Let_def
      split: option.split)

lemma settling_store [simp]:
  "w_store (set_node_state memory_ops nid st w) = snd (mem_update_node_state (w_store w) nid st)"
  "w_store (record_deployment memory_ops r w) = snd (mem_record_deployment (w_store w) r)"
  by (simp_all add: set_node_state_def record_deployment_def memory_ops_def)

text \<open>What a step of a task does to the guard: nothing, or it takes it, or it gives it back.\<close>

definition guard_moves :: "deploy_task \<times> mem_storage world \<Rightarrow> deploy_task \<times> mem_storage world \<Rightarrow> bool" where
  "guard_moves x y \<longleftrightarrow>
     (case (x, y) of ((t, w), (t', w')) \<Rightarrow>
        guard_of t' = guard_of t \<and> ms_deploying (w_store w') = ms_deploying (w_store w) \<or>
        (\<exists>nid. guard_of t = {} \<and> guard_of t' = {nid} \<and> nid \<notin> ms_deploying (w_store w) \<and>
           ms_deploying (w_store w') = insert nid (ms_deploying (w_store w))) \<or>
        guard_of t' = {} \<and> ms_deploying (w_store w') = ms_deploying (w_store w) - guard_of t)"

lemma guard_moves_same:
  "guard_of t' = guard_of t \<Longrightarrow> ms_deploying (w_store w') = ms_deploying (w_store w) \<Longrightarrow>
    guard_moves (t, w) (t', w')"
  by (simp add: guard_moves_def)

lemma task_step_guard:
  "guard_moves (t, w) (task_step memory_ops e t w)"
proof (cases t)
  case (Begin req n)
  then show ?thesis
    by (auto simp: guard_moves_def blocking_def memory_ops_def mem_begin_deploy_def guard_of_def)
next
  case (End j out)
  then show ?thesis
    by (auto simp: guard_moves_def memory_ops_def mem_end_deploy_def guard_of_def)
next
  case (StorePolicy j)
  have p: "ms_deploying (w_store (snd (blocking (\<lambda>s. so_store_policy memory_ops s p) w))) =
      ms_deploying (w_store w)" for p and w :: "mem_storage world"
    by (simp add: memory_ops_def)
  show ?thesis
    by (cases "fst (blocking (\<lambda>s. so_store_policy memory_ops s (policy_of_request (n_node_id (dj_node j))
          (dq_rules_yaml (dj_req j)) (job_hash e j) (fst (clock e w)) (job_options j))) (snd (clock e w)))")
      (simp_all add: StorePolicy Let_def case_prod_unfold guard_moves_same guard_of_def p)
next
  case (RecordSame j v)
  then show ?thesis by (simp add: Let_def case_prod_unfold guard_moves_same guard_of_def)
next
  case (Record j now v reply)
  then show ?thesis by (simp add: Let_def case_prod_unfold guard_moves_same guard_of_def)
next
  case (Load req)
  then show ?thesis by (simp add: guard_moves_same guard_of_def split: sum.split)
next
  case (ReadPolicy j)
  then show ?thesis by (simp add: guard_moves_same guard_of_def split: sum.split)
next
  case (ReadVersion j)
  then show ?thesis by (simp add: guard_moves_same guard_of_def split: sum.split)
next
  case (Forward j now v)
  then show ?thesis by (simp add: case_prod_unfold guard_moves_same guard_of_def)
qed (simp_all add: guard_moves_same guard_of_def)

lemma task_step_own:
  assumes "keys_ok n_node_id (ms_nodes (w_store w))" and "own_node t" and "task_step memory_ops e t w = (t', w')"
  shows "own_node t' \<and> keys_ok n_node_id (ms_nodes (w_store w'))"
proof (cases t)
  case (Load req)
  then show ?thesis
    using assms by (auto simp: load_node_def blocking_read_def memory_ops_def mem_get_node_def ok_or_def
        dest: keys_ok_get split: sum.splits option.splits)
next
  case (Begin req n)
  then show ?thesis
    using assms by (auto simp: blocking_def memory_ops_def mem_begin_deploy_def split: if_splits)
next
  case (StorePolicy j)
  have p: "ms_nodes (w_store (snd (blocking (\<lambda>s. so_store_policy memory_ops s p) w))) = ms_nodes (w_store w)"
    for p and w :: "mem_storage world"
    by (simp add: memory_ops_def)
  show ?thesis
    using assms
    by (cases "fst (blocking (\<lambda>s. so_store_policy memory_ops s (policy_of_request (n_node_id (dj_node j))
          (dq_rules_yaml (dj_req j)) (job_hash e j) (fst (clock e w)) (job_options j))) (snd (clock e w)))")
      (auto simp: StorePolicy Let_def case_prod_unfold p)
next
  case (End j out)
  then show ?thesis
    using assms by (auto simp: memory_ops_def mem_end_deploy_def)
qed (use assms in \<open>auto simp: Let_def case_prod_unfold split: sum.splits if_splits\<close>)

lemma guard_of_none [simp]:
  "guard_of NoTask = {}" "guard_of (Load req) = {}" "guard_of (Begin req n) = {}" "guard_of (Done r) = {}"
  by (simp_all add: guard_of_def)

lemma guards_held_update:
  assumes "guards_held (w, ts, lost)" and "guard_of t = {}" and "own_node t"
  shows "guards_held (w, ts(c := t), lost \<union> guard_of (ts c))"
proof -
  have "(\<Union>d. guard_of ((ts(c := t)) d)) = (\<Union>d \<in> - {c}. guard_of (ts d))"
    using assms(2) by (auto split: if_splits)
  moreover have "(\<Union>d. guard_of (ts d)) = guard_of (ts c) \<union> (\<Union>d \<in> - {c}. guard_of (ts d))"
    by auto
  ultimately have "lost \<union> (\<Union>d. guard_of (ts d)) = lost \<union> guard_of (ts c) \<union> (\<Union>d. guard_of ((ts(c := t)) d))"
    by auto
  moreover have "guard_of (ts d) \<inter> guard_of (ts c) = {}" if "d \<noteq> c" for d
    using assms(1) that by (auto simp: guards_held_def)
  ultimately show ?thesis using assms by (auto simp: guards_held_def Int_Un_distrib)
qed

lemma deploys_step_held:
  "deploys_step e careful x y \<Longrightarrow> careful \<Longrightarrow> guards_held x \<Longrightarrow> guards_held y"
proof (induction rule: deploys_step.induct)
  case (step ts c w t' w' lost)
  note m = task_step_guard [of "ts c" w e, unfolded step(1)]
  have own: "own_node t' \<and> keys_ok n_node_id (ms_nodes (w_store w'))"
    using task_step_own [OF _ _ step(1)] step by (auto simp: guards_held_def)
  have union: "(\<Union>d. guard_of ((ts(c := t')) d)) = guard_of t' \<union> (\<Union>d \<in> - {c}. guard_of (ts d))"
    "(\<Union>d. guard_of (ts d)) = guard_of (ts c) \<union> (\<Union>d \<in> - {c}. guard_of (ts d))"
    by (auto split: if_splits)
  from m consider (same) "guard_of t' = guard_of (ts c)" "ms_deploying (w_store w') = ms_deploying (w_store w)"
    | (take) nid where "guard_of (ts c) = {}" "guard_of t' = {nid}" "nid \<notin> ms_deploying (w_store w)"
        "ms_deploying (w_store w') = insert nid (ms_deploying (w_store w))"
    | (give) "guard_of t' = {}" "ms_deploying (w_store w') = ms_deploying (w_store w) - guard_of (ts c)"
    by (auto simp: guard_moves_def)
  then show ?case
  proof cases
    case same
    then show ?thesis using step own union by (auto simp: guards_held_def)
  next
    case take
    have new: "nid \<notin> guard_of (ts d)" for d using take step by (auto simp: guards_held_def)
    have "(\<Union>d. guard_of ((ts(c := t')) d)) = insert nid (\<Union>d. guard_of (ts d))"
      by (simp only: union take) auto
    then have "ms_deploying (w_store w') = lost \<union> (\<Union>d. guard_of ((ts(c := t')) d))"
      using take step by (auto simp: guards_held_def)
    moreover have "nid \<notin> lost" using take step by (auto simp: guards_held_def)
    ultimately show ?thesis using take(2) new step own by (simp add: guards_held_def)
  next
    case give
    have "guard_of (ts c) \<inter> (\<Union>d \<in> - {c}. guard_of (ts d)) = {}"
      using step by (auto simp: guards_held_def)
    moreover have "\<forall>d. guard_of (ts d) \<inter> lost = {}" "ms_deploying (w_store w) = lost \<union> (\<Union>d. guard_of (ts d))"
      using step by (auto simp: guards_held_def)
    ultimately have "ms_deploying (w_store w') = lost \<union> (\<Union>d. guard_of ((ts(c := t')) d))"
      by (simp only: union give) blast
    then show ?thesis using give(1) step own by (simp add: guards_held_def)
  qed
next
  case (submit ts c w lost req)
  then show ?case using guards_held_update [of w ts lost "Load req" c] by simp
next
  case (begin_node ts c n req w lost)
  then show ?case using guards_held_update [of w ts lost "Begin req n" c] by simp
next
  case (unguarded ts c n req w lost)
  then show ?case
    using guards_held_update [of w ts lost "ReadPolicy \<lparr> dj_guarded = False, dj_req = req, dj_node = n \<rparr>" c]
    by (simp add: guard_of_def)
next
  case (return ts c r w lost)
  then show ?case using guards_held_update [of w ts lost NoTask c] by simp
next
  case (drop w ts lost c)
  then show ?case using guards_held_update [of w ts lost NoTask c] by simp
qed (auto simp: guards_held_def removals_def)


text \<open>A task that is not dropped comes to its end: each of its own steps takes it further.\<close>

fun steps_left :: "deploy_task \<Rightarrow> nat" where
  "steps_left (Load _) = 9"
| "steps_left (Begin _ _) = 8"
| "steps_left (ReadPolicy _) = 7"
| "steps_left (StorePolicy _) = 6"
| "steps_left (SetDeploying _ _ _) = 5"
| "steps_left (Forward _ _ _) = 4"
| "steps_left (ReadVersion _) = 3"
| "steps_left (Settle _ _ _ _) = 3"
| "steps_left (RecordSame _ _) = 2"
| "steps_left (Record _ _ _ _) = 2"
| "steps_left (End _ _) = 1"
| "steps_left _ = 0"

lemma steps_left_decrease: "steps_left t \<noteq> 0 \<Longrightarrow> steps_left (fst (task_step ops e t w)) < steps_left t"
  by (cases t) (auto simp: Let_def case_prod_unfold split: sum.splits prod.splits)

lemma steps_left_guard: "steps_left t = 0 \<Longrightarrow> guard_of t = {}"
  by (cases t) (simp_all add: guard_of_def)

text \<open>C3: The deploy guard serialises.  Take any number of deploys, cut at every storage and agent call
  and interleaved in any way with each other, with rollbacks of the engine, which do not take the guard, with
  requests that are dropped and with any other work, in which no node is removed while a task holds
  its guard.  Then at most one task at a time holds the guard of a node, it holds it for the node it
  deploys to, and the guards set are exactly those of the tasks at work and of the tasks that were
  dropped while they held one.  Every step takes a task nearer to its end, where it holds no guard,
  and a task that nothing interrupts is exactly \<open>deploy_policy\<close>.\<close>

theorem deploy_guard_serialises:
  assumes "(deploys_step e True)\<^sup>*\<^sup>* (w0, \<lambda>_. NoTask, {}) (w, ts, lost)"
    and "ms_deploying (w_store w0) = {}" and "keys_ok n_node_id (ms_nodes (w_store w0))"
  shows "(\<forall>c d nid. nid \<in> guard_of (ts c) \<inter> guard_of (ts d) \<longrightarrow> c = d) \<and>
    (\<forall>c j. task_job (ts c) = Some j \<longrightarrow>
       guard_of (ts c) = (if dj_guarded j then {n_node_id (dj_node j)} else {})) \<and>
    ms_deploying (w_store w) = lost \<union> (\<Union>c. guard_of (ts c)) \<and> (\<forall>c. guard_of (ts c) \<inter> lost = {}) \<and>
    (\<forall>t v. if steps_left t = 0 then guard_of t = {}
       else steps_left (fst (task_step memory_ops e t v)) < steps_left t) \<and>
    (\<forall>req v. task_run memory_ops e 9 (Load req) v =
       (Done (fst (deploy_policy memory_ops e req v)), snd (deploy_policy memory_ops e req v)))"
proof -
  have "guards_held (w0, \<lambda>_. NoTask, {})" using assms(2,3) by (simp add: guards_held_def guard_of_def)
  with assms(1) have "guards_held (w, ts, lost)"
    by (induction rule: rtranclp_induct) (auto intro: deploys_step_held)
  then have held: "\<forall>c d. c \<noteq> d \<longrightarrow> guard_of (ts c) \<inter> guard_of (ts d) = {}" "\<forall>c. guard_of (ts c) \<inter> lost = {}"
    "ms_deploying (w_store w) = lost \<union> (\<Union>c. guard_of (ts c))" "\<forall>c. own_node (ts c)"
    by (auto simp: guards_held_def)
  have "n_node_id (dj_node j) = dq_node_id (dj_req j)" if "task_job (ts c) = Some j" for c j
    using held(4) [rule_format, of c] that by (cases "ts c") simp_all
  then have jobs: "\<forall>c j. task_job (ts c) = Some j \<longrightarrow>
      guard_of (ts c) = (if dj_guarded j then {n_node_id (dj_node j)} else {})"
    by (simp add: guard_of_def)
  have one: "\<forall>c d nid. nid \<in> guard_of (ts c) \<inter> guard_of (ts d) \<longrightarrow> c = d" using held(1) by blast
  have ends: "\<forall>t v. if steps_left t = 0 then guard_of t = {}
      else steps_left (fst (task_step memory_ops e t v)) < steps_left t"
    by (simp add: steps_left_decrease steps_left_guard)
  have runs: "\<forall>req v. task_run memory_ops e 9 (Load req) v =
      (Done (fst (deploy_policy memory_ops e req v)), snd (deploy_policy memory_ops e req v))"
    by (simp only: run_deploy_policy simp_thms)
  show ?thesis by (intro conjI one jobs held(2) held(3) ends runs)
qed

text \<open>Without the care for removals the exclusion is lost: after a removal between them, two deploys hold
  the guard of one node.\<close>

lemma removal_breaks_guard:
  fixes req :: deploy_policy_request and n :: node
  assumes "nid \<notin> ms_deploying (w_store w)" and "n_node_id n = nid" and "dq_node_id req = nid"
  shows "\<exists>w' ts. (deploys_step e False)\<^sup>*\<^sup>* (w, \<lambda>_. NoTask, {}) (w', ts, {}) \<and>
    nid \<in> guard_of (ts 0) \<and> nid \<in> guard_of (ts 1)"
proof -
  let ?g = "ReadPolicy \<lparr> dj_guarded = True, dj_req = req, dj_node = n \<rparr>"
  let ?t1 = "(\<lambda>_. NoTask)(0 := Begin req n)"
  let ?t2 = "?t1(1 := Begin req n)"
  let ?w3 = "w\<lparr> w_store := (w_store w)\<lparr> ms_deploying := insert nid (ms_deploying (w_store w)) \<rparr> \<rparr>"
  let ?t3 = "?t2(0 := ?g)"
  let ?w4 = "?w3\<lparr> w_store := (removals nid ! 4) (w_store ?w3) \<rparr>"
  let ?w5 = "?w4\<lparr> w_store := (w_store ?w4)\<lparr> ms_deploying := insert nid (ms_deploying (w_store ?w4)) \<rparr> \<rparr>"
  have "deploys_step e False (w, \<lambda>_. NoTask, {}) (w, ?t1, {})"
    by (rule deploys_step.begin_node) (simp_all add: assms)
  moreover have "deploys_step e False (w, ?t1, {}) (w, ?t2, {})"
    by (rule deploys_step.begin_node) (simp_all add: assms)
  moreover have "deploys_step e False (w, ?t2, {}) (?w3, ?t3, {})"
    by (rule deploys_step.step) (simp add: blocking_def memory_ops_def mem_begin_deploy_def assms)
  moreover have "deploys_step e False (?w3, ?t3, {}) (?w4, ?t3, {} - {nid})"
    by (rule deploys_step.removal) simp
  moreover have "deploys_step e False (?w4, ?t3, {}) (?w5, ?t3(1 := ?g), {})"
    by (rule deploys_step.step)
      (simp add: blocking_def memory_ops_def mem_begin_deploy_def removals_def assms)
  ultimately have "(deploys_step e False)\<^sup>*\<^sup>* (w, \<lambda>_. NoTask, {}) (?w5, ?t3(1 := ?g), {})"
    unfolding empty_Diff by (meson converse_rtranclp_into_rtranclp rtranclp.rtrancl_refl)
  moreover have "nid \<in> guard_of ((?t3(1 := ?g)) 0)" "nid \<in> guard_of ((?t3(1 := ?g)) 1)"
    by (simp_all add: guard_of_def assms)
  ultimately show ?thesis by metis
qed

text \<open>A client that goes away between \<open>begin_deploy\<close> and \<open>end_deploy\<close> leaves the guard behind: no task
  is at work, yet every later deploy to the node is refused.\<close>

lemma dropped_deploy_keeps_guard:
  fixes req :: deploy_policy_request and n :: node
  assumes "mem_get_node (w_store w) nid = Inr (Some n)" and "n_node_id n = nid"
    and "nid \<notin> ms_deploying (w_store w)" and "dq_node_id req = nid"
  shows "\<exists>w'. (deploys_step e True)\<^sup>*\<^sup>* (w, \<lambda>_. NoTask, {}) (w', \<lambda>_. NoTask, {nid}) \<and>
    \<not> res_is_ok (fst (mem_begin_deploy (w_store w') nid))"
proof -
  let ?g = "ReadPolicy \<lparr> dj_guarded = True, dj_req = req, dj_node = n \<rparr>"
  let ?w' = "w\<lparr> w_store := (w_store w)\<lparr> ms_deploying := insert nid (ms_deploying (w_store w)) \<rparr> \<rparr>"
  have "deploys_step e True (w, \<lambda>_. NoTask, {}) (w, (\<lambda>_. NoTask)(0 := Load req), {})"
    by (rule deploys_step.submit) simp
  moreover have "deploys_step e True (w, (\<lambda>_. NoTask)(0 := Load req), {})
      (w, (\<lambda>_. NoTask)(0 := Load req, 0 := Begin req n), {})"
    by (rule deploys_step.step) (simp add: load_node_def blocking_read_def memory_ops_def assms ok_or_def)
  moreover have "deploys_step e True (w, (\<lambda>_. NoTask)(0 := Load req, 0 := Begin req n), {})
      (?w', (\<lambda>_. NoTask)(0 := Load req, 0 := Begin req n, 0 := ?g), {})"
    by (rule deploys_step.step) (simp add: blocking_def memory_ops_def mem_begin_deploy_def assms)
  moreover have "deploys_step e True (?w', (\<lambda>_. NoTask)(0 := Load req, 0 := Begin req n, 0 := ?g), {})
      (?w', \<lambda>_. NoTask, {nid})"
    using deploys_step.drop [of e True ?w' "(\<lambda>_. NoTask)(0 := Load req, 0 := Begin req n, 0 := ?g)" "{}" 0]
    by (simp add: guard_of_def assms fun_upd_idem)
  ultimately have "(deploys_step e True)\<^sup>*\<^sup>* (w, \<lambda>_. NoTask, {}) (?w', \<lambda>_. NoTask, {nid})"
    by (meson converse_rtranclp_into_rtranclp rtranclp.rtrancl_refl)
  moreover have "\<not> res_is_ok (fst (mem_begin_deploy (w_store ?w') nid))"
    by (simp add: mem_begin_deploy_def)
  ultimately show ?thesis by metis
qed

end
