(* ===== verification/Engine_Overlap.thy ===== *)
theory Engine_Overlap
  imports Fsm_Run
begin

text \<open>
  The work of \<^verbatim>\<open>pacinet-server/src/fsm_engine.rs\<close> on instances, overlapping.  An evaluation reads the
  running instances once and stores each of its copies later; \<open>advance_instance\<close> and
  \<open>cancel_instance\<close> read an instance, check that it runs, and store their copy; in between they
  wait for storage and agents, and other work goes on.  Here these operations are cut where they
  wait: a task goes from one read to the next, to the action of a state, to the store.  (What an
  action does to the store is one step; it touches no instance.)

  A task that nothing interrupts is the operation of \<^verbatim>\<open>Fsm_Engine.thy\<close>.  When tasks overlap, an
  instance that is finished stays as it is, provided no task at work holds a copy of it; with such a
  copy a cancelled instance can run again.
\<close>

subsection \<open>The steps of the engine\<close>

datatype engine_task =
    Resting
  | Evaluate
  | Evaluating "fsm_instance list"
  | Judging fsm_instance fsm_definition "fsm_instance list"
  | Saving fsm_instance "fsm_instance list"
  | Advance string "string option"
  | AdvanceLoaded fsm_instance "string option"
  | Firing fsm_instance fsm_definition string
  | StoringAdvanced fsm_instance
  | Cancel string string
  | Cancelling fsm_instance string
  | Start string string "fsm_compile_options option"
  | StartAdaptive string "string option" "fsm_compile_options option" "(string, string) hmap"
  | SelectTargets string fsm_definition "string option" "fsm_compile_options option" "(string, string) hmap"
  | Launching string fsm_definition fsm_context
  | Starting fsm_instance
  | Answer "fsm_instance outcome"
  | Acknowledge "unit outcome"

text \<open>What an evaluation stores of an instance, if anything, after the actions it has run.\<close>

definition judged ::
  "'s storage_ops \<Rightarrow> env \<Rightarrow> fsm_instance \<Rightarrow> fsm_definition \<Rightarrow> 's world \<Rightarrow> fsm_instance option \<times> 's world" where
  "judged ops e i d w =
     (case map_of (fd_states d) (fi_current_state i) of
        None \<Rightarrow> (None, w)
      | Some sd \<Rightarrow>
          if sd_terminal sd then
            (if is_running i
             then (case clock e w of
                     (now, w) \<Rightarrow> (Some (i\<lparr> fi_status := Completed, fi_updated_at := now \<rparr>), w))
             else (None, w))
          else
            (case find_transition e (fi_current_state i) 0 (sd_transitions sd) i w of
               ((Some td, i), w) \<Rightarrow>
                 (case fire_transition ops e i (td_to td) (transition_trigger_of td) d w of
                    (i, w) \<Rightarrow> (Some i, w))
             | ((None, i), w) \<Rightarrow> (Some i, w)))"

fun engine_task_step ::
  "'s storage_ops \<Rightarrow> env \<Rightarrow> engine_task \<Rightarrow> 's world \<Rightarrow> engine_task \<times> 's world" where
  "engine_task_step ops e Evaluate w =
     (case blocking_read (\<lambda>s. so_list_fsm_instances ops s None (Some Running)) w of
        Inl _ \<Rightarrow> (Resting, w)
      | Inr instances \<Rightarrow> (Evaluating instances, w))"
| "engine_task_step ops e (Evaluating []) w = (Resting, w)"
| "engine_task_step ops e (Evaluating (i # rest)) w =
     (case blocking_read (\<lambda>s. so_get_fsm_definition ops s (fi_definition_name i)) w of
        Inr (Some d) \<Rightarrow> (Judging i d rest, w)
      | Inr None \<Rightarrow> (Saving (i\<lparr> fi_status := Failed \<rparr>) rest, w)
      | Inl _ \<Rightarrow> (Evaluating rest, w))"
| "engine_task_step ops e (Judging i d rest) w =
     (case judged ops e i d w of
        (None, w) \<Rightarrow> (Evaluating rest, w)
      | (Some i, w) \<Rightarrow> (Saving i rest, w))"
| "engine_task_step ops e (Saving i rest) w = (Evaluating rest, save_instance ops i w)"
| "engine_task_step ops e (Advance iid target) w =
     (case load_instance ops e iid w of
        Inl err \<Rightarrow> (Answer (Inl err), w)
      | Inr i \<Rightarrow> (if is_running i then AdvanceLoaded i target else Answer (Inl (Fsm AlreadyCompleted)), w))"
| "engine_task_step ops e (AdvanceLoaded i target) w =
     (case res_bind (load_definition ops e (fi_definition_name i) w) (\<lambda>d.
             res_bind (ok_or (Fsm (InvalidState (fi_current_state i)))
                         (map_of (fd_states d) (fi_current_state i)))
               (\<lambda>sd. res_bind (advance_target i sd target) (\<lambda>to. Inr (d, to)))) of
        Inl err \<Rightarrow> (Answer (Inl err), w)
      | Inr (d, to) \<Rightarrow> (Firing i d to, w))"
| "engine_task_step ops e (Firing i d to) w =
     (case fire_transition ops e i to TManual d w of (i, w) \<Rightarrow> (StoringAdvanced i, w))"
| "engine_task_step ops e (StoringAdvanced i) w =
     (case blocking (\<lambda>s. so_update_fsm_instance ops s i) w of
        (r, w) \<Rightarrow> (Answer (res_bind (internal e r) (\<lambda>_. Inr i)), w))"
| "engine_task_step ops e (Cancel iid reason) w =
     (case load_instance ops e iid w of
        Inl err \<Rightarrow> (Acknowledge (Inl err), w)
      | Inr i \<Rightarrow> (if is_running i then Cancelling i reason else Acknowledge (Inl (Fsm AlreadyCompleted)), w))"
| "engine_task_step ops e (Cancelling i reason) w =
     (let (t1, w) = clock e w;
          (t2, w) = clock e w;
          i = i\<lparr> fi_status := Cancelled, fi_updated_at := t1,
                 fi_history := fi_history i @
                   [\<lparr> tr_from_state = fi_current_state i, tr_to_state = [],
                      tr_trigger = TManual, tr_timestamp = t2,
                      tr_message = ''Cancelled: '' @ reason \<rparr>] \<rparr>
      in case blocking (\<lambda>s. so_update_fsm_instance ops s i) w of
           (r, w) \<Rightarrow>
             (case internal e r of
                Inl err \<Rightarrow> (Acknowledge (Inl err), w)
              | Inr _ \<Rightarrow>
                  (Acknowledge (Inr ()), emit_now e (\<lambda>t. FsmEv (InstanceCompleted (fi_instance_id i)
                     (fi_definition_name i) ''cancelled'' t)) w)))"
| "engine_task_step ops e (Start nm rules_yaml opts) w =
     (case load_definition ops e nm w of
        Inl err \<Rightarrow> (Answer (Inl err), w)
      | Inr d \<Rightarrow> (Launching nm d (context_for_deployment rules_yaml opts), w))"
| "engine_task_step ops e (StartAdaptive nm rules_yaml opts label_filter) w =
     (case load_definition ops e nm w of
        Inl err \<Rightarrow> (Answer (Inl err), w)
      | Inr d \<Rightarrow> (SelectTargets nm d rules_yaml opts label_filter, w))"
| "engine_task_step ops e (SelectTargets nm d rules_yaml opts label_filter) w =
     (case internal e (blocking_read (\<lambda>s. so_list_nodes ops s label_filter) w) of
        Inl err \<Rightarrow> (Answer (Inl err), w)
      | Inr nodes \<Rightarrow>
          (if nodes = [] then Answer (Inl (Internal ''No nodes match the target label filter''))
           else Launching nm d
                  ((context_for_adaptive_policy (map n_node_id nodes))
                     \<lparr> cx_rules_yaml := rules_yaml, cx_compile_options := opts \<rparr>), w))"
| "engine_task_step ops e (Launching nm d cx) w =
     (let (now, w) = clock e w;
          (uuid, w) = new_uuid e w;
          i = instance_new uuid now nm (fd_initial d) cx;
          (i, w) = (case map_of (fd_states d) (fd_initial d) of
                      Some sd \<Rightarrow> run_state_action ops e sd i w
                    | None \<Rightarrow> (i, w))
      in (Starting i, w))"
| "engine_task_step ops e (Starting i) w =
     (case blocking (\<lambda>s. so_store_fsm_instance ops s i) w of
        (r, w) \<Rightarrow> (Answer (res_bind (internal e r) (\<lambda>_. Inr i)), w))"
| "engine_task_step ops e Resting w = (Resting, w)"
| "engine_task_step ops e (Answer r) w = (Answer r, w)"
| "engine_task_step ops e (Acknowledge r) w = (Acknowledge r, w)"

fun engine_task_run ::
  "'s storage_ops \<Rightarrow> env \<Rightarrow> nat \<Rightarrow> engine_task \<Rightarrow> 's world \<Rightarrow> engine_task \<times> 's world" where
  "engine_task_run ops e 0 t w = (t, w)"
| "engine_task_run ops e (Suc k) t w =
     (case engine_task_step ops e t w of (t', w') \<Rightarrow> engine_task_run ops e k t' w')"

text \<open>Without interruption the steps are the operations.\<close>

lemma engine_task_run_ends [simp]:
  "engine_task_run ops e k Resting w = (Resting, w)"
  "engine_task_run ops e k (Answer r) w = (Answer r, w)"
  "engine_task_run ops e k (Acknowledge u) w = (Acknowledge u, w)"
  by (induction k) simp_all

lemma engine_task_run_numeral:
  "engine_task_run ops e (numeral k) t w =
     engine_task_run ops e (pred_numeral k) (fst (engine_task_step ops e t w)) (snd (engine_task_step ops e t w))"
  by (simp add: numeral_eq_Suc case_prod_unfold)

lemma engine_task_run_add:
  "engine_task_run ops e (j + k) t w =
     (case engine_task_run ops e j t w of (t', w') \<Rightarrow> engine_task_run ops e k t' w')"
  by (induction j arbitrary: t w) (simp_all split: prod.split)

lemma evaluate_instance_judged:
  "evaluate_instance ops e i d w =
     (case judged ops e i d w of (None, w) \<Rightarrow> w | (Some i, w) \<Rightarrow> save_instance ops i w)"
  by (simp add: evaluate_instance_def judged_def Let_def case_prod_unfold split: option.split)

lemma run_advance:
  "engine_task_run ops e 4 (Advance iid target) w =
     (Answer (fst (advance_instance ops e iid target w)), snd (advance_instance ops e iid target w))"
  by (simp add: advance_instance_def engine_task_run_numeral Let_def case_prod_unfold split: sum.split)

lemma run_cancel:
  "engine_task_run ops e 2 (Cancel iid reason) w =
     (Acknowledge (fst (cancel_instance ops e iid reason w)), snd (cancel_instance ops e iid reason w))"
  by (simp add: cancel_instance_def engine_task_run_numeral Let_def case_prod_unfold split: sum.split)

lemma run_start:
  "engine_task_run ops e 3 (Start nm rules opts) w =
     (Answer (fst (start_instance ops e nm rules opts w)), snd (start_instance ops e nm rules opts w))"
  by (simp add: start_instance_def launch_def engine_task_run_numeral Let_def case_prod_unfold split: sum.split)

lemma run_start_adaptive:
  "engine_task_run ops e 4 (StartAdaptive nm rules opts lf) w =
     (Answer (fst (start_adaptive_instance ops e nm rules opts lf w)),
      snd (start_adaptive_instance ops e nm rules opts lf w))"
  by (simp add: start_adaptive_instance_def launch_def engine_task_run_numeral Let_def case_prod_unfold
      split: sum.split)

lemma run_evaluating: "\<exists>k. engine_task_run ops e k (Evaluating xs) w = (Resting, evaluate_instances ops e xs w)"
proof (induction xs arbitrary: w)
  case Nil
  have "engine_task_run ops e 1 (Evaluating []) w = (Resting, w)" by simp
  then show ?case by (auto intro: exI [of _ 1])
next
  case (Cons i rest)
  define w1 where "w1 = (case blocking_read (\<lambda>s. so_get_fsm_definition ops s (fi_definition_name i)) w of
      Inr (Some d) \<Rightarrow> evaluate_instance ops e i d w
    | Inr None \<Rightarrow> save_instance ops (i\<lparr> fi_status := Failed \<rparr>) w | Inl _ \<Rightarrow> w)"
  have "\<exists>j. engine_task_run ops e j (Evaluating (i # rest)) w = (Evaluating rest, w1)"
  proof (cases "blocking_read (\<lambda>s. so_get_fsm_definition ops s (fi_definition_name i)) w")
    case (Inl err)
    then have "engine_task_run ops e 1 (Evaluating (i # rest)) w = (Evaluating rest, w1)" by (simp add: w1_def)
    then show ?thesis by blast
  next
    case (Inr d)
    show ?thesis
    proof (cases d)
      case None
      then have "engine_task_run ops e 2 (Evaluating (i # rest)) w = (Evaluating rest, w1)"
        using Inr by (simp add: w1_def engine_task_run_numeral)
      then show ?thesis by blast
    next
      case (Some d')
      have two: "engine_task_run ops e 2 (Evaluating (i # rest)) w =
          (case judged ops e i d' w of (None, w) \<Rightarrow> (Evaluating rest, w) | (Some i, w) \<Rightarrow> (Saving i rest, w))"
        using Inr Some by (simp add: engine_task_run_numeral case_prod_unfold)
      show ?thesis
      proof (cases "fst (judged ops e i d' w)")
        case None
        with two Inr Some have "engine_task_run ops e 2 (Evaluating (i # rest)) w = (Evaluating rest, w1)"
          by (simp add: w1_def evaluate_instance_judged case_prod_unfold)
        then show ?thesis by blast
      next
        case j: (Some i')
        with two Inr Some have "engine_task_run ops e (2 + 1) (Evaluating (i # rest)) w = (Evaluating rest, w1)"
          unfolding engine_task_run_add two by (simp add: w1_def evaluate_instance_judged case_prod_unfold)
        then show ?thesis by blast
      qed
    qed
  qed
  then obtain j where "engine_task_run ops e j (Evaluating (i # rest)) w = (Evaluating rest, w1)" ..
  moreover obtain k where "engine_task_run ops e k (Evaluating rest) w1 = (Resting, evaluate_instances ops e rest w1)"
    using Cons.IH by blast
  ultimately have "engine_task_run ops e (j + k) (Evaluating (i # rest)) w =
      (Resting, evaluate_instances ops e rest w1)"
    by (simp add: engine_task_run_add)
  then show ?case by (auto simp: w1_def)
qed

lemma run_evaluate: "\<exists>k. engine_task_run ops e k Evaluate w = (Resting, evaluate_all ops e w)"
proof (cases "blocking_read (\<lambda>s. so_list_fsm_instances ops s None (Some Running)) w")
  case (Inl err)
  then have "engine_task_run ops e 1 Evaluate w = (Resting, evaluate_all ops e w)" by (simp add: evaluate_all_def)
  then show ?thesis by blast
next
  case (Inr xs)
  obtain k where "engine_task_run ops e k (Evaluating xs) w = (Resting, evaluate_instances ops e xs w)"
    using run_evaluating by blast
  with Inr have "engine_task_run ops e (Suc k) Evaluate w = (Resting, evaluate_all ops e w)"
    by (simp add: evaluate_all_def)
  then show ?thesis by blast
qed

subsection \<open>Tasks that overlap\<close>

text \<open>The ids of the instances a task holds a copy of.\<close>

fun copies :: "engine_task \<Rightarrow> string set" where
  "copies (Evaluating xs) = fi_instance_id ` set xs"
| "copies (Judging i d rest) = insert (fi_instance_id i) (fi_instance_id ` set rest)"
| "copies (Saving i rest) = insert (fi_instance_id i) (fi_instance_id ` set rest)"
| "copies (AdvanceLoaded i target) = {fi_instance_id i}"
| "copies (Firing i d to) = {fi_instance_id i}"
| "copies (StoringAdvanced i) = {fi_instance_id i}"
| "copies (Cancelling i reason) = {fi_instance_id i}"
| "copies (Starting i) = {fi_instance_id i}"
| "copies _ = {}"

text \<open>A task begins without a copy (an evaluation of the background loop, a call of the API), makes its
  steps, and is over or dropped with its client; whatever else happens touches no instance and only
  uses up identifiers.\<close>

inductive overlap_step ::
  "env \<Rightarrow> mem_storage world \<times> (nat \<Rightarrow> engine_task) \<Rightarrow> mem_storage world \<times> (nat \<Rightarrow> engine_task) \<Rightarrow> bool"
  for e where
  submit: "ts c = Resting \<Longrightarrow> copies t = {} \<Longrightarrow> overlap_step e (w, ts) (w, ts(c := t))"
| step: "engine_task_step memory_ops e (ts c) w = (t', w') \<Longrightarrow> overlap_step e (w, ts) (w', ts(c := t'))"
| drop: "overlap_step e (w, ts) (w, ts(c := Resting))"
| other: "ms_fsm_instances (w_store w') = ms_fsm_instances (w_store w) \<Longrightarrow> w_uuids w \<le> w_uuids w' \<Longrightarrow>
    overlap_step e (w, ts) (w', ts)"

lemma overlap_run:
  assumes "engine_task_run memory_ops e k (ts c) w = (t', w')"
  shows "(overlap_step e)\<^sup>*\<^sup>* (w, ts) (w', ts(c := t'))"
  using assms
proof (induction k arbitrary: ts w)
  case 0
  then show ?case by (auto simp: fun_upd_idem)
next
  case (Suc k)
  obtain t1 w1 where s: "engine_task_step memory_ops e (ts c) w = (t1, w1)" by (metis surj_pair)
  have "overlap_step e (w, ts) (w1, ts(c := t1))" using overlap_step.step [of e ts c w t1 w1] s by simp
  moreover have "engine_task_run memory_ops e k ((ts(c := t1)) c) w1 = (t', w')" using Suc.prems s by simp
  then have "(overlap_step e)\<^sup>*\<^sup>* (w1, ts(c := t1)) (w', ts(c := t'))"
    using Suc.IH [of "ts(c := t1)" w1] unfolding fun_upd_upd by blast
  ultimately show ?case by (rule converse_rtranclp_into_rtranclp)
qed

lemma overlap_task:
  assumes "engine_task_run memory_ops e k t w = (t', w')" and "copies t = {}"
  shows "(overlap_step e)\<^sup>*\<^sup>* (w, ts) (w', ts(c := t'))"
proof -
  have "overlap_step e (w, ts) (w, ts(c := Resting))" by (rule overlap_step.drop)
  moreover have "overlap_step e (w, ts(c := Resting)) (w, ts(c := t))"
    using overlap_step.submit [of "ts(c := Resting)" c t e w] assms(2) by simp
  moreover have "(overlap_step e)\<^sup>*\<^sup>* (w, ts(c := t)) (w', ts(c := t'))"
    using overlap_run [of e k "ts(c := t)" c w t' w'] assms(1) unfolding fun_upd_upd by simp
  ultimately show ?thesis by (meson converse_rtranclp_into_rtranclp)
qed

text \<open>What an action does to the store leaves the instances alone.\<close>

definition same_runs :: "mem_storage world \<Rightarrow> mem_storage world \<Rightarrow> bool" where
  "same_runs w w' \<longleftrightarrow> ms_fsm_instances (w_store w') = ms_fsm_instances (w_store w)"

lemma same_runs_trans: "same_runs w w1 \<Longrightarrow> same_runs w1 w2 \<Longrightarrow> same_runs w w2"
  by (simp add: same_runs_def)

lemma same_runs_simps [simp]:
  "same_runs w w" "same_runs w (snd (clock e w')) = same_runs w w'" "same_runs w (snd (new_uuid e w')) = same_runs w w'"
  "same_runs w (emit_now e f w') = same_runs w w'" "same_runs w (spawn t w') = same_runs w w'"
  "same_runs w (snd (call_agent e q w')) = same_runs w w'"
  by (simp_all add: same_runs_def)

lemma same_runs_store [simp]:
  "same_runs w (set_node_state memory_ops nid st w') = same_runs w w'"
  "same_runs w (record_deployment memory_ops r w') = same_runs w w'"
  "same_runs w (snd (blocking (\<lambda>s. mem_store_policy s p) w')) = same_runs w w'"
  "same_runs w (snd (blocking (\<lambda>s. mem_begin_deploy s nid) w')) = same_runs w w'"
  "same_runs w (w'\<lparr> w_store := mem_end_deploy (w_store w') nid \<rparr>) = same_runs w w'"
  by (simp_all add: same_runs_def set_node_state_def record_deployment_def blocking_def memory_ops_def
      mem_update_node_state_def mem_record_deployment_def mem_store_policy_def mem_begin_deploy_def
      mem_end_deploy_def Let_def case_prod_unfold split: option.split)

lemma same_runs_deploy_to_node [simp]:
  "same_runs w (snd (deploy_to_node memory_ops e n r opts w')) = same_runs w w'"
  by (simp add: deploy_to_node_def deploy_unchanged_def deploy_changed_def forward_and_settle_def Let_def
      case_prod_unfold split: sum.split agent_reply.split)

lemma same_runs_deploy_loop: "same_runs w' w \<Longrightarrow> same_runs w' (snd (deploy_loop memory_ops e r opts ns rs a b w))"
  by (induction ns arbitrary: rs a b w) (simp_all add: Let_def case_prod_unfold split: sum.split)

lemma same_runs_rollback_loop: "same_runs w' w \<Longrightarrow> same_runs w' (snd (rollback_loop memory_ops e nids rs a b w))"
  by (induction nids arbitrary: rs a b w)
    (simp_all add: rollback_node_def Let_def case_prod_unfold split: sum.split option.split)

lemma same_runs_state_action: "same_runs w (snd (run_state_action memory_ops e sd i w))"
  by (simp add: run_state_action_def execute_action_def execute_deploy_def execute_rollback_def execute_alert_def
      deploy_selected_def deploy_to_nodes_def same_runs_deploy_loop same_runs_rollback_loop Let_def
      case_prod_unfold split: option.split sum.split)


lemma same_runs_fire: "same_runs w (snd (fire_transition memory_ops e i to trig d w))"
proof (cases "map_of (fd_states d) to")
  case (Some sd)
  let ?w1 = "emit_now e (\<lambda>t. FsmEv (Transition (fi_instance_id (forget_state (fi_current_state i) i))
      (fi_definition_name (forget_state (fi_current_state i) i)) (fi_current_state i) to
      (trigger_to_string trig) (transition_message (fi_current_state i) to trig) t)) (snd (clock e w))"
  have "same_runs w ?w1" by simp
  then have "same_runs w (snd (run_state_action memory_ops e sd i' ?w1))" for i'
    using same_runs_trans same_runs_state_action by blast
  then show ?thesis
    using Some by (simp add: fire_transition_def Let_def case_prod_unfold instance_transition_def)
qed (simp add: fire_transition_def Let_def case_prod_unfold)

lemma find_transition_same:
  assumes "find_transition e st n tds i w = ((x, i'), w')"
  shows "same_runs w w' \<and> w_uuids w' = w_uuids w \<and> fi_instance_id i' = fi_instance_id i"
  using find_transition_frame [OF assms] same_run_simps(1) [of i i'] by (auto simp: only_ticks_def same_runs_def)

definition issued :: "env \<Rightarrow> mem_storage world \<Rightarrow> string \<Rightarrow> bool" where
  "issued e w iid \<longleftrightarrow> (\<exists>k < w_uuids w. iid = e_uuid e k)"

text \<open>What a step of a task can come to hold, and what it can store.\<close>

definition holds_no_more :: "env \<Rightarrow> engine_task \<times> mem_storage world \<Rightarrow> engine_task \<times> mem_storage world \<Rightarrow> bool" where
  "holds_no_more e x y \<longleftrightarrow>
     (case (x, y) of ((t, w), (t', w')) \<Rightarrow>
        w_uuids w \<le> w_uuids w' \<and>
        (\<forall>iid \<in> copies t'. iid \<in> copies t \<or>
           (\<exists>j. map_of (ms_fsm_instances (w_store w)) iid = Some j \<and> is_running j) \<or>
           iid = e_uuid e (w_uuids w) \<and> w_uuids w < w_uuids w') \<and>
        (ms_fsm_instances (w_store w') = ms_fsm_instances (w_store w) \<or>
         (\<exists>j. fi_instance_id j \<in> copies t \<and>
            ms_fsm_instances (w_store w') = hm_insert (fi_instance_id j) j (ms_fsm_instances (w_store w)))))"

lemma holds_no_more_same:
  "same_runs w w' \<Longrightarrow> w_uuids w \<le> w_uuids w' \<Longrightarrow> copies t' \<subseteq> copies t \<Longrightarrow> holds_no_more e (t, w) (t', w')"
  by (auto simp: holds_no_more_def same_runs_def)

lemma fire_transition_same:
  assumes "fire_transition memory_ops e i to trig d w = (i', w')"
  shows "same_runs w w' \<and> w_uuids w \<le> w_uuids w' \<and> fi_instance_id i' = fi_instance_id i"
  using same_runs_fire [of w e i to trig d] later_fire_transition [of w memory_ops e i to trig d]
    fire_transition_moved [of d to trig i memory_ops e w] assms
  by (simp add: later_def moved_def)

lemma holds_no_more_update:
  "fi_instance_id j \<in> copies t \<Longrightarrow> copies t' \<subseteq> copies t \<Longrightarrow> w_uuids w \<le> w_uuids w' \<Longrightarrow>
    w_store w' = snd (mem_update_fsm_instance (w_store w) j) \<Longrightarrow> holds_no_more e (t, w) (t', w')"
  by (auto simp: holds_no_more_def mem_update_fsm_instance_def)

lemma judged_same:
  assumes "judged memory_ops e i d w = (r, w')"
  shows "same_runs w w' \<and> w_uuids w \<le> w_uuids w' \<and> (\<forall>j. r = Some j \<longrightarrow> fi_instance_id j = fi_instance_id i)"
proof (cases "map_of (fd_states d) (fi_current_state i)")
  case (Some sd)
  obtain x i1 w1 where f: "find_transition e (fi_current_state i) 0 (sd_transitions sd) i w = ((x, i1), w1)"
    by (metis surj_pair)
  show ?thesis
  proof (cases "sd_terminal sd")
    case True
    then show ?thesis
      using assms Some by (cases "is_running i") (auto simp: judged_def case_prod_unfold same_runs_def)
  next
    case False
    show ?thesis
    proof (cases x)
      case None
      then show ?thesis using assms Some False f find_transition_same [OF f] by (auto simp: judged_def)
    next
      case (Some td)
      obtain i2 w2 where g: "fire_transition memory_ops e i1 (td_to td) (transition_trigger_of td) d w1 = (i2, w2)"
        by (metis surj_pair)
      show ?thesis
        using assms Some False f g \<open>map_of (fd_states d) (fi_current_state i) = Some sd\<close>
          find_transition_same [OF f] fire_transition_same [OF g] same_runs_trans [of w w1 w2]
        by (auto simp: judged_def)
    qed
  qed
qed (use assms in \<open>simp add: judged_def\<close>)

lemma launched_same:
  fixes e :: env and w :: "mem_storage world" and nm :: string and d :: fsm_definition and cx :: fsm_context
  defines "x \<equiv> engine_task_step memory_ops e (Launching nm d cx) w"
  shows "\<exists>i w'. x = (Starting i, w') \<and> same_runs w w' \<and> fi_instance_id i = e_uuid e (w_uuids w) \<and>
    w_uuids w < w_uuids w'"
proof -
  let ?w1 = "snd (new_uuid e (snd (clock e w)))"
  let ?i = "instance_new (e_uuid e (w_uuids w)) (e_now e (w_ticks w)) nm (fd_initial d) cx"
  have u: "w_uuids ?w1 = Suc (w_uuids w)" by simp
  have i: "fst (new_uuid e (snd (clock e w))) = e_uuid e (w_uuids w)" "fst (clock e w) = e_now e (w_ticks w)"
    by (simp_all add: new_uuid_def clock_def Let_def)
  have id: "fi_instance_id ?i = e_uuid e (w_uuids w)" by (simp add: instance_new_def)
  show ?thesis
  proof (cases "map_of (fd_states d) (fd_initial d)")
    case None
    then show ?thesis using u i id by (simp add: x_def Let_def case_prod_unfold)
  next
    case (Some sd)
    let ?r = "run_state_action memory_ops e sd ?i ?w1"
    have "same_runs w (snd ?r)" using same_runs_trans [of w ?w1] same_runs_state_action [of ?w1 e sd ?i] by simp
    moreover have "w_uuids ?w1 \<le> w_uuids (snd ?r)" using later_state_action [of ?w1 memory_ops e sd ?i] by (simp add: later_def)
    moreover have "fi_instance_id (fst ?r) = e_uuid e (w_uuids w)"
      using same_run_simps(1) [OF same_run_state_action [of ?i memory_ops e sd ?w1]] id by simp
    ultimately show ?thesis using Some u i by (simp add: x_def Let_def case_prod_unfold)
  qed
qed

lemma load_instance_holds:
  assumes "load_instance memory_ops e iid w = Inr i" and "keys_ok fi_instance_id (ms_fsm_instances (w_store w))"
  shows "map_of (ms_fsm_instances (w_store w)) (fi_instance_id i) = Some i"
  using assms keys_ok_get [of fi_instance_id "ms_fsm_instances (w_store w)" iid i]
  by (auto simp: load_instance_def blocking_read_def mem_get_fsm_instance_def internal_def ok_or_def split: option.splits)

lemma listed_instances_hold:
  assumes "mem_list_fsm_instances s None (Some Running) = Inr xs" and "keys_ok fi_instance_id (ms_fsm_instances s)"
    and "i \<in> set xs"
  shows "map_of (ms_fsm_instances s) (fi_instance_id i) = Some i \<and> is_running i"
proof -
  obtain k where k: "(k, i) \<in> set (ms_fsm_instances s)" and run: "is_running i"
    using assms(1,3) by (auto simp: mem_list_fsm_instances_def is_none_or_def hm_values_def is_running_def)
  then have "map_of (ms_fsm_instances s) k = Some i" using assms(2) by (simp add: keys_ok_def hm_ok_def)
  with keys_ok_get [OF assms(2) this] run show ?thesis by simp
qed

text \<open>So a step stores no copy but its own, and takes copies of running instances only.\<close>

lemma task_step_holds:
  assumes "keys_ok fi_instance_id (ms_fsm_instances (w_store w))"
  shows "holds_no_more e (t, w) (engine_task_step memory_ops e t w)"
proof (cases t)
  case Evaluate
  then show ?thesis
    using listed_instances_hold [OF _ assms]
    by (fastforce simp: holds_no_more_def blocking_read_def split: sum.split)
next
  case (Evaluating xs)
  then show ?thesis
    by (cases xs) (auto intro!: holds_no_more_same split: sum.split option.split)
next
  case (Judging i d rest)
  obtain r w' where j: "judged memory_ops e i d w = (r, w')" by (metis surj_pair)
  show ?thesis
    using judged_same [OF j] by (cases r) (auto simp: Judging j intro!: holds_no_more_same)
next
  case (Saving i rest)
  then show ?thesis
    by (auto simp: holds_no_more_def save_instance_def blocking_def mem_update_fsm_instance_def)
next
  case (Advance iid target)
  then show ?thesis
    using load_instance_holds [OF _ assms, of e iid]
    by (auto simp: holds_no_more_def split: sum.split)
next
  case (AdvanceLoaded i target)
  then show ?thesis by (auto intro!: holds_no_more_same split: sum.split)
next
  case (Firing i d to)
  obtain i' w' where f: "fire_transition memory_ops e i to TManual d w = (i', w')" by (metis surj_pair)
  show ?thesis using fire_transition_same [OF f] by (simp add: Firing f holds_no_more_same)
next
  case (StoringAdvanced i)
  then show ?thesis by (auto simp: holds_no_more_def blocking_def mem_update_fsm_instance_def)
next
  case (Cancel iid reason)
  then show ?thesis
    using load_instance_holds [OF _ assms, of e iid]
    by (auto simp: holds_no_more_def split: sum.split)
next
  case (Cancelling i reason)
  define j where "j = i\<lparr> fi_status := Cancelled, fi_updated_at := fst (clock e w),
      fi_history := fi_history i @
        [\<lparr> tr_from_state = fi_current_state i, tr_to_state = [], tr_trigger = TManual,
           tr_timestamp = fst (clock e (snd (clock e w))), tr_message = ''Cancelled: '' @ reason \<rparr>] \<rparr>"
  let ?x = "engine_task_step memory_ops e t w"
  have "copies (fst ?x) = {}" "w_uuids (snd ?x) = w_uuids w" "w_store (snd ?x) = snd (mem_update_fsm_instance (w_store w) j)"
    by (simp_all add: Cancelling j_def Let_def case_prod_unfold split: sum.split)
  moreover have "fi_instance_id j \<in> copies t" by (simp add: Cancelling j_def)
  ultimately show ?thesis using holds_no_more_update [of j t "fst ?x" w "snd ?x"] by simp
next
  case (Launching nm d cx)
  then show ?thesis
    using launched_same [of e nm d cx w] by (auto simp: holds_no_more_def same_runs_def)
next
  case (Starting i)
  then show ?thesis by (auto simp: holds_no_more_def blocking_def mem_store_fsm_instance_def)
qed (auto intro!: holds_no_more_same split: sum.split)


text \<open>Every instance, stored or copied, has an identifier that was issued.\<close>

definition runs_issued :: "env \<Rightarrow> mem_storage world \<times> (nat \<Rightarrow> engine_task) \<Rightarrow> bool" where
  "runs_issued e x \<longleftrightarrow>
     keys_ok fi_instance_id (ms_fsm_instances (w_store (fst x))) \<and>
     (\<forall>iid. map_of (ms_fsm_instances (w_store (fst x))) iid \<noteq> None \<longrightarrow> issued e (fst x) iid) \<and>
     (\<forall>c. \<forall>iid \<in> copies (snd x c). issued e (fst x) iid)"

lemma issued_later: "issued e w iid \<Longrightarrow> w_uuids w \<le> w_uuids w' \<Longrightarrow> issued e w' iid"
  by (auto simp: issued_def intro: order_less_le_trans)

lemma overlap_step_issued:
  "overlap_step e x y \<Longrightarrow> runs_issued e x \<Longrightarrow> runs_issued e y"
proof (induction rule: overlap_step.induct)
  case (step ts c w t' w')
  have k: "keys_ok fi_instance_id (ms_fsm_instances (w_store w))" using step by (simp add: runs_issued_def)
  have old: "issued e w iid" if "map_of (ms_fsm_instances (w_store w)) iid \<noteq> None \<or> iid \<in> copies (ts d)" for iid d
    using step that by (auto simp: runs_issued_def)
  note h = task_step_holds [OF k, of e "ts c", unfolded step(1)]
  have u: "w_uuids w \<le> w_uuids w'" using h by (simp add: holds_no_more_def)
  have store: "ms_fsm_instances (w_store w') = ms_fsm_instances (w_store w) \<or>
      (\<exists>j. fi_instance_id j \<in> copies (ts c) \<and>
        ms_fsm_instances (w_store w') = hm_insert (fi_instance_id j) j (ms_fsm_instances (w_store w)))"
    using h by (simp add: holds_no_more_def)
  have "keys_ok fi_instance_id (ms_fsm_instances (w_store w'))" using store k by auto
  moreover have "issued e w' iid" if "map_of (ms_fsm_instances (w_store w')) iid \<noteq> None" for iid
    using store that old [of iid c] issued_later [OF _ u] by (auto split: if_splits)
  moreover have "issued e w' iid" if iid: "iid \<in> copies ((ts(c := t')) d)" for iid d
  proof (cases "d = c")
    case True
    with iid h have "iid \<in> copies (ts c) \<or> map_of (ms_fsm_instances (w_store w)) iid \<noteq> None \<or>
        iid = e_uuid e (w_uuids w) \<and> w_uuids w < w_uuids w'"
      by (auto simp: holds_no_more_def)
    then have "issued e w iid \<or> iid = e_uuid e (w_uuids w) \<and> w_uuids w < w_uuids w'"
      using old [of iid c] by blast
    then show ?thesis using issued_later [OF _ u] by (auto simp: issued_def)
  qed (use iid old issued_later [OF _ u] in auto)
  ultimately show ?case by (simp add: runs_issued_def)
next
  case (other w' w ts)
  then show ?case using issued_later [of e w _ w'] by (simp add: runs_issued_def)
qed (auto simp: runs_issued_def)

definition finished_apart :: "string \<Rightarrow> fsm_instance \<Rightarrow> mem_storage world \<times> (nat \<Rightarrow> engine_task) \<Rightarrow> bool" where
  "finished_apart iid i x \<longleftrightarrow>
     map_of (ms_fsm_instances (w_store (fst x))) iid = Some i \<and> (\<forall>c. iid \<notin> copies (snd x c))"

lemma overlap_step_apart:
  assumes "overlap_step e x y" and "runs_issued e x" and "finished_apart iid i x" and "\<not> is_running i"
    and "inj (e_uuid e)"
  shows "finished_apart iid i y"
  using assms(1-3)
proof (induction rule: overlap_step.induct)
  case (step ts c w t' w')
  have k: "keys_ok fi_instance_id (ms_fsm_instances (w_store w))" using step by (simp add: runs_issued_def)
  have i: "map_of (ms_fsm_instances (w_store w)) iid = Some i" "\<And>d. iid \<notin> copies (ts d)"
    using step by (simp_all add: finished_apart_def)
  have "issued e w iid" using step(2) i(1) by (simp add: runs_issued_def)
  then have "iid \<noteq> e_uuid e (w_uuids w)" using assms(5) by (auto simp: issued_def dest: injD)
  with task_step_holds [OF k, of e "ts c", unfolded step(1)] i assms(4)
  show ?case by (auto simp: holds_no_more_def finished_apart_def)
qed (auto simp: finished_apart_def)

text \<open>C28: Once an instance is completed, failed or cancelled, and no task at work holds a copy it read
  while the instance ran, the instance never changes again, whatever evaluations, calls of the
  API and other work overlap, and no task comes to hold a copy of it.  The tasks are the operations of
  the engine, cut at every read, action and store: one that nothing interrupts is \<open>evaluate_all\<close>,
  \<open>advance_instance\<close> or \<open>cancel_instance\<close>.  (For an instance a task holds a stale copy of, see
  \<open>evaluation_undoes_cancel\<close>.)\<close>

theorem engine_finished_instances_frozen:
  assumes "inj (e_uuid e)" and "ms_fsm_instances (w_store w0) = []"
    and "(overlap_step e)\<^sup>*\<^sup>* (w0, \<lambda>_. Resting) (w, ts)" and "(overlap_step e)\<^sup>*\<^sup>* (w, ts) (w', ts')"
    and "mem_get_fsm_instance (w_store w) iid = Inr (Some i)" and "fi_status i \<noteq> Running"
    and "\<forall>c. iid \<notin> copies (ts c)"
  shows "mem_get_fsm_instance (w_store w') iid = Inr (Some i) \<and> (\<forall>c. iid \<notin> copies (ts' c)) \<and>
    (\<forall>v. \<exists>k. engine_task_run memory_ops e k Evaluate v = (Resting, evaluate_all memory_ops e v)) \<and>
    (\<forall>nid to v. engine_task_run memory_ops e 4 (Advance nid to) v =
       (Answer (fst (advance_instance memory_ops e nid to v)), snd (advance_instance memory_ops e nid to v))) \<and>
    (\<forall>nid why v. engine_task_run memory_ops e 2 (Cancel nid why) v =
       (Acknowledge (fst (cancel_instance memory_ops e nid why v)), snd (cancel_instance memory_ops e nid why v)))"
proof -
  have "runs_issued e (w0, \<lambda>_. Resting)" using assms(2) by (simp add: runs_issued_def)
  with assms(3) have first: "runs_issued e (w, ts)"
    by (induction rule: rtranclp_induct) (auto intro: overlap_step_issued)
  have here: "finished_apart iid i (w, ts)"
    using assms(5,7) by (simp add: finished_apart_def mem_get_fsm_instance_def)
  have "\<not> is_running i" using assms(6) by (simp add: is_running_def)
  with assms(4) first here have "runs_issued e (w', ts') \<and> finished_apart iid i (w', ts')"
    by (induction rule: rtranclp_induct)
      (use assms(1) in \<open>auto dest: overlap_step_issued intro: overlap_step_apart\<close>)
  then have "mem_get_fsm_instance (w_store w') iid = Inr (Some i)" "\<forall>c. iid \<notin> copies (ts' c)"
    by (simp_all add: finished_apart_def mem_get_fsm_instance_def)
  then show ?thesis by (simp only: run_evaluate run_advance run_cancel simp_thms)
qed

text \<open>A stale copy undoes a cancel: an evaluation that has read a running instance stores it again, as
  running, after the cancel was stored and acknowledged.\<close>

lemma evaluation_undoes_cancel:
  assumes "ms_fsm_instances (w_store w) = [(iid, i)]" and "fi_instance_id i = iid" and "is_running i"
    and "map_of (ms_fsm_definitions (w_store w)) (fi_definition_name i) = Some d"
    and "map_of (fd_states d) (fi_current_state i) = Some sd"
    and "\<not> sd_terminal sd" and "sd_transitions sd = []"
  shows "\<exists>w1 ts1 j w2 ts2. (overlap_step e)\<^sup>*\<^sup>* (w, \<lambda>_. Resting) (w1, ts1) \<and> ts1 1 = Acknowledge (Inr ()) \<and>
    map_of (ms_fsm_instances (w_store w1)) iid = Some j \<and> fi_status j = Cancelled \<and>
    (overlap_step e)\<^sup>*\<^sup>* (w1, ts1) (w2, ts2) \<and> map_of (ms_fsm_instances (w_store w2)) iid = Some i"
proof -
  let ?t0 = "(\<lambda>_. Resting)(0 := Evaluating [i])"
  have "overlap_step e (w, \<lambda>_. Resting) (w, (\<lambda>_. Resting)(0 := Evaluate))"
    by (rule overlap_step.submit) simp_all
  moreover have "overlap_step e (w, (\<lambda>_. Resting)(0 := Evaluate)) (w, ?t0)"
    using overlap_step.step [of e "(\<lambda>_. Resting)(0 := Evaluate)" 0 w "Evaluating [i]" w] assms(1,3)
    by (simp add: blocking_read_def mem_list_fsm_instances_def is_none_or_def hm_values_def is_running_def)
  moreover have "overlap_step e (w, ?t0) (w, ?t0(1 := Cancel iid []))"
    by (rule overlap_step.submit) simp_all
  ultimately have a: "(overlap_step e)\<^sup>*\<^sup>* (w, \<lambda>_. Resting) (w, ?t0(1 := Cancel iid []))"
    by (meson converse_rtranclp_into_rtranclp rtranclp.rtrancl_refl)
  let ?r = "engine_task_run memory_ops e 2 (Cancel iid []) w"
  have load: "load_instance memory_ops e iid w = Inr i"
    using assms(1) by (simp add: load_instance_def blocking_read_def mem_get_fsm_instance_def internal_def ok_or_def)
  have "fst ?r = Acknowledge (Inr ()) \<and>
      (\<exists>j. ms_fsm_instances (w_store (snd ?r)) = [(iid, j)] \<and> fi_status j = Cancelled) \<and>
      ms_fsm_definitions (w_store (snd ?r)) = ms_fsm_definitions (w_store w)"
    using assms(1-3) load
    by (simp add: engine_task_run_numeral Let_def case_prod_unfold blocking_def mem_update_fsm_instance_def
        hm_insert_def internal_def)
  then obtain w1 j where c: "?r = (Acknowledge (Inr ()), w1)" "ms_fsm_instances (w_store w1) = [(iid, j)]"
    "fi_status j = Cancelled" "ms_fsm_definitions (w_store w1) = ms_fsm_definitions (w_store w)"
    by (metis prod.collapse)
  let ?t1 = "?t0(1 := Acknowledge (Inr ()))"
  have b: "(overlap_step e)\<^sup>*\<^sup>* (w, ?t0(1 := Cancel iid [])) (w1, ?t1)"
    using overlap_run [of e 2 "?t0(1 := Cancel iid [])" 1 w, simplified] c(1) by simp
  let ?q = "engine_task_run memory_ops e 3 (Evaluating [i]) w1"
  have "fst ?q = Evaluating [] \<and> ms_fsm_instances (w_store (snd ?q)) = [(iid, i)]"
    using assms(2,4-7) c(2,4)
    by (simp add: engine_task_run_numeral blocking_read_def mem_get_fsm_definition_def judged_def save_instance_def
        blocking_def mem_update_fsm_instance_def hm_insert_def)
  then obtain w2 where d: "?q = (Evaluating [], w2)" "ms_fsm_instances (w_store w2) = [(iid, i)]"
    by (metis prod.collapse)
  have "(overlap_step e)\<^sup>*\<^sup>* (w1, ?t1) (w2, ?t1(0 := Evaluating []))"
    using overlap_run [of e 3 ?t1 0 w1, simplified] d(1) by simp
  then show ?thesis
    using a b c d rtranclp_trans [OF a b] by (intro exI [of _ w1] exI [of _ ?t1] exI [of _ j] exI) auto
qed

end
