(* ===== verification/Scenario.thy ===== *)
theory Scenario
  imports Rest_Run Deploy_Tasks Engine_Overlap
begin

text \<open>
  A small deployment on which the properties are exercised: one controller with the in-memory
  backend, a node that is online, an agent that accepts every policy, and a state machine of two
  states.  Each theorem here applies one property of the development to it (or to concrete values of
  its own), with the hypotheses of the property discharged by evaluation.
\<close>

subsection \<open>The deployment\<close>

definition demo_machine :: fsm_definition where
  "demo_machine =
     \<lparr> fd_name = ''roll'', fd_description = [], fd_kind = Deployment, fd_initial = ''canary'',
       fd_states =
         [(''canary'', \<lparr> sd_action = None,
             sd_transitions = [\<lparr> td_to = ''done'', td_when = None, td_after = Some ''5m'' \<rparr>],
             sd_terminal = False \<rparr>),
          (''done'', \<lparr> sd_action = None, sd_transitions = [], sd_terminal = True \<rparr>)] \<rparr>"

definition demo_env :: env where
  "demo_env =
     \<lparr> e_now = (\<lambda>k. secs (100 + int k)), e_uuid = (\<lambda>k. replicate k CHR ''u''),
       e_agent = (\<lambda>_ _. AgentResponse True ''ok'' []), e_policy_hash = (\<lambda>r. ''h'' @ r),
       e_show_status = st_message, e_json = (\<lambda>_. ''{}''),
       e_from_yaml = (\<lambda>t. if t = ''roll'' then Inr demo_machine else Inl ''bad''),
       e_to_yaml = (\<lambda>_. Inr ''roll''), e_deploy_timeout = 30, e_heartbeat_expect_interval = 10,
       e_heartbeat_miss_threshold = 3, e_tls = False, e_event_bus = True \<rparr>"

definition demo_node :: node where
  "demo_node = (node_new ''n1'' 0 ''edge'' ''10.0.0.1:50055'' [] ''1.0'')\<lparr> n_state := Online \<rparr>"

definition demo_store :: mem_storage where
  "demo_store = mem_default\<lparr> ms_nodes := [(''n1'', demo_node)] \<rparr>"

definition world_of :: "mem_storage \<Rightarrow> mem_storage world" where
  "world_of s =
     \<lparr> w_store = s, w_ticks = 0, w_uuids = 0, w_requests = [], w_events = [], w_tasks = [],
       w_cache = cache_new (secs 3600) 120 \<rparr>"

lemma demo_env_sel [simp]:
  "e_now demo_env k = secs (100 + int k)" "e_uuid demo_env k = replicate k CHR ''u''"
  "e_agent demo_env j q = AgentResponse True ''ok'' []" "e_policy_hash demo_env r = ''h'' @ r"
  "e_from_yaml demo_env ''roll'' = Inr demo_machine" "e_event_bus demo_env"
  "e_heartbeat_expect_interval demo_env = 10" "e_heartbeat_miss_threshold demo_env = 3"
  by (simp_all add: demo_env_def)

lemma demo_uuids [simp]: "inj (e_uuid demo_env)"
  by (rule injI) simp

lemma world_of_sel [simp]:
  "w_store (world_of s) = s" "w_requests (world_of s) = []" "w_events (world_of s) = []"
  "w_ticks (world_of s) = 0" "w_uuids (world_of s) = 0"
  by (simp_all add: world_of_def)

lemma demo_node_sel [simp]:
  "n_node_id demo_node = ''n1''" "n_state demo_node = Online" "n_last_heartbeat demo_node = 0"
  "n_capabilities demo_node = []"
  by (simp_all add: demo_node_def node_new_def)

lemma demo_store_sel [simp]:
  "ms_nodes demo_store = [(''n1'', demo_node)]" "ms_policies demo_store = []"
  "ms_policy_versions demo_store = []" "ms_deploying demo_store = {}" "mem_versions demo_store nid = []"
  by (simp_all add: demo_store_def mem_default_def mem_versions_def)

lemma demo_store_inv [simp]: "mem_inv demo_store"
  by (simp add: mem_inv_def keys_ok_def versions_ok_def demo_store_def mem_default_def hm_ok_def
      mem_versions_def)

lemma capable_default [simp]: "capable n (normalize_options default_options)"
  by (simp add: capable_def capability_needs_def normalize_options_def default_options_def)

subsection \<open>Storage\<close>

definition demo_policy :: policy where
  "demo_policy = policy_of_request ''n1'' ''r'' ''hr'' 0 default_options"

lemma mem_policy_versions_contiguous_witness:
  "\<exists>vs. mem_get_policy_history (snd (mem_store_policy mem_default demo_policy)) ''n1'' 5 =
      Inr (take 5 (rev vs)) \<and> vs \<noteq> [] \<and> last vs = version_of_policy (word_of_nat (length vs)) demo_policy"
proof -
  let ?s = "snd (mem_store_policy mem_default demo_policy)"
  have "mem_run True ?s []" by (rule mem_run.store [OF mem_run.start]) simp
  from mem_policy_versions_contiguous [OF this, of "''n1''"] obtain vs where
    h: "\<forall>limit. mem_get_policy_history ?s ''n1'' limit = Inr (take (unat limit) (rev vs))"
    and c: "(mem_get_policy ?s ''n1'' = Inr None \<longleftrightarrow> vs = []) \<and>
      (\<forall>p. mem_get_policy ?s ''n1'' = Inr (Some p) \<longrightarrow>
         last vs = version_of_policy (word_of_nat (length vs)) p \<and> pol_node_id p = ''n1'')"
    using half_removed_simps(1) [of "''n1''"] by metis
  have "mem_get_policy ?s ''n1'' = Inr (Some demo_policy)"
    by (simp add: mem_get_policy_def mem_store_policy_def Let_def demo_policy_def policy_of_request_def)
  with h c show ?thesis by (intro exI [of _ vs]) simp
qed

lemma mem_mark_stale_exact_witness:
  "fst (mem_mark_stale_nodes (secs 100) (snd (mem_mark_stale_nodes (secs 100) demo_store (secs 30)))
     (secs 30)) = Inr []"
  using mem_mark_stale_exact [OF demo_store_inv prod.collapse [symmetric], of "secs 100" "secs 30"] by blast

subsection \<open>Deploys\<close>

lemma deploy_to_node_effect_witness:
  "\<exists>w'. deploy_to_node memory_ops demo_env demo_node ''r'' default_options (world_of demo_store) =
      (reply_outcome demo_env (AgentResponse True ''ok'' []) 1, w') \<and> mem_inv (w_store w') \<and>
    length (w_requests w') = 1"
  using deploy_to_node_effect [where n = demo_node and e = demo_env and r = "''r''"
      and opts = default_options and w = "world_of demo_store"] by auto

lemma deploy_without_capability_refused_witness:
  "\<exists>key. deploy_to_node memory_ops demo_env demo_node ''r'' (default_options\<lparr> co_ptp := True \<rparr>)
      (world_of demo_store) = (failure_outcome (missing_capability demo_node key), world_of demo_store)"
proof -
  have "\<not> capable demo_node (normalize_options (default_options\<lparr> co_ptp := True \<rparr>))"
    by (simp add: capable_def capability_needs_def normalize_options_def default_options_def
        capability_true_def)
  from deploy_without_capability_refused [OF this] show ?thesis by blast
qed

lemma demo_deploys:
  "\<exists>w1. deploy_to_node memory_ops demo_env demo_node ''r'' default_options (world_of demo_store) =
      (reply_outcome demo_env (AgentResponse True ''ok'' []) 1, w1)"
  using mem.deploy_changed_effect [where w = "world_of demo_store" and n = demo_node and e = demo_env
      and r = "''r''" and hash = "''hr''" and opts = "normalize_options default_options"]
    deploy_to_node_changed [of demo_node default_options "world_of demo_store" "''r''" demo_env] by auto

lemma deploy_to_node_idempotent_witness:
  "\<exists>n' out' w1 w2. deploy_to_node memory_ops demo_env n' ''r'' default_options w1 = (out', w2) \<and>
    do_message out' = no_change_message \<and> w_requests w2 = w_requests w1"
proof -
  obtain w1 where "deploy_to_node memory_ops demo_env demo_node ''r'' default_options
      (world_of demo_store) = (reply_outcome demo_env (AgentResponse True ''ok'' []) 1, w1)"
    using demo_deploys by blast
  from deploy_to_node_idempotent [OF _ _ _ this] show ?thesis by (auto simp: reply_outcome_def)
qed

lemma deploy_to_nodes_accounting_witness:
  "map nar_node_id (ar_node_results (fst (deploy_to_nodes memory_ops demo_env [demo_node] ''r''
     default_options (world_of demo_store)))) = [''n1'']"
  using deploy_to_nodes_accounting [OF _ prod.collapse [symmetric], of "world_of demo_store" demo_env
      "[demo_node]" "''r''" default_options] by simp

lemma handlers_release_guard_witness:
  "ms_deploying (w_store (snd (deploy_policy memory_ops demo_env
      \<lparr> dq_node_id = ''n1'', dq_rules_yaml = ''r'', dq_options = None, dq_dry_run = False \<rparr>
      (world_of demo_store)))) = {}"
  using handlers_release_guard [of "world_of demo_store"
      "\<lambda>ns. ns" demo_env "\<lparr> dq_node_id = ''n1'', dq_rules_yaml = ''r'', dq_options = None, dq_dry_run = False \<rparr>"] by simp

lemma deploy_policy_refusals_witness:
  "\<exists>resp. fst (deploy_policy memory_ops demo_env
      \<lparr> dq_node_id = ''n1'', dq_rules_yaml = ''r'', dq_options = None, dq_dry_run = False \<rparr>
      (world_of demo_store)) = Inr resp"
  using deploy_policy_refusals [of "world_of demo_store" demo_env
      "\<lparr> dq_node_id = ''n1'', dq_rules_yaml = ''r'', dq_options = None, dq_dry_run = False \<rparr>"] by simp

text \<open>A node with two policy versions.\<close>

definition demo_history :: mem_storage where
  "demo_history =
     snd (mem_store_policy (snd (mem_store_policy demo_store
       (policy_of_request ''n1'' ''a'' ''ha'' 0 (normalize_options default_options))))
       (policy_of_request ''n1'' ''b'' ''hb'' 1 (normalize_options default_options)))"

definition demo_version :: "u64 \<Rightarrow> string \<Rightarrow> policy_version" where
  "demo_version v r =
     version_of_policy v (policy_of_request ''n1'' r (''h'' @ r) (if v = 1 then 0 else 1)
       (normalize_options default_options))"

lemma demo_history_sel:
  "ms_nodes demo_history = [(''n1'', demo_node)]" "ms_deploying demo_history = {}"
  "mem_versions demo_history ''n1'' = [] @ [demo_version 1 ''a'', demo_version 2 ''b'']"
  by (simp_all add: demo_history_def mem_store_policy_def Let_def mem_versions_def policy_of_request_def
      hm_insert_def demo_store_def mem_default_def demo_version_def)

lemma demo_history_inv: "mem_inv demo_history"
  unfolding demo_history_def by (intro mem_step_inv [OF mem_step.store] demo_store_inv)

lemma demo_version_sel [simp]:
  "normalize_options (compile_options_of_version (demo_version v r)) = normalize_options default_options"
  "pv_rules_yaml (demo_version v r) = r"
  by (simp_all add: demo_version_def compile_options_of_version_def version_of_policy_def
      policy_of_request_def normalize_options_def default_options_def)

lemma rollback_restores_previous_witness:
  "\<exists>resp w' new. rollback_policy memory_ops demo_env ''n1'' 0 (world_of demo_history) = (Inr resp, w') \<and>
    rb_success resp \<and>
    mem_versions (w_store w') ''n1'' = [] @ [demo_version 1 ''a'', demo_version 2 ''b'', new] \<and>
    pv_rules_yaml new = ''a''"
proof -
  let ?w = "world_of demo_history"
  have "mem_inv (w_store ?w)" "map_of (ms_nodes (w_store ?w)) ''n1'' = Some demo_node"
    "''n1'' \<notin> ms_deploying (w_store ?w)"
    "mem_versions (w_store ?w) ''n1'' = [] @ [demo_version 1 ''a'', demo_version 2 ''b'']"
    using demo_history_inv demo_history_sel by simp_all
  from rollback_restores_previous [OF this, of demo_env] show ?thesis by (simp, blast)
qed

text \<open>Two deploys to the node: the first holds the guard when the second asks for it and is refused.\<close>

lemma deploy_guard_serialises_witness:
  "\<exists>w ts. (deploys_step demo_env True)\<^sup>*\<^sup>* (world_of demo_store, \<lambda>_. NoTask, {}) (w, ts, {}) \<and>
    guard_of (ts 0) = {''n1''} \<and> (\<exists>st. ts 1 = Done (Inl st)) \<and> ms_deploying (w_store w) = (\<Union>c. guard_of (ts c))"
proof -
  let ?req = "\<lparr> dq_node_id = ''n1'', dq_rules_yaml = ''r'', dq_options = None, dq_dry_run = False \<rparr>"
  let ?j = "\<lparr> dj_guarded = True, dj_req = ?req, dj_node = demo_node \<rparr>"
  let ?start = "world_of demo_store"
  let ?held = "?start\<lparr> w_store := demo_store\<lparr> ms_deploying := {''n1''} \<rparr> \<rparr>"
  let ?t1 = "(\<lambda>_. NoTask)(0 := Load ?req)"
  let ?t2 = "?t1(1 := Load ?req)"
  let ?t3 = "?t2(0 := Begin ?req demo_node)"
  let ?t4 = "?t3(0 := ReadPolicy ?j)"
  let ?t5 = "?t4(1 := Begin ?req demo_node)"
  have "deploys_step demo_env True (?start, \<lambda>_. NoTask, {}) (?start, ?t1, {})" by (rule deploys_step.submit) simp
  moreover have "deploys_step demo_env True (?start, ?t1, {}) (?start, ?t2, {})" by (rule deploys_step.submit) simp
  moreover have "deploys_step demo_env True (?start, ?t2, {}) (?start, ?t3, {})"
    by (rule deploys_step.step) (simp add: load_node_def blocking_read_def mem_get_node_def ok_or_def)
  moreover have "deploys_step demo_env True (?start, ?t3, {}) (?held, ?t4, {})"
    by (rule deploys_step.step) (simp add: blocking_def mem_begin_deploy_def)
  moreover have "deploys_step demo_env True (?held, ?t4, {}) (?held, ?t5, {})"
    by (rule deploys_step.step) (simp add: load_node_def blocking_read_def mem_get_node_def ok_or_def)
  ultimately have a: "(deploys_step demo_env True)\<^sup>*\<^sup>* (?start, \<lambda>_. NoTask, {}) (?held, ?t5, {})"
    by (meson converse_rtranclp_into_rtranclp rtranclp.rtrancl_refl)
  obtain st v where s: "task_step memory_ops demo_env (Begin ?req demo_node) ?held = (Done (Inl st), v)"
    by (simp add: blocking_def mem_begin_deploy_def)
  define ts :: "nat \<Rightarrow> deploy_task" where "ts = ?t5(1 := Done (Inl st))"
  have "deploys_step demo_env True (?held, ?t5, {}) (v, ts, {})"
    unfolding ts_def by (rule deploys_step.step) (use s in simp)
  with a have b: "(deploys_step demo_env True)\<^sup>*\<^sup>* (?start, \<lambda>_. NoTask, {}) (v, ts, {})"
    by (rule rtranclp.rtrancl_into_rtrancl)
  have "keys_ok n_node_id (ms_nodes (w_store ?start))" using demo_store_inv by (simp add: mem_inv_def)
  from deploy_guard_serialises [OF b _ this, THEN conjunct2, THEN conjunct2, THEN conjunct1]
  have "ms_deploying (w_store v) = (\<Union>c. guard_of (ts c))" by simp
  moreover have "guard_of (ts 0) = {''n1''}" "ts 1 = Done (Inl st)" by (simp_all add: ts_def guard_of_def)
  ultimately show ?thesis using b by blast
qed

lemma five_minutes [simp]: "parse_duration ''5m'' = Inr 300"
proof -
  have "trim ''5m'' = ''5m''" by (rule trim_id) (simp_all add: is_ascii_digit_def unit_letters_def)
  then show ?thesis
    by (simp add: parse_duration_def is_ascii_digit_def parse_u64_def digits_value_def unit_seconds_def)
qed

lemma demo_machine_wf [simp]: "fsm_wf demo_machine"
  by (simp add: fsm_wf_def demo_machine_def hm_keys_def hm_values_def transition_wf_def duration_ok_def)

lemma create_fsm_definition_stores_wf_witness:
  "map_of (ms_fsm_definitions (w_store (snd (create_fsm_definition memory_ops demo_env ''roll''
     (world_of demo_store))))) ''roll'' = Some demo_machine"
proof -
  have "fd_name demo_machine = ''roll''" by (simp add: demo_machine_def)
  then show ?thesis
    using create_fsm_definition_stores_wf [of demo_env "''roll''" "world_of demo_store"] by auto
qed

subsection \<open>Durations, counters and batches\<close>

lemma parse_duration_of_rendered_witness:
  "\<exists>d. parse_duration (render_duration [(2, Hours), (30, Minutes)]) = Inr d \<and> unat d = 9000"
  using parse_duration_of_rendered [of "[(2, Hours), (30, Minutes)]"] by (simp add: segments_value_def)

definition demo_snapshot :: "int \<Rightarrow> nat \<Rightarrow> counter_snapshot" where
  "demo_snapshot t n =
     \<lparr> cs_node_id = ''n1'', cs_collected_at = secs t,
       cs_counters = [\<lparr> rc_rule_name = ''r'', rc_match_count = word_of_nat n, rc_byte_count = 0 \<rparr>] \<rparr>"

lemma demo_snapshot_sel [simp]:
  "cs_node_id (demo_snapshot t n) = ''n1''" "cs_collected_at (demo_snapshot t n) = secs t"
  by (simp_all add: demo_snapshot_def)

lemma cache_keeps_newest_witness:
  "cached (foldl cache_record (cache_new (secs 60) 2) (map (\<lambda>t. demo_snapshot t 0) [1, 2, 3])) ''n1'' =
     [demo_snapshot 2 0, demo_snapshot 3 0]"
  using cache_keeps_newest [of 2 "secs 60" "map (\<lambda>t. demo_snapshot t 0) [1, 2, 3]" "''n1''"]
  by (simp add: Let_def)

lemma cache_evict_exact_witness:
  "cached (cache_evict_expired (secs 100) ((cache_new (secs 60) 9)
     \<lparr> ca_data := [(''n1'', [demo_snapshot 1 0, demo_snapshot 50 0])] \<rparr>)) ''n1'' = [demo_snapshot 50 0]"
  using cache_evict_exact [of "(cache_new (secs 60) 9)
     \<lparr> ca_data := [(''n1'', [demo_snapshot 1 0, demo_snapshot 50 0])] \<rparr>" "''n1''" "secs 100"]
  by (simp add: cached_def cache_new_def hm_ok_def)

lemma calculate_rate_sound_witness:
  "calculate_rate (demo_snapshot 1 5) (demo_snapshot 3 9) ''r'' \<noteq> None"
proof -
  have "num_milliseconds (cs_collected_at (demo_snapshot 3 9) - cs_collected_at (demo_snapshot 1 5)) < 2 ^ 53"
    by (simp add: num_milliseconds_def)
  from calculate_rate_sound [OF this, of "''r''"] show ?thesis
    by (simp add: find_counter_def) (simp add: demo_snapshot_def)
qed

lemma rollout_batches_partition_witness:
  "concat (batches (Suc (length [demo_node, demo_node])) 50 0 [demo_node, demo_node]) =
     [demo_node, demo_node]"
  by (rule conjunct1 [OF rollout_batches_partition]) simp

lemma batch_size_is_ceiling_witness: "batch_size 10 25 = 3"
proof -
  have "\<lceil>rat_of_nat 250 / 100\<rceil> = 3" by (simp add: ceiling_eq_iff)
  then show ?thesis using batch_size_is_ceiling [of 10 25] by simp
qed

subsection \<open>State machines\<close>

definition demo_installed :: "mem_storage world" where
  "demo_installed =
     (world_of mem_default)\<lparr> w_store := snd (mem_store_fsm_definition 0 mem_default demo_machine) \<rparr>"

definition demo_started :: "mem_storage world" where
  "demo_started = snd (start_instance memory_ops demo_env ''roll'' ''r'' None demo_installed)"

definition demo_instance :: fsm_instance where
  "demo_instance = instance_new [] (secs 100) ''roll'' ''canary'' (context_for_deployment ''r'' None)"

lemma demo_machine_sel [simp]:
  "fd_name demo_machine = ''roll''" "fd_initial demo_machine = ''canary''"
  "map_of (fd_states demo_machine) ''canary'' = Some \<lparr> sd_action = None,
     sd_transitions = [\<lparr> td_to = ''done'', td_when = None, td_after = Some ''5m'' \<rparr>], sd_terminal = False \<rparr>"
  "map_of (fd_states demo_machine) ''done'' = Some
     \<lparr> sd_action = None, sd_transitions = [], sd_terminal = True \<rparr>"
  by (simp_all add: demo_machine_def)

lemma demo_installed_store:
  "w_store demo_installed = mem_default\<lparr> ms_fsm_definitions := [(''roll'', demo_machine)] \<rparr>"
  by (simp add: demo_installed_def mem_store_fsm_definition_def mem_default_def hm_insert_def)

lemma demo_started_store:
  "w_store demo_started = mem_default
     \<lparr> ms_fsm_definitions := [(''roll'', demo_machine)], ms_fsm_instances := [([], demo_instance)] \<rparr>"
  by (simp add: demo_started_def start_instance_def load_definition_def internal_def demo_installed_store
      blocking_read_def mem_get_fsm_definition_def launch_def clock_def new_uuid_def Let_def
      run_state_action_def blocking_def mem_store_fsm_instance_def demo_instance_def mem_default_def
      hm_insert_def) (simp add: demo_installed_def world_of_def)

lemma demo_started_instance: "mem_get_fsm_instance (w_store demo_started) [] = Inr (Some demo_instance)"
  by (simp add: demo_started_store mem_get_fsm_instance_def)

lemma demo_default_sel: "ms_fsm_definitions mem_default = []" "ms_fsm_instances mem_default = []"
  by (simp_all add: mem_default_def)

lemma demo_steps:
  "(engine_step memory_ops mem_abs mem_inv demo_env)\<^sup>*\<^sup>* (world_of mem_default) demo_installed"
  "(engine_step memory_ops mem_abs mem_inv demo_env)\<^sup>*\<^sup>* (world_of mem_default) demo_started"
proof -
  have i: "mem_inv (snd (mem_store_fsm_definition 0 mem_default demo_machine))"
    using mem_step_inv [OF mem_step.call [OF mem_call.intros(11)]] mem_default_inv by blast
  have "engine_step memory_ops mem_abs mem_inv demo_env (world_of mem_default)
      ((world_of mem_default)\<lparr> w_store := snd (mem_store_fsm_definition 0 mem_default demo_machine) \<rparr>)"
    using i by (intro engine_step.other) (auto simp: mem_store_fsm_definition_def demo_default_sel split: if_splits)
  then have "engine_step memory_ops mem_abs mem_inv demo_env (world_of mem_default) demo_installed"
    by (simp add: demo_installed_def)
  then show "(engine_step memory_ops mem_abs mem_inv demo_env)\<^sup>*\<^sup>* (world_of mem_default) demo_installed"
    by (rule r_into_rtranclp)
  then show "(engine_step memory_ops mem_abs mem_inv demo_env)\<^sup>*\<^sup>* (world_of mem_default) demo_started"
    unfolding demo_started_def by (rule rtranclp.rtrancl_into_rtrancl) (rule engine_step.start)
qed

lemma engine_runs_follow_definition_witness:
  "\<exists>d. mem_get_fsm_definition (w_store demo_started) ''roll'' = Inr (Some d) \<and> instance_inv d demo_instance"
  using engine_runs_follow_definition [OF demo_uuids _ demo_steps(2) demo_started_instance]
  by (auto simp: demo_instance_def)

lemma demo_engine_inv: "engine_inv mem_abs mem_inv demo_env demo_started"
proof -
  have "engine_inv mem_abs mem_inv demo_env (world_of mem_default)"
    by (simp add: engine_inv_def demo_default_sel mem_default_inv)
  then show ?thesis using mem.engine_steps_inv [OF demo_steps(2) _ demo_uuids] by blast
qed

definition demo_advanced :: "fsm_instance outcome \<times> mem_storage world" where
  "demo_advanced = advance_instance memory_ops demo_env [] None demo_started"

lemma demo_instance_sel [simp]:
  "fi_current_state demo_instance = ''canary''" "fi_definition_name demo_instance = ''roll''"
  "fi_status demo_instance = Running" "is_running demo_instance"
  by (simp_all add: demo_instance_def is_running_def)

lemma demo_fires:
  "fi_status (fst (fire_transition memory_ops demo_env demo_instance ''done'' TManual demo_machine w)) = Completed"
  "fi_instance_id (fst (fire_transition memory_ops demo_env demo_instance ''done'' TManual demo_machine w)) = []"
  "w_store (snd (fire_transition memory_ops demo_env demo_instance ''done'' TManual demo_machine w)) = w_store w"
  by (simp_all add: fire_transition_def Let_def case_prod_unfold run_state_action_def forget_state_def
      demo_instance_def)

lemma demo_advances: "\<exists>i. fst demo_advanced = Inr i \<and> fi_status i = Completed"
proof -
  have "load_instance memory_ops demo_env [] demo_started = Inr demo_instance"
    "load_definition memory_ops demo_env ''roll'' demo_started = Inr demo_machine"
    by (simp_all add: load_instance_def load_definition_def internal_def blocking_read_def
        demo_started_store mem_get_fsm_instance_def mem_get_fsm_definition_def)
  then show ?thesis
    using demo_fires [of demo_started]
    by (simp add: demo_started_store demo_advanced_def advance_instance_def advance_target_def is_manual_def Let_def
        case_prod_unfold internal_def blocking_def mem_update_fsm_instance_def)
qed

lemma advance_instance_correct_witness:
  "\<exists>i' to_state. fst demo_advanced = Inr i' \<and> moved demo_machine to_state TManual demo_instance i'"
  using advance_instance_correct [OF demo_engine_inv prod.collapse [symmetric], of "[]" None]
    demo_advances
  by (auto simp: demo_advanced_def demo_started_store)

lemma engine_finished_instances_frozen_witness:
  "\<exists>i. fi_status i = Completed \<and>
    mem_get_fsm_instance (w_store (evaluate_all memory_ops demo_env (snd demo_advanced))) [] = Inr (Some i)"
proof -
  let ?a = "Answer (fst demo_advanced)"
  have "overlap_step demo_env (world_of mem_default, \<lambda>_. Resting) (demo_installed, \<lambda>_. Resting)"
    by (rule overlap_step.other) (simp_all add: demo_installed_def mem_store_fsm_definition_def)
  moreover have "(overlap_step demo_env)\<^sup>*\<^sup>* (demo_installed, \<lambda>_. Resting)
      (demo_started, (\<lambda>_. Resting)(0 := Answer (fst (start_instance memory_ops demo_env ''roll'' ''r'' None demo_installed))))"
    unfolding demo_started_def by (rule overlap_task [OF run_start]) simp
  moreover have "(overlap_step demo_env)\<^sup>*\<^sup>* (demo_started, ts) (snd demo_advanced, ts(0 := ?a))" for ts
    unfolding demo_advanced_def by (rule overlap_task [OF run_advance]) simp
  ultimately have before: "(overlap_step demo_env)\<^sup>*\<^sup>* (world_of mem_default, \<lambda>_. Resting)
      (snd demo_advanced, (\<lambda>_. Resting)(0 := Answer (fst (start_instance memory_ops demo_env ''roll'' ''r'' None
         demo_installed)), 0 := ?a))"
    by (meson converse_rtranclp_into_rtranclp rtranclp_trans)
  obtain k where "engine_task_run memory_ops demo_env k Evaluate (snd demo_advanced) =
      (Resting, evaluate_all memory_ops demo_env (snd demo_advanced))"
    using run_evaluate by blast
  from overlap_task [OF this]
  have after: "(overlap_step demo_env)\<^sup>*\<^sup>* (snd demo_advanced, ts)
      (evaluate_all memory_ops demo_env (snd demo_advanced), ts(1 := Resting))" for ts by simp
  obtain i where i: "mem_get_fsm_instance (w_store (snd demo_advanced)) [] = Inr (Some i)"
    "fi_status i = Completed"
    using demo_advances mem.advance_step [OF demo_engine_inv, of "[]" None]
    by (auto simp: demo_advanced_def mem_get_fsm_instance_def split: sum.splits prod.splits)
  from engine_finished_instances_frozen [OF demo_uuids _ before after i(1)] i(2) show ?thesis
    by (simp add: demo_default_sel)
qed

definition demo_condition :: counter_condition where
  "demo_condition =
     \<lparr> cc_counter = ''r'', cc_rate_above = None, cc_rate_below = None, cc_total_above = Some 5,
       cc_for_duration = Some ''5m'', cc_aggregate = None, cc_field = None \<rparr>"

definition demo_watcher :: fsm_instance where
  "demo_watcher = instance_new [] 0 ''watch'' ''canary'' (context_for_adaptive_policy [''n1''])"

definition demo_cache :: counter_cache where
  "demo_cache = (cache_new (secs 3600) 9)\<lparr> ca_data := [(''n1'', [demo_snapshot 1 9])] \<rparr>"

lemma demo_threshold [simp]: "threshold_met demo_cache demo_condition demo_watcher"
  by (simp add: threshold_met_def demo_condition_def demo_watcher_def nodes_to_check_targets
      context_for_adaptive_policy_def check_total_above_def node_total_def demo_cache_def cache_latest_def
      demo_snapshot_def get_counter_total_def find_counter_def)

lemma sustained_condition_exact_witness:
  "fst (evaluate_at demo_env (world_of mem_default) demo_condition ''done'' 0
     (evaluate_series demo_env (world_of mem_default) demo_condition ''done'' 0 demo_watcher
        [(secs 10, demo_cache)]) (secs 310, demo_cache))"
proof -
  have "cx_target_nodes (fi_context demo_watcher) \<noteq> []" "cc_for_duration demo_condition = Some ''5m''"
    "map_of (cx_first_true (fi_context demo_watcher)) (condition_key ''done'' 0) = None"
    by (simp_all add: demo_watcher_def demo_condition_def context_for_adaptive_policy_def)
  from sustained_condition_exact [OF this(1,2) five_minutes this(3), of demo_env "world_of mem_default"
      "[(secs 10, demo_cache)]" "secs 310" demo_cache]
  show ?thesis by (simp add: streak_def chrono_from_std_def)
qed

subsection \<open>Leases and background loops\<close>

definition demo_lease :: "int \<Rightarrow> string \<Rightarrow> lease_call" where
  "demo_lease t c = \<lparr> lc_time = secs t, lc_controller = c, lc_secs = 30, lc_fault = None \<rparr>"

lemma lease_mutual_exclusion_witness: "lease_end (demo_lease 0 ''a'') < lc_time (demo_lease 31 ''b'')"
proof (rule lease_mutual_exclusion)
  show "acquires (demo_lease 0 ''a'') None" by (simp add: acquires_iff demo_lease_def)
  show "acquires (demo_lease 31 ''b'') (lease_run (demo_lease 0 ''a'' # [demo_lease 20 ''b'']) None)"
    by (simp add: acquires_iff lease_run_def lease_step_table demo_lease_def lease_end_def)
qed (simp_all add: demo_lease_def)

lemma ha_mode_never_leads_witness:
  "fsm_tick memory_ops demo_env (ctl_config_is_leader (start_controller (Some ''a'') 30))
     (world_of demo_store) = world_of demo_store"
  using ha_mode_never_leads [OF controller_reachable.start [of "{}" "Some ''a''" 30 "()"],
      where ops = memory_ops and e = demo_env and w = "world_of demo_store"]
  by blast

lemma reaper_announces_stale_nodes_witness:
  "\<exists>ids evs. w_events (mark_stale memory_ops demo_env (world_of demo_store)) = map NodeEv evs \<and>
    map ne_node_id evs = ids \<and> ''n1'' \<in> set ids"
proof -
  have "is_stale (e_now demo_env 0) (stale_threshold demo_env) demo_node"
    by (simp add: is_stale_def stale_threshold_def)
  then show ?thesis using reaper_announces_stale_nodes [of "world_of demo_store" demo_env] by fastforce
qed

subsection \<open>The REST service\<close>

definition demo_rest :: "bool \<Rightarrow> rest_context" where
  "demo_rest leader =
     \<lparr> rx_leader = leader, rx_api_key = Some ''key'', rx_rfc3339 = (\<lambda>_. ''time''),
       rx_parse_rfc3339 = (\<lambda>_. None), rx_parse_json = (\<lambda>_. None), rx_print_json = (\<lambda>_. ''{}''),
       rx_yaml_error = (\<lambda>_. None) \<rparr>"

lemma ha_mode_refuses_rest_writes_witness:
  "rest_rollback_policy memory_ops demo_env (demo_rest False) ''n1'' 0 (world_of demo_store) =
     (Inl (AppError 503 standby_message), world_of demo_store)"
proof -
  have r: "controller_reachable {} (Some ''a'') 30 (start_controller (Some ''a'') 30, ())"
    by (rule controller_reachable.start)
  have l: "rx_leader (demo_rest False) = ctl_config_is_leader (start_controller (Some ''a'') 30)"
    by (simp add: demo_rest_def start_controller_def)
  show ?thesis by (rule ha_mode_refuses_rest_writes [OF r l, THEN conjunct2, THEN conjunct2, THEN conjunct1])
qed

definition demo_body :: rest_deploy_request where
  "demo_body =
     \<lparr> rd_node_id = ''n1'', rd_rules_yaml = ''r'', rd_options = body_defaults, rd_dry_run = False \<rparr>"

lemma rest_agrees_with_grpc_witness:
  "rest_rollback_policy memory_ops demo_env (demo_rest True) ''n1'' 0 (world_of demo_store) =
     as_rest (rollback_policy memory_ops demo_env ''n1'' 0 (world_of demo_store))"
proof -
  have l: "rx_leader (demo_rest True)" by (simp add: demo_rest_def)
  have d: "\<not> rd_dry_run demo_body" by (simp add: demo_body_def)
  show ?thesis by (rule rest_agrees_with_grpc [OF l d, THEN conjunct1])
qed

end
