(* ===== verification/Sqlite_Storage.thy ===== *)
theory Sqlite_Storage
  imports Main_Loops "HOL-Library.Char_ord" "HOL-Library.List_Lexorder"
begin

text \<open>
  The SQLite backend, \<^verbatim>\<open>pacinet-server/src/storage/sqlite.rs\<close> with the tables of
  \<^verbatim>\<open>pacinet-server/src/storage/schema.sql\<close>.  A table is the list of its rows in the order of
  insertion, a statement the operation on that list which SQL gives it: keys are unique, a row that
  refers to a node needs it, and deleting a node deletes the rows that refer to it.

  A column holds what the code stores in it: words for the integers, the printed names of states,
  kinds and results, 0 and 1 for booleans.  The columns with JSON or RFC 3339 text hold the value the
  text stands for: \<open>serde_json\<close> and \<open>chrono\<close> read back what they print, and the text of a time
  sorts as the time does.  The order of rows with equal sort keys, which SQL leaves open, is the order
  of insertion.  Faults of the database and its limits (on the size of a file or of a statement) do
  not occur.
\<close>

subsection \<open>Tables\<close>

definition find_row :: "('r \<Rightarrow> 'k) \<Rightarrow> 'k \<Rightarrow> 'r list \<Rightarrow> 'r option" where
  "find_row key k t = List.find (\<lambda>r. key r = k) t"

definition has_row :: "('r \<Rightarrow> 'k) \<Rightarrow> 'k \<Rightarrow> 'r list \<Rightarrow> bool" where
  "has_row key k t = list_ex (\<lambda>r. key r = k) t"

definition unique_failed :: "string \<Rightarrow> string" where
  "unique_failed col = ''UNIQUE constraint failed: '' @ col"

definition foreign_key_failed :: string where
  "foreign_key_failed = ''FOREIGN KEY constraint failed''"

text \<open>\<open>INSERT\<close>, \<open>INSERT OR REPLACE\<close>, \<open>UPDATE \<dots> WHERE\<close>, \<open>DELETE \<dots> WHERE\<close>, \<open>ORDER BY \<dots> DESC\<close>.\<close>

definition insert_row :: "('r \<Rightarrow> 'k) \<Rightarrow> string \<Rightarrow> 'r \<Rightarrow> 'r list \<Rightarrow> string + 'r list" where
  "insert_row key col r t = (if has_row key (key r) t then Inl (unique_failed col) else Inr (t @ [r]))"

definition replace_row :: "('r \<Rightarrow> 'k) \<Rightarrow> 'r \<Rightarrow> 'r list \<Rightarrow> 'r list" where
  "replace_row key r t = filter (\<lambda>x. key x \<noteq> key r) t @ [r]"

definition update_rows :: "('r \<Rightarrow> bool) \<Rightarrow> ('r \<Rightarrow> 'r) \<Rightarrow> 'r list \<Rightarrow> 'r list" where
  "update_rows P f t = map (\<lambda>r. if P r then f r else r) t"

definition delete_rows :: "('r \<Rightarrow> bool) \<Rightarrow> 'r list \<Rightarrow> 'r list" where
  "delete_rows P t = filter (\<lambda>r. \<not> P r) t"

definition affected :: "('r \<Rightarrow> bool) \<Rightarrow> 'r list \<Rightarrow> nat" where
  "affected P t = length (filter P t)"

definition order_desc :: "('r \<Rightarrow> int) \<Rightarrow> 'r list \<Rightarrow> 'r list" where
  "order_desc key t = sort_key (\<lambda>r. - key r) t"

definition sql_bool :: "bool \<Rightarrow> u32" where
  "sql_bool b = (if b then 1 else 0)"

subsection \<open>Rows\<close>

record node_row =
  nr_id :: string
  nr_host :: string
  nr_address :: string
  nr_labels :: "(string, string) hmap"
  nr_capabilities :: "(string, string) hmap"
  nr_state :: string
  nr_registered_at :: time
  nr_last_heartbeat :: time
  nr_pacgate_version :: string
  nr_uptime_seconds :: u64
  nr_annotations :: "(string, string) hmap"

definition node_to_row :: "node \<Rightarrow> node_row" where
  "node_to_row n =
     \<lparr> nr_id = n_node_id n, nr_host = n_hostname n, nr_address = n_agent_address n,
       nr_labels = n_labels n, nr_capabilities = n_capabilities n,
       nr_state = node_state_to_string (n_state n), nr_registered_at = n_registered_at n,
       nr_last_heartbeat = n_last_heartbeat n, nr_pacgate_version = n_pacgate_version n,
       nr_uptime_seconds = n_uptime_seconds n, nr_annotations = n_annotations n \<rparr>"

definition row_to_node :: "node_row \<Rightarrow> node outcome" where
  "row_to_node r =
     (case node_state_from_str (nr_state r) of
        Inl err \<Rightarrow> Inl (Internal err)
      | Inr st \<Rightarrow>
          Inr \<lparr> n_node_id = nr_id r, n_hostname = nr_host r, n_agent_address = nr_address r,
                n_labels = nr_labels r, n_capabilities = nr_capabilities r, n_state = st,
                n_registered_at = nr_registered_at r, n_last_heartbeat = nr_last_heartbeat r,
                n_pacgate_version = nr_pacgate_version r, n_uptime_seconds = nr_uptime_seconds r,
                n_annotations = nr_annotations r \<rparr>)"

record policy_row =
  pr_node_id :: string
  pr_rules_yaml :: string
  pr_policy_hash :: string
  pr_deployed_at :: time
  pr_counters_enabled :: u32
  pr_rate_limit_enabled :: u32
  pr_conntrack_enabled :: u32
  pr_axi_enabled :: u32
  pr_ports :: u64
  pr_target :: string
  pr_dynamic :: u32
  pr_dynamic_entries :: u64
  pr_width :: u64
  pr_ptp :: u32
  pr_rss :: u32
  pr_rss_queues :: u64
  pr_int_enabled :: u32
  pr_int_switch_id :: u64

definition policy_to_row :: "policy \<Rightarrow> policy_row" where
  "policy_to_row p =
     \<lparr> pr_node_id = pol_node_id p, pr_rules_yaml = pol_rules_yaml p,
       pr_policy_hash = pol_policy_hash p, pr_deployed_at = pol_deployed_at p,
       pr_counters_enabled = sql_bool (pol_counters_enabled p),
       pr_rate_limit_enabled = sql_bool (pol_rate_limit_enabled p),
       pr_conntrack_enabled = sql_bool (pol_conntrack_enabled p),
       pr_axi_enabled = sql_bool (pol_axi_enabled p), pr_ports = ucast (pol_ports p),
       pr_target = pol_target p, pr_dynamic = sql_bool (pol_dynamic p),
       pr_dynamic_entries = ucast (pol_dynamic_entries p), pr_width = ucast (pol_width p),
       pr_ptp = sql_bool (pol_ptp p), pr_rss = sql_bool (pol_rss p),
       pr_rss_queues = ucast (pol_rss_queues p), pr_int_enabled = sql_bool (pol_int p),
       pr_int_switch_id = ucast (pol_int_switch_id p) \<rparr>"

definition row_to_policy :: "policy_row \<Rightarrow> policy" where
  "row_to_policy r =
     \<lparr> pol_node_id = pr_node_id r, pol_rules_yaml = pr_rules_yaml r,
       pol_policy_hash = pr_policy_hash r, pol_deployed_at = pr_deployed_at r,
       pol_counters_enabled = (pr_counters_enabled r \<noteq> 0),
       pol_rate_limit_enabled = (pr_rate_limit_enabled r \<noteq> 0),
       pol_conntrack_enabled = (pr_conntrack_enabled r \<noteq> 0),
       pol_axi_enabled = (pr_axi_enabled r \<noteq> 0), pol_ports = ucast (pr_ports r),
       pol_target = pr_target r, pol_dynamic = (pr_dynamic r \<noteq> 0),
       pol_dynamic_entries = ucast (pr_dynamic_entries r), pol_width = ucast (pr_width r),
       pol_ptp = (pr_ptp r \<noteq> 0), pol_rss = (pr_rss r \<noteq> 0),
       pol_rss_queues = ucast (pr_rss_queues r), pol_int = (pr_int_enabled r \<noteq> 0),
       pol_int_switch_id = ucast (pr_int_switch_id r) \<rparr>"

text \<open>The columns of \<open>policy_versions\<close> are a version and those of \<open>policies\<close>; the automatic \<open>id\<close> is
  never read.\<close>

record version_row =
  vr_version :: u64
  vr_policy :: policy_row

definition row_to_policy_version :: "version_row \<Rightarrow> policy_version" where
  "row_to_policy_version v =
     (let r = vr_policy v in
      \<lparr> pv_version = vr_version v, pv_node_id = pr_node_id r, pv_rules_yaml = pr_rules_yaml r,
        pv_policy_hash = pr_policy_hash r, pv_deployed_at = pr_deployed_at r,
        pv_counters_enabled = (pr_counters_enabled r \<noteq> 0),
        pv_rate_limit_enabled = (pr_rate_limit_enabled r \<noteq> 0),
        pv_conntrack_enabled = (pr_conntrack_enabled r \<noteq> 0),
        pv_axi_enabled = (pr_axi_enabled r \<noteq> 0), pv_ports = ucast (pr_ports r),
        pv_target = pr_target r, pv_dynamic = (pr_dynamic r \<noteq> 0),
        pv_dynamic_entries = ucast (pr_dynamic_entries r), pv_width = ucast (pr_width r),
        pv_ptp = (pr_ptp r \<noteq> 0), pv_rss = (pr_rss r \<noteq> 0),
        pv_rss_queues = ucast (pr_rss_queues r), pv_int = (pr_int_enabled r \<noteq> 0),
        pv_int_switch_id = ucast (pr_int_switch_id r) \<rparr>)"

record deployment_row =
  er_id :: string
  er_node_id :: string
  er_policy_version :: u64
  er_policy_hash :: string
  er_deployed_at :: time
  er_result :: string
  er_message :: string

definition deployment_to_row :: "deployment_record \<Rightarrow> deployment_row" where
  "deployment_to_row d =
     \<lparr> er_id = dr_id d, er_node_id = dr_node_id d, er_policy_version = dr_policy_version d,
       er_policy_hash = dr_policy_hash d, er_deployed_at = dr_deployed_at d,
       er_result = deployment_result_to_string (dr_result d), er_message = dr_message d \<rparr>"

definition row_to_deployment :: "deployment_row \<Rightarrow> deployment_record outcome" where
  "row_to_deployment r =
     (case deployment_result_from_str (er_result r) of
        Inl err \<Rightarrow> Inl (Internal err)
      | Inr result \<Rightarrow>
          Inr \<lparr> dr_id = er_id r, dr_node_id = er_node_id r, dr_policy_version = er_policy_version r,
                dr_policy_hash = er_policy_hash r, dr_deployed_at = er_deployed_at r,
                dr_result = result, dr_message = er_message r \<rparr>)"

record definition_row =
  dw_name :: string
  dw_kind :: string
  dw_definition :: fsm_definition
  dw_created_at :: time

record instance_row =
  ir_instance_id :: string
  ir_definition_name :: string
  ir_status :: string
  ir_instance :: fsm_instance
  ir_created_at :: time
  ir_updated_at :: time

record delivery_row =
  yr_id :: string
  yr_instance_id :: string
  yr_url :: string
  yr_method :: string
  yr_status_code :: "u64 option"
  yr_success :: u32
  yr_duration_ms :: u64
  yr_error :: "string option"
  yr_attempt :: u64
  yr_timestamp :: time

definition delivery_to_row :: "webhook_delivery \<Rightarrow> delivery_row" where
  "delivery_to_row d =
     \<lparr> yr_id = wd_id d, yr_instance_id = wd_instance_id d, yr_url = wd_url d, yr_method = wd_method d,
       yr_status_code = map_option ucast (wd_status_code d), yr_success = sql_bool (wd_success d),
       yr_duration_ms = wd_duration_ms d, yr_error = wd_error d, yr_attempt = ucast (wd_attempt d),
       yr_timestamp = wd_timestamp d \<rparr>"

definition row_to_delivery :: "delivery_row \<Rightarrow> webhook_delivery" where
  "row_to_delivery r =
     \<lparr> wd_id = yr_id r, wd_instance_id = yr_instance_id r, wd_url = yr_url r, wd_method = yr_method r,
       wd_status_code = map_option ucast (yr_status_code r), wd_success = (yr_success r \<noteq> 0),
       wd_duration_ms = yr_duration_ms r, wd_error = yr_error r, wd_attempt = ucast (yr_attempt r),
       wd_timestamp = yr_timestamp r \<rparr>"

record sqlite_storage =
  sq_nodes :: "node_row list"
  sq_policies :: "policy_row list"
  sq_policy_versions :: "version_row list"
  sq_counters :: "(string \<times> rule_counter list) list"
  sq_flow_counters :: "(string \<times> flow_counter list) list"
  sq_deployments :: "deployment_row list"
  sq_fsm_definitions :: "definition_row list"
  sq_fsm_instances :: "instance_row list"
  sq_events :: "persistent_event list"
  sq_leader_lease :: lease_table
  sq_audit_log :: "audit_entry list"
  sq_policy_templates :: "policy_template list"
  sq_webhook_deliveries :: "delivery_row list"
  sq_deploying :: "string set"

text \<open>A fresh database.\<close>

definition sqlite_open :: sqlite_storage where
  "sqlite_open =
     \<lparr> sq_nodes = [], sq_policies = [], sq_policy_versions = [], sq_counters = [],
       sq_flow_counters = [], sq_deployments = [], sq_fsm_definitions = [], sq_fsm_instances = [],
       sq_events = [], sq_leader_lease = None, sq_audit_log = [], sq_policy_templates = [],
       sq_webhook_deliveries = [], sq_deploying = {} \<rparr>"

text \<open>A write that may violate a constraint; then nothing is written.\<close>

definition written :: "(string \<Rightarrow> string) \<Rightarrow> 's \<Rightarrow> string + 's \<Rightarrow> unit outcome \<times> 's" where
  "written msg s r = (case r of Inl err \<Rightarrow> (Inl (Internal (msg err)), s) | Inr s' \<Rightarrow> (Inr (), s'))"

definition oks :: "('r \<Rightarrow> 'e + 'a) \<Rightarrow> 'r list \<Rightarrow> 'a list" where
  "oks f t = List.map_filter (\<lambda>r. case f r of Inl _ \<Rightarrow> None | Inr a \<Rightarrow> Some a) t"

subsection \<open>Nodes\<close>

definition sqlite_register_node :: "sqlite_storage \<Rightarrow> node \<Rightarrow> string outcome \<times> sqlite_storage" where
  "sqlite_register_node s n =
     (case insert_row nr_id ''nodes.node_id'' (node_to_row n) (sq_nodes s) of
        Inl err \<Rightarrow> (Inl (Internal (''Failed to insert node: '' @ err)), s)
      | Inr t \<Rightarrow> (Inr (n_node_id n), s\<lparr> sq_nodes := t \<rparr>))"

definition sqlite_get_node :: "sqlite_storage \<Rightarrow> string \<Rightarrow> node option outcome" where
  "sqlite_get_node s nid =
     (case find_row nr_id nid (sq_nodes s) of
        None \<Rightarrow> Inr None
      | Some r \<Rightarrow> res_bind (row_to_node r) (\<lambda>n. Inr (Some n)))"

definition sqlite_list_nodes :: "sqlite_storage \<Rightarrow> (string, string) hmap \<Rightarrow> node list outcome" where
  "sqlite_list_nodes s label_filter = Inr (filter (labels_match label_filter) (oks row_to_node (sq_nodes s)))"

text \<open>\<open>ON DELETE CASCADE\<close>: the rows that refer to the node go with it.\<close>

definition sqlite_remove_node :: "sqlite_storage \<Rightarrow> string \<Rightarrow> bool outcome \<times> sqlite_storage" where
  "sqlite_remove_node s nid =
     (Inr (affected (\<lambda>r. nr_id r = nid) (sq_nodes s) > 0),
      s\<lparr> sq_nodes := delete_rows (\<lambda>r. nr_id r = nid) (sq_nodes s),
         sq_policies := delete_rows (\<lambda>r. pr_node_id r = nid) (sq_policies s),
         sq_policy_versions := delete_rows (\<lambda>v. pr_node_id (vr_policy v) = nid) (sq_policy_versions s),
         sq_counters := delete_rows (\<lambda>(k, _). k = nid) (sq_counters s),
         sq_flow_counters := delete_rows (\<lambda>(k, _). k = nid) (sq_flow_counters s),
         sq_deployments := delete_rows (\<lambda>r. er_node_id r = nid) (sq_deployments s),
         sq_deploying := sq_deploying s - {nid} \<rparr>)"

definition sqlite_update_heartbeat ::
  "time \<Rightarrow> sqlite_storage \<Rightarrow> string \<Rightarrow> node_state \<Rightarrow> u64 \<Rightarrow> bool outcome \<times> sqlite_storage" where
  "sqlite_update_heartbeat now s nid state uptime =
     (Inr (affected (\<lambda>r. nr_id r = nid) (sq_nodes s) > 0),
      s\<lparr> sq_nodes := update_rows (\<lambda>r. nr_id r = nid)
           (\<lambda>r. r\<lparr> nr_last_heartbeat := now, nr_state := node_state_to_string state,
                  nr_uptime_seconds := uptime \<rparr>) (sq_nodes s) \<rparr>)"

definition sqlite_update_node_state ::
  "sqlite_storage \<Rightarrow> string \<Rightarrow> node_state \<Rightarrow> bool outcome \<times> sqlite_storage" where
  "sqlite_update_node_state s nid state =
     (case find_row nr_id nid (sq_nodes s) of
        None \<Rightarrow> (Inr False, s)
      | Some r \<Rightarrow>
          (case node_state_from_str (nr_state r) of
             Inl err \<Rightarrow> (Inl (Internal err), s)
           | Inr current_state \<Rightarrow>
               if \<not> can_transition_to current_state state
               then (Inl (InvalidStateTransition (node_state_to_string current_state)
                       (node_state_to_string state)), s)
               else (Inr True,
                     s\<lparr> sq_nodes := update_rows (\<lambda>r. nr_id r = nid)
                          (nr_state_update (\<lambda>_. node_state_to_string state)) (sq_nodes s) \<rparr>)))"

definition sqlite_mark_stale_nodes ::
  "time \<Rightarrow> sqlite_storage \<Rightarrow> time \<Rightarrow> string list outcome \<times> sqlite_storage" where
  "sqlite_mark_stale_nodes now s threshold =
     (let cutoff = now - threshold;
          stale_ids = map nr_id (filter (\<lambda>r. nr_state r \<noteq> ''offline'' \<and> nr_state r \<noteq> ''registered'' \<and>
                        nr_last_heartbeat r < cutoff) (sq_nodes s))
      in (Inr stale_ids,
          s\<lparr> sq_nodes := fold (\<lambda>nid. update_rows (\<lambda>r. nr_id r = nid) (nr_state_update (\<lambda>_. ''offline'')))
               stale_ids (sq_nodes s) \<rparr>))"

definition sqlite_status_summary :: "sqlite_storage \<Rightarrow> status_summary outcome" where
  "sqlite_status_summary s =
     (let states = map nr_state (sq_nodes s);
          beats = map nr_last_heartbeat (sq_nodes s)
      in Inr (length (sq_nodes s),
              map (\<lambda>st. (st, affected (\<lambda>x. x = st) states)) (remdups states),
              if beats = [] then None else Some (Min (set beats))))"

definition sqlite_update_annotations ::
  "sqlite_storage \<Rightarrow> string \<Rightarrow> (string, string) hmap \<Rightarrow> string list \<Rightarrow> unit outcome \<times> sqlite_storage" where
  "sqlite_update_annotations s nid sets removes =
     (case find_row nr_id nid (sq_nodes s) of
        None \<Rightarrow> (Inl (NodeNotFound nid), s)
      | Some r \<Rightarrow>
          (Inr (),
           s\<lparr> sq_nodes := update_rows (\<lambda>r. nr_id r = nid)
                (nr_annotations_update (\<lambda>_. hm_extend (fold hm_remove removes (nr_annotations r)) sets))
                (sq_nodes s) \<rparr>))"

subsection \<open>Counters\<close>

definition sqlite_store_counters ::
  "sqlite_storage \<Rightarrow> string \<Rightarrow> rule_counter list \<Rightarrow> unit outcome \<times> sqlite_storage" where
  "sqlite_store_counters s nid counters =
     written (\<lambda>err. err) s
       (if \<not> has_row nr_id nid (sq_nodes s) then Inl foreign_key_failed
        else Inr (s\<lparr> sq_counters := replace_row fst (nid, counters) (sq_counters s) \<rparr>))"

definition sqlite_get_counters :: "sqlite_storage \<Rightarrow> string \<Rightarrow> rule_counter list option outcome" where
  "sqlite_get_counters s nid = Inr (map_option snd (find_row fst nid (sq_counters s)))"

definition sqlite_store_flow_counters ::
  "sqlite_storage \<Rightarrow> string \<Rightarrow> flow_counter list \<Rightarrow> unit outcome \<times> sqlite_storage" where
  "sqlite_store_flow_counters s nid counters =
     written (\<lambda>err. err) s
       (if \<not> has_row nr_id nid (sq_nodes s) then Inl foreign_key_failed
        else Inr (s\<lparr> sq_flow_counters := replace_row fst (nid, counters) (sq_flow_counters s) \<rparr>))"

definition sqlite_get_flow_counters :: "sqlite_storage \<Rightarrow> string \<Rightarrow> flow_counter list option outcome" where
  "sqlite_get_flow_counters s nid = Inr (map_option snd (find_row fst nid (sq_flow_counters s)))"

subsection \<open>Policies, versions, deployments\<close>

text \<open>\<open>SELECT MAX(version)\<close>: the integers of the database are signed.\<close>

definition max_version :: "version_row list \<Rightarrow> u64 option" where
  "max_version vs =
     (if vs = [] then None else Some (word_of_int (Max (set (map (\<lambda>v. sint (vr_version v)) vs)))))"

definition versions_of :: "string \<Rightarrow> sqlite_storage \<Rightarrow> version_row list" where
  "versions_of nid s = filter (\<lambda>v. pr_node_id (vr_policy v) = nid) (sq_policy_versions s)"

definition sqlite_store_policy :: "sqlite_storage \<Rightarrow> policy \<Rightarrow> u64 outcome \<times> sqlite_storage" where
  "sqlite_store_policy s p =
     (let version = (case max_version (versions_of (pol_node_id p) s) of None \<Rightarrow> 0 | Some v \<Rightarrow> v) + 1
      in if \<not> has_row nr_id (pol_node_id p) (sq_nodes s)
         then (Inl (Internal foreign_key_failed), s)
         else
           (Inr version,
            s\<lparr> sq_policy_versions := sq_policy_versions s @
                 [\<lparr> vr_version = version, vr_policy = policy_to_row p \<rparr>],
               sq_policies := replace_row pr_node_id (policy_to_row p) (sq_policies s) \<rparr>))"

definition sqlite_get_policy :: "sqlite_storage \<Rightarrow> string \<Rightarrow> policy option outcome" where
  "sqlite_get_policy s nid = Inr (map_option row_to_policy (find_row pr_node_id nid (sq_policies s)))"

definition sqlite_get_policy_history ::
  "sqlite_storage \<Rightarrow> string \<Rightarrow> u32 \<Rightarrow> policy_version list outcome" where
  "sqlite_get_policy_history s nid limit =
     Inr (map row_to_policy_version
       (take (unat limit) (order_desc (\<lambda>v. sint (vr_version v)) (versions_of nid s))))"

definition sqlite_get_policies_for_nodes ::
  "sqlite_storage \<Rightarrow> string list \<Rightarrow> (string, policy) hmap outcome" where
  "sqlite_get_policies_for_nodes s nids =
     (if nids = [] then Inr []
      else Inr (hm_extend [] (map (\<lambda>r. (pr_node_id r, row_to_policy r))
             (filter (\<lambda>r. List.member nids (pr_node_id r)) (sq_policies s)))))"

definition sqlite_record_deployment ::
  "sqlite_storage \<Rightarrow> deployment_record \<Rightarrow> unit outcome \<times> sqlite_storage" where
  "sqlite_record_deployment s d =
     written (\<lambda>err. err) s
       (case insert_row er_id ''deployments.id'' (deployment_to_row d) (sq_deployments s) of
          Inl err \<Rightarrow> Inl err
        | Inr t \<Rightarrow>
            if \<not> has_row nr_id (dr_node_id d) (sq_nodes s) then Inl foreign_key_failed
            else Inr (s\<lparr> sq_deployments := t \<rparr>))"

definition sqlite_get_deployments ::
  "sqlite_storage \<Rightarrow> string \<Rightarrow> u32 \<Rightarrow> deployment_record list outcome" where
  "sqlite_get_deployments s nid limit =
     Inr (oks row_to_deployment (take (unat limit)
       (order_desc er_deployed_at (filter (\<lambda>r. er_node_id r = nid) (sq_deployments s)))))"

definition sqlite_begin_deploy :: "sqlite_storage \<Rightarrow> string \<Rightarrow> unit outcome \<times> sqlite_storage" where
  "sqlite_begin_deploy s nid =
     (if nid \<in> sq_deploying s then (Inl (ConcurrentDeploy nid), s)
      else (Inr (), s\<lparr> sq_deploying := insert nid (sq_deploying s) \<rparr>))"

definition sqlite_end_deploy :: "sqlite_storage \<Rightarrow> string \<Rightarrow> sqlite_storage" where
  "sqlite_end_deploy s nid = s\<lparr> sq_deploying := sq_deploying s - {nid} \<rparr>"

subsection \<open>Definitions and instances of state machines\<close>

definition sqlite_store_fsm_definition ::
  "time \<Rightarrow> sqlite_storage \<Rightarrow> fsm_definition \<Rightarrow> unit outcome \<times> sqlite_storage" where
  "sqlite_store_fsm_definition now s d =
     (Inr (), s\<lparr> sq_fsm_definitions := replace_row dw_name
        \<lparr> dw_name = fd_name d, dw_kind = fsm_kind_to_string (fd_kind d), dw_definition = d,
          dw_created_at = now \<rparr> (sq_fsm_definitions s) \<rparr>)"

definition sqlite_get_fsm_definition :: "sqlite_storage \<Rightarrow> string \<Rightarrow> fsm_definition option outcome" where
  "sqlite_get_fsm_definition s nm = Inr (map_option dw_definition (find_row dw_name nm (sq_fsm_definitions s)))"

definition sqlite_list_fsm_definitions ::
  "sqlite_storage \<Rightarrow> fsm_kind option \<Rightarrow> fsm_definition list outcome" where
  "sqlite_list_fsm_definitions s kind =
     Inr (map dw_definition
       (filter (\<lambda>r. is_none_or (\<lambda>k. dw_kind r = fsm_kind_to_string k) kind) (sq_fsm_definitions s)))"

definition sqlite_delete_fsm_definition :: "sqlite_storage \<Rightarrow> string \<Rightarrow> bool outcome \<times> sqlite_storage" where
  "sqlite_delete_fsm_definition s nm =
     (Inr (affected (\<lambda>r. dw_name r = nm) (sq_fsm_definitions s) > 0),
      s\<lparr> sq_fsm_definitions := delete_rows (\<lambda>r. dw_name r = nm) (sq_fsm_definitions s) \<rparr>)"

definition sqlite_store_fsm_instance ::
  "sqlite_storage \<Rightarrow> fsm_instance \<Rightarrow> unit outcome \<times> sqlite_storage" where
  "sqlite_store_fsm_instance s i =
     written (\<lambda>err. ''Failed to store FSM instance: '' @ err) s
       (case insert_row ir_instance_id ''fsm_instances.instance_id''
               \<lparr> ir_instance_id = fi_instance_id i, ir_definition_name = fi_definition_name i,
                 ir_status = status_to_string (fi_status i), ir_instance = i,
                 ir_created_at = fi_created_at i, ir_updated_at = fi_updated_at i \<rparr>
               (sq_fsm_instances s) of
          Inl err \<Rightarrow> Inl err
        | Inr t \<Rightarrow> Inr (s\<lparr> sq_fsm_instances := t \<rparr>))"

definition sqlite_get_fsm_instance :: "sqlite_storage \<Rightarrow> string \<Rightarrow> fsm_instance option outcome" where
  "sqlite_get_fsm_instance s iid = Inr (map_option ir_instance (find_row ir_instance_id iid (sq_fsm_instances s)))"

definition sqlite_update_fsm_instance ::
  "sqlite_storage \<Rightarrow> fsm_instance \<Rightarrow> unit outcome \<times> sqlite_storage" where
  "sqlite_update_fsm_instance s i =
     (let P = (\<lambda>r. ir_instance_id r = fi_instance_id i);
          s' = s\<lparr> sq_fsm_instances := update_rows P
                 (\<lambda>r. r\<lparr> ir_status := status_to_string (fi_status i), ir_instance := i,
                        ir_updated_at := fi_updated_at i \<rparr>) (sq_fsm_instances s) \<rparr>
      in if affected P (sq_fsm_instances s) = 0
         then (Inl (Fsm (InstanceNotFound (fi_instance_id i))), s')
         else (Inr (), s'))"

definition sqlite_list_fsm_instances ::
  "sqlite_storage \<Rightarrow> string option \<Rightarrow> fsm_instance_status option \<Rightarrow> fsm_instance list outcome" where
  "sqlite_list_fsm_instances s def_name status =
     Inr (map ir_instance (order_desc ir_created_at
       (filter (\<lambda>r. is_none_or (\<lambda>n. ir_definition_name r = n) def_name \<and>
                    is_none_or (\<lambda>x. ir_status r = status_to_string x) status) (sq_fsm_instances s))))"

subsection \<open>Events, lease, audit log, templates, webhook deliveries\<close>

definition sqlite_store_event :: "sqlite_storage \<Rightarrow> persistent_event \<Rightarrow> unit outcome \<times> sqlite_storage" where
  "sqlite_store_event s ev =
     written (\<lambda>err. ''Failed to store event: '' @ err) s
       (case insert_row pe_id ''events.id'' ev (sq_events s) of
          Inl err \<Rightarrow> Inl err
        | Inr t \<Rightarrow> Inr (s\<lparr> sq_events := t \<rparr>))"

definition sqlite_query_events ::
  "sqlite_storage \<Rightarrow> string option \<Rightarrow> string option \<Rightarrow> time option \<Rightarrow> time option \<Rightarrow> u32 \<Rightarrow>
     persistent_event list outcome" where
  "sqlite_query_events s event_type source since til limit =
     Inr (take (unat limit) (order_desc pe_timestamp
       (filter (\<lambda>ev. is_none_or (\<lambda>t. pe_event_type ev = t) event_type \<and>
                     is_none_or (\<lambda>x. pe_source ev = x) source \<and>
                     is_none_or (\<lambda>t. pe_timestamp ev \<ge> t) since \<and>
                     is_none_or (\<lambda>u. pe_timestamp ev \<le> u) til) (sq_events s))))"

definition sqlite_prune_events :: "sqlite_storage \<Rightarrow> time \<Rightarrow> u64 outcome \<times> sqlite_storage" where
  "sqlite_prune_events s older_than =
     (Inr (word_of_nat (affected (\<lambda>ev. pe_timestamp ev < older_than) (sq_events s))),
      s\<lparr> sq_events := delete_rows (\<lambda>ev. pe_timestamp ev < older_than) (sq_events s) \<rparr>)"

definition sqlite_count_events :: "sqlite_storage \<Rightarrow> u64 outcome" where
  "sqlite_count_events s = Inr (word_of_nat (length (sq_events s)))"

definition sqlite_try_acquire ::
  "time \<Rightarrow> sqlite_storage \<Rightarrow> string \<Rightarrow> u64 \<Rightarrow> bool outcome \<times> sqlite_storage" where
  "sqlite_try_acquire now s controller_id duration_secs =
     (case sqlite_try_acquire_lease None now (sq_leader_lease s) controller_id duration_secs of
        (r, t) \<Rightarrow> (r, s\<lparr> sq_leader_lease := t \<rparr>))"

definition sqlite_leader :: "sqlite_storage \<Rightarrow> (string \<times> time) option outcome" where
  "sqlite_leader s = sqlite_get_leader (sq_leader_lease s)"

definition sqlite_store_audit :: "sqlite_storage \<Rightarrow> audit_entry \<Rightarrow> unit outcome \<times> sqlite_storage" where
  "sqlite_store_audit s a =
     written (\<lambda>err. ''Failed to store audit entry: '' @ err) s
       (case insert_row ae_id ''audit_log.id'' a (sq_audit_log s) of
          Inl err \<Rightarrow> Inl err
        | Inr t \<Rightarrow> Inr (s\<lparr> sq_audit_log := t \<rparr>))"

definition sqlite_query_audit ::
  "sqlite_storage \<Rightarrow> string option \<Rightarrow> string option \<Rightarrow> string option \<Rightarrow> time option \<Rightarrow> u32 \<Rightarrow>
     audit_entry list outcome" where
  "sqlite_query_audit s action resource_type resource_id since limit =
     Inr (take (unat limit) (order_desc ae_timestamp
       (filter (\<lambda>a. is_none_or (\<lambda>x. ae_action a = x) action \<and>
                    is_none_or (\<lambda>x. ae_resource_type a = x) resource_type \<and>
                    is_none_or (\<lambda>x. ae_resource_id a = x) resource_id \<and>
                    is_none_or (\<lambda>t. ae_timestamp a \<ge> t) since) (sq_audit_log s))))"

definition sqlite_store_template :: "sqlite_storage \<Rightarrow> policy_template \<Rightarrow> unit outcome \<times> sqlite_storage" where
  "sqlite_store_template s t =
     (Inr (), s\<lparr> sq_policy_templates := replace_row tpl_name t (sq_policy_templates s) \<rparr>)"

definition sqlite_get_template :: "sqlite_storage \<Rightarrow> string \<Rightarrow> policy_template option outcome" where
  "sqlite_get_template s nm = Inr (find_row tpl_name nm (sq_policy_templates s))"

definition sqlite_list_templates :: "sqlite_storage \<Rightarrow> string option \<Rightarrow> policy_template list outcome" where
  "sqlite_list_templates s tag =
     Inr (filter (\<lambda>t. is_none_or (\<lambda>tg. list_ex (\<lambda>tt. tt = tg) (tpl_tags t)) tag)
           (sort_key tpl_name (sq_policy_templates s)))"

definition sqlite_delete_template :: "sqlite_storage \<Rightarrow> string \<Rightarrow> bool outcome \<times> sqlite_storage" where
  "sqlite_delete_template s nm =
     (Inr (affected (\<lambda>t. tpl_name t = nm) (sq_policy_templates s) > 0),
      s\<lparr> sq_policy_templates := delete_rows (\<lambda>t. tpl_name t = nm) (sq_policy_templates s) \<rparr>)"

definition sqlite_store_webhook_delivery ::
  "sqlite_storage \<Rightarrow> webhook_delivery \<Rightarrow> unit outcome \<times> sqlite_storage" where
  "sqlite_store_webhook_delivery s d =
     written (\<lambda>err. ''Failed to store webhook delivery: '' @ err) s
       (case insert_row yr_id ''webhook_deliveries.id'' (delivery_to_row d) (sq_webhook_deliveries s) of
          Inl err \<Rightarrow> Inl err
        | Inr t \<Rightarrow> Inr (s\<lparr> sq_webhook_deliveries := t \<rparr>))"

definition sqlite_query_webhook_deliveries ::
  "sqlite_storage \<Rightarrow> string option \<Rightarrow> u32 \<Rightarrow> webhook_delivery list outcome" where
  "sqlite_query_webhook_deliveries s instance_id limit =
     Inr (map row_to_delivery (take (unat limit) (order_desc yr_timestamp
       (filter (\<lambda>r. is_none_or (\<lambda>i. yr_instance_id r = i) instance_id) (sq_webhook_deliveries s)))))"

definition sqlite_ops :: "sqlite_storage storage_ops" where
  "sqlite_ops =
     \<lparr> so_register_node = sqlite_register_node, so_get_node = sqlite_get_node,
       so_list_nodes = sqlite_list_nodes, so_remove_node = sqlite_remove_node,
       so_update_heartbeat = sqlite_update_heartbeat, so_update_node_state = sqlite_update_node_state,
       so_store_counters = sqlite_store_counters, so_get_counters = sqlite_get_counters,
       so_store_flow_counters = sqlite_store_flow_counters,
       so_get_flow_counters = sqlite_get_flow_counters, so_store_policy = sqlite_store_policy,
       so_get_policy = sqlite_get_policy, so_get_policy_history = sqlite_get_policy_history,
       so_get_policies_for_nodes = sqlite_get_policies_for_nodes,
       so_record_deployment = sqlite_record_deployment, so_get_deployments = sqlite_get_deployments,
       so_begin_deploy = sqlite_begin_deploy, so_end_deploy = sqlite_end_deploy,
       so_mark_stale_nodes = sqlite_mark_stale_nodes, so_status_summary = sqlite_status_summary,
       so_store_fsm_definition = sqlite_store_fsm_definition,
       so_get_fsm_definition = sqlite_get_fsm_definition,
       so_list_fsm_definitions = sqlite_list_fsm_definitions,
       so_delete_fsm_definition = sqlite_delete_fsm_definition,
       so_store_fsm_instance = sqlite_store_fsm_instance,
       so_get_fsm_instance = sqlite_get_fsm_instance,
       so_update_fsm_instance = sqlite_update_fsm_instance,
       so_list_fsm_instances = sqlite_list_fsm_instances, so_store_event = sqlite_store_event,
       so_query_events = sqlite_query_events, so_prune_events = sqlite_prune_events,
       so_count_events = sqlite_count_events, so_update_annotations = sqlite_update_annotations,
       so_store_audit = sqlite_store_audit, so_query_audit = sqlite_query_audit,
       so_store_template = sqlite_store_template, so_get_template = sqlite_get_template,
       so_list_templates = sqlite_list_templates, so_delete_template = sqlite_delete_template,
       so_store_webhook_delivery = sqlite_store_webhook_delivery,
       so_query_webhook_deliveries = sqlite_query_webhook_deliveries,
       so_try_acquire_lease = sqlite_try_acquire, so_get_leader = sqlite_leader \<rparr>"

lemma sqlite_ops_sel [simp]:
  "so_register_node sqlite_ops = sqlite_register_node"
  "so_get_node sqlite_ops = sqlite_get_node"
  "so_list_nodes sqlite_ops = sqlite_list_nodes"
  "so_remove_node sqlite_ops = sqlite_remove_node"
  "so_update_heartbeat sqlite_ops = sqlite_update_heartbeat"
  "so_update_node_state sqlite_ops = sqlite_update_node_state"
  "so_store_counters sqlite_ops = sqlite_store_counters"
  "so_get_counters sqlite_ops = sqlite_get_counters"
  "so_store_flow_counters sqlite_ops = sqlite_store_flow_counters"
  "so_get_flow_counters sqlite_ops = sqlite_get_flow_counters"
  "so_store_policy sqlite_ops = sqlite_store_policy"
  "so_get_policy sqlite_ops = sqlite_get_policy"
  "so_get_policy_history sqlite_ops = sqlite_get_policy_history"
  "so_get_policies_for_nodes sqlite_ops = sqlite_get_policies_for_nodes"
  "so_record_deployment sqlite_ops = sqlite_record_deployment"
  "so_get_deployments sqlite_ops = sqlite_get_deployments"
  "so_begin_deploy sqlite_ops = sqlite_begin_deploy"
  "so_end_deploy sqlite_ops = sqlite_end_deploy"
  "so_mark_stale_nodes sqlite_ops = sqlite_mark_stale_nodes"
  "so_status_summary sqlite_ops = sqlite_status_summary"
  "so_store_fsm_definition sqlite_ops = sqlite_store_fsm_definition"
  "so_get_fsm_definition sqlite_ops = sqlite_get_fsm_definition"
  "so_list_fsm_definitions sqlite_ops = sqlite_list_fsm_definitions"
  "so_delete_fsm_definition sqlite_ops = sqlite_delete_fsm_definition"
  "so_store_fsm_instance sqlite_ops = sqlite_store_fsm_instance"
  "so_get_fsm_instance sqlite_ops = sqlite_get_fsm_instance"
  "so_update_fsm_instance sqlite_ops = sqlite_update_fsm_instance"
  "so_list_fsm_instances sqlite_ops = sqlite_list_fsm_instances"
  "so_store_event sqlite_ops = sqlite_store_event"
  "so_query_events sqlite_ops = sqlite_query_events"
  "so_prune_events sqlite_ops = sqlite_prune_events"
  "so_count_events sqlite_ops = sqlite_count_events"
  "so_update_annotations sqlite_ops = sqlite_update_annotations"
  "so_store_audit sqlite_ops = sqlite_store_audit"
  "so_query_audit sqlite_ops = sqlite_query_audit"
  "so_store_template sqlite_ops = sqlite_store_template"
  "so_get_template sqlite_ops = sqlite_get_template"
  "so_list_templates sqlite_ops = sqlite_list_templates"
  "so_delete_template sqlite_ops = sqlite_delete_template"
  "so_store_webhook_delivery sqlite_ops = sqlite_store_webhook_delivery"
  "so_query_webhook_deliveries sqlite_ops = sqlite_query_webhook_deliveries"
  "so_try_acquire_lease sqlite_ops = sqlite_try_acquire"
  "so_get_leader sqlite_ops = sqlite_leader"
  by (simp_all add: sqlite_ops_def)

end
