(* ===== verification/Sqlite_Run.thy ===== *)
theory Sqlite_Run
  imports Sqlite_Storage Api_Run "HOL-Library.Multiset"
begin

text \<open>
  The SQLite backend meets the contract of the storage trait.  \<open>sql_inv\<close> is the integrity of the
  database: keys are unique, every row that refers to a node has its node, the printed names parse,
  the columns kept beside a value agree with it, and the versions of a node are numbered from 1 (as
  long as they fit a signed integer).  Every operation keeps it, so it holds of every database that
  starts fresh, and under it the operations act on the abstract store as the trait says.  The
  last part compares the answers of the two backends.
\<close>

subsection \<open>Tables\<close>

lemma find_row_simps [simp]:
  "find_row key k [] = None"
  "find_row key k (r # t) = (if key r = k then Some r else find_row key k t)"
  by (simp_all add: find_row_def)

lemma find_row_append [simp]:
  "find_row key k (t @ u) = (case find_row key k t of None \<Rightarrow> find_row key k u | Some r \<Rightarrow> Some r)"
  by (induction t) simp_all

lemma find_row_None: "find_row key k t = None \<longleftrightarrow> k \<notin> key ` set t"
  by (induction t) auto

lemma find_row_SomeD: "find_row key k t = Some r \<Longrightarrow> r \<in> set t \<and> key r = k"
  by (induction t) (auto split: if_splits)

lemma find_row_mem: "distinct (map key t) \<Longrightarrow> r \<in> set t \<Longrightarrow> find_row key (key r) t = Some r"
  by (induction t) (auto simp: rev_image_eqI)

lemma has_row_iff [simp]: "has_row key k t \<longleftrightarrow> k \<in> key ` set t"
  by (auto simp: has_row_def list_ex_iff)

lemma affected_pos [simp]: "affected (\<lambda>r. key r = k) t > 0 \<longleftrightarrow> k \<in> key ` set t"
  by (auto simp: affected_def filter_empty_conv)

lemma affected_zero [simp]: "affected (\<lambda>r. key r = k) t = 0 \<longleftrightarrow> k \<notin> key ` set t"
  by (auto simp: affected_def filter_empty_conv)

lemma find_row_insert:
  "insert_row key col r t = Inr t' \<Longrightarrow> find_row key k t' = (if k = key r then Some r else find_row key k t)"
  using find_row_None [of key "key r" t]
  by (cases "find_row key k t") (auto simp: insert_row_def split: if_splits)

lemma insert_row_rows: "insert_row key col r t = Inr t' \<Longrightarrow> t' = t @ [r] \<and> key r \<notin> key ` set t"
  by (auto simp: insert_row_def split: if_splits)

lemma insert_row_fresh: "key r \<notin> key ` set t \<Longrightarrow> insert_row key col r t = Inr (t @ [r])"
  by (simp add: insert_row_def)

lemma find_row_replace [simp]:
  "find_row key k (replace_row key r t) = (if k = key r then Some r else find_row key k t)"
  unfolding replace_row_def by (induction t) auto

lemma set_replace_row: "set (replace_row key r t) = insert r {x \<in> set t. key x \<noteq> key r}"
  by (auto simp: replace_row_def)

lemma distinct_replace_row [simp]: "distinct (map key t) \<Longrightarrow> distinct (map key (replace_row key r t))"
  by (auto simp: replace_row_def distinct_map_filter)

lemma update_rows_keys [simp]:
  "(\<And>r. key (f r) = key r) \<Longrightarrow> map key (update_rows P f t) = map key t"
  by (simp add: update_rows_def)

lemma update_rows_key_set [simp]:
  "(\<And>r. key (f r) = key r) \<Longrightarrow> key ` set (update_rows P f t) = key ` set t"
  using update_rows_keys [of key f P t] by (metis list.set_map)

lemma set_update_rows: "set (update_rows P f t) = (\<lambda>r. if P r then f r else r) ` set t"
  by (simp add: update_rows_def)

lemma find_row_update:
  "(\<And>r. key (f r) = key r) \<Longrightarrow>
     find_row key k (update_rows (\<lambda>r. key r = j) f t) =
       (if k = j then map_option f (find_row key k t) else find_row key k t)"
  by (induction t) (auto simp: update_rows_def)

lemma find_row_delete [simp]:
  "find_row key k (delete_rows (\<lambda>r. key r = j) t) = (if k = j then None else find_row key k t)"
  by (induction t) (auto simp: delete_rows_def)

lemma set_delete_rows [simp]: "set (delete_rows P t) = {r \<in> set t. \<not> P r}"
  by (auto simp: delete_rows_def)

lemma distinct_delete_rows [simp]: "distinct (map key t) \<Longrightarrow> distinct (map key (delete_rows P t))"
  by (simp add: delete_rows_def distinct_map_filter)

lemma insort_last: "\<forall>x \<in> set xs. f x < f a \<Longrightarrow> insort_key f a xs = xs @ [a]"
  by (induction xs) auto

lemma order_desc_increasing: "sorted_wrt (\<lambda>a b. key a < key b) t \<Longrightarrow> order_desc key t = rev t"
  unfolding order_desc_def by (induction t) (auto intro: insort_last)

lemma set_order_desc [simp]: "set (order_desc key t) = set t"
  by (simp add: order_desc_def)

lemma length_order_desc [simp]: "length (order_desc key t) = length t"
  by (simp add: order_desc_def)

lemma order_desc_Nil [simp]: "order_desc key t = [] \<longleftrightarrow> t = []"
  by (metis length_order_desc length_0_conv)

lemma filter_order_desc: "filter P (order_desc key t) = order_desc key (filter P t)"
  by (simp add: order_desc_def filter_sort)

subsection \<open>Rows\<close>

lemma sql_bool_iff [simp]: "sql_bool b \<noteq> 0 \<longleftrightarrow> b" "sql_bool b = 0 \<longleftrightarrow> \<not> b"
  by (simp_all add: sql_bool_def)

lemma u32_column [simp]: "ucast (ucast (x :: u32) :: u64) = x"
  by (rule bit_word_eqI) (auto simp: bit_simps)

lemma u16_column [simp]: "ucast (ucast (x :: u16) :: u64) = x"
  by (rule bit_word_eqI) (auto simp: bit_simps)

lemma state_text [simp]: "node_state_from_str (node_state_to_string st) = Inr st"
  by (simp add: node_state_from_str_iff)

lemma result_text [simp]: "deployment_result_from_str (deployment_result_to_string r) = Inr r"
  by (simp add: deployment_result_from_str_iff)

lemma status_text [simp]: "status_to_string a = status_to_string b \<longleftrightarrow> a = b"
  by (cases a; cases b) simp_all

lemma node_row_round_trip [simp]: "row_to_node (node_to_row n) = Inr n"
  by (simp add: row_to_node_def node_to_row_def)

lemma policy_row_round_trip [simp]: "row_to_policy (policy_to_row p) = p"
  by (simp add: row_to_policy_def policy_to_row_def)

lemma version_row_round_trip [simp]:
  "row_to_policy_version \<lparr> vr_version = v, vr_policy = policy_to_row p \<rparr> = version_of_policy v p"
  by (simp add: row_to_policy_version_def policy_to_row_def version_of_policy_def)

lemma deployment_row_round_trip [simp]: "row_to_deployment (deployment_to_row d) = Inr d"
  by (simp add: row_to_deployment_def deployment_to_row_def)

lemma delivery_row_round_trip [simp]: "row_to_delivery (delivery_to_row d) = d"
  by (cases "wd_status_code d") (simp_all add: row_to_delivery_def delivery_to_row_def)

lemma row_keys [simp]:
  "nr_id (node_to_row n) = n_node_id n" "pr_node_id (policy_to_row p) = pol_node_id p"
  "er_id (deployment_to_row d) = dr_id d" "er_node_id (deployment_to_row d) = dr_node_id d"
  "yr_id (delivery_to_row w) = wd_id w" "nr_state (node_to_row n) = node_state_to_string (n_state n)"
  by (simp_all add: node_to_row_def policy_to_row_def deployment_to_row_def delivery_to_row_def)

subsection \<open>Integrity\<close>

definition state_ok :: "node_row \<Rightarrow> bool" where
  "state_ok r \<longleftrightarrow> (\<exists>st. nr_state r = node_state_to_string st)"

definition result_ok :: "deployment_row \<Rightarrow> bool" where
  "result_ok r \<longleftrightarrow> (\<exists>x. er_result r = deployment_result_to_string x)"

definition definition_ok :: "definition_row \<Rightarrow> bool" where
  "definition_ok r \<longleftrightarrow>
     dw_name r = fd_name (dw_definition r) \<and> dw_kind r = fsm_kind_to_string (fd_kind (dw_definition r))"

definition instance_ok :: "instance_row \<Rightarrow> bool" where
  "instance_ok r \<longleftrightarrow>
     ir_instance_id r = fi_instance_id (ir_instance r) \<and>
     ir_status r = status_to_string (fi_status (ir_instance r))"

text \<open>The version numbers while they fit, and the current policy is the newest version.\<close>

definition version_rows_ok :: "version_row list \<Rightarrow> policy_row option \<Rightarrow> bool" where
  "version_rows_ok vs p \<longleftrightarrow>
     (length vs < 2 ^ 63 \<longrightarrow> map vr_version vs = map word_of_nat [1..<Suc (length vs)]) \<and>
     (case p of None \<Rightarrow> vs = [] | Some r \<Rightarrow> vs \<noteq> [] \<and> vr_policy (last vs) = r)"

text \<open>The nodes the other tables refer to.\<close>

definition referenced :: "sqlite_storage \<Rightarrow> string set" where
  "referenced s =
     pr_node_id ` set (sq_policies s) \<union> (\<lambda>v. pr_node_id (vr_policy v)) ` set (sq_policy_versions s) \<union>
     fst ` set (sq_counters s) \<union> fst ` set (sq_flow_counters s) \<union> er_node_id ` set (sq_deployments s)"

definition keys_unique :: "sqlite_storage \<Rightarrow> bool" where
  "keys_unique s \<longleftrightarrow>
     distinct (map nr_id (sq_nodes s)) \<and> distinct (map pr_node_id (sq_policies s)) \<and>
     distinct (map fst (sq_counters s)) \<and> distinct (map fst (sq_flow_counters s)) \<and>
     distinct (map er_id (sq_deployments s)) \<and> distinct (map dw_name (sq_fsm_definitions s)) \<and>
     distinct (map ir_instance_id (sq_fsm_instances s)) \<and> distinct (map pe_id (sq_events s)) \<and>
     distinct (map ae_id (sq_audit_log s)) \<and> distinct (map tpl_name (sq_policy_templates s)) \<and>
     distinct (map yr_id (sq_webhook_deliveries s))"

definition rows_ok :: "sqlite_storage \<Rightarrow> bool" where
  "rows_ok s \<longleftrightarrow>
     list_all state_ok (sq_nodes s) \<and> list_all result_ok (sq_deployments s) \<and>
     list_all definition_ok (sq_fsm_definitions s) \<and> list_all instance_ok (sq_fsm_instances s)"

definition sql_inv :: "sqlite_storage \<Rightarrow> bool" where
  "sql_inv s \<longleftrightarrow>
     keys_unique s \<and> rows_ok s \<and> referenced s \<subseteq> nr_id ` set (sq_nodes s) \<and>
     (\<forall>nid. version_rows_ok (versions_of nid s) (find_row pr_node_id nid (sq_policies s)))"

lemmas sql_inv_defs = sql_inv_def keys_unique_def rows_ok_def referenced_def versions_of_def

lemma sqlite_open_inv [simp]: "sql_inv sqlite_open"
  by (simp add: sql_inv_defs sqlite_open_def version_rows_ok_def)

lemma state_ok_simps [simp]:
  "state_ok (node_to_row n)" "state_ok (r\<lparr> nr_state := node_state_to_string st \<rparr>)"
  "state_ok (r\<lparr> nr_annotations := m \<rparr>) = state_ok r"
  "state_ok (r\<lparr> nr_last_heartbeat := t, nr_state := node_state_to_string st, nr_uptime_seconds := u \<rparr>)"
  by (auto simp: state_ok_def)

lemma state_ok_offline [simp]: "state_ok (r\<lparr> nr_state := ''offline'' \<rparr>)"
  using state_ok_simps(2) [where r = r and st = Offline] by simp

lemma result_ok_row [simp]: "result_ok (deployment_to_row d)"
  by (auto simp: result_ok_def deployment_to_row_def)

lemma list_all_update_rows [simp]:
  "list_all Q t \<Longrightarrow> (\<And>r. Q r \<Longrightarrow> Q (f r)) \<Longrightarrow> list_all Q (update_rows P f t)"
  by (induction t) (auto simp: update_rows_def)

lemma list_all_replace_row [simp]: "list_all Q t \<Longrightarrow> Q r \<Longrightarrow> list_all Q (replace_row key r t)"
  by (auto simp: list_all_iff set_replace_row)

lemma list_all_delete_rows [simp]: "list_all Q t \<Longrightarrow> list_all Q (delete_rows P t)"
  by (auto simp: list_all_iff)

text \<open>Operations on the node table that keep the keys.\<close>

lemma sql_inv_nodes:
  assumes "sql_inv s" and "map nr_id t = map nr_id (sq_nodes s)" and "list_all state_ok t"
  shows "sql_inv (s\<lparr> sq_nodes := t \<rparr>)"
proof -
  have "nr_id ` set t = nr_id ` set (sq_nodes s)" using assms(2) by (metis list.set_map)
  with assms show ?thesis by (simp add: sql_inv_defs)
qed

lemma sql_inv_update:
  assumes "sql_inv s" and "\<And>r. nr_id (f r) = nr_id r" and "\<And>r. state_ok r \<Longrightarrow> state_ok (f r)"
  shows "sql_inv (s\<lparr> sq_nodes := update_rows P f (sq_nodes s) \<rparr>)"
proof (rule sql_inv_nodes [OF assms(1)])
  have "list_all state_ok (sq_nodes s)" using assms(1) by (simp add: sql_inv_def rows_ok_def)
  then show "list_all state_ok (update_rows P f (sq_nodes s))" using assms(3) by (rule list_all_update_rows)
qed (simp add: assms(2))

lemma sqlite_update_inv [intro]:
  assumes "sql_inv s"
  shows "sql_inv (snd (sqlite_update_heartbeat now s nid st up))"
    and "sql_inv (snd (sqlite_update_node_state s nid st))"
    and "sql_inv (snd (sqlite_update_annotations s nid sets removes))"
  using assms
  by (auto simp: sqlite_update_heartbeat_def sqlite_update_node_state_def sqlite_update_annotations_def
      split: option.split sum.split intro: sql_inv_update)

lemma mark_offline:
  "map nr_id (fold (\<lambda>nid. update_rows (\<lambda>r. nr_id r = nid) (nr_state_update (\<lambda>_. ''offline''))) ids t) =
     map nr_id t"
  "list_all state_ok t \<Longrightarrow> list_all state_ok
     (fold (\<lambda>nid. update_rows (\<lambda>r. nr_id r = nid) (nr_state_update (\<lambda>_. ''offline''))) ids t)"
  by (induction ids arbitrary: t) simp_all

lemma sqlite_mark_stale_nodes_inv [intro]:
  "sql_inv s \<Longrightarrow> sql_inv (snd (sqlite_mark_stale_nodes now s threshold))"
  unfolding sqlite_mark_stale_nodes_def Let_def snd_conv
  by (rule sql_inv_nodes) (simp_all add: mark_offline sql_inv_def rows_ok_def)

lemma sqlite_register_node_inv [intro]: "sql_inv s \<Longrightarrow> sql_inv (snd (sqlite_register_node s n))"
  by (auto simp: sqlite_register_node_def sql_inv_defs split: sum.split dest!: insert_row_rows)

lemma versions_of_delete:
  "versions_of m (snd (sqlite_remove_node s nid)) = (if m = nid then [] else versions_of m s)"
  by (auto simp: sqlite_remove_node_def versions_of_def delete_rows_def filter_empty_conv intro: filter_cong)

lemma referenced_delete: "referenced (snd (sqlite_remove_node s nid)) = referenced s - {nid}"
  by (auto simp: referenced_def sqlite_remove_node_def image_iff)

lemma sqlite_remove_node_inv [intro]:
  assumes "sql_inv s"
  shows "sql_inv (snd (sqlite_remove_node s nid))"
  unfolding sql_inv_def
proof (intro conjI allI)
  let ?s = "snd (sqlite_remove_node s nid)"
  show "keys_unique ?s" using assms by (simp add: sql_inv_def keys_unique_def sqlite_remove_node_def)
  show "rows_ok ?s" using assms by (simp add: sql_inv_def rows_ok_def sqlite_remove_node_def)
  have "nr_id ` set (sq_nodes ?s) = nr_id ` set (sq_nodes s) - {nid}"
    by (auto simp: sqlite_remove_node_def)
  then show "referenced ?s \<subseteq> nr_id ` set (sq_nodes ?s)"
    using assms by (auto simp: referenced_delete sql_inv_def)
  have "find_row pr_node_id m (sq_policies ?s) = (if m = nid then None else find_row pr_node_id m (sq_policies s))" for m
    by (simp add: sqlite_remove_node_def)
  then show "version_rows_ok (versions_of m ?s) (find_row pr_node_id m (sq_policies ?s))" for m
    using assms by (simp add: versions_of_delete sql_inv_def) (simp add: version_rows_ok_def)
qed

lemma sqlite_guard_inv [simp]:
  "sql_inv (snd (sqlite_begin_deploy s nid)) = sql_inv s"
  "sql_inv (sqlite_end_deploy s nid) = sql_inv s"
  by (simp_all add: sql_inv_defs sqlite_begin_deploy_def sqlite_end_deploy_def)

lemma snd_written: "snd (written msg s r) = (case r of Inl _ \<Rightarrow> s | Inr s' \<Rightarrow> s')"
  by (simp add: written_def split: sum.split)

lemma sqlite_counters_inv [intro]:
  assumes "sql_inv s"
  shows "sql_inv (snd (sqlite_store_counters s nid cs))" and "sql_inv (snd (sqlite_store_flow_counters s nid fs))"
  using assms
  by (auto simp: sqlite_store_counters_def sqlite_store_flow_counters_def snd_written sql_inv_defs
      set_replace_row image_iff)

lemma sqlite_record_deployment_inv [intro]:
  "sql_inv s \<Longrightarrow> sql_inv (snd (sqlite_record_deployment s d))"
  by (auto simp: sqlite_record_deployment_def snd_written sql_inv_defs image_subset_iff
      split: sum.split dest!: insert_row_rows)

lemma sqlite_fsm_inv [intro]:
  assumes "sql_inv s"
  shows "sql_inv (snd (sqlite_store_fsm_definition now s d))"
    and "sql_inv (snd (sqlite_delete_fsm_definition s nm))"
    and "sql_inv (snd (sqlite_store_fsm_instance s i))"
  using assms
  by (auto simp: sqlite_store_fsm_definition_def sqlite_delete_fsm_definition_def
      sqlite_store_fsm_instance_def snd_written sql_inv_defs definition_ok_def instance_ok_def
      split: sum.split dest!: insert_row_rows)

lemma sqlite_update_fsm_instance_inv [intro]:
  "sql_inv s \<Longrightarrow> sql_inv (snd (sqlite_update_fsm_instance s i))"
  by (simp add: sqlite_update_fsm_instance_def Let_def sql_inv_defs)
    (auto simp: list_all_iff set_update_rows instance_ok_def)

lemma sqlite_log_inv [intro]:
  assumes "sql_inv s"
  shows "sql_inv (snd (sqlite_store_event s ev))" and "sql_inv (snd (sqlite_prune_events s t))"
    and "sql_inv (snd (sqlite_try_acquire now s cid dur))" and "sql_inv (snd (sqlite_store_audit s a))"
    and "sql_inv (snd (sqlite_store_template s tp))" and "sql_inv (snd (sqlite_delete_template s nm))"
    and "sql_inv (snd (sqlite_store_webhook_delivery s w))"
  using assms
  by (auto simp: sqlite_store_event_def sqlite_prune_events_def sqlite_try_acquire_def
      sqlite_store_audit_def sqlite_store_template_def sqlite_delete_template_def
      sqlite_store_webhook_delivery_def snd_written sql_inv_defs
      split: sum.split prod.split dest!: insert_row_rows)

text \<open>The version of a new policy.\<close>

lemma sint_small: "k < 2 ^ 63 \<Longrightarrow> sint (word_of_nat k :: u64) = int k"
  by (simp add: signed_of_nat signed_take_bit_int_eq_self)

definition numbered :: "version_row list \<Rightarrow> bool" where
  "numbered vs \<longleftrightarrow> map vr_version vs = map word_of_nat [1..<Suc (length vs)]"

lemma numbered_nth: "numbered vs \<Longrightarrow> k < length vs \<Longrightarrow> vr_version (vs ! k) = word_of_nat (Suc k)"
  unfolding numbered_def by (drule arg_cong [where f = "\<lambda>xs. xs ! k"]) (simp del: upt_Suc)

lemma numbered_sints:
  assumes "numbered vs" and "length vs < 2 ^ 63"
  shows "map (\<lambda>v. sint (vr_version v)) vs = map int [1..<Suc (length vs)]"
  by (rule nth_equalityI) (use assms in \<open>simp_all add: numbered_nth sint_small del: upt_Suc of_nat_Suc\<close>)

lemma numbered_snoc: "numbered vs \<Longrightarrow> vr_version v = word_of_nat (Suc (length vs)) \<Longrightarrow> numbered (vs @ [v])"
  by (simp add: numbered_def)

lemma max_version_numbered:
  assumes "numbered vs" and "length vs < 2 ^ 63"
  shows "(case max_version vs of None \<Rightarrow> 0 | Some v \<Rightarrow> v) = word_of_nat (length vs)"
proof (cases "vs = []")
  case False
  then have "Max (set (map int [1..<Suc (length vs)])) = int (length vs)"
    by (intro Max_eqI) (auto simp: image_iff Suc_le_eq)
  with False show ?thesis by (simp add: max_version_def numbered_sints [OF assms] del: upt_Suc)
qed (simp add: max_version_def)

lemma order_desc_numbered:
  assumes "numbered vs" and "length vs < 2 ^ 63"
  shows "order_desc (\<lambda>v. sint (vr_version v)) vs = rev vs"
proof (rule order_desc_increasing)
  have "sorted_wrt (<) (map (\<lambda>v. sint (vr_version v)) vs)"
    by (simp add: numbered_sints [OF assms] sorted_wrt_map del: upt_Suc)
  then show "sorted_wrt (\<lambda>a b. sint (vr_version a) < sint (vr_version b)) vs" by (simp add: sorted_wrt_map)
qed

lemma sqlite_store_policy_rows:
  assumes "sqlite_store_policy s p = (r, s')" and "has_row nr_id (pol_node_id p) (sq_nodes s)"
  obtains v where "r = Inr v"
    and "s' = s\<lparr> sq_policy_versions := sq_policy_versions s @ [\<lparr> vr_version = v, vr_policy = policy_to_row p \<rparr>],
                sq_policies := replace_row pr_node_id (policy_to_row p) (sq_policies s) \<rparr>"
    and "v = (case max_version (versions_of (pol_node_id p) s) of None \<Rightarrow> 0 | Some v \<Rightarrow> v) + 1"
  using assms by (auto simp: sqlite_store_policy_def Let_def)

lemma versions_of_store:
  "versions_of m (s\<lparr> sq_policy_versions := sq_policy_versions s @ [v], sq_policies := t \<rparr>) =
     versions_of m s @ (if pr_node_id (vr_policy v) = m then [v] else [])"
  by (simp add: versions_of_def)

lemma version_rows_ok_store:
  assumes "version_rows_ok vs p"
    and "vr_version v = (case max_version vs of None \<Rightarrow> 0 | Some v \<Rightarrow> v) + 1"
  shows "version_rows_ok (vs @ [v]) (Some (vr_policy v))"
proof -
  have "numbered (vs @ [v])" if "Suc (length vs) < 2 ^ 63"
  proof -
    have n: "numbered vs" "length vs < 2 ^ 63" using assms(1) that by (simp_all add: version_rows_ok_def numbered_def)
    show ?thesis by (rule numbered_snoc [OF n(1)]) (simp add: assms(2) max_version_numbered [OF n])
  qed
  then show ?thesis by (simp add: version_rows_ok_def numbered_def del: upt_Suc)
qed

lemma sqlite_store_policy_inv [intro]:
  assumes "sql_inv s"
  shows "sql_inv (snd (sqlite_store_policy s p))"
proof (cases "has_row nr_id (pol_node_id p) (sq_nodes s)")
  case False
  then show ?thesis using assms by (simp add: sqlite_store_policy_def Let_def)
next
  case True
  obtain r s' where e: "sqlite_store_policy s p = (r, s')" by (metis surj_pair)
  from e True obtain v where
    s': "s' = s\<lparr> sq_policy_versions := sq_policy_versions s @ [\<lparr> vr_version = v, vr_policy = policy_to_row p \<rparr>],
                sq_policies := replace_row pr_node_id (policy_to_row p) (sq_policies s) \<rparr>"
    and v: "v = (case max_version (versions_of (pol_node_id p) s) of None \<Rightarrow> 0 | Some v \<Rightarrow> v) + 1"
    by (rule sqlite_store_policy_rows)
  have ver: "version_rows_ok (versions_of m s) (find_row pr_node_id m (sq_policies s))" for m
    using assms by (simp add: sql_inv_def)
  have "version_rows_ok (versions_of m s') (find_row pr_node_id m (sq_policies s'))" for m
    using version_rows_ok_store [OF ver [of "pol_node_id p"], of "\<lparr> vr_version = v, vr_policy = policy_to_row p \<rparr>"]
      ver [of m] v
    by (simp add: s' versions_of_store)
  moreover have "keys_unique s'" "rows_ok s'" "referenced s' \<subseteq> nr_id ` set (sq_nodes s')"
    using assms True by (auto simp: s' sql_inv_def keys_unique_def rows_ok_def referenced_def set_replace_row)
  ultimately show ?thesis using e by (simp add: sql_inv_def)
qed

subsection \<open>The contract of the trait\<close>

definition ok_node :: "node_row \<Rightarrow> node option" where
  "ok_node r = (case row_to_node r of Inl _ \<Rightarrow> None | Inr n \<Rightarrow> Some n)"

definition sql_abs :: "sqlite_storage \<Rightarrow> astore" where
  "sql_abs s =
     \<lparr> as_nodes = (\<lambda>nid. Option.bind (find_row nr_id nid (sq_nodes s)) ok_node),
       as_policies = (\<lambda>nid. map_option row_to_policy (find_row pr_node_id nid (sq_policies s))),
       as_versions = (\<lambda>nid. rev (map row_to_policy_version
         (order_desc (\<lambda>v. sint (vr_version v)) (versions_of nid s)))),
       as_deployments = (\<lambda>nid. oks row_to_deployment (filter (\<lambda>r. er_node_id r = nid) (sq_deployments s))),
       as_deploying = sq_deploying s,
       as_definitions = (\<lambda>nm. map_option dw_definition (find_row dw_name nm (sq_fsm_definitions s))),
       as_instances = (\<lambda>iid. map_option ir_instance (find_row ir_instance_id iid (sq_fsm_instances s))) \<rparr>"

lemma sql_abs_sel [simp]:
  "as_nodes (sql_abs s) nid = Option.bind (find_row nr_id nid (sq_nodes s)) ok_node"
  "as_policies (sql_abs s) nid = map_option row_to_policy (find_row pr_node_id nid (sq_policies s))"
  "as_versions (sql_abs s) nid = rev (map row_to_policy_version
     (order_desc (\<lambda>v. sint (vr_version v)) (versions_of nid s)))"
  "as_deployments (sql_abs s) nid =
     oks row_to_deployment (filter (\<lambda>r. er_node_id r = nid) (sq_deployments s))"
  "as_deploying (sql_abs s) = sq_deploying s"
  "as_definitions (sql_abs s) nm = map_option dw_definition (find_row dw_name nm (sq_fsm_definitions s))"
  "as_instances (sql_abs s) iid = map_option ir_instance (find_row ir_instance_id iid (sq_fsm_instances s))"
  by (simp_all add: sql_abs_def)

lemma astore_eqI:
  assumes "\<And>k. as_nodes a k = as_nodes b k" and "\<And>k. as_policies a k = as_policies b k"
    and "\<And>k. as_versions a k = as_versions b k" and "\<And>k. as_deployments a k = as_deployments b k"
    and "as_deploying a = as_deploying b" and "\<And>k. as_definitions a k = as_definitions b k"
    and "\<And>k. as_instances a k = as_instances b k"
  shows "a = (b :: astore)"
  using assms by (intro astore.equality ext) simp_all

lemma ok_node_row [simp]: "ok_node (node_to_row n) = Some n"
  by (simp add: ok_node_def)

lemma state_ok_node: "state_ok r \<Longrightarrow> \<exists>n. r = node_to_row n"
proof -
  assume "state_ok r"
  then obtain st where st: "nr_state r = node_state_to_string st" by (auto simp: state_ok_def)
  obtain n where "row_to_node r = Inr n" by (simp add: row_to_node_def st)
  then have "r = node_to_row n" by (auto simp: row_to_node_def st node_to_row_def)
  then show ?thesis ..
qed

lemma find_node_row:
  assumes "sql_inv s" and "find_row nr_id nid (sq_nodes s) = Some r"
  obtains n where "r = node_to_row n" and "n_node_id n = nid"
proof -
  have "state_ok r" "nr_id r = nid"
    using assms find_row_SomeD [OF assms(2)] by (auto simp: sql_inv_def rows_ok_def list_all_iff)
  then show ?thesis using state_ok_node that by fastforce
qed

lemma row_with_state [simp]:
  "nr_state_update (\<lambda>_. node_state_to_string st) (node_to_row n) = node_to_row (n\<lparr> n_state := st \<rparr>)"
  by (simp add: node_to_row_def)

lemma has_node_iff: "sql_inv s \<Longrightarrow> as_nodes (sql_abs s) nid \<noteq> None \<longleftrightarrow> has_row nr_id nid (sq_nodes s)"
  using find_row_None [of nr_id nid "sq_nodes s"]
  by (cases "find_row nr_id nid (sq_nodes s)") (auto elim: find_node_row)

lemma sqlite_get_node_abs: "sql_inv s \<Longrightarrow> sqlite_get_node s nid = Inr (as_nodes (sql_abs s) nid)"
  by (cases "find_row nr_id nid (sq_nodes s)") (auto simp: sqlite_get_node_def elim: find_node_row)

lemma node_rows: "list_all state_ok t \<Longrightarrow> \<exists>ns. t = map node_to_row ns"
proof (induction t)
  case (Cons r t)
  then obtain n ns where "r = node_to_row n" "t = map node_to_row ns" using state_ok_node by fastforce
  then have "r # t = map node_to_row (n # ns)" by simp
  then show ?case by (rule exI)
qed simp

lemma oks_rows [simp]: "oks row_to_node (map node_to_row ns) = ns"
  by (induction ns) (simp_all add: oks_def List.map_filter_simps)

lemma sqlite_list_nodes_abs:
  assumes "sql_inv s"
  shows "\<exists>ns. sqlite_list_nodes s lf = Inr ns \<and> distinct (map n_node_id ns) \<and>
    (\<forall>n. n \<in> set ns \<longleftrightarrow> as_nodes (sql_abs s) (n_node_id n) = Some n \<and> labels_match lf n)"
proof -
  obtain ns where ns: "sq_nodes s = map node_to_row ns"
    using assms node_rows [of "sq_nodes s"] by (auto simp: sql_inv_def rows_ok_def)
  have d: "distinct (map n_node_id ns)"
    using assms by (simp add: sql_inv_def keys_unique_def ns comp_def)
  have "as_nodes (sql_abs s) (n_node_id n) = Some n \<longleftrightarrow> n \<in> set ns" for n
  proof
    assume "n \<in> set ns"
    then show "as_nodes (sql_abs s) (n_node_id n) = Some n"
      using find_row_mem [of nr_id "sq_nodes s" "node_to_row n"] d by (simp add: ns comp_def)
  next
    assume "as_nodes (sql_abs s) (n_node_id n) = Some n"
    then show "n \<in> set ns" by (auto simp: ns bind_eq_Some_conv dest!: find_row_SomeD)
  qed
  then show ?thesis using d by (simp add: sqlite_list_nodes_def ns distinct_map_filter)
qed

lemma sqlite_update_node_state_abs:
  assumes "sql_inv s" and "sqlite_update_node_state s nid st = (r, s')"
  shows "a_update_node_state (sql_abs s) nid st = (r, sql_abs s')"
proof (cases "find_row nr_id nid (sq_nodes s)")
  case None
  then show ?thesis using assms(2) by (simp add: sqlite_update_node_state_def a_update_node_state_def)
next
  case (Some row)
  then obtain n where n: "row = node_to_row n" "n_node_id n = nid" by (rule find_node_row [OF assms(1)])
  show ?thesis
  proof (cases "can_transition_to (n_state n) st")
    case False
    then show ?thesis using assms(2) Some n
      by (simp add: sqlite_update_node_state_def a_update_node_state_def)
  next
    case True
    have "sql_abs s' = a_set_state nid st (sql_abs s)"
      by (rule astore_eqI)
        (use assms(2) Some n True in \<open>auto simp: sqlite_update_node_state_def a_set_state_def find_row_update versions_of_def\<close>)
    then show ?thesis using assms(2) Some n True
      by (simp add: sqlite_update_node_state_def a_update_node_state_def)
  qed
qed

lemma sqlite_remove_node_abs:
  assumes "sql_inv s" and "sqlite_remove_node s nid = (r, s')"
  shows "r = fst (a_remove_node (sql_abs s) nid)"
    and "sql_abs s' = (snd (a_remove_node (sql_abs s) nid))\<lparr> as_deployments := as_deployments (sql_abs s') \<rparr>"
proof -
  have s': "s' = snd (sqlite_remove_node s nid)" using assms(2) by simp
  show "r = fst (a_remove_node (sql_abs s) nid)"
    using assms has_node_iff [OF assms(1), of nid] by (auto simp: sqlite_remove_node_def a_remove_node_def)
  show "sql_abs s' = (snd (a_remove_node (sql_abs s) nid))\<lparr> as_deployments := as_deployments (sql_abs s') \<rparr>"
    by (rule astore_eqI)
      (simp_all add: s' versions_of_delete a_remove_node_def, simp_all add: sqlite_remove_node_def order_desc_def)
qed

text \<open>The versions in the order of their numbers are the rows in the order of insertion.\<close>

lemma as_versions_numbered:
  assumes "numbered (versions_of nid s)" and "length (versions_of nid s) < 2 ^ 63"
  shows "as_versions (sql_abs s) nid = map row_to_policy_version (versions_of nid s)"
  by (simp add: order_desc_numbered [OF assms] rev_map)

lemma sql_inv_numbered: "sql_inv s \<Longrightarrow> length (versions_of nid s) < 2 ^ 63 \<Longrightarrow> numbered (versions_of nid s)"
  by (simp add: sql_inv_def version_rows_ok_def numbered_def del: upt_Suc)

lemma length_as_versions [simp]: "length (as_versions (sql_abs s) nid) = length (versions_of nid s)"
  by simp

lemma sqlite_store_policy_only:
  assumes "sql_inv s" and "sqlite_store_policy s p = (r, s')"
  shows "only_policy_data (pol_node_id p) (sql_abs s) (sql_abs s')"
proof (cases "has_row nr_id (pol_node_id p) (sq_nodes s)")
  case False
  then show ?thesis using assms(2) by (simp add: sqlite_store_policy_def Let_def)
next
  case True
  from assms(2) True obtain v where
    "s' = s\<lparr> sq_policy_versions := sq_policy_versions s @ [\<lparr> vr_version = v, vr_policy = policy_to_row p \<rparr>],
              sq_policies := replace_row pr_node_id (policy_to_row p) (sq_policies s) \<rparr>"
    by (rule sqlite_store_policy_rows)
  then show ?thesis by (auto simp: only_policy_data_def fun_eq_iff versions_of_store)
qed

lemma sqlite_store_policy_abs:
  assumes "sql_inv s" and "as_nodes (sql_abs s) (pol_node_id p) \<noteq> None"
    and "length (as_versions (sql_abs s) (pol_node_id p)) < 2 ^ 63 - 1"
    and "sqlite_store_policy s p = (r, s')"
  shows "a_store_policy (sql_abs s) p = (r, sql_abs s')"
proof -
  let ?nid = "pol_node_id p" and ?vs = "versions_of (pol_node_id p) s"
  have l: "length ?vs < 2 ^ 63" "length ?vs < 2 ^ 63 - 1" using assms(3) by simp_all
  have n: "numbered ?vs" by (rule sql_inv_numbered [OF assms(1) l(1)])
  have "has_row nr_id ?nid (sq_nodes s)" using assms(1,2) has_node_iff by blast
  from assms(4) this obtain v where r: "r = Inr v" and
    s': "s' = s\<lparr> sq_policy_versions := sq_policy_versions s @ [\<lparr> vr_version = v, vr_policy = policy_to_row p \<rparr>],
                sq_policies := replace_row pr_node_id (policy_to_row p) (sq_policies s) \<rparr>"
    and v: "v = (case max_version ?vs of None \<Rightarrow> 0 | Some v \<Rightarrow> v) + 1"
    by (rule sqlite_store_policy_rows)
  have v': "v = word_of_nat (length ?vs) + 1" by (simp only: v max_version_numbered [OF n l(1)])
  have vs': "versions_of ?nid s' = ?vs @ [\<lparr> vr_version = v, vr_policy = policy_to_row p \<rparr>]"
    by (simp add: s' versions_of_store)
  have n': "numbered (versions_of ?nid s')"
    unfolding vs' by (rule numbered_snoc [OF n]) (simp add: v')
  have l': "length (versions_of ?nid s') < 2 ^ 63" using l(2) by (simp add: vs')
  have "as_versions (sql_abs s') ?nid = as_versions (sql_abs s) ?nid @ [version_of_policy v p]"
    unfolding as_versions_numbered [OF n l(1)] as_versions_numbered [OF n' l'] vs' by simp
  moreover have "as_versions (sql_abs s') m = as_versions (sql_abs s) m" if "m \<noteq> ?nid" for m
    using that by (simp add: s' versions_of_store)
  moreover have "as_nodes (sql_abs s') = as_nodes (sql_abs s)" "as_deployments (sql_abs s') = as_deployments (sql_abs s)"
    "as_deploying (sql_abs s') = as_deploying (sql_abs s)" "as_definitions (sql_abs s') = as_definitions (sql_abs s)"
    "as_instances (sql_abs s') = as_instances (sql_abs s)"
    "as_policies (sql_abs s') = (as_policies (sql_abs s))(?nid \<mapsto> p)"
    by (simp_all add: s' fun_eq_iff)
  ultimately have "sql_abs s' = snd (a_store_policy (sql_abs s) p)"
    by (intro astore_eqI) (simp_all add: a_store_policy_def Let_def v' del: sql_abs_sel(3) length_as_versions, simp_all)
  then show ?thesis by (simp add: a_store_policy_def Let_def r v')
qed

lemma sqlite_record_deployment_abs:
  assumes "sql_inv s" and "sqlite_record_deployment s d = (r, s')"
  shows "r = Inr u \<Longrightarrow> sql_abs s' = snd (a_record_deployment (sql_abs s) d)"
    and "sql_abs s' = sql_abs s \<or> sql_abs s' = snd (a_record_deployment (sql_abs s) d)"
proof -
  have "r = Inr u \<and> s' = s\<lparr> sq_deployments := sq_deployments s @ [deployment_to_row d] \<rparr> \<or> s' = s \<and> r \<noteq> Inr u" for u
    using assms(2)
    by (auto simp: sqlite_record_deployment_def written_def split: sum.splits if_splits dest!: insert_row_rows)
  moreover have "sql_abs (s\<lparr> sq_deployments := sq_deployments s @ [deployment_to_row d] \<rparr>) =
      snd (a_record_deployment (sql_abs s) d)"
    by (rule astore_eqI) (simp_all add: a_record_deployment_def versions_of_def oks_def List.map_filter_def)
  ultimately show "r = Inr u \<Longrightarrow> sql_abs s' = snd (a_record_deployment (sql_abs s) d)"
    and "sql_abs s' = sql_abs s \<or> sql_abs s' = snd (a_record_deployment (sql_abs s) d)"
    by metis+
qed

lemma sqlite_guard_abs:
  "sqlite_begin_deploy s nid = (r, s') \<Longrightarrow> a_begin_deploy (sql_abs s) nid = (r, sql_abs s')"
  "sql_abs (sqlite_end_deploy s nid) = a_end_deploy (sql_abs s) nid"
  by (auto simp: sqlite_begin_deploy_def a_begin_deploy_def sqlite_end_deploy_def a_end_deploy_def
      versions_of_def intro!: astore_eqI split: if_splits)

lemma sqlite_store_fsm_instance_abs:
  assumes "as_instances (sql_abs s) (fi_instance_id i) = None" and "sqlite_store_fsm_instance s i = (r, s')"
  shows "a_store_fsm_instance (sql_abs s) i = (r, sql_abs s')"
proof -
  have "fi_instance_id i \<notin> ir_instance_id ` set (sq_fsm_instances s)"
    using assms(1) by (simp add: find_row_None)
  then show ?thesis
    using assms
    by (auto simp: sqlite_store_fsm_instance_def written_def insert_row_fresh a_store_fsm_instance_def
        versions_of_def intro!: astore_eqI split: option.splits)
qed

lemma sqlite_update_fsm_instance_abs:
  assumes "sqlite_update_fsm_instance s i = (r, s')"
  shows "a_update_fsm_instance (sql_abs s) i = (r, sql_abs s')"
proof (cases "fi_instance_id i \<in> ir_instance_id ` set (sq_fsm_instances s)")
  case False
  then have n: "find_row ir_instance_id (fi_instance_id i) (sq_fsm_instances s) = None"
    by (simp add: find_row_None)
  have "update_rows (\<lambda>r. ir_instance_id r = fi_instance_id i) f (sq_fsm_instances s) = sq_fsm_instances s" for f
    unfolding update_rows_def by (rule map_idI) (use False in \<open>auto simp: image_iff\<close>)
  then show ?thesis using assms False n by (auto simp: sqlite_update_fsm_instance_def a_update_fsm_instance_def Let_def)
next
  case True
  then obtain x where "find_row ir_instance_id (fi_instance_id i) (sq_fsm_instances s) = Some x"
    using find_row_None [of ir_instance_id "fi_instance_id i" "sq_fsm_instances s"] by auto
  then show ?thesis using assms True
    by (auto simp: sqlite_update_fsm_instance_def a_update_fsm_instance_def Let_def find_row_update
        versions_of_def intro!: astore_eqI)
qed

lemma distinct_order_desc: "distinct (map g (order_desc f t)) = distinct (map g t)"
  by (simp add: distinct_map order_desc_def)

lemma instance_row_iff:
  assumes "sql_inv s"
  shows "as_instances (sql_abs s) (fi_instance_id i) = Some i \<longleftrightarrow> (\<exists>r \<in> set (sq_fsm_instances s). ir_instance r = i)"
proof
  assume "as_instances (sql_abs s) (fi_instance_id i) = Some i"
  then show "\<exists>r \<in> set (sq_fsm_instances s). ir_instance r = i" by (auto dest: find_row_SomeD)
next
  assume "\<exists>r \<in> set (sq_fsm_instances s). ir_instance r = i"
  then obtain r where r: "r \<in> set (sq_fsm_instances s)" "ir_instance r = i" by blast
  moreover have "ir_instance_id r = fi_instance_id i" "distinct (map ir_instance_id (sq_fsm_instances s))"
    using assms r by (auto simp: sql_inv_def rows_ok_def keys_unique_def list_all_iff instance_ok_def)
  ultimately show "as_instances (sql_abs s) (fi_instance_id i) = Some i"
    using find_row_mem [of ir_instance_id "sq_fsm_instances s" r] by simp
qed

lemma sqlite_list_fsm_instances_abs:
  assumes "sql_inv s"
  shows "\<exists>xs. sqlite_list_fsm_instances s None st = Inr xs \<and> distinct (map fi_instance_id xs) \<and>
    (\<forall>i. i \<in> set xs \<longleftrightarrow> as_instances (sql_abs s) (fi_instance_id i) = Some i \<and>
       is_none_or (\<lambda>x. fi_status i = x) st)"
proof -
  let ?t = "sq_fsm_instances s"
  let ?u = "filter (\<lambda>r. is_none_or (\<lambda>x. fi_status (ir_instance r) = x) st) ?t"
  have ok: "r \<in> set ?t \<Longrightarrow> instance_ok r" for r
    using assms by (auto simp: sql_inv_def rows_ok_def list_all_iff)
  have "filter (\<lambda>r. is_none_or (\<lambda>x. ir_status r = status_to_string x) st) ?t = ?u"
    by (rule filter_cong) (auto simp: is_none_or_def instance_ok_def dest: ok split: option.split)
  then have u: "sqlite_list_fsm_instances s None st = Inr (map ir_instance (order_desc ir_created_at ?u))"
    by (simp add: sqlite_list_fsm_instances_def is_none_or_def)
  have "map (fi_instance_id \<circ> ir_instance) ?u = map ir_instance_id ?u"
    by (rule map_cong) (auto simp: instance_ok_def dest: ok)
  moreover have "distinct (map ir_instance_id ?u)"
    using assms by (simp add: sql_inv_def keys_unique_def distinct_map_filter)
  ultimately have "distinct (map (fi_instance_id \<circ> ir_instance) ?u)" by (simp only:)
  then have "distinct (map fi_instance_id (map ir_instance (order_desc ir_created_at ?u)))"
    by (simp add: distinct_order_desc)
  then show ?thesis unfolding u instance_row_iff [OF assms] by auto
qed

lemma sqlite_definition_abs:
  "sqlite_get_fsm_definition s nm = Inr (as_definitions (sql_abs s) nm)"
  "sqlite_get_fsm_instance s iid = Inr (as_instances (sql_abs s) iid)"
  "sqlite_get_policy s nid = Inr (as_policies (sql_abs s) nid)"
  "sqlite_get_policy_history s nid limit = Inr (take (unat limit) (rev (as_versions (sql_abs s) nid)))"
  by (simp_all add: sqlite_get_fsm_definition_def sqlite_get_fsm_instance_def sqlite_get_policy_def
      sqlite_get_policy_history_def take_map)

lemma find_node_key: "sql_inv s \<Longrightarrow> as_nodes (sql_abs s) nid = Some n \<Longrightarrow> n_node_id n = nid"
  by (auto simp: bind_eq_Some_conv elim: find_node_row)

lemma find_instance_key: "sql_inv s \<Longrightarrow> as_instances (sql_abs s) iid = Some i \<Longrightarrow> fi_instance_id i = iid"
  by (auto simp: sql_inv_def rows_ok_def list_all_iff instance_ok_def dest!: find_row_SomeD)

interpretation sql: node_storage sqlite_ops sql_abs sql_inv
proof (unfold_locales, goal_cases)
  case (1 s nid) then show ?case by (simp only: sqlite_ops_sel sqlite_get_node_abs)
next
  case (2 s nid n) then show ?case by (rule find_node_key)
next
  case (3 s lf) then show ?case unfolding sqlite_ops_sel by (rule sqlite_list_nodes_abs)
next
  case (4 s nid st r s')
  then show ?case using sqlite_update_inv(2) [of s nid st] by (simp add: sqlite_update_node_state_abs)
next
  case (5 s nid r s')
  then show ?case using sqlite_remove_node_inv [of s nid] sqlite_remove_node_abs [of s nid r s'] by simp
qed

interpretation sql: guard_storage sqlite_ops sql_abs sql_inv
proof (unfold_locales, goal_cases)
  case (1 s nid r s')
  then show ?case using sqlite_guard_inv(1) [of s nid] by (simp add: sqlite_guard_abs)
qed (simp add: sqlite_guard_abs)

interpretation sql: policy_storage sqlite_ops sql_abs sql_inv
proof (unfold_locales, goal_cases)
  case (3 s p r s') then show ?case unfolding sqlite_ops_sel by (rule sqlite_store_policy_abs)
next
  case (4 s p r s')
  then show ?case using sqlite_store_policy_inv [of s p] sqlite_store_policy_only [of s p r s'] by simp
next
  case (5 s d u s') then show ?case using sqlite_record_deployment_abs(1) [of s d "Inr u" s' u] by simp
next
  case (6 s d r s')
  then show ?case using sqlite_record_deployment_inv [of s d] sqlite_record_deployment_abs(2) [of s d r s'] by simp
qed (simp_all only: sqlite_ops_sel sqlite_definition_abs)

interpretation sql: fsm_storage sqlite_ops sql_abs sql_inv
proof (unfold_locales, goal_cases)
  case (3 s iid i) then show ?case by (rule find_instance_key)
next
  case (4 s i r s')
  then show ?case using sqlite_fsm_inv(3) [of s i] by (simp add: sqlite_store_fsm_instance_abs)
next
  case (5 s i r s')
  then show ?case using sqlite_update_fsm_instance_inv [of s i] by (simp add: sqlite_update_fsm_instance_abs)
next
  case (6 s st) then show ?case unfolding sqlite_ops_sel by (rule sqlite_list_fsm_instances_abs)
qed (simp_all only: sqlite_ops_sel sqlite_definition_abs)

interpretation sql: storage sqlite_ops sql_abs sql_inv
  by unfold_locales


subsection \<open>Reachable databases\<close>

inductive sql_step :: "sqlite_storage \<Rightarrow> sqlite_storage \<Rightarrow> bool" where
  "sql_step s (snd (sqlite_register_node s n))"
| "sql_step s (snd (sqlite_remove_node s nid))"
| "sql_step s (snd (sqlite_update_heartbeat now s nid st up))"
| "sql_step s (snd (sqlite_update_node_state s nid st))"
| "sql_step s (snd (sqlite_mark_stale_nodes now s threshold))"
| "sql_step s (snd (sqlite_update_annotations s nid sets removes))"
| "sql_step s (snd (sqlite_store_counters s nid cs))"
| "sql_step s (snd (sqlite_store_flow_counters s nid fs))"
| "sql_step s (snd (sqlite_store_policy s p))"
| "sql_step s (snd (sqlite_record_deployment s d))"
| "sql_step s (snd (sqlite_begin_deploy s nid))"
| "sql_step s (snd (sqlite_store_fsm_definition now s fd))"
| "sql_step s (snd (sqlite_delete_fsm_definition s nm))"
| "sql_step s (snd (sqlite_store_fsm_instance s i))"
| "sql_step s (snd (sqlite_update_fsm_instance s i))"
| "sql_step s (snd (sqlite_store_event s ev))"
| "sql_step s (snd (sqlite_prune_events s t))"
| "sql_step s (snd (sqlite_try_acquire now s cid dur))"
| "sql_step s (snd (sqlite_store_audit s a))"
| "sql_step s (snd (sqlite_store_template s tp))"
| "sql_step s (snd (sqlite_delete_template s nm))"
| "sql_step s (snd (sqlite_store_webhook_delivery s w))"
| "sql_step s (sqlite_end_deploy s nid)"

inductive sql_reachable :: "sqlite_storage \<Rightarrow> bool" where
  start: "sql_reachable sqlite_open"
| step: "sql_reachable s \<Longrightarrow> sql_step s s' \<Longrightarrow> sql_reachable s'"

lemma sql_step_inv: "sql_step s s' \<Longrightarrow> sql_inv s \<Longrightarrow> sql_inv s'"
  by (induction rule: sql_step.induct) (auto simp del: snd_conv)

lemma sql_reachable_sql_inv: "sql_reachable s \<Longrightarrow> sql_inv s"
  by (induction rule: sql_reachable.induct) (simp, rule sql_step_inv)

subsection \<open>Properties\<close>

text \<open>C9: In every database the SQLite backend can reach, keys are unique, no row of another table
  refers to a node that is not there, every node row reads back as a node, a node has a current
  policy exactly when it has a version, and removing a node leaves no row that refers to it.\<close>

theorem sqlite_integrity:
  assumes "sql_reachable s"
  shows "keys_unique s \<and> referenced s \<subseteq> nr_id ` set (sq_nodes s) \<and>
    (\<exists>ns. sqlite_list_nodes s [] = Inr ns \<and> map n_node_id ns = map nr_id (sq_nodes s)) \<and>
    (sqlite_get_policy s nid = Inr None \<longleftrightarrow> sqlite_get_policy_history s nid (2 ^ 31) = Inr []) \<and>
    nid \<notin> referenced (snd (sqlite_remove_node s nid))"
proof -
  have i: "sql_inv s" using assms by (rule sql_reachable_sql_inv)
  obtain ns where ns: "sq_nodes s = map node_to_row ns"
    using i node_rows [of "sq_nodes s"] by (auto simp: sql_inv_def rows_ok_def)
  have "version_rows_ok (versions_of nid s) (find_row pr_node_id nid (sq_policies s))"
    using i by (simp add: sql_inv_def)
  then have "find_row pr_node_id nid (sq_policies s) = None \<longleftrightarrow> versions_of nid s = []"
    by (auto simp: version_rows_ok_def split: option.splits)
  then have p: "sqlite_get_policy s nid = Inr None \<longleftrightarrow> sqlite_get_policy_history s nid (2 ^ 31) = Inr []"
    by (simp add: sqlite_definition_abs)
  show ?thesis
    using i p by (simp add: sql_inv_def referenced_delete) (simp add: sqlite_list_nodes_def labels_match_def ns)
qed

lemma agree_step:
  assumes "\<And>r s'. f = (r, s') \<Longrightarrow> x = (r, al s')" and "\<And>r m'. g = (r, m') \<Longrightarrow> x = (r, be m')"
  shows "map_prod (\<lambda>r. r) al f = map_prod (\<lambda>r. r) be g"
  using assms(1) [of "fst f" "snd f"] assms(2) [of "fst g" "snd g"] by (simp add: map_prod_def case_prod_unfold)

text \<open>Lists without repetition of the same things are the same up to order.\<close>

lemma same_members:
  assumes "f = Inr xs \<and> distinct (map key xs) \<and> (\<forall>x. x \<in> set xs \<longleftrightarrow> P x)"
    and "g = Inr ys \<and> distinct (map key ys) \<and> (\<forall>x. x \<in> set ys \<longleftrightarrow> P x)"
  shows "\<exists>xs ys. f = Inr xs \<and> g = Inr ys \<and> mset xs = mset ys"
proof -
  have "set xs = set ys" using assms by auto
  moreover have "distinct xs" "distinct ys" using assms distinct_map by blast+
  ultimately show ?thesis using assms set_eq_iff_mset_eq_distinct by blast
qed



text \<open>Where the backends differ: counters of an unknown node, which SQLite refuses.\<close>

lemma sqlite_store_counters_unknown:
  assumes "sql_reachable s" and "as_nodes (sql_abs s) nid = None"
  shows "sqlite_store_counters s nid cs =
      (Inl (Internal foreign_key_failed), s)"
    and "fst (mem_store_counters m nid cs) = Inr ()"
proof -
  have "\<not> has_row nr_id nid (sq_nodes s)"
    using has_node_iff [OF sql_reachable_sql_inv [OF assms(1)], of nid] assms(2) by blast
  then show "sqlite_store_counters s nid cs =
      (Inl (Internal foreign_key_failed), s)"
    by (simp add: sqlite_store_counters_def written_def del: has_row_iff)
qed (simp add: mem_store_counters_def)

lemma sqlite_events_stored:
  "distinct (map pe_id (sq_events s @ es)) \<Longrightarrow>
     sq_events (fold (\<lambda>e s. snd (sqlite_store_event s e)) es s) = sq_events s @ es"
  by (induction es arbitrary: s) (simp_all add: sqlite_store_event_def insert_row_fresh snd_written)

text \<open>While the log has at most 10000 events with distinct ids and increasing timestamps, the two
  backends answer every event query alike, whatever its filters and limit, and count the same.\<close>

theorem sqlite_event_queries_agree:
  assumes "distinct (map pe_id es)" and "sorted_wrt (\<lambda>a b. pe_timestamp a < pe_timestamp b) es"
    and "length es \<le> 10000"
    and "s = fold (\<lambda>e s. snd (sqlite_store_event s e)) es sqlite_open"
    and "m = fold (\<lambda>e s. snd (mem_store_event s e)) es mem_default"
  shows "sqlite_query_events s event_type source since til limit =
      mem_query_events m event_type source since til limit \<and>
    sqlite_count_events s = mem_count_events m"
proof -
  have s: "sq_events s = es"
    using sqlite_events_stored [of sqlite_open es] assms(1) by (simp add: assms(4) sqlite_open_def)
  have m: "ms_events m = es"
    using push_bounded_fold [of 10000 "[]" es] assms(3)
    by (simp add: assms(5) ms_events_store_events max_memory_events_def mem_default_def)
  have "order_desc pe_timestamp (filter P es) = filter P (rev es)" for P
    by (simp add: order_desc_increasing [OF assms(2)] flip: filter_order_desc)
  then show ?thesis
    by (simp add: sqlite_query_events_def mem_query_events_def s m sqlite_count_events_def
        mem_count_events_def conj_ac)
qed

end
