(* ===== verification/Sqlite_Api.thy ===== *)
theory Sqlite_Api
  imports Sqlite_Run
begin

text \<open>
  The handlers of the controller on the SQLite backend.  Their lemmas are proved for any backend that
  keeps the contract of the storage trait, so the interpretation of the contract on SQLite carries
  them over: whole handlers keep the integrity of the database and give the deploy guard back.
\<close>

text \<open>On a database that was reached, a deploy, a rollback and a batch deploy keep the integrity of
  the database, whatever the agents answer and whichever statements are refused, give every guard
  back, and change at most the nodes they name, and not those that are being deployed.\<close>

theorem sqlite_handlers_keep_integrity:
  fixes w :: "sqlite_storage world" and e req nid target breq and order :: "node list \<Rightarrow> node list"
  assumes "sql_reachable (w_store w)" and "\<And>ns. set (order ns) = set ns"
  defines "D \<equiv> sq_deploying (w_store w)" and "a \<equiv> sql_abs (w_store w)"
  defines "w1 \<equiv> snd (deploy_policy sqlite_ops e req w)"
    and "w2 \<equiv> snd (rollback_policy sqlite_ops e nid target w)"
    and "w3 \<equiv> snd (batch_deploy_policy sqlite_ops e order breq w)"
  shows "sql_inv (w_store w1) \<and> sql_inv (w_store w2) \<and> sql_inv (w_store w3) \<and>
    sq_deploying (w_store w1) = D \<and> sq_deploying (w_store w2) = D \<and> sq_deploying (w_store w3) = D \<and>
    deploy_frame ({dq_node_id req} - D) a (sql_abs (w_store w1)) \<and>
    deploy_frame ({nid} - D) a (sql_abs (w_store w2)) \<and>
    deploy_frame (batch_nodes a (bq_label_filter breq) - D) a (sql_abs (w_store w3))"
proof -
  have i: "sql_inv (w_store w)" using assms(1) by (rule sql_reachable_sql_inv)
  have f1: "sql_inv (w_store w1)" "deploy_frame ({dq_node_id req} - D) a (sql_abs (w_store w1))"
    using sql.deploy_policy_frame [OF i, of e req "fst (deploy_policy sqlite_ops e req w)" w1]
    by (simp_all add: w1_def D_def a_def)
  have f2: "sql_inv (w_store w2)" "deploy_frame ({nid} - D) a (sql_abs (w_store w2))"
    using sql.rollback_policy_frame [OF i, of e nid target "fst (rollback_policy sqlite_ops e nid target w)" w2]
    by (simp_all add: w2_def D_def a_def)
  have f3: "sql_inv (w_store w3)" "deploy_frame (batch_nodes a (bq_label_filter breq) - D) a (sql_abs (w_store w3))"
    using sql.batch_deploy_policy_frame [OF i _ assms(2), of e breq "fst (batch_deploy_policy sqlite_ops e order breq w)" w3]
    by (simp_all add: w3_def D_def a_def)
  have g1: "as_deploying (sql_abs (w_store w1)) = D"
    using deploy_frame_guard [OF f1(2)] by (simp add: D_def a_def)
  have g2: "as_deploying (sql_abs (w_store w2)) = D"
    using deploy_frame_guard [OF f2(2)] by (simp add: D_def a_def)
  have g3: "as_deploying (sql_abs (w_store w3)) = D"
    using deploy_frame_guard [OF f3(2)] by (simp add: D_def a_def)
  show ?thesis using f1 f2 f3 g1 g2 g3 by simp
qed

end
