(* ===== verification/Webhooks.thy ===== *)
theory Webhooks
  imports World Mem_Storage
begin

text \<open>
  Webhook delivery, \<^verbatim>\<open>pacinet-server/src/webhook.rs\<close>: the retry loop with its exponential backoff
  and the record kept of every attempt.  The HTTP client is a parameter: whether it can be built for
  a timeout, what a request sent in an attempt answers and after how many milliseconds, which status
  codes it counts as success and how it prints them.  A delivery is its trace of effects, the
  requests, records, pauses and the metric, in order; the records are stored by tasks of their own.
\<close>

record http_request =
  hq_method :: string
  hq_url :: string
  hq_timeout_secs :: u64
  hq_bearer_auth :: "string option"
  hq_basic_auth :: "(string \<times> string) option"
  hq_headers :: "(string \<times> string) list"
  hq_json :: webhook_payload

datatype http_reply = HttpResponse u16 | HttpError string

record http_env =
  he_build_client :: "u64 \<Rightarrow> string + unit"
  he_send :: "u32 \<Rightarrow> http_request \<Rightarrow> http_reply \<times> u64"
  he_is_success :: "u16 \<Rightarrow> bool"
  he_show_status :: "u16 \<Rightarrow> string"
  he_uuid :: "u32 \<Rightarrow> string"
  he_now :: "u32 \<Rightarrow> time"

datatype webhook_effect =
    Send http_request
  | StoreDelivery webhook_delivery
  | SleepMillis u64
  | CountDelivery string

definition upper_char :: "char \<Rightarrow> char" where
  "upper_char c = (if 97 \<le> (of_char c :: nat) \<and> (of_char c :: nat) \<le> 122 then char_of ((of_char c :: nat) - 32) else c)"

definition to_upper :: "string \<Rightarrow> string" where
  "to_upper s = map upper_char s"

definition method_or_post :: "webhook_config \<Rightarrow> string" where
  "method_or_post c = (case wc_method c of Some m \<Rightarrow> m | None \<Rightarrow> ''POST'')"

definition request_method :: "string \<Rightarrow> string" where
  "request_method m =
     (if to_upper m = ''PUT'' then ''PUT''
      else if to_upper m = ''PATCH'' then ''PATCH'' else ''POST'')"

definition webhook_timeout :: "webhook_config \<Rightarrow> u64" where
  "webhook_timeout c = (case wc_timeout_seconds c of Some t \<Rightarrow> t | None \<Rightarrow> 10)"

definition webhook_max_retries :: "webhook_config \<Rightarrow> u32" where
  "webhook_max_retries c = (case wc_max_retries c of Some n \<Rightarrow> n | None \<Rightarrow> 2)"

definition webhook_request :: "webhook_config \<Rightarrow> webhook_payload \<Rightarrow> http_request" where
  "webhook_request c payload =
     \<lparr> hq_method = request_method (method_or_post c), hq_url = wc_url c,
       hq_timeout_secs = webhook_timeout c, hq_bearer_auth = wc_bearer_token c,
       hq_basic_auth = map_option (\<lambda>a. (ba_username a, ba_password a)) (wc_basic_auth c),
       hq_headers = wc_headers c, hq_json = payload \<rparr>"

text \<open>\<open>record_delivery\<close>: without a storage nothing is recorded.\<close>

definition record_delivery ::
  "http_env \<Rightarrow> bool \<Rightarrow> string \<Rightarrow> string \<Rightarrow> string \<Rightarrow> u16 option \<Rightarrow> bool \<Rightarrow> u64 \<Rightarrow> string option \<Rightarrow> u32 \<Rightarrow>
     webhook_effect list" where
  "record_delivery he stored instance_id url http_method status_code success duration_ms err attempt =
     (if stored
      then [StoreDelivery
        \<lparr> wd_id = he_uuid he attempt, wd_instance_id = instance_id, wd_url = url,
          wd_method = http_method, wd_status_code = status_code, wd_success = success,
          wd_duration_ms = duration_ms, wd_error = err, wd_attempt = attempt,
          wd_timestamp = he_now he attempt \<rparr>]
      else [])"

text \<open>The pause after an attempt; \<open>2u64.pow\<close> and the product wrap around in a release build.\<close>

definition backoff_millis :: "u32 \<Rightarrow> u64" where
  "backoff_millis attempt = 500 * 2 ^ unat attempt"

definition backoff :: "u32 \<Rightarrow> u32 \<Rightarrow> webhook_effect list" where
  "backoff max_retries attempt = (if attempt < max_retries then [SleepMillis (backoff_millis attempt)] else [])"

text \<open>\<open>for attempt in 0..=max_retries\<close>.\<close>

primrec delivery_loop ::
  "http_env \<Rightarrow> webhook_config \<Rightarrow> http_request \<Rightarrow> bool \<Rightarrow> string \<Rightarrow> u32 list \<Rightarrow> webhook_effect list" where
  "delivery_loop he c req stored iid [] = [CountDelivery ''exhausted'']"
| "delivery_loop he c req stored iid (attempt # attempts) =
     (case he_send he attempt req of
        (HttpResponse status, duration_ms) \<Rightarrow>
          if he_is_success he status
          then [Send req, CountDelivery ''success''] @
            record_delivery he stored iid (wc_url c) (method_or_post c) (Some status) True duration_ms None attempt
          else [Send req] @
            record_delivery he stored iid (wc_url c) (method_or_post c) (Some status) False duration_ms
              (Some (''HTTP '' @ he_show_status he status)) attempt @
            backoff (webhook_max_retries c) attempt @ delivery_loop he c req stored iid attempts
      | (HttpError err, duration_ms) \<Rightarrow>
          [Send req] @
          record_delivery he stored iid (wc_url c) (method_or_post c) None False duration_ms (Some err) attempt @
          backoff (webhook_max_retries c) attempt @ delivery_loop he c req stored iid attempts)"

definition attempts_upto :: "u32 \<Rightarrow> u32 list" where
  "attempts_upto max_retries = map word_of_nat [0..<Suc (unat max_retries)]"

definition deliver_webhook ::
  "http_env \<Rightarrow> webhook_config \<Rightarrow> webhook_payload \<Rightarrow> bool \<Rightarrow> string \<Rightarrow> webhook_effect list" where
  "deliver_webhook he c payload stored iid =
     (case he_build_client he (webhook_timeout c) of
        Inl _ \<Rightarrow> [CountDelivery ''client_error'']
      | Inr _ \<Rightarrow>
          delivery_loop he c (webhook_request c payload) stored iid (attempts_upto (webhook_max_retries c)))"

text \<open>A spawned task of the engine, which always has a storage, and the tasks that store its records.\<close>

fun run_task :: "http_env \<Rightarrow> task \<Rightarrow> webhook_effect list" where
  "run_task he (DeliverWebhook c payload iid) = deliver_webhook he c payload True iid"

definition deliveries :: "webhook_effect list \<Rightarrow> webhook_delivery list" where
  "deliveries tr = List.map_filter (\<lambda>x. case x of StoreDelivery d \<Rightarrow> Some d | _ \<Rightarrow> None) tr"

text \<open>The records in the storage, in the order of the attempts; each is written by a blocking task of its own.\<close>

definition store_deliveries :: "'s storage_ops \<Rightarrow> webhook_delivery list \<Rightarrow> 's \<Rightarrow> 's" where
  "store_deliveries ops ds s = foldl (\<lambda>s d. snd (so_store_webhook_delivery ops s d)) s ds"

subsection \<open>What a trace holds\<close>

definition sent :: "webhook_effect list \<Rightarrow> http_request list" where
  "sent tr = List.map_filter (\<lambda>x. case x of Send r \<Rightarrow> Some r | _ \<Rightarrow> None) tr"

definition slept :: "webhook_effect list \<Rightarrow> u64 list" where
  "slept tr = List.map_filter (\<lambda>x. case x of SleepMillis t \<Rightarrow> Some t | _ \<Rightarrow> None) tr"

definition counted :: "webhook_effect list \<Rightarrow> string list" where
  "counted tr = List.map_filter (\<lambda>x. case x of CountDelivery r \<Rightarrow> Some r | _ \<Rightarrow> None) tr"

text \<open>Whether the request succeeds in an attempt.\<close>

definition attempt_ok :: "http_env \<Rightarrow> http_request \<Rightarrow> u32 \<Rightarrow> bool" where
  "attempt_ok he req attempt =
     (case fst (he_send he attempt req) of HttpResponse status \<Rightarrow> he_is_success he status | HttpError _ \<Rightarrow> False)"

lemmas trace_defs = sent_def slept_def counted_def deliveries_def

lemma trace_append [simp]:
  "sent (a @ b) = sent a @ sent b" "slept (a @ b) = slept a @ slept b"
  "counted (a @ b) = counted a @ counted b" "deliveries (a @ b) = deliveries a @ deliveries b"
  by (simp_all add: trace_defs List.map_filter_def)

lemma trace_simps [simp]:
  "sent [] = []" "slept [] = []" "counted [] = []" "deliveries [] = []"
  "sent (Send r # t) = r # sent t" "slept (Send r # t) = slept t"
  "counted (Send r # t) = counted t" "deliveries (Send r # t) = deliveries t"
  "sent (StoreDelivery d # t) = sent t" "slept (StoreDelivery d # t) = slept t"
  "counted (StoreDelivery d # t) = counted t" "deliveries (StoreDelivery d # t) = d # deliveries t"
  "sent (SleepMillis n # t) = sent t" "slept (SleepMillis n # t) = n # slept t"
  "counted (SleepMillis n # t) = counted t" "deliveries (SleepMillis n # t) = deliveries t"
  "sent (CountDelivery x # t) = sent t" "slept (CountDelivery x # t) = slept t"
  "counted (CountDelivery x # t) = x # counted t" "deliveries (CountDelivery x # t) = deliveries t"
  by (simp_all add: trace_defs List.map_filter_simps)

text \<open>The record of one attempt.\<close>

definition delivery_of ::
  "http_env \<Rightarrow> webhook_config \<Rightarrow> http_request \<Rightarrow> string \<Rightarrow> u32 \<Rightarrow> webhook_delivery" where
  "delivery_of he c req iid k =
     (case he_send he k req of (reply, duration_ms) \<Rightarrow>
        \<lparr> wd_id = he_uuid he k, wd_instance_id = iid, wd_url = wc_url c, wd_method = method_or_post c,
          wd_status_code = (case reply of HttpResponse status \<Rightarrow> Some status | HttpError _ \<Rightarrow> None),
          wd_success = attempt_ok he req k, wd_duration_ms = duration_ms,
          wd_error = (case reply of
             HttpResponse status \<Rightarrow> if he_is_success he status then None else Some (''HTTP '' @ he_show_status he status)
           | HttpError err \<Rightarrow> Some err),
          wd_attempt = k, wd_timestamp = he_now he k \<rparr>)"

lemma delivery_step:
  "delivery_loop he c req st iid (k # ks) =
     (if attempt_ok he req k
      then [Send req, CountDelivery ''success''] @ (if st then [StoreDelivery (delivery_of he c req iid k)] else [])
      else [Send req] @ (if st then [StoreDelivery (delivery_of he c req iid k)] else []) @
        backoff (webhook_max_retries c) k @ delivery_loop he c req st iid ks)"
  by (simp add: attempt_ok_def delivery_of_def record_delivery_def split: prod.split http_reply.split)

lemma backoff_trace [simp]:
  "sent (backoff n k) = []" "counted (backoff n k) = []" "deliveries (backoff n k) = []"
  "slept (backoff n k) = (if k < n then [backoff_millis k] else [])"
  by (simp_all add: backoff_def)


lemma unat_attempt: "k \<le> unat (n :: u32) \<Longrightarrow> unat (word_of_nat k :: u32) = k"
proof -
  have "unat n < 2 ^ LENGTH(32)" by (rule unsigned_less)
  then show "k \<le> unat n \<Longrightarrow> unat (word_of_nat k :: u32) = k"
    by (simp add: unat_of_nat take_bit_nat_eq_self_iff)
qed

lemma word_of_nat_less:
  "k < unat n \<Longrightarrow> (word_of_nat k :: u32) < n" "k = unat n \<Longrightarrow> \<not> (word_of_nat k :: u32) < n"
  by (simp_all add: word_less_nat_alt unat_attempt [OF less_imp_le])

text \<open>A trace that makes the attempts from \<open>a\<close> to \<open>n\<close>, the last of which may succeed.\<close>

definition makes_attempts ::
  "http_env \<Rightarrow> webhook_config \<Rightarrow> http_request \<Rightarrow> bool \<Rightarrow> string \<Rightarrow> nat \<Rightarrow> nat \<Rightarrow> webhook_effect list \<Rightarrow> bool" where
  "makes_attempts he c req st iid a n tr \<longleftrightarrow>
     sent tr = replicate (Suc n - a) req \<and>
     deliveries tr = (if st then map (\<lambda>k. delivery_of he c req iid (word_of_nat k)) [a..<Suc n] else []) \<and>
     slept tr = map (\<lambda>k. backoff_millis (word_of_nat k)) [a..<n] \<and>
     counted tr = [if attempt_ok he req (word_of_nat n) then ''success'' else ''exhausted'']"

lemma makes_attempts_more:
  assumes "Suc a \<le> n" and "makes_attempts he c req st iid (Suc a) n tr"
  shows "makes_attempts he c req st iid a n
    ([Send req] @ (if st then [StoreDelivery (delivery_of he c req iid (word_of_nat a))] else []) @
      [SleepMillis (backoff_millis (word_of_nat a))] @ tr)"
proof -
  have "Suc n - a = Suc (Suc n - Suc a)" "[a..<Suc n] = a # [Suc a..<Suc n]" "[a..<n] = a # [Suc a..<n]"
    using assms(1) by (simp_all add: upt_rec [of a])
  with assms(2) show ?thesis by (simp add: makes_attempts_def del: upt_Suc)
qed

lemma delivery_loop_from:
  fixes c :: webhook_config
  defines "N \<equiv> unat (webhook_max_retries c)"
  assumes "a \<le> N"
  shows "\<exists>n. a \<le> n \<and> n \<le> N \<and> (\<forall>k \<in> {a..<n}. \<not> attempt_ok he req (word_of_nat k)) \<and>
    (attempt_ok he req (word_of_nat n) \<or> n = N) \<and>
    makes_attempts he c req st iid a n (delivery_loop he c req st iid (map word_of_nat [a..<Suc N]))"
  using assms(2)
proof (induction rule: inc_induct)
  case base
  then show ?case
    by (intro exI [of _ N])
      (simp add: delivery_step word_of_nat_less(2) N_def makes_attempts_def backoff_def del: delivery_loop.simps(2))
next
  case (step a)
  let ?tr = "\<lambda>a. delivery_loop he c req st iid (map word_of_nat [a..<Suc N])"
  have l: "map word_of_nat [a..<Suc N] = word_of_nat a # map word_of_nat [Suc a..<Suc N]"
    using step.hyps by (subst upt_conv_Cons) simp_all
  show ?case
  proof (cases "attempt_ok he req (word_of_nat a)")
    case True
    then show ?thesis using step.hyps
      by (intro exI [of _ a]) (simp add: l delivery_step makes_attempts_def del: delivery_loop.simps(2) upt_Suc, simp)
  next
    case False
    have "(word_of_nat a :: u32) < webhook_max_retries c"
      using step.hyps by (simp add: N_def word_of_nat_less(1))
    with False have t: "?tr a = [Send req] @
        (if st then [StoreDelivery (delivery_of he c req iid (word_of_nat a))] else []) @
        [SleepMillis (backoff_millis (word_of_nat a))] @ ?tr (Suc a)"
      by (simp only: l delivery_step backoff_def if_False if_True)
    from step.IH obtain n where "Suc a \<le> n" "n \<le> N" "\<forall>k \<in> {Suc a..<n}. \<not> attempt_ok he req (word_of_nat k)"
      "attempt_ok he req (word_of_nat n) \<or> n = N" "makes_attempts he c req st iid (Suc a) n (?tr (Suc a))"
      by blast
    moreover from this have "makes_attempts he c req st iid a n (?tr a)"
      unfolding t by (intro makes_attempts_more)
    moreover have "{a..<n} = insert a {Suc a..<n}" using \<open>Suc a \<le> n\<close> by auto
    ultimately show ?thesis using False by (intro exI [of _ n]) auto
  qed
qed

subsection \<open>Properties\<close>

lemma mem_store_deliveries:
  "ms_webhook_deliveries (store_deliveries memory_ops ds s) = ms_webhook_deliveries s @ ds"
  by (induction ds arbitrary: s) (simp_all add: store_deliveries_def mem_store_webhook_delivery_def)


text \<open>The record keeps the method as it was configured, also where the request is sent as \<open>POST\<close>.\<close>

lemma recorded_method_may_differ:
  "hq_method (webhook_request (c\<lparr> wc_method := Some ''GET'' \<rparr>) p) = ''POST'' \<and>
   wd_method (delivery_of he (c\<lparr> wc_method := Some ''GET'' \<rparr>) req iid k) = ''GET''"
  by (simp add: webhook_request_def delivery_of_def method_or_post_def request_method_def to_upper_def
      upper_char_def split: prod.split)

end
