(* ===== verification/Agent_Pacgate.thy ===== *)
theory Agent_Pacgate
  imports World Durations
begin

text \<open>
  The agent's wrapper of the \<^verbatim>\<open>pacgate\<close> command, \<^verbatim>\<open>pacinet-agent/src/pacgate.rs\<close>: the rules are
  written to a temporary file, validated, linted and compiled by three runs of the command, and the
  file is removed.  The outside is a parameter: what writing the file and what running a command
  returns (its output as text), and how \<open>serde_json\<close> reads the two JSON outputs.  An operation returns its
  result with the list of its effects.  An \<open>anyhow\<close> error is the text it prints, its outermost context.

  The lemmas show that nothing is compiled which did not pass the checks, and that the flags say
  exactly what the options ask for.
\<close>

record process_output =
  po_success :: bool
  po_stdout :: string
  po_stderr :: string

record compile_output =
  pc_status :: string
  pc_rules_count :: "u32 option"
  pc_output_dir :: "string option"
  pc_warnings :: "string list"

record lint_finding =
  lf_level :: string
  lf_code :: string
  lf_message :: string

record compile_result =
  cmp_success :: bool
  cmp_message :: string
  cmp_warnings :: "string list"
  cmp_rules_count :: "u32 option"
  cmp_output_dir :: "string option"

record pacgate_env =
  pg_temp_dir :: string
  pg_uuid :: string
  pg_write :: "string \<Rightarrow> string \<Rightarrow> string + unit"
  pg_run :: "string \<Rightarrow> string list \<Rightarrow> string + process_output"
  pg_parse_compile :: "string \<Rightarrow> string + compile_output"
  pg_parse_lint :: "string \<Rightarrow> string + lint_finding list"

datatype pacgate_effect =
    WriteFile string string
  | RunCommand string "string list"
  | RemoveFile string

subsection \<open>Flags\<close>

definition u32_max :: "u32 \<Rightarrow> u32 \<Rightarrow> u32" where
  "u32_max a b = (if a \<le> b then b else a)"

definition show_u32 :: "u32 \<Rightarrow> string" where
  "show_u32 n = show_nat (unat n)"

definition dynamic_flags :: "compile_options \<Rightarrow> string list" where
  "dynamic_flags o1 =
     (if co_dynamic o1 then [''--dynamic'', ''--dynamic-entries'', show_u32 (u32_max (co_dynamic_entries o1) 1)]
      else [])"

definition width_flags :: "compile_options \<Rightarrow> string list" where
  "width_flags o1 = (if co_width o1 > 0 then [''--width'', show_u32 (co_width o1)] else [])"

definition target_flags :: "compile_options \<Rightarrow> string list" where
  "target_flags o1 = (if co_target o1 \<noteq> [] then [''--target'', co_target o1] else [])"

definition ptp_flags :: "compile_options \<Rightarrow> string list" where
  "ptp_flags o1 = (if co_ptp o1 then [''--ptp''] else [])"

definition rss_flags :: "compile_options \<Rightarrow> string list" where
  "rss_flags o1 =
     (if co_rss o1 \<or> co_rss_queues o1 \<noteq> 4
      then [''--rss'', ''--rss-queues'', show_u32 (u32_max (co_rss_queues o1) 1)] else [])"

definition int_flags :: "compile_options \<Rightarrow> string list" where
  "int_flags o1 =
     (if co_int_enabled o1 \<or> co_int_switch_id o1 \<noteq> 0
      then [''--int'', ''--int-switch-id'', show_u32 (co_int_switch_id o1)] else [])"

definition ports_flags :: "compile_options \<Rightarrow> string list" where
  "ports_flags o1 =
     (let ports = u32_max (co_ports o1) 1
      in if ports > 1 then [''--ports'', show_u32 ports] else [])"

definition apply_compile_flags :: "compile_options \<Rightarrow> string list" where
  "apply_compile_flags o1 =
     (if co_counters o1 then [''--counters''] else []) @
     (if co_rate_limit o1 then [''--rate-limit''] else []) @
     (if co_conntrack o1 then [''--conntrack''] else []) @
     (if co_axi o1 then [''--axi''] else []) @
     ports_flags o1 @ target_flags o1 @ dynamic_flags o1 @ width_flags o1 @ ptp_flags o1 @
     rss_flags o1 @ int_flags o1"

definition lint_flags :: "compile_options \<Rightarrow> string list" where
  "lint_flags o1 =
     dynamic_flags o1 @ width_flags o1 @ target_flags o1 @ ptp_flags o1 @ rss_flags o1 @ int_flags o1"

subsection \<open>The three runs\<close>

definition validate_args :: "string \<Rightarrow> string list" where
  "validate_args path = [''validate'', path, ''--json'']"

definition lint_args :: "string \<Rightarrow> compile_options \<Rightarrow> string list" where
  "lint_args path o1 = [''lint'', path, ''--json''] @ lint_flags o1"

definition compile_args :: "string \<Rightarrow> compile_options \<Rightarrow> string list" where
  "compile_args path o1 = [''compile'', path, ''--json''] @ apply_compile_flags o1"

definition run_validate ::
  "pacgate_env \<Rightarrow> string \<Rightarrow> string \<Rightarrow> (string + unit) \<times> pacgate_effect list" where
  "run_validate pg binary path =
     ((case pg_run pg binary (validate_args path) of
         Inl _ \<Rightarrow> Inl ''Failed to execute pacgate validate''
       | Inr out \<Rightarrow>
           if po_success out then Inr () else Inl (''pacgate validate failed: '' @ po_stderr out)),
      [RunCommand binary (validate_args path)])"

definition finding_line :: "lint_finding \<Rightarrow> string" where
  "finding_line x =
     (if lf_code x = [] then lf_message x else lf_code x @ '': '' @ lf_message x)"

definition lint_step :: "string list \<times> string list \<Rightarrow> lint_finding \<Rightarrow> string list \<times> string list" where
  "lint_step acc x =
     (case acc of (warnings, errors) \<Rightarrow>
        if lf_level x = ''error'' then (warnings, errors @ [finding_line x])
        else if lf_level x = ''warning'' then (warnings @ [finding_line x], errors)
        else (warnings, errors))"

fun join_with :: "string \<Rightarrow> string list \<Rightarrow> string" where
  "join_with sep [] = []"
| "join_with sep [x] = x"
| "join_with sep (x # y # ys) = x @ sep @ join_with sep (y # ys)"

definition run_lint ::
  "pacgate_env \<Rightarrow> string \<Rightarrow> string \<Rightarrow> compile_options \<Rightarrow>
     (string + string list) \<times> pacgate_effect list" where
  "run_lint pg binary path o1 =
     ((case pg_run pg binary (lint_args path o1) of
         Inl _ \<Rightarrow> Inl ''Failed to execute pacgate lint''
       | Inr out \<Rightarrow>
           if \<not> po_success out then Inl (''pacgate lint failed: '' @ po_stderr out)
           else (case pg_parse_lint pg (po_stdout out) of
                   Inl _ \<Rightarrow> Inr []
                 | Inr findings \<Rightarrow>
                     (let (warnings, errors) = foldl lint_step ([], []) findings
                      in if errors \<noteq> [] then Inl (''pacgate lint errors: '' @ join_with '' | '' errors)
                         else Inr warnings))),
      [RunCommand binary (lint_args path o1)])"

definition run_compile ::
  "pacgate_env \<Rightarrow> string \<Rightarrow> string \<Rightarrow> compile_options \<Rightarrow> string list \<Rightarrow>
     (string + compile_result) \<times> pacgate_effect list" where
  "run_compile pg binary path o1 lint_warnings =
     ((case pg_run pg binary (compile_args path o1) of
         Inl e \<Rightarrow> Inr \<lparr> cmp_success = False, cmp_message = ''PacGate not available: '' @ e,
                       cmp_warnings = [''pacgate binary not found in PATH''],
                       cmp_rules_count = None, cmp_output_dir = None \<rparr>
       | Inr out \<Rightarrow>
           if \<not> po_success out
           then Inr \<lparr> cmp_success = False, cmp_message = ''Compilation failed: '' @ po_stderr out,
                      cmp_warnings = lint_warnings, cmp_rules_count = None, cmp_output_dir = None \<rparr>
           else (case pg_parse_compile pg (po_stdout out) of
                   Inl _ \<Rightarrow> Inl (''Failed to parse pacgate compile JSON: '' @ po_stdout out)
                 | Inr parsed \<Rightarrow>
                     if pc_status parsed \<noteq> ''ok''
                     then Inr \<lparr> cmp_success = False,
                            cmp_message = ''PacGate compile returned status='' @ pc_status parsed @ ''.'',
                            cmp_warnings = lint_warnings, cmp_rules_count = pc_rules_count parsed,
                            cmp_output_dir = pc_output_dir parsed \<rparr>
                     else Inr \<lparr> cmp_success = True, cmp_message = ''Compilation successful'',
                            cmp_warnings = lint_warnings @ pc_warnings parsed @
                              (if po_stderr out \<noteq> [] then [po_stderr out] else []),
                            cmp_rules_count = pc_rules_count parsed,
                            cmp_output_dir = pc_output_dir parsed \<rparr>)),
      [RunCommand binary (compile_args path o1)])"

text \<open>The \<open>?\<close> after a run: an error ends the sequence.\<close>

definition run_with_preflight ::
  "pacgate_env \<Rightarrow> string \<Rightarrow> string \<Rightarrow> compile_options \<Rightarrow>
     (string + compile_result) \<times> pacgate_effect list" where
  "run_with_preflight pg binary path o1 =
     (case run_validate pg binary path of
        (Inl e, t1) \<Rightarrow> (Inl e, t1)
      | (Inr _, t1) \<Rightarrow>
          (case run_lint pg binary path o1 of
             (Inl e, t2) \<Rightarrow> (Inl e, t1 @ t2)
           | (Inr lint_warnings, t2) \<Rightarrow>
               (case run_compile pg binary path o1 lint_warnings of (r, t3) \<Rightarrow> (r, t1 @ t2 @ t3))))"

text \<open>\<open>Path::join\<close> with a relative name.\<close>

definition path_join :: "string \<Rightarrow> string \<Rightarrow> string" where
  "path_join dir nm = (if dir = [] \<or> last dir = CHR ''/'' then dir @ nm else dir @ ''/'' @ nm)"

definition rules_file :: "pacgate_env \<Rightarrow> string" where
  "rules_file pg = path_join (pg_temp_dir pg) (''pacinet-rules-'' @ pg_uuid pg @ ''.yaml'')"

definition runner_compile ::
  "pacgate_env \<Rightarrow> string \<Rightarrow> string \<Rightarrow> compile_options \<Rightarrow>
     (string + compile_result) \<times> pacgate_effect list" where
  "runner_compile pg binary rules_yaml o1 =
     (let tmp_file = rules_file pg in
      case pg_write pg tmp_file rules_yaml of
        Inl _ \<Rightarrow> (Inl ''Failed to write temp rules file'', [WriteFile tmp_file rules_yaml])
      | Inr _ \<Rightarrow>
          (case run_with_preflight pg binary tmp_file o1 of
             (r, t) \<Rightarrow> (r, [WriteFile tmp_file rules_yaml] @ t @ [RemoveFile tmp_file])))"

datatype pacgate_backend = Real string | Mock bool

definition pacgate_runner_new :: pacgate_backend where
  "pacgate_runner_new = Real ''pacgate''"

fun backend_compile ::
  "pacgate_env \<Rightarrow> pacgate_backend \<Rightarrow> string \<Rightarrow> compile_options \<Rightarrow>
     (string + compile_result) \<times> pacgate_effect list" where
  "backend_compile pg (Real binary) rules_yaml o1 = runner_compile pg binary rules_yaml o1"
| "backend_compile pg (Mock should_succeed) rules_yaml o1 =
     ((if should_succeed
       then Inr \<lparr> cmp_success = True, cmp_message = ''Mock compilation successful'', cmp_warnings = [],
                  cmp_rules_count = Some 3, cmp_output_dir = Some ''/tmp/mock-output'' \<rparr>
       else Inr \<lparr> cmp_success = False, cmp_message = ''Mock compilation failed: syntax error'',
                  cmp_warnings = [], cmp_rules_count = None, cmp_output_dir = None \<rparr>), [])"

subsection \<open>What is compiled has passed the checks\<close>

definition passes_validate :: "pacgate_env \<Rightarrow> string \<Rightarrow> string \<Rightarrow> bool" where
  "passes_validate pg binary path \<longleftrightarrow>
     (\<exists>out. pg_run pg binary (validate_args path) = Inr out \<and> po_success out)"

text \<open>Lint output that cannot be read counts as output without findings.\<close>

definition passes_lint :: "pacgate_env \<Rightarrow> string \<Rightarrow> string \<Rightarrow> compile_options \<Rightarrow> bool" where
  "passes_lint pg binary path o1 \<longleftrightarrow>
     (\<exists>out. pg_run pg binary (lint_args path o1) = Inr out \<and> po_success out \<and>
        (\<forall>xs. pg_parse_lint pg (po_stdout out) = Inr xs \<longrightarrow> (\<forall>x \<in> set xs. lf_level x \<noteq> ''error'')))"

definition compiles :: "pacgate_env \<Rightarrow> string \<Rightarrow> string \<Rightarrow> compile_options \<Rightarrow> bool" where
  "compiles pg binary path o1 \<longleftrightarrow>
     (\<exists>out x. pg_run pg binary (compile_args path o1) = Inr out \<and> po_success out \<and>
        pg_parse_compile pg (po_stdout out) = Inr x \<and> pc_status x = ''ok'')"

lemma lint_fold:
  "foldl lint_step (ws, es) xs =
     (ws @ map finding_line (filter (\<lambda>x. lf_level x = ''warning'') xs),
      es @ map finding_line (filter (\<lambda>x. lf_level x = ''error'') xs))"
  by (induction xs arbitrary: ws es) (simp_all add: lint_step_def)

lemma run_validate_ok: "fst (run_validate pg b path) = Inr u \<longleftrightarrow> passes_validate pg b path"
  by (auto simp: run_validate_def passes_validate_def split: sum.split)

lemma run_lint_ok: "(\<exists>ws. fst (run_lint pg b path o1) = Inr ws) \<longleftrightarrow> passes_lint pg b path o1"
  by (auto simp: run_lint_def passes_lint_def lint_fold filter_empty_conv split: sum.split)

lemma run_compile_ok:
  "(\<exists>x. fst (run_compile pg b path o1 ws) = Inr x \<and> cmp_success x) \<longleftrightarrow> compiles pg b path o1"
  by (auto simp: run_compile_def compiles_def split: sum.split)

text \<open>The commands of a compile, as far as it gets.\<close>

definition commands_run :: "pacgate_env \<Rightarrow> string \<Rightarrow> string \<Rightarrow> compile_options \<Rightarrow> string list list" where
  "commands_run pg b path o1 =
     [validate_args path] @
     (if passes_validate pg b path
      then [lint_args path o1] @ (if passes_lint pg b path o1 then [compile_args path o1] else [])
      else [])"

lemma run_with_preflight_spec:
  "snd (run_with_preflight pg b path o1) = map (RunCommand b) (commands_run pg b path o1)"
  "(\<exists>x. fst (run_with_preflight pg b path o1) = Inr x \<and> cmp_success x) \<longleftrightarrow>
     passes_validate pg b path \<and> passes_lint pg b path o1 \<and> compiles pg b path o1"
proof -
  have t: "snd (run_validate pg b path) = [RunCommand b (validate_args path)]"
    "snd (run_lint pg b path o1) = [RunCommand b (lint_args path o1)]"
    "snd (run_compile pg b path o1 ws) = [RunCommand b (compile_args path o1)]" for ws
    by (simp_all add: run_validate_def run_lint_def run_compile_def)
  obtain v where v: "run_validate pg b path = (v, [RunCommand b (validate_args path)])" by (metis t(1) surj_pair snd_conv)
  obtain l where l: "run_lint pg b path o1 = (l, [RunCommand b (lint_args path o1)])" by (metis t(2) surj_pair snd_conv)
  have v': "passes_validate pg b path \<longleftrightarrow> v = Inr ()" using run_validate_ok [of pg b path "()"] by (simp add: v)
  have l': "passes_lint pg b path o1 \<longleftrightarrow> (\<exists>ws. l = Inr ws)" using run_lint_ok [of pg b path o1] by (simp add: l)
  note d = run_with_preflight_def v l commands_run_def v' l' case_prod_unfold
  show "snd (run_with_preflight pg b path o1) = map (RunCommand b) (commands_run pg b path o1)"
    by (cases v; cases l) (simp_all add: d t(3))
  show "(\<exists>x. fst (run_with_preflight pg b path o1) = Inr x \<and> cmp_success x) \<longleftrightarrow>
      passes_validate pg b path \<and> passes_lint pg b path o1 \<and> compiles pg b path o1"
    by (cases v; cases l) (simp_all add: d run_compile_ok)
qed

lemma runner_compile_ok:
  "(\<exists>x. fst (runner_compile pg b rules o1) = Inr x \<and> cmp_success x) \<longleftrightarrow>
     pg_write pg (rules_file pg) rules = Inr () \<and> passes_validate pg b (rules_file pg) \<and>
     passes_lint pg b (rules_file pg) o1 \<and> compiles pg b (rules_file pg) o1"
  using run_with_preflight_spec(2) [of pg b "rules_file pg" o1]
  by (cases "pg_write pg (rules_file pg) rules"; cases "run_with_preflight pg b (rules_file pg) o1")
    (simp_all add: runner_compile_def Let_def)

subsection \<open>The flags say what the options ask for\<close>

text \<open>Reading a command line back into options, starting from \<open>acc\<close>.\<close>

fun read_flags :: "string list \<Rightarrow> compile_options \<Rightarrow> compile_options option" where
  "read_flags [] acc = Some acc"
| "read_flags (f # fs) acc =
     (if f = ''--counters'' then read_flags fs (acc\<lparr> co_counters := True \<rparr>)
      else if f = ''--rate-limit'' then read_flags fs (acc\<lparr> co_rate_limit := True \<rparr>)
      else if f = ''--conntrack'' then read_flags fs (acc\<lparr> co_conntrack := True \<rparr>)
      else if f = ''--axi'' then read_flags fs (acc\<lparr> co_axi := True \<rparr>)
      else if f = ''--dynamic'' then read_flags fs (acc\<lparr> co_dynamic := True \<rparr>)
      else if f = ''--ptp'' then read_flags fs (acc\<lparr> co_ptp := True \<rparr>)
      else if f = ''--rss'' then read_flags fs (acc\<lparr> co_rss := True \<rparr>)
      else if f = ''--int'' then read_flags fs (acc\<lparr> co_int_enabled := True \<rparr>)
      else (case fs of
         [] \<Rightarrow> None
       | v # fs' \<Rightarrow>
           (let n = word_of_nat (digits_value v) in
            if f = ''--ports'' then read_flags fs' (acc\<lparr> co_ports := n \<rparr>)
            else if f = ''--target'' then read_flags fs' (acc\<lparr> co_target := v \<rparr>)
            else if f = ''--dynamic-entries'' then read_flags fs' (acc\<lparr> co_dynamic_entries := n \<rparr>)
            else if f = ''--width'' then read_flags fs' (acc\<lparr> co_width := n \<rparr>)
            else if f = ''--rss-queues'' then read_flags fs' (acc\<lparr> co_rss_queues := n \<rparr>)
            else if f = ''--int-switch-id'' then read_flags fs' (acc\<lparr> co_int_switch_id := n \<rparr>)
            else None)))"

text \<open>What \<open>pacgate\<close> is told with no flag at all.\<close>

definition unflagged :: compile_options where
  "unflagged = default_options\<lparr> co_ports := 1, co_rss_queues := 4 \<rparr>"

text \<open>What the flags can express of the options: counts of zero become one, the entries matter only
  with \<open>--dynamic\<close>, and a queue count other than 4 or a switch id switch their feature on.\<close>

definition effective :: "compile_options \<Rightarrow> compile_options" where
  "effective o1 = o1
     \<lparr> co_ports := u32_max (co_ports o1) 1,
       co_dynamic_entries := (if co_dynamic o1 then u32_max (co_dynamic_entries o1) 1 else 0),
       co_rss := (co_rss o1 \<or> co_rss_queues o1 \<noteq> 4), co_rss_queues := u32_max (co_rss_queues o1) 1,
       co_int_enabled := (co_int_enabled o1 \<or> co_int_switch_id o1 \<noteq> 0) \<rparr>"

lemma read_number [simp]: "word_of_nat (digits_value (show_u32 n)) = (n :: u32)"
  by (simp add: show_u32_def)

lemma u32_max_one: "\<not> 1 < u32_max n 1 \<Longrightarrow> u32_max n 1 = (1 :: u32)"
  by (auto simp: u32_max_def not_le not_less split: if_splits)

lemma read_flags_append:
  "read_flags (''--counters'' # fs) acc = read_flags fs (acc\<lparr> co_counters := True \<rparr>)"
  "read_flags (''--rate-limit'' # fs) acc = read_flags fs (acc\<lparr> co_rate_limit := True \<rparr>)"
  "read_flags (''--conntrack'' # fs) acc = read_flags fs (acc\<lparr> co_conntrack := True \<rparr>)"
  "read_flags (''--axi'' # fs) acc = read_flags fs (acc\<lparr> co_axi := True \<rparr>)"
  "read_flags (ports_flags o1 @ fs) acc =
     read_flags fs (if 1 < u32_max (co_ports o1) 1 then acc\<lparr> co_ports := u32_max (co_ports o1) 1 \<rparr> else acc)"
  "read_flags (target_flags o1 @ fs) acc =
     read_flags fs (if co_target o1 = [] then acc else acc\<lparr> co_target := co_target o1 \<rparr>)"
  "read_flags (dynamic_flags o1 @ fs) acc =
     read_flags fs (if co_dynamic o1
       then acc\<lparr> co_dynamic := True, co_dynamic_entries := u32_max (co_dynamic_entries o1) 1 \<rparr> else acc)"
  "read_flags (width_flags o1 @ fs) acc =
     read_flags fs (if co_width o1 > 0 then acc\<lparr> co_width := co_width o1 \<rparr> else acc)"
  "read_flags (ptp_flags o1 @ fs) acc = read_flags fs (if co_ptp o1 then acc\<lparr> co_ptp := True \<rparr> else acc)"
  "read_flags (rss_flags o1 @ fs) acc =
     read_flags fs (if co_rss o1 \<or> co_rss_queues o1 \<noteq> 4
       then acc\<lparr> co_rss := True, co_rss_queues := u32_max (co_rss_queues o1) 1 \<rparr> else acc)"
  "read_flags (int_flags o1 @ fs) acc =
     read_flags fs (if co_int_enabled o1 \<or> co_int_switch_id o1 \<noteq> 0
       then acc\<lparr> co_int_enabled := True, co_int_switch_id := co_int_switch_id o1 \<rparr> else acc)"
  by (simp_all add: ports_flags_def target_flags_def dynamic_flags_def width_flags_def ptp_flags_def
      rss_flags_def int_flags_def Let_def)

lemma read_flags_last:
  "read_flags (int_flags o1) acc = read_flags (int_flags o1 @ []) acc"
  by simp

lemma read_flags_if:
  "read_flags ((if b then [''--counters''] else []) @ fs) acc = read_flags fs (if b then acc\<lparr> co_counters := True \<rparr> else acc)"
  "read_flags ((if b then [''--rate-limit''] else []) @ fs) acc = read_flags fs (if b then acc\<lparr> co_rate_limit := True \<rparr> else acc)"
  "read_flags ((if b then [''--conntrack''] else []) @ fs) acc = read_flags fs (if b then acc\<lparr> co_conntrack := True \<rparr> else acc)"
  "read_flags ((if b then [''--axi''] else []) @ fs) acc = read_flags fs (if b then acc\<lparr> co_axi := True \<rparr> else acc)"
  by simp_all

lemmas read_flags_all = read_flags_if read_flags_append(5-) read_flags_last read_flags.simps(1)

lemma if_sel:
  "co_counters (if b then x else y) = (if b then co_counters x else co_counters y)"
  "co_rate_limit (if b then x else y) = (if b then co_rate_limit x else co_rate_limit y)"
  "co_conntrack (if b then x else y) = (if b then co_conntrack x else co_conntrack y)"
  "co_axi (if b then x else y) = (if b then co_axi x else co_axi y)"
  "co_ports (if b then x else y) = (if b then co_ports x else co_ports y)"
  "co_target (if b then x else y) = (if b then co_target x else co_target y)"
  "co_dynamic (if b then x else y) = (if b then co_dynamic x else co_dynamic y)"
  "co_dynamic_entries (if b then x else y) = (if b then co_dynamic_entries x else co_dynamic_entries y)"
  "co_width (if b then x else y) = (if b then co_width x else co_width y)"
  "co_ptp (if b then x else y) = (if b then co_ptp x else co_ptp y)"
  "co_rss (if b then x else y) = (if b then co_rss x else co_rss y)"
  "co_rss_queues (if b then x else y) = (if b then co_rss_queues x else co_rss_queues y)"
  "co_int_enabled (if b then x else y) = (if b then co_int_enabled x else co_int_enabled y)"
  "co_int_switch_id (if b then x else y) = (if b then co_int_switch_id x else co_int_switch_id y)"
  by simp_all

lemma u32_max_simps [simp]: "u32_max (u32_max n 1) 1 = u32_max n 1" "u32_max 4 1 = 4"
  by (simp_all add: u32_max_def word_le_nat_alt)

lemma read_compile_flags: "read_flags (apply_compile_flags o1) unflagged = Some (effective o1)"
  unfolding apply_compile_flags_def read_flags_all option.inject
  by (rule compile_options.equality)
    (auto simp: if_sel effective_def unflagged_def default_options_def word_gt_0 dest: u32_max_one)

lemma read_lint_flags:
  "read_flags (lint_flags o1) unflagged = Some ((effective o1)
     \<lparr> co_counters := False, co_rate_limit := False, co_conntrack := False, co_axi := False, co_ports := 1 \<rparr>)"
  unfolding lint_flags_def read_flags_all option.inject
  by (rule compile_options.equality)
    (auto simp: if_sel effective_def unflagged_def default_options_def word_gt_0)

lemma effective_flags: "apply_compile_flags (effective o1) = apply_compile_flags o1"
  by (simp add: apply_compile_flags_def ports_flags_def target_flags_def dynamic_flags_def width_flags_def
      ptp_flags_def rss_flags_def int_flags_def effective_def Let_def)

text \<open>A request without options asks for receive-side scaling with one queue.\<close>

lemma default_options_flags: "apply_compile_flags default_options = [''--rss'', ''--rss-queues'', ''1'']"
  by code_simp

subsection \<open>Properties\<close>

text \<open>C31: A rule text compiles exactly when its file could be written, \<open>pacgate validate\<close> and
  \<open>pacgate lint\<close> passed it without an error finding, and \<open>pacgate compile\<close> reported ok; the
  commands are run in that order, each only if those before passed, on the one file, which is
  removed at the end whatever the outcome.\<close>

theorem agent_compile_checked:
  fixes pg b rules o1
  defines "f \<equiv> rules_file pg"
  defines "r \<equiv> runner_compile pg b rules o1"
  shows "((\<exists>x. fst r = Inr x \<and> cmp_success x) \<longleftrightarrow>
      pg_write pg f rules = Inr () \<and> passes_validate pg b f \<and> passes_lint pg b f o1 \<and> compiles pg b f o1) \<and>
    snd r = [WriteFile f rules] @
      (if pg_write pg f rules = Inr ()
       then map (RunCommand b) (commands_run pg b f o1) @ [RemoveFile f] else [])"
  using runner_compile_ok [of pg b rules o1] run_with_preflight_spec(1) [of pg b f o1]
  by (cases "pg_write pg f rules"; cases "run_with_preflight pg b f o1")
    (simp_all add: r_def f_def, simp_all add: runner_compile_def Let_def)

text \<open>C34: The command line of a compile says everything the options ask for: it reads back as the
  options in effect, and two option sets give the same flags exactly when they agree in effect.  The
  command line of the linter reads back as the same options without counters, rate limit,
  connection tracking, AXI and ports, which the linter is not told.\<close>

theorem compile_flags_lossless:
  "read_flags (apply_compile_flags o1) unflagged = Some (effective o1) \<and>
   (apply_compile_flags o1 = apply_compile_flags o2 \<longleftrightarrow> effective o1 = effective o2) \<and>
   read_flags (lint_flags o1) unflagged = Some ((effective o1)
     \<lparr> co_counters := False, co_rate_limit := False, co_conntrack := False, co_axi := False, co_ports := 1 \<rparr>)"
  using read_compile_flags [of o1] read_compile_flags [of o2] effective_flags [of o1] effective_flags [of o2]
    read_lint_flags [of o1]
  by (metis option.inject)

end
