(* ===== verification/Agent.thy ===== *)
theory Agent
  imports Agent_Pacgate Controller_Api
begin

text \<open>
  The agent: its service \<open>PaciNetAgent\<close> (\<^verbatim>\<open>pacinet-agent/src/service.rs\<close>) and its start, its
  registration with the controller and its heartbeat loop (\<^verbatim>\<open>pacinet-agent/src/main.rs\<close>).
  The state behind the \<open>RwLock\<close> is a record; a deploy compiles under the read lock and commits under the
  write lock, so it is two steps, which the deploys of other requests may come between.  The network
  is a parameter: whether a connection is made and what a call to the controller answers.  The CPU
  usage in a heartbeat, which the controller ignores, is left out.
\<close>

subsection \<open>The service\<close>

record agent_state =
  ag_node_id :: string
  ag_controller_address :: string
  ag_pacgate :: pacgate_backend
  ag_active_policy_hash :: "string option"
  ag_active_rules_yaml :: "string option"
  ag_deployed_at :: "time option"
  ag_start_time :: time
  ag_counters :: "rule_counter list"
  ag_flow_counters :: "flow_counter list"
  ag_pacgate_version :: string

record deploy_rules_request =
  du_rules_yaml :: string
  du_options :: "compile_options option"

record deploy_rules_response =
  dv_success :: bool
  dv_message :: string
  dv_warnings :: "string list"

definition agent_options :: "deploy_rules_request \<Rightarrow> compile_options" where
  "agent_options req = (case du_options req of Some o1 \<Rightarrow> o1 | None \<Rightarrow> default_options)"

text \<open>The first step, under the read lock.\<close>

definition deploy_compile ::
  "pacgate_env \<Rightarrow> agent_state \<Rightarrow> deploy_rules_request \<Rightarrow> (string + compile_result) \<times> pacgate_effect list" where
  "deploy_compile pg ag req =
     backend_compile pg (ag_pacgate ag) (du_rules_yaml req) (agent_options req)"

text \<open>The second, under the write lock; \<open>hash\<close> is \<open>pacinet_core::policy_hash\<close>.\<close>

definition deploy_commit ::
  "(string \<Rightarrow> string) \<Rightarrow> time \<Rightarrow> agent_state \<Rightarrow> deploy_rules_request \<Rightarrow> string + compile_result \<Rightarrow>
     deploy_rules_response \<times> agent_state" where
  "deploy_commit hash now ag req compiled =
     (case compiled of
        Inr result \<Rightarrow>
          (\<lparr> dv_success = cmp_success result, dv_message = cmp_message result,
             dv_warnings = cmp_warnings result \<rparr>,
           if cmp_success result
           then ag\<lparr> ag_active_policy_hash := Some (hash (du_rules_yaml req)),
                    ag_active_rules_yaml := Some (du_rules_yaml req),
                    ag_deployed_at := Some now \<rparr>
           else ag)
      | Inl e \<Rightarrow>
          (\<lparr> dv_success = False, dv_message = ''PacGate error: '' @ e, dv_warnings = [] \<rparr>, ag))"

definition deploy_rules ::
  "pacgate_env \<Rightarrow> (string \<Rightarrow> string) \<Rightarrow> time \<Rightarrow> agent_state \<Rightarrow> deploy_rules_request \<Rightarrow>
     deploy_rules_response \<times> agent_state" where
  "deploy_rules pg hash now ag req = deploy_commit hash now ag req (fst (deploy_compile pg ag req))"

record get_counters_response =
  gc_counters :: "rule_counter list"
  gc_collected_at :: int
  gc_flow_counters :: "flow_counter list"

definition agent_get_counters :: "time \<Rightarrow> agent_state \<Rightarrow> get_counters_response" where
  "agent_get_counters now ag =
     \<lparr> gc_counters = ag_counters ag, gc_collected_at = now div secs 1,
       gc_flow_counters = ag_flow_counters ag \<rparr>"

text \<open>The state an agent reports, and its uptime in whole seconds.\<close>

definition agent_node_state :: "agent_state \<Rightarrow> proto_node_state" where
  "agent_node_state ag = (if ag_active_policy_hash ag \<noteq> None then PActive else POnline)"

definition agent_uptime :: "time \<Rightarrow> agent_state \<Rightarrow> u64" where
  "agent_uptime now ag = word_of_int ((now - ag_start_time ag) div secs 1)"

record get_status_response =
  gs_state :: int
  gs_pacgate_version :: string
  gs_active_policy_hash :: string
  gs_uptime_seconds :: u64

definition agent_get_status :: "time \<Rightarrow> agent_state \<Rightarrow> get_status_response" where
  "agent_get_status now ag =
     \<lparr> gs_state = proto_node_state_num (agent_node_state ag),
       gs_pacgate_version = ag_pacgate_version ag,
       gs_active_policy_hash = (case ag_active_policy_hash ag of Some h \<Rightarrow> h | None \<Rightarrow> []),
       gs_uptime_seconds = agent_uptime now ag \<rparr>"

subsection \<open>Start and registration\<close>

record agent_args =
  xa_controller :: string
  xa_port :: u16
  xa_host :: string
  xa_hostname :: "string option"
  xa_label :: "(string \<times> string) list"
  xa_heartbeat_interval :: u64
  xa_pacgate_version :: "string option"
  xa_ca_cert :: "string option"
  xa_tls_cert :: "string option"
  xa_tls_key :: "string option"

record tls_config =
  tc_ca_cert :: string
  tc_cert :: string
  tc_key :: string

definition parse_label :: "string \<Rightarrow> string + (string \<times> string)" where
  "parse_label s =
     (case split_once CHR ''='' s of
        None \<Rightarrow> Inl ''Label must be in key=value format''
      | Some (k, v) \<Rightarrow> Inr (k, v))"

definition agent_tls :: "agent_args \<Rightarrow> string + tls_config option" where
  "agent_tls a =
     (case (xa_ca_cert a, xa_tls_cert a, xa_tls_key a) of
        (Some ca, Some cert, Some key) \<Rightarrow> Inr (Some \<lparr> tc_ca_cert = ca, tc_cert = cert, tc_key = key \<rparr>)
      | (None, None, None) \<Rightarrow> Inr None
      | _ \<Rightarrow> Inl ''TLS requires all three: --ca-cert, --tls-cert, --tls-key'')"

definition detect_pacgate_version :: "string + process_output \<Rightarrow> string" where
  "detect_pacgate_version run =
     (case run of
        Inr out \<Rightarrow> if po_success out then trim (po_stdout out) else []
      | Inl _ \<Rightarrow> [])"

definition detect_pacgate_capabilities :: "(string, string) hmap" where
  "detect_pacgate_capabilities =
     [(''compile.axi'', ''true''), (''compile.ports'', ''true''), (''compile.target'', ''true''),
      (''compile.dynamic'', ''true''), (''compile.width'', ''true''), (''compile.ptp'', ''true''),
      (''compile.rss'', ''true''), (''compile.rss_queues'', ''true''), (''compile.int'', ''true''),
      (''compile.int_switch_id'', ''true''), (''telemetry.flow_counters'', ''true''),
      (''scenario.regress'', ''true''), (''scenario.topology'', ''true'')]"

text \<open>What the outside answers at the start: the host name, \<open>pacgate --version\<close>, the connection, the
  call, and whether the text is a socket address.\<close>

record start_env =
  sv_etc_hostname :: "string option"
  sv_version_run :: "string + process_output"
  sv_connect :: "tls_config option \<Rightarrow> string + unit"
  sv_register :: "register_node_request \<Rightarrow> status + register_node_response"
  sv_show_status :: "status \<Rightarrow> string"
  sv_parse_addr :: "string \<Rightarrow> string + unit"
  sv_now :: time

definition agent_hostname :: "start_env \<Rightarrow> agent_args \<Rightarrow> string" where
  "agent_hostname sv a =
     (case xa_hostname a of
        Some h \<Rightarrow> h
      | None \<Rightarrow> (case sv_etc_hostname sv of Some h \<Rightarrow> trim h | None \<Rightarrow> ''unknown''))"

definition agent_version :: "start_env \<Rightarrow> agent_args \<Rightarrow> string" where
  "agent_version sv a =
     (case xa_pacgate_version a of
        Some v \<Rightarrow> v
      | None \<Rightarrow> detect_pacgate_version (sv_version_run sv))"

definition registration_request :: "start_env \<Rightarrow> agent_args \<Rightarrow> register_node_request" where
  "registration_request sv a =
     \<lparr> rr_hostname = agent_hostname sv a,
       rr_agent_address = xa_host a @ '':'' @ show_nat (unat (xa_port a)),
       rr_labels = hm_extend [] (xa_label a),
       rr_pacgate_version = agent_version sv a,
       rr_capabilities = detect_pacgate_capabilities \<rparr>"

definition register_with_controller ::
  "start_env \<Rightarrow> tls_config option \<Rightarrow> register_node_request \<Rightarrow> string + string" where
  "register_with_controller sv tls req =
     (case sv_connect sv tls of
        Inl e \<Rightarrow> Inl e
      | Inr _ \<Rightarrow>
          (case sv_register sv req of
             Inl st \<Rightarrow> Inl (sv_show_status sv st)
           | Inr resp \<Rightarrow>
               if \<not> rp_accepted resp then Inl (''Registration rejected: '' @ rp_message resp)
               else Inr (rp_node_id resp)))"

text \<open>\<open>main\<close> up to the point where the heartbeat loop is spawned and the server starts: the address to
  serve at is parsed after the registration, so a node whose host name is no address stays
  registered with an agent that has ended.\<close>

definition agent_start :: "start_env \<Rightarrow> agent_args \<Rightarrow> string + agent_state" where
  "agent_start sv a =
     res_bind (agent_tls a) (\<lambda>tls.
       res_bind (register_with_controller sv tls (registration_request sv a)) (\<lambda>nid.
         res_bind (sv_parse_addr sv (xa_host a @ '':'' @ show_nat (unat (xa_port a)))) (\<lambda>_.
           Inr \<lparr> ag_node_id = nid, ag_controller_address = xa_controller a,
                 ag_pacgate = pacgate_runner_new, ag_active_policy_hash = None,
                 ag_active_rules_yaml = None, ag_deployed_at = None, ag_start_time = sv_now sv,
                 ag_counters = [], ag_flow_counters = [], ag_pacgate_version = agent_version sv a \<rparr>)))"

subsection \<open>Heartbeats\<close>

text \<open>In a round: whether a connection attempt succeeds, and what a heartbeat answers.\<close>

record heartbeat_env =
  hv_connect :: "nat \<Rightarrow> string + unit"
  hv_call :: "nat \<Rightarrow> heartbeat_request \<Rightarrow> status + bool"

datatype beat_effect = Connect | SendHeartbeat heartbeat_request | Pause u64

definition heartbeat_backoffs :: "u64 list" where
  "heartbeat_backoffs = [500, 1000, 2000]"

text \<open>The attempts of a round; the result is whether one succeeded and whether a client is kept.\<close>

primrec heartbeat_attempts ::
  "heartbeat_env \<Rightarrow> heartbeat_request \<Rightarrow> (nat \<times> u64) list \<Rightarrow> bool \<Rightarrow>
     (bool \<times> bool) \<times> beat_effect list" where
  "heartbeat_attempts hv req [] client = ((False, client), [])"
| "heartbeat_attempts hv req (x # xs) client =
     (case x of (attempt, backoff_ms) \<Rightarrow>
        if \<not> client \<and> \<not> res_is_ok (hv_connect hv attempt)
        then (case heartbeat_attempts hv req xs False of (r, t) \<Rightarrow> (r, [Connect, Pause backoff_ms] @ t))
        else
          (let t0 = (if client then [] else [Connect]) @ [SendHeartbeat req] in
           case hv_call hv attempt req of
             Inr _ \<Rightarrow> ((True, True), t0)
           | Inl _ \<Rightarrow>
               (case heartbeat_attempts hv req xs False of
                  (r, t) \<Rightarrow> (r, t0 @
                    (if attempt < length heartbeat_backoffs - 1 then [Pause backoff_ms] else []) @ t))))"

definition heartbeat_request_of :: "time \<Rightarrow> agent_state \<Rightarrow> heartbeat_request" where
  "heartbeat_request_of now ag =
     \<lparr> hb_node_id = ag_node_id ag, hb_state = proto_node_state_num (agent_node_state ag),
       hb_uptime_seconds = agent_uptime now ag \<rparr>"

text \<open>One tick of the interval.\<close>

definition heartbeat_round ::
  "heartbeat_env \<Rightarrow> time \<Rightarrow> agent_state \<Rightarrow> bool \<Rightarrow> (bool \<times> bool) \<times> beat_effect list" where
  "heartbeat_round hv now ag client =
     heartbeat_attempts hv (heartbeat_request_of now ag) (List.enumerate 0 heartbeat_backoffs) client"

end
