(* ===== verification/Agent_Run.thy ===== *)
theory Agent_Run
  imports Agent Deploying
begin

text \<open>
  What the agent guarantees, alone and together with the controller: only checked rules become
  active, however its deploys interleave; a round of heartbeats makes three attempts; a node
  registered by the agent can be deployed to with any options; and after a deploy the agent runs what
  the controller says it runs, or what it ran before.
\<close>

subsection \<open>Deploys of the agent, interleaved\<close>

text \<open>
  A deploy compiles under the read lock of the state and commits under the write lock; any number of
  deploys may have compiled and not yet committed, and a deploy whose client goes away never commits.
  \<open>pg\<close> is the outside as the run of \<^verbatim>\<open>pacgate\<close> finds it, one for each run.  The log is what was
  committed, in order: the outside its compile saw, the request, and the time.
\<close>

type_synonym compiled = "pacgate_env \<times> deploy_rules_request \<times> (string + compile_result)"
type_synonym committed = "pacgate_env \<times> deploy_rules_request \<times> time"

inductive agent_reachable ::
  "(string \<Rightarrow> string) \<Rightarrow> agent_state \<Rightarrow> agent_state \<Rightarrow> compiled list \<Rightarrow> committed list \<Rightarrow> bool"
  for hash ag0 where
  start: "agent_reachable hash ag0 ag0 [] []"
| compile: "agent_reachable hash ag0 ag ps cs \<Longrightarrow>
    agent_reachable hash ag0 ag (ps @ [(pg, req, fst (deploy_compile pg ag req))]) cs"
| commit: "agent_reachable hash ag0 ag (ps @ (pg, req, c) # qs) cs \<Longrightarrow>
    agent_reachable hash ag0 (snd (deploy_commit hash now ag req c)) (ps @ qs) (cs @ [(pg, req, now)])"
| drop: "agent_reachable hash ag0 ag (ps @ p # qs) cs \<Longrightarrow> agent_reachable hash ag0 ag (ps @ qs) cs"

text \<open>The whole run of \<^verbatim>\<open>pacgate\<close> for a request succeeds: the rules are written, validated, linted
  without an error with the options of the request, and compiled with them.\<close>

definition run_passes :: "pacgate_env \<Rightarrow> deploy_rules_request \<Rightarrow> bool" where
  "run_passes pg req \<longleftrightarrow>
     (let path = rules_file pg
      in pg_write pg path (du_rules_yaml req) = Inr () \<and> passes_validate pg ''pacgate'' path \<and>
         passes_lint pg ''pacgate'' path (agent_options req) \<and> compiles pg ''pacgate'' path (agent_options req))"

definition passed :: "committed list \<Rightarrow> committed list" where
  "passed cs = filter (\<lambda>(pg, req, now). run_passes pg req) cs"

text \<open>The policy of the agent, as the log says.\<close>

definition agent_inv :: "(string \<Rightarrow> string) \<Rightarrow> agent_state \<Rightarrow> agent_state \<Rightarrow> committed list \<Rightarrow> bool" where
  "agent_inv hash ag0 ag cs \<longleftrightarrow>
     ag_pacgate ag = ag_pacgate ag0 \<and> ag_counters ag = ag_counters ag0 \<and> ag_flow_counters ag = ag_flow_counters ag0 \<and>
     (ag_active_policy_hash ag, ag_active_rules_yaml ag, ag_deployed_at ag) =
       (if passed cs = [] then (None, None, None)
        else case last (passed cs) of
          (pg, req, now) \<Rightarrow> (Some (hash (du_rules_yaml req)), Some (du_rules_yaml req), Some now))"

definition pending_ok :: "compiled \<Rightarrow> bool" where
  "pending_ok p = (case p of (pg, req, c) \<Rightarrow> (\<exists>x. c = Inr x \<and> cmp_success x) \<longleftrightarrow> run_passes pg req)"

lemma pending_ok_compile:
  assumes "ag_pacgate ag = Real ''pacgate''"
  shows "pending_ok (pg, req, fst (deploy_compile pg ag req))"
  using runner_compile_ok [of pg "''pacgate''" "du_rules_yaml req" "agent_options req"] assms
  by (simp add: pending_ok_def deploy_compile_def run_passes_def Let_def)

lemma agent_inv_commit:
  assumes "agent_inv hash ag0 ag cs" and "pending_ok (pg, req, c)"
  shows "agent_inv hash ag0 (snd (deploy_commit hash now ag req c)) (cs @ [(pg, req, now)])"
proof (cases "run_passes pg req")
  case True
  with assms(2) obtain x where "c = Inr x" "cmp_success x" by (auto simp: pending_ok_def)
  then show ?thesis using assms(1) True by (simp add: agent_inv_def deploy_commit_def passed_def)
next
  case False
  with assms(2) have "\<And>x. c = Inr x \<Longrightarrow> \<not> cmp_success x" by (auto simp: pending_ok_def)
  then have "snd (deploy_commit hash now ag req c) = ag" by (auto simp: deploy_commit_def split: sum.split)
  then show ?thesis using assms(1) False by (simp add: agent_inv_def passed_def)
qed

lemma agent_reachable_inv:
  assumes "agent_reachable hash ag0 ag ps cs" and "ag_pacgate ag0 = Real ''pacgate''"
    and "ag_active_rules_yaml ag0 = None" and "ag_active_policy_hash ag0 = None" and "ag_deployed_at ag0 = None"
  shows "agent_inv hash ag0 ag cs \<and> list_all pending_ok ps"
  using assms(1)
proof (induction rule: agent_reachable.induct)
  case (compile ag ps cs pg req)
  then show ?case using pending_ok_compile [of ag pg req] assms(2) by (simp add: agent_inv_def)
next
  case (commit ag ps pg req c qs cs now)
  then show ?case using agent_inv_commit [of hash ag0 ag cs pg req c now] by simp
qed (use assms(3-5) in \<open>simp_all add: agent_inv_def passed_def\<close>)

text \<open>C30: However deploys interleave on a started agent, and whichever are dropped, its policy is that of
  the last commit whose run of \<^verbatim>\<open>pacgate\<close> succeeded, which means that exactly the rules of that
  request were written, validated, linted without an error and compiled with its options: the
  active text is the text of that request, the hash its hash, the time the time of the commit, and the
  status says \<open>Active\<close>.  While there is no such commit there is no policy and the status says \<open>Online\<close>.\<close>

theorem agent_runs_only_checked_rules:
  assumes "agent_start sv a = Inr ag0" and "agent_reachable hash ag0 ag ps cs"
  defines "good \<equiv> filter (\<lambda>(pg, req, now).
      pg_write pg (rules_file pg) (du_rules_yaml req) = Inr () \<and>
      passes_validate pg ''pacgate'' (rules_file pg) \<and>
      passes_lint pg ''pacgate'' (rules_file pg) (agent_options req) \<and>
      compiles pg ''pacgate'' (rules_file pg) (agent_options req)) cs"
  shows "if good = []
    then ag_active_policy_hash ag = None \<and> ag_active_rules_yaml ag = None \<and> ag_deployed_at ag = None \<and>
      agent_node_state ag = POnline
    else (case last good of (pg, req, now) \<Rightarrow>
      ag_active_policy_hash ag = Some (hash (du_rules_yaml req)) \<and>
      ag_active_rules_yaml ag = Some (du_rules_yaml req) \<and> ag_deployed_at ag = Some now \<and>
      agent_node_state ag = PActive)"
proof -
  have s: "ag_pacgate ag0 = Real ''pacgate''" "ag_active_rules_yaml ag0 = None"
    "ag_active_policy_hash ag0 = None" "ag_deployed_at ag0 = None"
    using assms(1) by (auto simp: agent_start_def res_bind_Inr_iff pacgate_runner_new_def)
  have "good = passed cs" by (simp add: good_def passed_def run_passes_def Let_def)
  moreover have "agent_inv hash ag0 ag cs" using agent_reachable_inv [OF assms(2) s] by simp
  ultimately show ?thesis
    by (auto simp: agent_inv_def agent_node_state_def split: if_splits prod.splits)
qed

text \<open>The counters an agent reports never change: they are the empty lists it starts with.\<close>

lemma agent_counters_stay_empty:
  assumes "agent_start sv a = Inr ag0" and "agent_reachable hash ag0 ag ps cs"
  shows "gc_counters (agent_get_counters now ag) = [] \<and> gc_flow_counters (agent_get_counters now ag) = []"
proof -
  have s: "ag_pacgate ag0 = Real ''pacgate''" "ag_active_rules_yaml ag0 = None"
    "ag_active_policy_hash ag0 = None" "ag_deployed_at ag0 = None"
    "ag_counters ag0 = []" "ag_flow_counters ag0 = []"
    using assms(1) by (auto simp: agent_start_def res_bind_Inr_iff pacgate_runner_new_def)
  have "agent_inv hash ag0 ag cs" using agent_reachable_inv [OF assms(2) s(1-4)] by simp
  with s show ?thesis by (simp add: agent_inv_def agent_get_counters_def)
qed

subsection \<open>Heartbeats\<close>

definition heartbeats_of :: "beat_effect list \<Rightarrow> heartbeat_request list" where
  "heartbeats_of t = List.map_filter (\<lambda>x. case x of SendHeartbeat r \<Rightarrow> Some r | _ \<Rightarrow> None) t"

lemma heartbeats_of_simps [simp]:
  "heartbeats_of [] = []" "heartbeats_of (SendHeartbeat r # t) = r # heartbeats_of t"
  "heartbeats_of (Connect # t) = heartbeats_of t" "heartbeats_of (Pause n # t) = heartbeats_of t"
  "heartbeats_of (t @ u) = heartbeats_of t @ heartbeats_of u"
  by (simp_all add: heartbeats_of_def List.map_filter_def)

text \<open>The attempts up to the first good one.\<close>

fun up_to_first :: "('a \<Rightarrow> bool) \<Rightarrow> 'a list \<Rightarrow> 'a list" where
  "up_to_first good [] = []"
| "up_to_first good (k # ks) = k # (if good k then [] else up_to_first good ks)"

lemma up_to_first_cong [fundef_cong]:
  "ks = ls \<Longrightarrow> (\<And>k. k \<in> set ls \<Longrightarrow> f k = g k) \<Longrightarrow> up_to_first f ks = up_to_first g ls"
  by (induction ls arbitrary: ks) auto

definition can_send :: "heartbeat_env \<Rightarrow> bool \<Rightarrow> nat \<Rightarrow> bool" where
  "can_send hv client k \<longleftrightarrow> client \<or> res_is_ok (hv_connect hv k)"

definition answered :: "heartbeat_env \<Rightarrow> heartbeat_request \<Rightarrow> bool \<Rightarrow> nat \<Rightarrow> bool" where
  "answered hv req client k \<longleftrightarrow> can_send hv client k \<and> res_is_ok (hv_call hv k req)"

lemma heartbeat_attempts_step:
  "answered hv req client k \<Longrightarrow> fst (heartbeat_attempts hv req ((k, ms) # xs) client) = (True, True)"
  "\<not> answered hv req client k \<Longrightarrow> fst (heartbeat_attempts hv req ((k, ms) # xs) client) =
     fst (heartbeat_attempts hv req xs False)"
  "heartbeats_of (snd (heartbeat_attempts hv req ((k, ms) # xs) client)) =
     (if can_send hv client k then [req] else []) @
     (if answered hv req client k then [] else heartbeats_of (snd (heartbeat_attempts hv req xs False)))"
  by (auto simp: answered_def can_send_def Let_def case_prod_unfold res_is_ok_iff split: sum.split)

text \<open>With no client at the start of the attempts \<open>ks\<close>.\<close>

lemma heartbeat_attempts_spec:
  "fst (heartbeat_attempts hv req xs False) =
     (let ok = list_ex (answered hv req False) (map fst xs) in (ok, ok))"
  "heartbeats_of (snd (heartbeat_attempts hv req xs False)) =
     replicate (length (filter (can_send hv False) (up_to_first (answered hv req False) (map fst xs)))) req"
proof (induction xs)
  case (Cons x xs)
  obtain k ms where x: "x = (k, ms)" by (cases x)
  { case 1
    show ?case
      by (cases "answered hv req False k")
        (simp_all add: x heartbeat_attempts_step Cons.IH Let_def del: heartbeat_attempts.simps)
  next
    case 2
    show ?case
      by (cases "answered hv req False k")
        (simp_all add: x heartbeat_attempts_step Cons.IH answered_def del: heartbeat_attempts.simps)
  }
qed simp_all

text \<open>The first attempt may use the client kept from the last round, the others connect anew.\<close>

definition round_client :: "bool \<Rightarrow> nat \<Rightarrow> bool" where
  "round_client client k \<longleftrightarrow> client \<and> k = 0"

text \<open>A round makes at most three attempts and sends in each the heartbeat of the agent's state, if it
  has or gets a connection; it succeeds exactly when an attempt is answered, sends nothing after
  that, and keeps its connection exactly when it succeeds.\<close>

theorem heartbeat_round_exact:
  fixes hv now ag client
  defines "req \<equiv> heartbeat_request_of now ag"
  defines "can \<equiv> \<lambda>k. can_send hv (round_client client k) k"
    and "good \<equiv> \<lambda>k. answered hv req (round_client client k) k"
    and "r \<equiv> heartbeat_round hv now ag client"
  shows "fst r = (list_ex good [0, 1, 2], list_ex good [0, 1, 2]) \<and>
    heartbeats_of (snd r) = replicate (length (filter can (up_to_first good [0, 1, 2]))) req"
proof -
  have e: "List.enumerate 0 heartbeat_backoffs = (0, 500) # [(1, 1000), (2, 2000)]"
    by (simp add: heartbeat_backoffs_def)
  have t: "good 0 = answered hv req client 0" "can 0 = can_send hv client 0"
    "good 1 = answered hv req False 1" "can 1 = can_send hv False 1"
    "good 2 = answered hv req False 2" "can 2 = can_send hv False 2"
    by (simp_all add: good_def can_def round_client_def)
  show ?thesis
    by (cases "answered hv req client 0")
      (simp_all add: r_def heartbeat_round_def e req_def [symmetric] heartbeat_attempts_step
        heartbeat_attempts_spec t Let_def answered_def [of hv req client 0] del: heartbeat_attempts.simps One_nat_def)
qed

subsection \<open>The agent and the controller\<close>

lemma detected_capable: "n_capabilities n = detect_pacgate_capabilities \<Longrightarrow> capable n opts"
  by (simp add: capable_def capability_needs_def capability_true_def detect_pacgate_capabilities_def
      eq_ignore_ascii_case_def)

text \<open>C33: An agent that starts against this controller is a registered node under the id it keeps, with the
  hostname, address and labels of its arguments and no policy, and the controller refuses no deploy
  to it for a missing capability, whatever the options.\<close>

theorem agent_registers_capable_node:
  fixes w :: "mem_storage world" and e sv a
  defines "req \<equiv> registration_request sv a"
  defines "w' \<equiv> snd (register_node memory_ops e req w)"
  assumes "agent_start sv a = Inr ag" and "sv_register sv req = fst (register_node memory_ops e req w)"
  shows "\<exists>n. mem_get_node (w_store w') (ag_node_id ag) = Inr (Some n) \<and> n_node_id n = ag_node_id ag \<and>
    n_state n = Registered \<and> n_hostname n = agent_hostname sv a \<and>
    n_agent_address n = xa_host a @ '':'' @ show_nat (unat (xa_port a)) \<and>
    map_of (n_labels n) = map_of (rev (xa_label a)) \<and>
    agent_node_state ag = POnline \<and> (\<forall>opts. ensure_node_capabilities n opts = Inr ())"
proof -
  let ?n = "(node_new (e_uuid e (w_uuids w)) (e_now e (w_ticks w)) (rr_hostname req) (rr_agent_address req)
    (rr_labels req) (rr_pacgate_version req))\<lparr> n_capabilities := rr_capabilities req \<rparr>"
  have r: "fst (register_node memory_ops e req w) =
      Inr \<lparr> rp_node_id = n_node_id ?n, rp_accepted = True, rp_message = ''Node registered'' \<rparr>"
    "ms_nodes (w_store w') = hm_insert (n_node_id ?n) ?n (ms_nodes (w_store w))"
    by (simp_all add: w'_def register_node_def Let_def case_prod_unfold blocking_def mem_register_node_def
        clock_def new_uuid_def)
  obtain tls nid where g: "register_with_controller sv tls req = Inr nid" "ag_node_id ag = nid"
      "ag_active_policy_hash ag = None"
    using assms(3) by (auto simp: agent_start_def res_bind_Inr_iff req_def [symmetric])
  have "nid = n_node_id ?n"
    using g(1) assms(4) r(1) by (cases "sv_connect sv tls") (simp_all add: register_with_controller_def)
  note g(2) [unfolded this] g(3)
  moreover have "map_of (hm_extend [] xs) = map_of (rev xs)" for xs :: "(string \<times> string) list"
    by (rule ext) (simp add: map_of_extend split: option.split)
  ultimately show ?thesis
    by (intro exI [of _ ?n])
      (simp add: mem_get_node_def r(2) node_new_def req_def registration_request_def agent_node_state_def
        ensure_node_capabilities_iff detected_capable)
qed

text \<open>A node the controller has forgotten: every attempt of the round fails, and nothing registers it again.\<close>

lemma heartbeat_of_unknown_node:
  fixes w :: "nat \<Rightarrow> mem_storage world"
  assumes "\<And>k. hv_call hv k (heartbeat_request_of now ag) =
      fst (heartbeat memory_ops e (heartbeat_request_of now ag) (w k))"
    and "\<And>k. map_of (ms_nodes (w_store (w k))) (ag_node_id ag) = None"
  shows "fst (heartbeat_round hv now ag client) = (False, False)"
proof -
  have "hv_call hv k (heartbeat_request_of now ag) = Inl (not_found ''Node not registered'')" for k
    unfolding assms(1)
    by (simp add: heartbeat_def Let_def case_prod_unfold blocking_def mem_update_heartbeat_def assms(2)
        heartbeat_request_of_def)
  then have "\<not> answered hv (heartbeat_request_of now ag) c k" for c k
    by (simp add: answered_def)
  then show ?thesis
    by (simp add: heartbeat_round_def heartbeat_backoffs_def heartbeat_attempts_step heartbeat_attempts_spec
        Let_def del: heartbeat_attempts.simps)
qed

text \<open>A heartbeat that arrives while the first policy of an agent is deployed takes the node from
  \<open>Deploying\<close> to \<open>Online\<close>; the \<open>Active\<close> of the finished deploy is then refused and the refusal dropped.\<close>

lemma heartbeat_during_first_deploy:
  fixes w :: "mem_storage world"
  assumes "map_of (ms_nodes (w_store w)) (ag_node_id ag) = Some n" and "n_state n = Deploying"
    and "ag_active_policy_hash ag = None"
    and "w' = snd (heartbeat memory_ops e (heartbeat_request_of now ag) w)"
  shows "\<exists>m. map_of (ms_nodes (w_store (set_node_state memory_ops (ag_node_id ag) Active w'))) (ag_node_id ag) = Some m \<and>
    n_state m = Online"
proof -
  have "heartbeat_state (heartbeat_request_of now ag) = Online"
    by (simp add: heartbeat_request_of_def agent_node_state_def assms(3) heartbeat_state_def
        proto_node_state_of_num_def)
  then have "\<exists>m. map_of (ms_nodes (w_store w')) (ag_node_id ag) = Some m \<and> n_state m = Online"
    using assms(1) unfolding assms(4)
    by (simp add: heartbeat_def Let_def case_prod_unfold blocking_def mem_update_heartbeat_def
        heartbeat_request_of_def) (simp add: emit_now_def emit_def clock_def split: option.split)
  then show ?thesis
    by (auto simp: set_node_state_def mem_update_node_state_def)
qed

text \<open>The answer the controller's client gets from the agent; the service never returns an error.\<close>

definition agent_reply_of :: "deploy_rules_response \<Rightarrow> agent_reply" where
  "agent_reply_of resp = AgentResponse (dv_success resp) (dv_message resp) (dv_warnings resp)"

definition agent_request_of :: "agent_request \<Rightarrow> deploy_rules_request" where
  "agent_request_of q = \<lparr> du_rules_yaml = aq_rules_yaml q, du_options = aq_options q \<rparr>"

lemma deploy_rules_cases:
  "(dv_success (fst (deploy_rules pg hash now ag req)) \<longrightarrow>
     snd (deploy_rules pg hash now ag req) = ag
       \<lparr> ag_active_policy_hash := Some (hash (du_rules_yaml req)),
         ag_active_rules_yaml := Some (du_rules_yaml req), ag_deployed_at := Some now \<rparr>) \<and>
   (\<not> dv_success (fst (deploy_rules pg hash now ag req)) \<longrightarrow> snd (deploy_rules pg hash now ag req) = ag)"
  by (simp add: deploy_rules_def deploy_commit_def split: sum.split)

text \<open>C5: A deploy of the controller to an online node whose agent registered it with its own
  capabilities, where the agent's own service is the other end and its answer arrives in time: the
  outcome is the agent's; on success the agent runs the rules, under the hash, that the controller
  now has as the node's current policy, and the node becomes Active; on failure the agent runs
  what it ran before, and the node is in Error, although the controller has made the rejected
  rules the node's current policy.  (If the answer comes late, the controller says Error and the agent may run
  the new rules; a node that is only registered stays so.)\<close>

theorem controller_and_agent_agree:
  fixes n opts r e pg now ag and w :: "mem_storage world"
  defines "nid \<equiv> n_node_id n" and "q \<equiv> deploy_request e n r (normalize_options opts)"
  defines "d \<equiv> deploy_rules pg (e_policy_hash e) now ag (agent_request_of q)"
  assumes "mem_inv (w_store w)" and "map_of (ms_nodes (w_store w)) nid = Some n"
    and "n_capabilities n = detect_pacgate_capabilities" and "n_state n = Online"
    and "e_agent e (length (w_requests w)) q = agent_reply_of (fst d)"
  shows "\<exists>p m. case deploy_to_node memory_ops e n r opts w of (out, w') \<Rightarrow>
    mem_get_policy (w_store w') nid = Inr (Some p) \<and> mem_get_node (w_store w') nid = Inr (Some m) \<and>
    pol_rules_yaml p = r \<and> do_success out = dv_success (fst d) \<and>
    (if do_success out
     then ag_active_rules_yaml (snd d) = Some (pol_rules_yaml p) \<and>
       ag_active_policy_hash (snd d) = Some (pol_policy_hash p) \<and> n_state m = Active
     else snd d = ag \<and> n_state m = Error)"
proof -
  let ?opts = "normalize_options opts" and ?hash = "e_policy_hash e r"
  let ?p = "policy_of_request nid r ?hash (e_now e (w_ticks w)) ?opts"
  have q: "du_rules_yaml (agent_request_of q) = r"
    by (simp add: agent_request_of_def q_def deploy_request_def)
  have n: "as_nodes (mem_abs (w_store w)) nid = Some n" using assms(5) by simp
  have c: "deploy_to_node memory_ops e n r opts w = deploy_changed memory_ops e n r ?hash ?opts w"
    by (rule deploy_to_node_changed) (simp_all add: detected_capable assms(6,7))
  obtain v w' rec where o: "deploy_changed memory_ops e n r ?hash ?opts w =
        (reply_outcome e (agent_reply_of (fst d)) v, w')"
      and s: "mem_abs (w_store w') = deployed n ?p rec (mem_abs (w_store w))"
      and "dr_result rec = reply_result (agent_reply_of (fst d))"
    using mem.deploy_changed_effect [where n = n and w = w and e = e and r = r and hash = ?hash and opts = ?opts]
      assms(4) n assms(8) by (fastforce simp: nid_def q_def deploy_record_def)
  then have "as_nodes (mem_abs (w_store w')) nid =
      Some (n\<lparr> n_state := if dv_success (fst d) then Active else Error \<rparr>)"
    "as_policies (mem_abs (w_store w')) nid = Some ?p"
    unfolding s by (simp_all add: deployed_def Let_def nid_def settled_state_def agent_reply_of_def assms(7))
  then have m: "map_of (ms_nodes (w_store w')) nid =
      Some (n\<lparr> n_state := if dv_success (fst d) then Active else Error \<rparr>)"
    and p: "map_of (ms_policies (w_store w')) nid = Some ?p"
    by simp_all
  have "do_success (reply_outcome e (agent_reply_of (fst d)) v) = dv_success (fst d)"
    by (simp add: reply_outcome_def agent_reply_of_def)
  then show ?thesis
    using deploy_rules_cases [of pg "e_policy_hash e" now ag "agent_request_of q"] q m p
    unfolding c o by (simp add: mem_get_policy_def mem_get_node_def d_def)
qed

end
