(* ===== verification/Scenario_Systems.thy ===== *)
theory Scenario_Systems
  imports Scenario Sqlite_Api Webhooks Agent_Run
begin

text \<open>
  The deployment of \<open>Scenario\<close> extended by a database that holds its node, an HTTP endpoint that
  answers the second attempt, and an agent with a compiler that accepts every rule text.
\<close>

subsection \<open>The two backends\<close>

definition demo_sql :: sqlite_storage where
  "demo_sql = snd (sqlite_register_node sqlite_open demo_node)"

definition demo_mem :: mem_storage where
  "demo_mem = snd (mem_register_node mem_default demo_node)"

lemma demo_sql_reachable: "sql_reachable demo_sql"
  unfolding demo_sql_def by (rule sql_reachable.step [OF sql_reachable.start sql_step.intros(1)])

lemma demo_mem_reachable: "mem_reachable demo_mem"
  unfolding demo_mem_def by (rule mem_reachable.step [OF mem_reachable.start mem_step.call [OF mem_call.intros(1)]])

lemma demo_same_contents: "sql_abs demo_sql = mem_abs demo_mem"
  by (rule astore_eqI)
    (simp_all add: demo_sql_def demo_mem_def sqlite_register_node_def insert_row_def has_row_def sqlite_open_def
      mem_register_node_def mem_default_def versions_of_def order_desc_def oks_def List.map_filter_def
      mem_versions_def)

lemma demo_has_node: "as_nodes (mem_abs demo_mem) ''n1'' = Some demo_node"
  by (simp add: demo_mem_def mem_register_node_def mem_default_def)

definition demo_rules :: policy where
  "demo_rules = policy_of_request ''n1'' ''allow'' ''h'' 0 default_options"


theorem sqlite_integrity_witness:
  "keys_unique demo_sql \<and> referenced demo_sql \<subseteq> nr_id ` set (sq_nodes demo_sql) \<and>
   (\<exists>ns. sqlite_list_nodes demo_sql [] = Inr ns \<and> map n_node_id ns = map nr_id (sq_nodes demo_sql))"
  using sqlite_integrity [OF demo_sql_reachable, of "''n1''"] by blast

definition sql_world :: "sqlite_storage world" where
  "sql_world =
     \<lparr> w_store = demo_sql, w_ticks = 0, w_uuids = 0, w_requests = [], w_events = [], w_tasks = [],
       w_cache = cache_new (secs 3600) 120 \<rparr>"

theorem sqlite_handlers_keep_integrity_witness:
  "sql_inv (w_store (snd (rollback_policy sqlite_ops demo_env ''n1'' 0 sql_world)))"
proof -
  have "sql_reachable (w_store sql_world)" by (simp add: sql_world_def demo_sql_reachable)
  from sqlite_handlers_keep_integrity [where w = sql_world and e = demo_env and nid = "''n1''" and target = 0
      and order = "\<lambda>ns. ns", OF this refl]
  show ?thesis by (rule conjunct1 [OF conjunct2])
qed

definition demo_log :: "persistent_event list" where
  "demo_log = map (\<lambda>k. \<lparr> pe_id = replicate k CHR ''e'', pe_event_type = ''node.registered'', pe_source = ''n1'',
     pe_payload = ''{}'', pe_timestamp = int k \<rparr>) [1, 2, 3]"

theorem sqlite_event_queries_agree_witness:
  "sqlite_query_events (fold (\<lambda>e s. snd (sqlite_store_event s e)) demo_log sqlite_open) None None (Some 2) None 5 =
   mem_query_events (fold (\<lambda>e s. snd (mem_store_event s e)) demo_log mem_default) None None (Some 2) None 5"
proof -
  have "distinct (map pe_id demo_log)" "sorted_wrt (\<lambda>a b. pe_timestamp a < pe_timestamp b) demo_log"
    "length demo_log \<le> 10000"
    by (simp_all add: demo_log_def numeral_2_eq_2 numeral_3_eq_3)
  from sqlite_event_queries_agree [OF this refl refl] show ?thesis by (rule conjunct1)
qed

subsection \<open>A webhook\<close>

definition demo_hook :: webhook_config where
  "demo_hook =
     \<lparr> wc_url = ''http://hook'', wc_method = None, wc_bearer_token = None, wc_basic_auth = None,
       wc_timeout_seconds = None, wc_max_retries = None, wc_headers = [] \<rparr>"

definition demo_http :: http_env where
  "demo_http =
     \<lparr> he_build_client = (\<lambda>_. Inr ()),
       he_send = (\<lambda>k _. (if k = 1 then HttpResponse 200 else HttpError ''refused'', 7)),
       he_is_success = (\<lambda>c. c = 200), he_show_status = (\<lambda>_. ''200 OK''),
       he_uuid = (\<lambda>k. if k = 0 then ''a'' else ''b''), he_now = (\<lambda>_. 0) \<rparr>"

definition demo_payload :: webhook_payload where
  "demo_payload =
     \<lparr> wp_event = ''fsm_alert'', wp_instance_id = ''i1'', wp_definition_name = ''roll'',
       wp_current_state = ''canary'', wp_message = ''late'', wp_timestamp = 0, wp_deployed_nodes = [''n1''] \<rparr>"


subsection \<open>An agent\<close>

definition demo_pg :: pacgate_env where
  "demo_pg =
     \<lparr> pg_temp_dir = ''/tmp'', pg_uuid = ''u'', pg_write = (\<lambda>_ _. Inr ()),
       pg_run = (\<lambda>_ _. Inr \<lparr> po_success = True, po_stdout = ''{}'', po_stderr = [] \<rparr>),
       pg_parse_compile = (\<lambda>_. Inr \<lparr> pc_status = ''ok'', pc_rules_count = Some 1, pc_output_dir = None,
         pc_warnings = [] \<rparr>),
       pg_parse_lint = (\<lambda>_. Inr []) \<rparr>"

definition demo_args :: agent_args where
  "demo_args =
     \<lparr> xa_controller = ''http://127.0.0.1:50054'', xa_port = 50055, xa_host = ''10.0.0.1'',
       xa_hostname = Some ''edge'', xa_label = [(''env'', ''lab'')], xa_heartbeat_interval = 30,
       xa_pacgate_version = Some ''1.0'', xa_ca_cert = None, xa_tls_cert = None, xa_tls_key = None \<rparr>"

text \<open>An agent that starts against the controller of \<open>Scenario\<close>, with an empty store.\<close>

definition demo_start :: start_env where
  "demo_start =
     \<lparr> sv_etc_hostname = None, sv_version_run = Inl ''not found'', sv_connect = (\<lambda>_. Inr ()),
       sv_register = (\<lambda>req. fst (register_node memory_ops demo_env req (world_of mem_default))),
       sv_show_status = st_message, sv_parse_addr = (\<lambda>_. Inr ()), sv_now = 0 \<rparr>"

definition demo_agent :: agent_state where
  "demo_agent =
     \<lparr> ag_node_id = [], ag_controller_address = ''http://127.0.0.1:50054'',
       ag_pacgate = pacgate_runner_new, ag_active_policy_hash = None, ag_active_rules_yaml = None,
       ag_deployed_at = None, ag_start_time = 0, ag_counters = [], ag_flow_counters = [],
       ag_pacgate_version = ''1.0'' \<rparr>"

lemma demo_registers:
  "fst (register_node memory_ops demo_env req (world_of mem_default)) =
     Inr \<lparr> rp_node_id = [], rp_accepted = True, rp_message = ''Node registered'' \<rparr>"
  by (simp add: register_node_def Let_def case_prod_unfold blocking_def mem_register_node_def clock_def
      new_uuid_def node_new_def)

lemma demo_agent_starts: "agent_start demo_start demo_args = Inr demo_agent"
  by (simp add: agent_start_def agent_tls_def register_with_controller_def demo_start_def demo_registers
      demo_agent_def agent_version_def demo_args_def)

theorem agent_registers_capable_node_witness:
  "\<exists>n. mem_get_node (w_store (snd (register_node memory_ops demo_env (registration_request demo_start demo_args)
       (world_of mem_default)))) [] = Inr (Some n) \<and>
     n_agent_address n = ''10.0.0.1:'' @ show_nat 50055 \<and> ensure_node_capabilities n default_options = Inr ()"
proof -
  have "sv_register demo_start (registration_request demo_start demo_args) =
      fst (register_node memory_ops demo_env (registration_request demo_start demo_args) (world_of mem_default))"
    by (simp add: demo_start_def)
  from agent_registers_capable_node [OF demo_agent_starts this] show ?thesis
    by (auto simp: demo_agent_def demo_args_def)
qed

lemma demo_compiles:
  "deploy_compile demo_pg demo_agent req = (Inr \<lparr> cmp_success = True, cmp_message = ''Compilation successful'',
     cmp_warnings = [], cmp_rules_count = Some 1, cmp_output_dir = None \<rparr>, snd (deploy_compile demo_pg demo_agent req))"
  by (simp add: deploy_compile_def demo_agent_def pacgate_runner_new_def runner_compile_def demo_pg_def
      run_with_preflight_def run_validate_def run_lint_def run_compile_def Let_def)

definition demo_deploy :: deploy_rules_request where
  "demo_deploy = \<lparr> du_rules_yaml = ''allow'', du_options = None \<rparr>"

text \<open>The agent compiles the deploy and commits it.\<close>

theorem agent_runs_only_checked_rules_witness:
  "\<exists>ag. agent_reachable (\<lambda>r. ''h'' @ r) demo_agent ag [] [(demo_pg, demo_deploy, secs 7)] \<and>
    ag_active_rules_yaml ag = Some ''allow'' \<and> ag_active_policy_hash ag = Some ''hallow'' \<and>
    ag_deployed_at ag = Some (secs 7)"
proof -
  let ?c = "fst (deploy_compile demo_pg demo_agent demo_deploy)"
  let ?ag = "snd (deploy_commit (\<lambda>r. ''h'' @ r) (secs 7) demo_agent demo_deploy ?c)"
  have "agent_reachable (\<lambda>r. ''h'' @ r) demo_agent demo_agent ([] @ [(demo_pg, demo_deploy, ?c)]) []"
    by (intro agent_reachable.compile agent_reachable.start)
  then have r: "agent_reachable (\<lambda>r. ''h'' @ r) demo_agent ?ag ([] @ []) ([] @ [(demo_pg, demo_deploy, secs 7)])"
    by (intro agent_reachable.commit) simp
  have "ag_active_rules_yaml ?ag = Some ''allow''"
    by (subst demo_compiles) (simp add: deploy_commit_def demo_deploy_def)
  with agent_runs_only_checked_rules [OF demo_agent_starts r] r show ?thesis
    by (intro exI [of _ ?ag]) (auto simp: demo_deploy_def split: if_splits)
qed

text \<open>The controller's calls answered by that agent.\<close>

definition demo_net :: env where
  "demo_net = demo_env\<lparr> e_agent := (\<lambda>_ q. agent_reply_of
     (fst (deploy_rules demo_pg (\<lambda>r. ''h'' @ r) 0 demo_agent (agent_request_of q)))) \<rparr>"

definition demo_capable :: node where
  "demo_capable = demo_node\<lparr> n_capabilities := detect_pacgate_capabilities \<rparr>"

theorem controller_and_agent_agree_witness:
  "\<exists>out w' p m. deploy_to_node memory_ops demo_net demo_capable ''allow'' default_options
      (world_of (snd (mem_register_node mem_default demo_capable))) = (out, w') \<and>
    mem_get_policy (w_store w') ''n1'' = Inr (Some p) \<and> mem_get_node (w_store w') ''n1'' = Inr (Some m) \<and>
    do_success out \<and> n_state m = Active \<and>
    ag_active_rules_yaml (snd (deploy_rules demo_pg (e_policy_hash demo_net) 0 demo_agent
      (agent_request_of (deploy_request demo_net demo_capable ''allow'' (normalize_options default_options))))) =
      Some (pol_rules_yaml p)"
proof -
  let ?w = "world_of (snd (mem_register_node mem_default demo_capable))"
  let ?q = "deploy_request demo_net demo_capable ''allow'' (normalize_options default_options)"
  let ?d = "deploy_rules demo_pg (e_policy_hash demo_net) 0 demo_agent (agent_request_of ?q)"
  have i: "mem_inv (w_store ?w)"
    using mem_reachable_mem_inv [OF mem_reachable.step [OF mem_reachable.start mem_step.call [OF mem_call.intros(1)]]] by simp
  have n: "n_node_id demo_capable = ''n1''" "n_state demo_capable = Online"
    "n_capabilities demo_capable = detect_pacgate_capabilities"
    by (simp_all add: demo_capable_def)
  have g: "map_of (ms_nodes (w_store ?w)) (n_node_id demo_capable) = Some demo_capable"
    by (simp add: mem_register_node_def mem_default_def)
  have h: "e_policy_hash demo_net = (\<lambda>r. ''h'' @ r)" by (simp add: demo_net_def demo_env_def)
  have a: "e_agent demo_net (length (w_requests ?w)) ?q = agent_reply_of (fst ?d)"
    unfolding h by (simp add: demo_net_def del: append.simps)
  have s: "dv_success (fst ?d)"
    unfolding deploy_rules_def by (subst demo_compiles) (simp add: deploy_commit_def)
  obtain out w' where o: "deploy_to_node memory_ops demo_net demo_capable ''allow'' default_options ?w = (out, w')"
    by (metis surj_pair)
  from controller_and_agent_agree [OF i g n(3,2) a] s show ?thesis
    unfolding o prod.case n(1) by (intro exI [of _ out] exI [of _ w']) auto
qed

end
