(* ===== verification/Sim_Sse.thy ===== *)
theory Sim_Sse
  imports Agent_Pacgate
begin

text \<open>
  The proxy of event streams in the simulator, \<open>proxy_pacinet_sse\<close> of
  \<^verbatim>\<open>pacinet-sim/src/main.rs\<close>: the bytes of the controller's stream arrive in chunks, each is read as
  UTF-8 with invalid sequences replaced (\<open>String::from_utf8_lossy\<close>), completed lines are taken from
  the buffer, and an empty line ends an event.  The chunks are a list of received bytes or errors.

  The lemmas show that the events do not depend on how the stream is cut into chunks, as long as no
  cut falls inside a character, and that what was sent in the event-stream format is what comes out.
\<close>

subsection \<open>UTF-8\<close>

abbreviation byte_of :: "char \<Rightarrow> nat" where
  "byte_of c \<equiv> of_char c"

definition utf8_width :: "char \<Rightarrow> nat" where
  "utf8_width b =
     (if byte_of b < 128 then 1
      else if 194 \<le> byte_of b \<and> byte_of b \<le> 223 then 2
      else if 224 \<le> byte_of b \<and> byte_of b \<le> 239 then 3
      else if 240 \<le> byte_of b \<and> byte_of b \<le> 244 then 4 else 0)"

definition continuation :: "char \<Rightarrow> bool" where
  "continuation b \<longleftrightarrow> 128 \<le> byte_of b \<and> byte_of b \<le> 191"

text \<open>The second byte of a sequence, which excludes overlong forms, surrogates and values too large.\<close>

definition second_ok :: "char \<Rightarrow> char \<Rightarrow> bool" where
  "second_ok b c \<longleftrightarrow>
     (if byte_of b = 224 then 160 else if byte_of b = 240 then 144 else 128) \<le> byte_of c \<and>
     byte_of c \<le> (if byte_of b = 237 then 159 else if byte_of b = 244 then 143 else 191)"

text \<open>U+FFFD.\<close>

definition replacement :: string where
  "replacement = [char_of (239 :: nat), char_of (191 :: nat), char_of (189 :: nat)]"

fun utf8_lossy :: "string \<Rightarrow> string" where
  "utf8_lossy [] = []"
| "utf8_lossy (b # bs) =
     (if utf8_width b = 1 then b # utf8_lossy bs
      else if utf8_width b = 0 then replacement @ utf8_lossy bs
      else (case bs of
         [] \<Rightarrow> replacement
       | c # cs \<Rightarrow>
           if \<not> second_ok b c then replacement @ utf8_lossy (c # cs)
           else if utf8_width b = 2 then b # c # utf8_lossy cs
           else (case cs of
              [] \<Rightarrow> replacement
            | d # ds \<Rightarrow>
                if \<not> continuation d then replacement @ utf8_lossy (d # ds)
                else if utf8_width b = 3 then b # c # d # utf8_lossy ds
                else (case ds of
                   [] \<Rightarrow> replacement
                 | e # es \<Rightarrow>
                     if \<not> continuation e then replacement @ utf8_lossy (e # es)
                     else b # c # d # e # utf8_lossy es))))"

fun utf8_valid :: "string \<Rightarrow> bool" where
  "utf8_valid [] = True"
| "utf8_valid (b # bs) =
     (if utf8_width b = 1 then utf8_valid bs
      else if utf8_width b = 0 then False
      else (case bs of
         [] \<Rightarrow> False
       | c # cs \<Rightarrow> second_ok b c \<and>
           (if utf8_width b = 2 then utf8_valid cs
            else (case cs of
               [] \<Rightarrow> False
             | d # ds \<Rightarrow> continuation d \<and>
                 (if utf8_width b = 3 then utf8_valid ds
                  else (case ds of [] \<Rightarrow> False | e # es \<Rightarrow> continuation e \<and> utf8_valid es))))))"

text \<open>A valid text starts with a character, which both functions step over.\<close>

definition steps_over :: "string \<Rightarrow> bool" where
  "steps_over u \<longleftrightarrow> u \<noteq> [] \<and> (\<forall>x. utf8_lossy (u @ x) = u @ utf8_lossy x \<and> utf8_valid (u @ x) = utf8_valid x)"

lemma steps_over_char:
  "utf8_width b = 1 \<Longrightarrow> steps_over [b]"
  "utf8_width b = 2 \<Longrightarrow> second_ok b c \<Longrightarrow> steps_over [b, c]"
  "utf8_width b = 3 \<Longrightarrow> second_ok b c \<Longrightarrow> continuation d \<Longrightarrow> steps_over [b, c, d]"
  "utf8_width b \<notin> {0, 1, 2, 3} \<Longrightarrow> second_ok b c \<Longrightarrow> continuation d \<Longrightarrow> continuation e \<Longrightarrow> steps_over [b, c, d, e]"
  by (simp_all add: steps_over_def)

lemma utf8_valid_step:
  assumes "utf8_valid (b # bs)"
  obtains u r where "b # bs = u @ r" and "steps_over u"
proof -
  consider "utf8_width b = 1"
    | c cs where "utf8_width b = 2" "bs = c # cs" "second_ok b c"
    | c d ds where "utf8_width b = 3" "bs = c # d # ds" "second_ok b c" "continuation d"
    | c d e es where "utf8_width b \<notin> {0, 1, 2, 3}" "bs = c # d # e # es" "second_ok b c" "continuation d" "continuation e"
  proof (cases "utf8_width b \<in> {0, 1}")
    case True
    then show ?thesis using assms that(1) by auto
  next
    case False
    with assms obtain c cs where c: "bs = c # cs" "second_ok b c" by (auto split: list.splits)
    show ?thesis
    proof (cases "utf8_width b = 2")
      case True
      with c show ?thesis by (rule that(2) [rotated])
    next
      case w: False
      with assms False c obtain d ds where d: "cs = d # ds" "continuation d" by (auto split: list.splits)
      show ?thesis
      proof (cases "utf8_width b = 3")
        case True
        with c d show ?thesis by (intro that(3) [of c d ds]) simp_all
      next
        case w': False
        with assms False w c d obtain e es where "ds = e # es" "continuation e" by (auto split: list.splits)
        with c d False w w' show ?thesis by (intro that(4) [of c d e es]) simp_all
      qed
    qed
  qed
  then show ?thesis
  proof cases
    case 1
    show ?thesis by (rule that [of "[b]" bs]) (simp_all add: steps_over_char(1) [OF 1])
  next
    case (2 c cs)
    show ?thesis by (rule that [of "[b, c]" cs]) (simp_all add: 2(2) steps_over_char(2) [OF 2(1,3)])
  next
    case (3 c d ds)
    show ?thesis by (rule that [of "[b, c, d]" ds]) (simp_all add: 3(2) steps_over_char(3) [OF 3(1,3,4)])
  next
    case (4 c d e es)
    show ?thesis by (rule that [of "[b, c, d, e]" es]) (simp_all only: 4(2) steps_over_char(4) [OF 4(1,3-5)] append.simps)
  qed
qed

lemma utf8_append:
  "utf8_valid a \<Longrightarrow> utf8_lossy (a @ b) = a @ utf8_lossy b \<and> utf8_valid (a @ b) = utf8_valid b"
proof (induction "length a" arbitrary: a rule: less_induct)
  case less
  show ?case
  proof (cases a)
    case (Cons x xs)
    have "utf8_valid (x # xs)" using less.prems by (simp only: Cons)
    then obtain u r where "x # xs = u @ r" and u': "steps_over u" by (rule utf8_valid_step)
    then have u: "a = u @ r" "steps_over u" using Cons by simp_all
    then have "length r < length a" "utf8_valid r" using less.prems by (simp_all add: steps_over_def)
    from less.hyps [OF this] show ?thesis using u by (simp add: steps_over_def)
  qed simp
qed

lemmas utf8_lossy_append = utf8_append [THEN conjunct1]
lemmas utf8_valid_append = utf8_append [THEN conjunct2]

lemma utf8_lossy_valid: "utf8_valid a \<Longrightarrow> utf8_lossy a = a"
  using utf8_lossy_append [of a "[]"] by simp

lemma utf8_valid_concat: "list_all utf8_valid cs \<Longrightarrow> utf8_valid (concat cs)"
  by (induction cs) (simp_all add: utf8_valid_append)

subsection \<open>The parser\<close>

record sse_event =
  se_event :: "string option"
  se_data :: string

record sse_parser =
  sp_buffer :: string
  sp_data_lines :: "string list"
  sp_event_name :: "string option"

definition newline :: char where
  "newline = char_of (10 :: nat)"

definition carriage_return :: char where
  "carriage_return = char_of (13 :: nat)"

definition sse_start :: sse_parser where
  "sse_start = \<lparr> sp_buffer = [], sp_data_lines = [], sp_event_name = None \<rparr>"

definition trim_start :: "string \<Rightarrow> string" where
  "trim_start s = drop_ws white_space s"

definition trim_end_cr :: "string \<Rightarrow> string" where
  "trim_end_cr s = rev (dropWhile (\<lambda>c. c = carriage_return) (rev s))"

text \<open>One line without its end.\<close>

definition sse_line :: "string \<Rightarrow> sse_parser \<Rightarrow> sse_event list \<times> sse_parser" where
  "sse_line line p =
     (if line = []
      then
        (if sp_data_lines p \<noteq> [] \<or> sp_event_name p \<noteq> None
         then ([\<lparr> se_event = sp_event_name p, se_data = join_with [newline] (sp_data_lines p) \<rparr>],
               p\<lparr> sp_data_lines := [], sp_event_name := None \<rparr>)
         else ([], p))
      else (case strip_prefix ''event:'' line of
         Some rest \<Rightarrow> ([], p\<lparr> sp_event_name := Some (trim rest) \<rparr>)
       | None \<Rightarrow>
           (case strip_prefix ''data:'' line of
              Some rest \<Rightarrow> ([], p\<lparr> sp_data_lines := sp_data_lines p @ [trim_start rest] \<rparr>)
            | None \<Rightarrow> ([], p))))"

lemma sse_line_buffer [simp]:
  "sp_buffer (snd (sse_line line p)) = sp_buffer p"
  by (simp add: sse_line_def split: option.split)

lemma split_once_length: "split_once c s = Some (a, b) \<Longrightarrow> length b < length s"
  using length_dropWhile_le [of "\<lambda>x. x \<noteq> c" "tl s"]
  by (cases s) (auto simp: split_once_def split: if_splits)

text \<open>\<open>while let Some(newline) = buffer.find('\\n')\<close>.\<close>

function sse_drain :: "sse_parser \<Rightarrow> sse_event list \<times> sse_parser" where
  "sse_drain p =
     (case split_once newline (sp_buffer p) of
        None \<Rightarrow> ([], p)
      | Some (line, rest) \<Rightarrow>
          (let r = sse_line (trim_end_cr line) (p\<lparr> sp_buffer := rest \<rparr>); r' = sse_drain (snd r)
           in (fst r @ fst r', snd r')))"
  by pat_completeness auto
termination
  by (relation "measure (\<lambda>p. length (sp_buffer p))") (auto dest: split_once_length)

declare sse_drain.simps [simp del]

definition sse_chunk :: "string \<Rightarrow> sse_parser \<Rightarrow> sse_event list \<times> sse_parser" where
  "sse_chunk chunk p = sse_drain (p\<lparr> sp_buffer := sp_buffer p @ utf8_lossy chunk \<rparr>)"

text \<open>The stream until it ends or fails; \<open>err_json\<close> prints the JSON object of an error.\<close>

fun sse_stream :: "(string \<Rightarrow> string) \<Rightarrow> sse_parser \<Rightarrow> (string + string) list \<Rightarrow> sse_event list" where
  "sse_stream err_json p [] = []"
| "sse_stream err_json p (Inl e # cs) = [\<lparr> se_event = Some ''proxy-error'', se_data = err_json e \<rparr>]"
| "sse_stream err_json p (Inr c # cs) =
     (case sse_chunk c p of (evs, p') \<Rightarrow> evs @ sse_stream err_json p' cs)"

subsection \<open>Chunks do not matter\<close>

lemma split_once_append_left:
  "split_once c s = Some (a, b) \<Longrightarrow> split_once c (s @ t) = Some (a, b @ t)"
  by (auto simp: split_once_def takeWhile_append dropWhile_append split: if_splits)

lemma sse_line_append:
  "sse_line l (p\<lparr> sp_buffer := b \<rparr>) = (fst (sse_line l p), (snd (sse_line l p))\<lparr> sp_buffer := b \<rparr>)"
  by (simp add: sse_line_def split: option.split)

text \<open>Draining a longer buffer is draining what is there and then the rest.\<close>

lemma sse_drain_append:
  "sse_drain (p\<lparr> sp_buffer := sp_buffer p @ t \<rparr>) =
     (let r = sse_drain p; r' = sse_drain ((snd r)\<lparr> sp_buffer := sp_buffer (snd r) @ t \<rparr>)
      in (fst r @ fst r', snd r'))"
proof (induction p rule: sse_drain.induct)
  case (1 p)
  show ?case
  proof (cases "split_once newline (sp_buffer p)")
    case None
    then show ?thesis by (simp add: sse_drain.simps [of p])
  next
    case (Some lr)
    obtain l r where lr: "lr = (l, r)" by (cases lr)
    let ?q = "snd (sse_line (trim_end_cr l) (p\<lparr> sp_buffer := r \<rparr>))"
    have q: "sp_buffer ?q = r" by simp
    have "sse_drain (p\<lparr> sp_buffer := sp_buffer p @ t \<rparr>) =
        (let x = sse_drain (?q\<lparr> sp_buffer := sp_buffer ?q @ t \<rparr>)
         in (fst (sse_line (trim_end_cr l) (p\<lparr> sp_buffer := r \<rparr>)) @ fst x, snd x))"
      using split_once_append_left [OF Some [unfolded lr], of t]
      by (subst sse_drain.simps) (simp add: Let_def sse_line_append [where p = p])
    then show ?thesis
      using 1 [OF Some lr [symmetric] refl] Some lr
      by (subst (2) sse_drain.simps) (simp add: Let_def)
  qed
qed

lemma sse_chunk_append:
  assumes "utf8_valid a"
  shows "sse_chunk (a @ b) p =
     (let r = sse_chunk a p; r' = sse_chunk b (snd r) in (fst r @ fst r', snd r'))"
  using sse_drain_append [of "p\<lparr> sp_buffer := sp_buffer p @ a \<rparr>" "utf8_lossy b"]
  by (simp add: sse_chunk_def utf8_lossy_append [OF assms] utf8_lossy_valid [OF assms])

lemma sse_stream_chunks:
  assumes "cs \<noteq> []" and "list_all utf8_valid cs"
  shows "sse_stream ej p (map Inr cs @ rest) = sse_stream ej p (Inr (concat cs) # rest)"
  using assms
proof (induction cs arbitrary: p rule: list_nonempty_induct)
  case (cons c cs)
  then show ?case
    by (simp add: sse_chunk_append case_prod_unfold Let_def)
qed simp

lemma sse_chunk_Nil [simp]: "sse_chunk [] sse_start = ([], sse_start)"
  by (simp add: sse_chunk_def sse_start_def sse_drain.simps split_once_def)

text \<open>C26: The events a client of the proxy gets do not depend on how the controller's stream is cut into
  chunks, as long as no chunk ends inside a character.\<close>

theorem sse_proxy_chunking_irrelevant:
  assumes "list_all utf8_valid cs" and "list_all utf8_valid ds" and "concat cs = concat ds"
  shows "sse_stream err_json sse_start (map Inr cs @ rest) = sse_stream err_json sse_start (map Inr ds @ rest)"
proof -
  have "sse_stream err_json sse_start (map Inr es @ rest) = sse_stream err_json sse_start (Inr (concat es) # rest)"
    if "list_all utf8_valid es" for es
    using sse_stream_chunks [OF _ that] by (cases "es = []") simp_all
  with assms show ?thesis by simp
qed

text \<open>A cut inside a character: the two bytes of an e with acute accent become two replacement characters.\<close>

lemma split_character_is_lost:
  "sse_stream err_json sse_start [Inr (''data:'' @ [char_of (195 :: nat)]), Inr ([char_of (169 :: nat)] @ [newline, newline])] =
     [\<lparr> se_event = None, se_data = replacement @ replacement \<rparr>]"
  by code_simp

subsection \<open>What is sent comes out\<close>

text \<open>An event in the event-stream format: its name, its data line by line, and an empty line.\<close>

definition sse_render :: "sse_event \<Rightarrow> string" where
  "sse_render ev =
     (case se_event ev of None \<Rightarrow> [] | Some n \<Rightarrow> ''event: '' @ n @ [newline]) @
     concat (map (\<lambda>l. ''data: '' @ l @ [newline]) (split_on newline (se_data ev))) @ [newline]"

text \<open>Events whose texts the proxy passes on unchanged.  (A carriage return inside a line is passed on too; the
  controller sends JSON, which has none.)\<close>

definition plain_event :: "sse_event \<Rightarrow> bool" where
  "plain_event ev \<longleftrightarrow>
     is_none_or (\<lambda>n. trim ('' '' @ n) = n \<and> newline \<notin> set n \<and> trim_end_cr (''event: '' @ n) = ''event: '' @ n) (se_event ev) \<and>
     list_all (\<lambda>l. trim_start ('' '' @ l) = l \<and> trim_end_cr (''data: '' @ l) = ''data: '' @ l) (split_on newline (se_data ev))"

lemma join_split: "join_with [c] (split_on c s) = s"
proof (induction s)
  case (Cons x xs)
  then show ?case by (cases "split_on c xs") (auto, (metis join_with.simps(2,3) list.exhaust append_Cons)+)
qed simp

lemma split_on_lines: "l \<in> set (split_on c s) \<Longrightarrow> c \<notin> set l"
  by (induction s arbitrary: l) (auto split: list.splits if_splits)

lemma sse_drain_line:
  assumes "newline \<notin> set l"
  shows "sse_drain (p\<lparr> sp_buffer := l @ newline # rest \<rparr>) =
     (let r = sse_line (trim_end_cr l) (p\<lparr> sp_buffer := rest \<rparr>); r' = sse_drain (snd r) in (fst r @ fst r', snd r'))"
  by (subst sse_drain.simps) (simp add: assms)

definition clean_parser :: "string \<Rightarrow> sse_parser" where
  "clean_parser b = \<lparr> sp_buffer = b, sp_data_lines = [], sp_event_name = None \<rparr>"

lemma sse_line_simps:
  "sse_line (''event: '' @ n) p = ([], p\<lparr> sp_event_name := Some (trim ('' '' @ n)) \<rparr>)"
  "sse_line (''data: '' @ l) p = ([], p\<lparr> sp_data_lines := sp_data_lines p @ [trim_start ('' '' @ l)] \<rparr>)"
  by (simp_all add: sse_line_def strip_prefix_def)

lemma newline_plain: "newline \<notin> set ''event: ''" "newline \<notin> set ''data: ''"
  by code_simp+

lemma sse_drain_data:
  assumes "\<forall>l \<in> set ls. newline \<notin> set l \<and> trim_start ('' '' @ l) = l \<and> trim_end_cr (''data: '' @ l) = ''data: '' @ l"
  shows "sse_drain (p\<lparr> sp_buffer := concat (map (\<lambda>l. ''data: '' @ l @ [newline]) ls) @ rest \<rparr>) =
     sse_drain (p\<lparr> sp_data_lines := sp_data_lines p @ ls, sp_buffer := rest \<rparr>)"
  using assms
proof (induction ls arbitrary: p)
  case (Cons l ls)
  let ?rest = "concat (map (\<lambda>l. ''data: '' @ l @ [newline]) ls) @ rest"
  have n: "newline \<notin> set (''data: '' @ l)" using Cons.prems newline_plain(2) by auto
  have l: "trim_start ('' '' @ l) = l" "trim_end_cr (''data: '' @ l) = ''data: '' @ l" using Cons.prems by auto
  have "sse_drain (p\<lparr> sp_buffer := (''data: '' @ l) @ newline # ?rest \<rparr>) =
      sse_drain (p\<lparr> sp_data_lines := sp_data_lines p @ [l], sp_buffer := ?rest \<rparr>)"
    unfolding sse_drain_line [OF n] l(2) sse_line_simps(2) l(1) by (cases p) (simp add: Let_def)
  then show ?case using Cons.IH [of "p\<lparr> sp_data_lines := sp_data_lines p @ [l] \<rparr>"] Cons.prems by simp
qed (simp add: sse_parser.defs)

lemma sse_drain_end:
  "sse_drain (p\<lparr> sp_buffer := newline # rest \<rparr>) =
     (let r = sse_line [] (p\<lparr> sp_buffer := rest \<rparr>); r' = sse_drain (snd r) in (fst r @ fst r', snd r'))"
  using sse_drain_line [of "[]", where p = p and rest = rest] by (simp add: trim_end_cr_def)

lemma sse_drain_render:
  assumes "plain_event ev"
  shows "sse_drain (clean_parser (sse_render ev @ rest)) =
     (let r = sse_drain (clean_parser rest) in (ev # fst r, snd r))"
proof -
  let ?ls = "split_on newline (se_data ev)"
  let ?body = "concat (map (\<lambda>l. ''data: '' @ l @ [newline]) ?ls) @ newline # rest"
  let ?p = "(clean_parser [])\<lparr> sp_event_name := se_event ev \<rparr>"
  have "sse_drain (clean_parser (sse_render ev @ rest)) = sse_drain (?p\<lparr> sp_buffer := ?body \<rparr>)"
  proof (cases "se_event ev")
    case None
    then show ?thesis by (simp add: sse_render_def clean_parser_def)
  next
    case (Some n)
    with assms have n: "newline \<notin> set (''event: '' @ n)" "trim ('' '' @ n) = n"
        "trim_end_cr (''event: '' @ n) = ''event: '' @ n"
      using newline_plain(1) by (auto simp: plain_event_def)
    have "sse_drain ((clean_parser [])\<lparr> sp_buffer := (''event: '' @ n) @ newline # ?body \<rparr>) =
        sse_drain (?p\<lparr> sp_buffer := ?body \<rparr>)"
      unfolding sse_drain_line [OF n(1)] n(3) sse_line_simps(1) n(2) Some by (simp add: Let_def clean_parser_def)
    then show ?thesis by (simp add: sse_render_def Some clean_parser_def)
  qed
  also have "\<dots> = sse_drain (?p\<lparr> sp_data_lines := ?ls, sp_buffer := newline # rest \<rparr>)"
    using sse_drain_data [where ls = ?ls and p = ?p and rest = "newline # rest"] assms
    by (auto simp: plain_event_def list_all_iff split_on_lines clean_parser_def)
  also have "\<dots> = (let r = sse_drain (clean_parser rest) in (ev # fst r, snd r))"
    using sse_drain_end [where p = "?p\<lparr> sp_data_lines := ?ls \<rparr>" and rest = rest]
    by (simp add: sse_line_def join_split Let_def clean_parser_def)
  finally show ?thesis .
qed

lemma sse_drain_renders:
  "list_all plain_event evs \<Longrightarrow> fst (sse_drain (clean_parser (concat (map sse_render evs)))) = evs"
  by (induction evs) (simp_all add: sse_drain_render Let_def, simp add: sse_drain.simps clean_parser_def split_once_def)

text \<open>C17: Whatever sequence of plain events the controller sends, a client of the proxy gets exactly those
  events in order, however the stream is cut between characters, and then, if the stream fails, one
  error event.\<close>

theorem sse_proxy_forwards_events:
  assumes "list_all plain_event evs" and "list_all utf8_valid chunks"
    and "concat chunks = concat (map sse_render evs)"
  shows "sse_stream err_json sse_start (map Inr chunks) = evs \<and>
    sse_stream err_json sse_start (map Inr chunks @ [Inl e]) =
      evs @ [\<lparr> se_event = Some ''proxy-error'', se_data = err_json e \<rparr>]"
proof (cases "chunks = []")
  case True
  have "evs = []"
  proof (rule ccontr)
    assume "evs \<noteq> []"
    then obtain ev where "ev \<in> set evs" by (cases evs) auto
    moreover have "sse_render ev \<noteq> []" by (simp add: sse_render_def)
    ultimately show False using assms(3) True by auto
  qed
  then show ?thesis using True by simp
next
  case False
  let ?t = "concat (map sse_render evs)"
  have "utf8_valid ?t" using utf8_valid_concat [OF assms(2)] assms(3) by simp
  then have "fst (sse_chunk ?t sse_start) = evs"
    using sse_drain_renders [OF assms(1)]
    by (simp add: sse_chunk_def utf8_lossy_valid sse_start_def clean_parser_def)
  then show ?thesis
    using sse_stream_chunks [OF False assms(2), of err_json sse_start "[]"]
      sse_stream_chunks [OF False assms(2), of err_json sse_start "[Inl e]"]
    by (simp add: assms(3) case_prod_unfold)
qed

end
