(* ===== verification/Sim.thy ===== *)
theory Sim
  imports Sim_Sse Controller_Api Json_Value "HOL-Library.Signed_Division"
begin

text \<open>
  The simulator, \<^verbatim>\<open>pacinet-sim/src/main.rs\<close>: a web server that plays agents towards the controller.
  Its own state is a map of the nodes it plays; every handler takes the environment, the
  application's settings and the world, which is that map, the controller, and a count of the
  readings of the clock.  The generated gRPC client, the HTTP client, the parser of JSON and
  \<open>pacgate\<close> are arguments; \<^verbatim>\<open>Sim_Run.thy\<close> runs the handlers against the controller of the
  development.  The CPU usage that a heartbeat carries is left out, as it is in the agent: no part
  of the controller reads it.  A pause between two calls only lets time pass.
\<close>

subsection \<open>Data\<close>

record sim_rule_counter =
  sc_match_count :: u64
  sc_byte_count :: u64

record sim_node =
  si_node_id :: string
  si_hostname :: string
  si_agent_address :: string
  si_labels :: "(string, string) hmap"
  si_pacgate_version :: string
  si_counters :: "(string, sim_rule_counter) hmap"

record app_state =
  ap_grpc_endpoint :: string
  ap_rest_base :: string
  ap_api_key :: "string option"
  ap_pacgate_bin :: string
  ap_pacgate_repo :: string

text \<open>The bodies of the requests: a field with a default may be missing.\<close>

record register_node_body =
  rnb_hostname :: "string option"
  rnb_agent_address :: "string option"
  rnb_labels :: "(string, string) hmap option"
  rnb_pacgate_version :: "string option"

record heartbeat_body =
  hbb_node_id :: string
  hbb_state :: "string option"
  hbb_uptime_seconds :: "u64 option"

record counter_delta_entry =
  cde_rule_name :: string
  cde_match_delta :: "u64 option"
  cde_byte_delta :: "u64 option"

record counter_delta_body =
  cdb_node_id :: string
  cdb_counters :: "counter_delta_entry list"

record pacgate_regress_body =
  prb_scenario_path :: string
  prb_count :: "u64 option"

record pacgate_topology_body =
  ptb_scenario_path :: string

definition default_hostname :: string where "default_hostname = ''sim-node''"
definition default_agent_address :: string where "default_agent_address = ''127.0.0.1:55000''"
definition default_pacgate_version :: string where "default_pacgate_version = ''sim-1.0.0''"
definition default_state :: string where "default_state = ''online''"
definition default_uptime :: u64 where "default_uptime = 1"
definition default_event_limit :: u32 where "default_event_limit = 30"
definition default_regress_count :: u64 where "default_regress_count = 1000"

record pacinet_snapshot =
  sp_health :: json_value
  sp_fleet :: json_value
  sp_nodes :: json_value
  sp_event_history :: json_value

record scenario_step =
  ss_step :: string
  ss_ok :: bool
  ss_detail :: json_value

record scenario_result =
  sl_scenario :: string
  sl_steps :: "scenario_step list"
  sl_pacinet_snapshot :: "pacinet_snapshot option"

text \<open>\<open>ApiResponse<T>\<close> with its status; the constructors are the types it is used at.\<close>

datatype sim_data =
    ValueData json_value
  | ScenarioData scenario_result
  | SnapshotData pacinet_snapshot

record sim_response =
  sr_status :: nat
  sr_success :: bool
  sr_message :: string
  sr_data :: "sim_data option"

definition json_ok :: "string \<Rightarrow> sim_data \<Rightarrow> sim_response" where
  "json_ok msg d = \<lparr> sr_status = 200, sr_success = True, sr_message = msg, sr_data = Some d \<rparr>"

definition sim_error :: "nat \<Rightarrow> string \<Rightarrow> sim_response" where
  "sim_error status msg =
     \<lparr> sr_status = status, sr_success = False, sr_message = msg, sr_data = None \<rparr>"

subsection \<open>The outside\<close>

text \<open>The answer to an HTTP request: the text of a failure to send, or the status and the body (or the
  text of a failure to read it).\<close>

datatype sim_http_reply = SendFailed string | Replied nat "string + string"

record finished_process = process_output +
  fp_code :: "int option"

record 'c sim_env =
  se_now :: "nat \<Rightarrow> time"
  se_connect :: "string \<Rightarrow> 'c \<Rightarrow> string + unit"
  se_register :: "register_node_request \<Rightarrow> 'c \<Rightarrow> (status + register_node_response) \<times> 'c"
  se_heartbeat :: "heartbeat_request \<Rightarrow> 'c \<Rightarrow> (status + bool) \<times> 'c"
  se_report :: "report_counters_request \<Rightarrow> 'c \<Rightarrow> (status + bool) \<times> 'c"
  se_get :: "string \<Rightarrow> (string \<times> string) list \<Rightarrow> 'c \<Rightarrow> sim_http_reply"
  se_show_code :: "nat \<Rightarrow> string"
  se_parse_json :: "string \<Rightarrow> string + json_value"
  se_run :: "string \<Rightarrow> string \<Rightarrow> string list \<Rightarrow> string + finished_process"

record 'c sim_world =
  sw_nodes :: "(string, sim_node) hmap"
  sw_ctrl :: 'c
  sw_reads :: nat

definition sim_now :: "'c sim_env \<Rightarrow> 'c sim_world \<Rightarrow> time \<times> 'c sim_world" where
  "sim_now se w = (se_now se (sw_reads w), w\<lparr> sw_reads := Suc (sw_reads w) \<rparr>)"

definition call_register ::
  "'c sim_env \<Rightarrow> register_node_request \<Rightarrow> 'c sim_world \<Rightarrow>
     (status + register_node_response) \<times> 'c sim_world" where
  "call_register se req w =
     (case se_register se req (sw_ctrl w) of (r, c) \<Rightarrow> (r, w\<lparr> sw_ctrl := c \<rparr>))"

definition call_heartbeat ::
  "'c sim_env \<Rightarrow> heartbeat_request \<Rightarrow> 'c sim_world \<Rightarrow> (status + bool) \<times> 'c sim_world" where
  "call_heartbeat se req w =
     (case se_heartbeat se req (sw_ctrl w) of (r, c) \<Rightarrow> (r, w\<lparr> sw_ctrl := c \<rparr>))"

definition call_report ::
  "'c sim_env \<Rightarrow> report_counters_request \<Rightarrow> 'c sim_world \<Rightarrow> (status + bool) \<times> 'c sim_world" where
  "call_report se req w =
     (case se_report se req (sw_ctrl w) of (r, c) \<Rightarrow> (r, w\<lparr> sw_ctrl := c \<rparr>))"

definition insert_sim_node :: "sim_node \<Rightarrow> 'c sim_world \<Rightarrow> 'c sim_world" where
  "insert_sim_node n w = w\<lparr> sw_nodes := hm_insert (si_node_id n) n (sw_nodes w) \<rparr>"

definition cannot_connect :: "string \<Rightarrow> sim_response" where
  "cannot_connect e = sim_error 502 (''Failed to connect to pacinet gRPC: '' @ e)"

text \<open>\<open>timestamp_millis\<close>, \<open>timestamp\<close> and the decimal form of a signed number.\<close>

definition time_millis :: "time \<Rightarrow> int" where "time_millis t = t div 1000000"
definition time_seconds :: "time \<Rightarrow> int" where "time_seconds t = t div 1000000000"

definition show_int :: "int \<Rightarrow> string" where
  "show_int i = (if i < 0 then CHR ''-'' # show_nat (nat (- i)) else show_nat (nat i))"

subsection \<open>Settings and nodes\<close>

record sim_config_json =
  scj_grpc_endpoint :: string
  scj_rest_base :: string
  scj_api_key_configured :: bool
  scj_pacgate_bin :: string
  scj_pacgate_repo :: string

definition get_config :: "app_state \<Rightarrow> sim_config_json" where
  "get_config a =
     \<lparr> scj_grpc_endpoint = ap_grpc_endpoint a, scj_rest_base = ap_rest_base a,
       scj_api_key_configured = (ap_api_key a \<noteq> None), scj_pacgate_bin = ap_pacgate_bin a,
       scj_pacgate_repo = ap_pacgate_repo a \<rparr>"

definition list_sim_nodes :: "'c sim_world \<Rightarrow> sim_node list" where
  "list_sim_nodes w = hm_values (sw_nodes w)"

definition sim_counters_json :: "(string, sim_rule_counter) hmap \<Rightarrow> json_value" where
  "sim_counters_json m =
     JObj (map (\<lambda>(k, c). (k, JObj [(''match_count'', json_u64 (sc_match_count c)),
                                  (''byte_count'', json_u64 (sc_byte_count c))])) m)"

definition sim_node_json :: "sim_node \<Rightarrow> json_value" where
  "sim_node_json n =
     JObj [(''node_id'', JStr (si_node_id n)), (''hostname'', JStr (si_hostname n)),
           (''agent_address'', JStr (si_agent_address n)), (''labels'', json_strings (si_labels n)),
           (''pacgate_version'', JStr (si_pacgate_version n)),
           (''counters'', sim_counters_json (si_counters n))]"

subsection \<open>Playing an agent\<close>

text \<open>The node recorded for a registration, and the request that registers it.\<close>

definition sim_node_of :: "string \<Rightarrow> register_node_request \<Rightarrow> sim_node" where
  "sim_node_of nid req =
     \<lparr> si_node_id = nid, si_hostname = rr_hostname req, si_agent_address = rr_agent_address req,
       si_labels = rr_labels req, si_pacgate_version = rr_pacgate_version req, si_counters = [] \<rparr>"

definition register_request_of :: "register_node_body \<Rightarrow> register_node_request" where
  "register_request_of b =
     \<lparr> rr_hostname = or_default default_hostname (rnb_hostname b),
       rr_agent_address = or_default default_agent_address (rnb_agent_address b),
       rr_labels = or_default [] (rnb_labels b),
       rr_pacgate_version = or_default default_pacgate_version (rnb_pacgate_version b),
       rr_capabilities = [] \<rparr>"

definition sim_register_node ::
  "'c sim_env \<Rightarrow> app_state \<Rightarrow> register_node_body \<Rightarrow> 'c sim_world \<Rightarrow> sim_response \<times> 'c sim_world" where
  "sim_register_node se a b w =
     (case se_connect se (ap_grpc_endpoint a) (sw_ctrl w) of
        Inl e \<Rightarrow> (cannot_connect e, w)
      | Inr _ \<Rightarrow>
          (let req = register_request_of b in
           case call_register se req w of
             (Inr reg, w) \<Rightarrow>
               (let n = sim_node_of (rp_node_id reg) req in
                (json_ok ''Simulator node registered in pacinet'' (ValueData (JObj
                   [(''node_id'', JStr (rp_node_id reg)), (''accepted'', JBool (rp_accepted reg)),
                    (''message'', JStr (rp_message reg)), (''node'', sim_node_json n)])),
                 insert_sim_node n w))
           | (Inl st, w) \<Rightarrow> (sim_error 502 (''register_node failed: '' @ st_message st), w)))"

definition parse_node_state :: "string \<Rightarrow> proto_node_state option" where
  "parse_node_state v =
     (let s = to_lower v in
      if s = ''registered'' then Some PRegistered
      else if s = ''online'' then Some POnline
      else if s = ''deploying'' then Some PDeploying
      else if s = ''active'' then Some PActive
      else if s = ''error'' then Some PError
      else if s = ''offline'' then Some POffline
      else None)"

definition send_heartbeat ::
  "'c sim_env \<Rightarrow> app_state \<Rightarrow> heartbeat_body \<Rightarrow> 'c sim_world \<Rightarrow> sim_response \<times> 'c sim_world" where
  "send_heartbeat se a b w =
     (case parse_node_state (or_default default_state (hbb_state b)) of
        None \<Rightarrow>
          (sim_error 400
             ''Invalid state. Use one of: registered, online, deploying, active, error, offline'', w)
      | Some st \<Rightarrow>
          (case se_connect se (ap_grpc_endpoint a) (sw_ctrl w) of
             Inl e \<Rightarrow> (cannot_connect e, w)
           | Inr _ \<Rightarrow>
               (case call_heartbeat se
                   \<lparr> hb_node_id = hbb_node_id b, hb_state = proto_node_state_num st,
                     hb_uptime_seconds = or_default default_uptime (hbb_uptime_seconds b) \<rparr> w of
                  (Inr ack, w) \<Rightarrow>
                    (json_ok ''Heartbeat sent'' (ValueData (JObj
                       [(''node_id'', JStr (hbb_node_id b)), (''acknowledged'', JBool ack)])), w)
                | (Inl e, w) \<Rightarrow> (sim_error 502 (''heartbeat failed: '' @ st_message e), w))))"

text \<open>\<open>saturating_add\<close> on 64 bits, and the totals after a delta.\<close>

definition sat_add :: "u64 \<Rightarrow> u64 \<Rightarrow> u64" where
  "sat_add x y = (if unat x + unat y < 2 ^ 64 then x + y else - 1)"

definition zero_counter :: sim_rule_counter where
  "zero_counter = \<lparr> sc_match_count = 0, sc_byte_count = 0 \<rparr>"

definition add_delta ::
  "counter_delta_entry \<Rightarrow> (string, sim_rule_counter) hmap \<Rightarrow> (string, sim_rule_counter) hmap" where
  "add_delta d m =
     (let c = (case map_of m (cde_rule_name d) of Some c \<Rightarrow> c | None \<Rightarrow> zero_counter)
      in hm_insert (cde_rule_name d)
           \<lparr> sc_match_count = sat_add (sc_match_count c) (or_default 0 (cde_match_delta d)),
             sc_byte_count = sat_add (sc_byte_count c) (or_default 0 (cde_byte_delta d)) \<rparr> m)"

definition counters_report :: "(string, sim_rule_counter) hmap \<Rightarrow> rule_counter list" where
  "counters_report m =
     map (\<lambda>(name, c). \<lparr> rc_rule_name = name, rc_match_count = sc_match_count c,
                        rc_byte_count = sc_byte_count c \<rparr>) m"

text \<open>The deltas are added under the lock, before anything is sent.\<close>

definition sim_report_counters ::
  "'c sim_env \<Rightarrow> app_state \<Rightarrow> counter_delta_body \<Rightarrow> 'c sim_world \<Rightarrow> sim_response \<times> 'c sim_world" where
  "sim_report_counters se a b w =
     (if cdb_counters b = [] then (sim_error 400 ''At least one counter is required'', w)
      else (case map_of (sw_nodes w) (cdb_node_id b) of
        None \<Rightarrow> (sim_error 404 (''Unknown simulator node: '' @ cdb_node_id b), w)
      | Some n \<Rightarrow>
          (let counters = fold add_delta (cdb_counters b) (si_counters n);
               w = w\<lparr> sw_nodes := hm_modify (cdb_node_id b) (\<lambda>n. n\<lparr> si_counters := counters \<rparr>) (sw_nodes w) \<rparr>;
               (now, w) = sim_now se w
           in case se_connect se (ap_grpc_endpoint a) (sw_ctrl w) of
                Inl e \<Rightarrow> (cannot_connect e, w)
              | Inr _ \<Rightarrow>
                  (case call_report se
                      \<lparr> rq_node_id = cdb_node_id b, rq_counters = counters_report counters,
                        rq_collected_at = Some (time_seconds now), rq_flow_counters = [] \<rparr> w of
                     (Inr ack, w) \<Rightarrow>
                       (json_ok ''Counters reported'' (ValueData (JObj
                          [(''node_id'', JStr (cdb_node_id b)), (''acknowledged'', JBool ack),
                           (''current_counters'', sim_counters_json
                              (case map_of (sw_nodes w) (cdb_node_id b) of
                                 Some n \<Rightarrow> si_counters n | None \<Rightarrow> []))])), w)
                   | (Inl st, w) \<Rightarrow>
                       (sim_error 502 (''report_counters failed: '' @ st_message st), w)))))"

subsection \<open>Reading the controller\<close>

definition trim_slashes :: "string \<Rightarrow> string" where
  "trim_slashes s = rev (dropWhile (\<lambda>c. c = CHR ''/'') (rev s))"

definition auth_headers :: "app_state \<Rightarrow> (string \<times> string) list" where
  "auth_headers a =
     (case ap_api_key a of Some k \<Rightarrow> [(''authorization'', ''Bearer '' @ k)] | None \<Rightarrow> [])"

definition code_is_success :: "nat \<Rightarrow> bool" where
  "code_is_success s \<longleftrightarrow> 200 \<le> s \<and> s \<le> 299"

definition body_text :: "string + string \<Rightarrow> string" where
  "body_text b = (case b of Inr t \<Rightarrow> t | Inl _ \<Rightarrow> ''<unable to read body>'')"

definition get_pacinet_json :: "'c sim_env \<Rightarrow> app_state \<Rightarrow> string \<Rightarrow> 'c sim_world \<Rightarrow> string + json_value" where
  "get_pacinet_json se a path w =
     (case se_get se (trim_slashes (ap_rest_base a) @ path) (auth_headers a) (sw_ctrl w) of
        SendFailed e \<Rightarrow> Inl (''Request failed for '' @ path @ '': '' @ e)
      | Replied status body \<Rightarrow>
          if \<not> code_is_success status
          then Inl (path @ '' returned '' @ se_show_code se status @ '': '' @ body_text body)
          else map_err (\<lambda>e. ''Invalid JSON from '' @ path @ '': '' @ e)
                 (res_bind body (se_parse_json se)))"

definition fetch_snapshot ::
  "'c sim_env \<Rightarrow> app_state \<Rightarrow> u32 \<Rightarrow> 'c sim_world \<Rightarrow> string + pacinet_snapshot" where
  "fetch_snapshot se a event_limit w =
     res_bind (get_pacinet_json se a ''/api/health'' w) (\<lambda>health.
     res_bind (get_pacinet_json se a ''/api/fleet'' w) (\<lambda>fleet.
     res_bind (get_pacinet_json se a ''/api/nodes'' w) (\<lambda>nodes.
     res_bind (get_pacinet_json se a
         (''/api/events/history?limit='' @ show_nat (unat event_limit)) w) (\<lambda>history.
     Inr \<lparr> sp_health = health, sp_fleet = fleet, sp_nodes = nodes, sp_event_history = history \<rparr>))))"

definition get_pacinet_snapshot ::
  "'c sim_env \<Rightarrow> app_state \<Rightarrow> u32 option \<Rightarrow> 'c sim_world \<Rightarrow> sim_response" where
  "get_pacinet_snapshot se a event_limit w =
     (case fetch_snapshot se a (or_default default_event_limit event_limit) w of
        Inr s \<Rightarrow> json_ok ''Fetched pacinet snapshot'' (SnapshotData s)
      | Inl e \<Rightarrow> sim_error 502 e)"

definition snapshot_of :: "'c sim_env \<Rightarrow> app_state \<Rightarrow> u32 \<Rightarrow> 'c sim_world \<Rightarrow> pacinet_snapshot option" where
  "snapshot_of se a event_limit w =
     (case fetch_snapshot se a event_limit w of Inr s \<Rightarrow> Some s | Inl _ \<Rightarrow> None)"

text \<open>\<open>proxy_pacinet_sse\<close>: a refusal, or the events of the body, which arrives as \<open>chunks\<close>.\<close>

definition proxy_pacinet_sse ::
  "'c sim_env \<Rightarrow> (string \<Rightarrow> string) \<Rightarrow> app_state \<Rightarrow> string \<Rightarrow> (string + string) list \<Rightarrow> 'c sim_world \<Rightarrow>
     sim_response + sse_event list" where
  "proxy_pacinet_sse se err_json a path chunks w =
     (case se_get se (trim_slashes (ap_rest_base a) @ path)
             ((''accept'', ''text/event-stream'') # auth_headers a) (sw_ctrl w) of
        SendFailed e \<Rightarrow> Inl (sim_error 502 (''Failed to open upstream SSE '' @ path @ '': '' @ e))
      | Replied status body \<Rightarrow>
          if \<not> code_is_success status
          then Inl (sim_error 502 (''Upstream SSE '' @ path @ '' failed with '' @
                 se_show_code se status @ '': '' @ body_text body))
          else Inr (sse_stream err_json sse_start chunks))"

definition stream_node_events where
  "stream_node_events se err_json a = proxy_pacinet_sse se err_json a ''/api/events/nodes''"

definition stream_counter_events where
  "stream_counter_events se err_json a = proxy_pacinet_sse se err_json a ''/api/events/counters''"

definition stream_fsm_events where
  "stream_fsm_events se err_json a = proxy_pacinet_sse se err_json a ''/api/events/fsm''"

subsection \<open>PacGate scenarios\<close>

definition run_pacgate_command :: "'c sim_env \<Rightarrow> app_state \<Rightarrow> string list \<Rightarrow> sim_response" where
  "run_pacgate_command se a args =
     (case se_run se (ap_pacgate_bin a) (ap_pacgate_repo a) args of
        Inl e \<Rightarrow>
          sim_error 502 (''Failed to execute pacgate command (bin='' @ [CHR 0x27] @ ap_pacgate_bin a @
            [CHR 0x27] @ ''): '' @ e)
      | Inr out \<Rightarrow>
          (let stdout = utf8_lossy (po_stdout out);
               stderr = utf8_lossy (po_stderr out);
               payload =
                 (if trim stdout = [] then JObj []
                  else (case se_parse_json se stdout of
                          Inr v \<Rightarrow> v | Inl _ \<Rightarrow> JObj [(''raw_stdout'', JStr stdout)]))
           in if po_success out then json_ok ''PacGate scenario command executed'' (ValueData payload)
              else \<lparr> sr_status = 400, sr_success = False,
                     sr_message = ''PacGate scenario command failed'',
                     sr_data = Some (ValueData (JObj
                       [(''status'', case fp_code out of Some c \<Rightarrow> JNum c | None \<Rightarrow> JNull),
                        (''stdout'', payload), (''stderr'', JStr stderr)])) \<rparr>))"

definition run_pacgate_regress :: "'c sim_env \<Rightarrow> app_state \<Rightarrow> pacgate_regress_body \<Rightarrow> sim_response" where
  "run_pacgate_regress se a b =
     run_pacgate_command se a
       [''regress'', ''--scenario'', prb_scenario_path b, ''--count'',
        show_nat (unat (or_default default_regress_count (prb_count b))), ''--json'']"

definition run_pacgate_topology :: "'c sim_env \<Rightarrow> app_state \<Rightarrow> pacgate_topology_body \<Rightarrow> sim_response" where
  "run_pacgate_topology se a b =
     run_pacgate_command se a [''topology'', ''--scenario'', ptb_scenario_path b, ''--json'']"

subsection \<open>Scenarios\<close>

text \<open>The step of an acknowledged call, and of a registration.\<close>

definition error_json :: "status \<Rightarrow> json_value" where
  "error_json st = JObj [(''error'', JStr (st_message st))]"

definition ack_step :: "string \<Rightarrow> status + bool \<Rightarrow> scenario_step" where
  "ack_step name r =
     \<lparr> ss_step = name, ss_ok = res_is_ok r,
       ss_detail = (case r of Inr ack \<Rightarrow> JObj [(''acknowledged'', JBool ack)] | Inl st \<Rightarrow> error_json st) \<rparr>"

definition registered_step :: "string \<Rightarrow> string \<Rightarrow> scenario_step" where
  "registered_step name nid =
     \<lparr> ss_step = name, ss_ok = True, ss_detail = JObj [(''node_id'', JStr nid)] \<rparr>"

definition failed_step :: "string \<Rightarrow> status \<Rightarrow> scenario_step" where
  "failed_step name st = \<lparr> ss_step = name, ss_ok = False, ss_detail = error_json st \<rparr>"

definition scenario_request :: "string \<Rightarrow> string \<Rightarrow> (string, string) hmap \<Rightarrow> register_node_request" where
  "scenario_request hostname address labels =
     \<lparr> rr_hostname = hostname, rr_agent_address = address, rr_labels = labels,
       rr_pacgate_version = ''sim-1.0.0'', rr_capabilities = [] \<rparr>"

definition rule_totals :: "string \<Rightarrow> u64 \<Rightarrow> u64 \<Rightarrow> rule_counter" where
  "rule_totals name m b = \<lparr> rc_rule_name = name, rc_match_count = m, rc_byte_count = b \<rparr>"

definition scenario_heartbeat ::
  "'c sim_env \<Rightarrow> string \<Rightarrow> string \<Rightarrow> proto_node_state \<Rightarrow> u64 \<Rightarrow> 'c sim_world \<Rightarrow>
     scenario_step \<times> 'c sim_world" where
  "scenario_heartbeat se name nid st uptime w =
     (case call_heartbeat se
         \<lparr> hb_node_id = nid, hb_state = proto_node_state_num st, hb_uptime_seconds = uptime \<rparr> w of
        (r, w) \<Rightarrow> (ack_step name r, w))"

definition scenario_report ::
  "'c sim_env \<Rightarrow> string \<Rightarrow> string \<Rightarrow> rule_counter list \<Rightarrow> 'c sim_world \<Rightarrow>
     scenario_step \<times> 'c sim_world" where
  "scenario_report se name nid counters w =
     (case sim_now se w of (now, w) \<Rightarrow>
        (case call_report se
            \<lparr> rq_node_id = nid, rq_counters = counters, rq_collected_at = Some (time_seconds now),
              rq_flow_counters = [] \<rparr> w of
           (r, w) \<Rightarrow> (ack_step name r, w)))"

definition scenario_done ::
  "'c sim_env \<Rightarrow> app_state \<Rightarrow> u32 \<Rightarrow> string \<Rightarrow> string \<Rightarrow> scenario_step list \<Rightarrow> 'c sim_world \<Rightarrow>
     sim_response" where
  "scenario_done se a event_limit msg name steps w =
     json_ok msg (ScenarioData
       \<lparr> sl_scenario = name, sl_steps = steps,
         sl_pacinet_snapshot = snapshot_of se a event_limit w \<rparr>)"

definition run_basic_scenario ::
  "'c sim_env \<Rightarrow> app_state \<Rightarrow> 'c sim_world \<Rightarrow> sim_response \<times> 'c sim_world" where
  "run_basic_scenario se a w =
     (let (now, w) = sim_now se w;
          suffix = time_millis now;
          req = scenario_request (''sim-basic-'' @ show_int suffix)
                  (''127.0.0.1:'' @ show_int (56000 + suffix smod 1000))
                  [(''sim'', ''true''), (''scenario'', ''basic'')]
      in case se_connect se (ap_grpc_endpoint a) (sw_ctrl w) of
           Inl e \<Rightarrow> (cannot_connect e, w)
         | Inr _ \<Rightarrow>
             (case call_register se req w of
                (Inl st, w) \<Rightarrow>
                  (\<lparr> sr_status = 502, sr_success = False,
                     sr_message = ''Scenario failed at register_node'',
                     sr_data = Some (ScenarioData
                       \<lparr> sl_scenario = ''basic'', sl_steps = [failed_step ''register_node'' st],
                         sl_pacinet_snapshot = None \<rparr>) \<rparr>, w)
              | (Inr reg, w) \<Rightarrow>
                  (let nid = rp_node_id reg;
                       w = insert_sim_node (sim_node_of nid req) w;
                       s1 = \<lparr> ss_step = ''register_node'', ss_ok = True,
                              ss_detail = JObj [(''node_id'', JStr nid),
                                (''accepted'', JBool (rp_accepted reg)),
                                (''message'', JStr (rp_message reg))] \<rparr>;
                       (s2, w) = scenario_heartbeat se ''heartbeat'' nid POnline 5 w;
                       (s3, w) = scenario_report se ''report_counters_1'' nid
                                   [rule_totals ''allow-web'' 100 12000] w;
                       (s4, w) = scenario_report se ''report_counters_2'' nid
                                   [rule_totals ''allow-web'' 450 51000] w
                   in (scenario_done se a 30 ''Basic scenario executed'' ''basic'' [s1, s2, s3, s4] w, w))))"

text \<open>The burst: three nodes, a heartbeat of each that was registered, three rounds of counters.\<close>

primrec burst_register ::
  "'c sim_env \<Rightarrow> int \<Rightarrow> nat list \<Rightarrow> 'c sim_world \<Rightarrow> (string list \<times> scenario_step list) \<times> 'c sim_world" where
  "burst_register se base [] w = (([], []), w)"
| "burst_register se base (i # is) w =
     (let req = scenario_request (''sim-burst-'' @ show_int base @ ''-'' @ show_nat (i + 1))
                  (''127.0.0.1:'' @ show_nat (57000 + i))
                  [(''sim'', ''true''), (''scenario'', ''burst''), (''group'', ''load'')];
          name = ''register_node_'' @ show_nat (i + 1)
      in case call_register se req w of
           (Inr reg, w) \<Rightarrow>
             (let nid = rp_node_id reg;
                  ((created, steps), w) = burst_register se base is (insert_sim_node (sim_node_of nid req) w)
              in ((nid # created, registered_step name nid # steps), w))
         | (Inl st, w) \<Rightarrow>
             (let ((created, steps), w) = burst_register se base is w
              in ((created, failed_step name st # steps), w)))"

primrec burst_heartbeats ::
  "'c sim_env \<Rightarrow> string list \<Rightarrow> 'c sim_world \<Rightarrow> scenario_step list \<times> 'c sim_world" where
  "burst_heartbeats se [] w = ([], w)"
| "burst_heartbeats se (nid # nids) w =
     (let (s, w) = scenario_heartbeat se (''heartbeat_'' @ nid) nid POnline 20 w;
          (ss, w) = burst_heartbeats se nids w
      in (s # ss, w))"

definition burst_counters :: "nat \<Rightarrow> nat \<Rightarrow> rule_counter list" where
  "burst_counters round_no idx =
     (let factor = (word_of_nat idx + 1) * word_of_nat round_no :: u64
      in [rule_totals ''allow-web'' (factor * 400) (factor * 48000),
          rule_totals ''allow-api'' (factor * 210) (factor * 31000)])"

primrec burst_round ::
  "'c sim_env \<Rightarrow> nat \<Rightarrow> (nat \<times> string) list \<Rightarrow> 'c sim_world \<Rightarrow> scenario_step list \<times> 'c sim_world" where
  "burst_round se k [] w = ([], w)"
| "burst_round se k (x # xs) w =
     (let (s, w) = scenario_report se (''counters_round'' @ show_nat k @ ''_'' @ snd x) (snd x)
                     (burst_counters k (fst x)) w;
          (ss, w) = burst_round se k xs w
      in (s # ss, w))"

primrec burst_rounds ::
  "'c sim_env \<Rightarrow> nat list \<Rightarrow> string list \<Rightarrow> 'c sim_world \<Rightarrow> scenario_step list \<times> 'c sim_world" where
  "burst_rounds se [] created w = ([], w)"
| "burst_rounds se (k # ks) created w =
     (let (s, w) = burst_round se k (List.enumerate 0 created) w;
          (ss, w) = burst_rounds se ks created w
      in (s @ ss, w))"

definition run_burst_scenario ::
  "'c sim_env \<Rightarrow> app_state \<Rightarrow> 'c sim_world \<Rightarrow> sim_response \<times> 'c sim_world" where
  "run_burst_scenario se a w =
     (case se_connect se (ap_grpc_endpoint a) (sw_ctrl w) of
        Inl e \<Rightarrow> (cannot_connect e, w)
      | Inr _ \<Rightarrow>
          (let (now, w) = sim_now se w;
               ((created, s1), w) = burst_register se (time_millis now) [0, 1, 2] w;
               (s2, w) = burst_heartbeats se created w;
               (s3, w) = burst_rounds se [1, 2, 3] created w
           in (scenario_done se a 40 ''Burst scenario executed'' ''burst'' (s1 @ s2 @ s3) w, w)))"

text \<open>The flap: one node through five states.\<close>

definition flap_states :: "proto_node_state list" where
  "flap_states = [POnline, POffline, POnline, PError, PActive]"

primrec flap_heartbeats ::
  "'c sim_env \<Rightarrow> string \<Rightarrow> (nat \<times> proto_node_state) list \<Rightarrow> 'c sim_world \<Rightarrow>
     scenario_step list \<times> 'c sim_world" where
  "flap_heartbeats se nid [] w = ([], w)"
| "flap_heartbeats se nid (x # xs) w =
     (let (s, w) = scenario_heartbeat se (''heartbeat_state_'' @ show_nat (fst x + 1)) nid (snd x)
                     (15 + word_of_nat (fst x) * 5) w;
          (ss, w) = flap_heartbeats se nid xs w
      in (s # ss, w))"

definition run_flap_scenario ::
  "'c sim_env \<Rightarrow> app_state \<Rightarrow> 'c sim_world \<Rightarrow> sim_response \<times> 'c sim_world" where
  "run_flap_scenario se a w =
     (case se_connect se (ap_grpc_endpoint a) (sw_ctrl w) of
        Inl e \<Rightarrow> (cannot_connect e, w)
      | Inr _ \<Rightarrow>
          (let (now, w) = sim_now se w;
               suffix = time_millis now;
               req = scenario_request (''sim-flap-'' @ show_int suffix)
                       (''127.0.0.1:'' @ show_int (57500 + suffix smod 400))
                       [(''sim'', ''true''), (''scenario'', ''flap''), (''role'', ''edge'')]
           in case call_register se req w of
                (Inl st, w) \<Rightarrow> (sim_error 502 (''register_node failed: '' @ st_message st), w)
              | (Inr reg, w) \<Rightarrow>
                  (let nid = rp_node_id reg;
                       w = insert_sim_node (sim_node_of nid req) w;
                       (ss, w) = flap_heartbeats se nid (List.enumerate 0 flap_states) w
                   in (scenario_done se a 40 ''Flap scenario executed'' ''flap''
                         (registered_step ''register_node'' nid # ss) w, w))))"

text \<open>The canary: three nodes with a share of the traffic each.\<close>

definition canary_plan :: "(string \<times> u64) list" where
  "canary_plan = [(''canary'', 1), (''stable-a'', 4), (''stable-b'', 5)]"

primrec canary_register ::
  "'c sim_env \<Rightarrow> int \<Rightarrow> (nat \<times> string \<times> u64) list \<Rightarrow> 'c sim_world \<Rightarrow>
     ((string \<times> string \<times> u64) list \<times> scenario_step list) \<times> 'c sim_world" where
  "canary_register se base [] w = (([], []), w)"
| "canary_register se base (x # xs) w =
     (let (idx, role, weight) = x;
          req = scenario_request (''sim-canary-'' @ role @ ''-'' @ show_int base)
                  (''127.0.0.1:'' @ show_nat (57800 + idx))
                  [(''sim'', ''true''), (''scenario'', ''canary_traffic''),
                   (''tier'', if role = ''canary'' then ''canary'' else ''stable''), (''role'', role)];
          name = ''register_'' @ role
      in case call_register se req w of
           (Inr reg, w) \<Rightarrow>
             (let nid = rp_node_id reg;
                  ((nodes, steps), w) = canary_register se base xs (insert_sim_node (sim_node_of nid req) w)
              in (((nid, role, weight) # nodes, registered_step name nid # steps), w))
         | (Inl st, w) \<Rightarrow>
             (let ((nodes, steps), w) = canary_register se base xs w
              in ((nodes, failed_step name st # steps), w)))"

definition canary_counters :: "string \<Rightarrow> u64 \<Rightarrow> rule_counter list" where
  "canary_counters role weight =
     [rule_totals ''requests'' (900 * weight) (120000 * weight),
      rule_totals ''errors'' (if role = ''canary'' then 15 else 4 * weight)
        (if role = ''canary'' then 1900 else 500 * weight)]"

primrec canary_traffic ::
  "'c sim_env \<Rightarrow> (string \<times> string \<times> u64) list \<Rightarrow> 'c sim_world \<Rightarrow> scenario_step list \<times> 'c sim_world" where
  "canary_traffic se [] w = ([], w)"
| "canary_traffic se (x # xs) w =
     (let (nid, role, weight) = x;
          (h, w) = scenario_heartbeat se (''heartbeat_'' @ role) nid PActive 40 w;
          (c, w) = scenario_report se (''counters_'' @ role) nid (canary_counters role weight) w;
          (ss, w) = canary_traffic se xs w
      in (h # c # ss, w))"

definition run_canary_traffic_scenario ::
  "'c sim_env \<Rightarrow> app_state \<Rightarrow> 'c sim_world \<Rightarrow> sim_response \<times> 'c sim_world" where
  "run_canary_traffic_scenario se a w =
     (case se_connect se (ap_grpc_endpoint a) (sw_ctrl w) of
        Inl e \<Rightarrow> (cannot_connect e, w)
      | Inr _ \<Rightarrow>
          (let (now, w) = sim_now se w;
               ((nodes, s1), w) = canary_register se (time_millis now) (List.enumerate 0 canary_plan) w;
               (s2, w) = canary_traffic se nodes w
           in (scenario_done se a 50 ''Canary traffic scenario executed'' ''canary_traffic''
                 (s1 @ s2) w, w)))"

end
