(* ===== verification/Sim_Run.thy ===== *)
theory Sim_Run
  imports Sim
begin

text \<open>
  The simulator against a controller.  The locale states what it relies on: a registration answers
  with an id that was not in use, a heartbeat of a known node sets its state, a report replaces the
  counters of its node.  The scenarios are followed once from these laws; the controller of the
  development, with the in-memory backend and identifiers that do not repeat, provides them.
\<close>

subsection \<open>Totals\<close>

lemma unat_sat_add: "unat (sat_add x y) = min (unat x + unat y) (2 ^ 64 - 1)"
proof (cases "unat x + unat y < 2 ^ 64")
  case True
  then show ?thesis by (simp add: sat_add_def unat_word_ariths)
next
  case False
  then show ?thesis by (simp add: sat_add_def unsigned_minus_1_eq_mask mask_eq_exp_minus_1)
qed

definition deltas_of :: "(counter_delta_entry \<Rightarrow> u64 option) \<Rightarrow> string \<Rightarrow> counter_delta_entry list \<Rightarrow> nat" where
  "deltas_of f r ds = (\<Sum>d\<leftarrow>filter (\<lambda>d. cde_rule_name d = r) ds. unat (or_default 0 (f d)))"

definition total_of :: "(sim_rule_counter \<Rightarrow> u64) \<Rightarrow> string \<Rightarrow> (string, sim_rule_counter) hmap \<Rightarrow> nat" where
  "total_of f r m = (case map_of m r of Some c \<Rightarrow> unat (f c) | None \<Rightarrow> 0)"

lemma unat_u64_le: "unat (x :: u64) \<le> 2 ^ 64 - 1"
proof -
  have "unat x < 2 ^ LENGTH(64)" by (rule unsigned_less)
  then show ?thesis by simp
qed

lemma total_of_add_delta:
  "total_of sc_match_count r (add_delta d m) =
     (if cde_rule_name d = r
      then min (total_of sc_match_count r m + unat (or_default 0 (cde_match_delta d))) (2 ^ 64 - 1)
      else total_of sc_match_count r m)"
  "total_of sc_byte_count r (add_delta d m) =
     (if cde_rule_name d = r
      then min (total_of sc_byte_count r m + unat (or_default 0 (cde_byte_delta d))) (2 ^ 64 - 1)
      else total_of sc_byte_count r m)"
  by (simp_all add: total_of_def add_delta_def Let_def unat_sat_add zero_counter_def split: option.split)

lemma total_of_le: "total_of f r m \<le> 2 ^ 64 - 1"
  by (simp add: total_of_def unat_u64_le [simplified] split: option.split)

lemma totals_after:
  "total_of sc_match_count r (fold add_delta ds m) =
     min (total_of sc_match_count r m + deltas_of cde_match_delta r ds) (2 ^ 64 - 1)"
  "total_of sc_byte_count r (fold add_delta ds m) =
     min (total_of sc_byte_count r m + deltas_of cde_byte_delta r ds) (2 ^ 64 - 1)"
proof (induction ds arbitrary: m)
  case Nil
  { case 1 show ?case using total_of_le [of sc_match_count r m] by (simp add: deltas_of_def min_def) }
  { case 2 show ?case using total_of_le [of sc_byte_count r m] by (simp add: deltas_of_def min_def) }
next
  case (Cons d ds)
  { case 1 show ?case by (simp add: Cons(1) total_of_add_delta deltas_of_def min_def) }
  { case 2 show ?case by (simp add: Cons(2) total_of_add_delta deltas_of_def min_def) }
qed


text \<open>A scenario that ran its steps, all of them successful.\<close>

definition ran_all :: "nat \<Rightarrow> sim_response \<Rightarrow> bool" where
  "ran_all n r \<longleftrightarrow> sr_status r = 200 \<and>
     (case sr_data r of
        Some (ScenarioData sl) \<Rightarrow> length (sl_steps sl) = n \<and> list_all ss_ok (sl_steps sl)
      | _ \<Rightarrow> False)"

lemma ran_all_done [simp]:
  "ran_all n (scenario_done se a k msg name steps w) \<longleftrightarrow> length steps = n \<and> list_all ss_ok steps"
  by (simp add: ran_all_def scenario_done_def json_ok_def)

lemma step_ok [simp]:
  "ss_ok (ack_step name (Inr ack))" "ss_ok (registered_step name nid)" "\<not> ss_ok (failed_step name st)"
  by (simp_all add: ack_step_def registered_step_def failed_step_def)

text \<open>The totals of a played node, once there are any, are those the controller holds.\<close>

definition agrees ::
  "(string \<Rightarrow> node_state option) \<Rightarrow> (string \<Rightarrow> rule_counter list option) \<Rightarrow> (string, sim_node) hmap \<Rightarrow> bool" where
  "agrees states counters ns \<longleftrightarrow>
     (\<forall>nid n. map_of ns nid = Some n \<longrightarrow> states nid \<noteq> None \<and>
        (si_counters n = [] \<or> counters nid = Some (counters_report (si_counters n))))"

definition unreported :: "(string, sim_node) hmap \<Rightarrow> string \<Rightarrow> bool" where
  "unreported ns nid \<longleftrightarrow> (\<exists>n. map_of ns nid = Some n \<and> si_counters n = [])"

definition sim_inv ::
  "('c \<Rightarrow> bool) \<Rightarrow> ('c \<Rightarrow> string \<Rightarrow> node_state option) \<Rightarrow> ('c \<Rightarrow> string \<Rightarrow> rule_counter list option) \<Rightarrow>
     'c sim_world \<Rightarrow> bool" where
  "sim_inv good states counters w \<longleftrightarrow>
     good (sw_ctrl w) \<and> agrees (states (sw_ctrl w)) (counters (sw_ctrl w)) (sw_nodes w)"

lemma agrees_keep:
  assumes "agrees st cn ns" and "\<And>k. st k \<noteq> None \<Longrightarrow> st' k \<noteq> None"
    and "\<And>k. cn' k = cn k \<or> unreported ns k"
  shows "agrees st' cn' ns"
  unfolding agrees_def
proof (intro allI impI)
  fix nid n
  assume n: "map_of ns nid = Some n"
  with assms(1) have "st nid \<noteq> None" "si_counters n = [] \<or> cn nid = Some (counters_report (si_counters n))"
    unfolding agrees_def by blast+
  with assms(2) [of nid] assms(3) [of nid] n
  show "st' nid \<noteq> None \<and> (si_counters n = [] \<or> cn' nid = Some (counters_report (si_counters n)))"
    by (auto simp: unreported_def)
qed

text \<open>A request to the simulator that can change something.\<close>

inductive sim_step :: "'c sim_env \<Rightarrow> app_state \<Rightarrow> 'c sim_world \<Rightarrow> 'c sim_world \<Rightarrow> bool"
  for se :: "'c sim_env" and a :: app_state where
  register: "sim_step se a w (snd (sim_register_node se a rb w))"
| beat: "sim_step se a w (snd (send_heartbeat se a hb w))"
| counters: "sim_step se a w (snd (sim_report_counters se a cb w))"
| basic: "sim_step se a w (snd (run_basic_scenario se a w))"
| burst: "sim_step se a w (snd (run_burst_scenario se a w))"
| flap: "sim_step se a w (snd (run_flap_scenario se a w))"
| canary: "sim_step se a w (snd (run_canary_traffic_scenario se a w))"

subsection \<open>What a controller promises the simulator\<close>

locale played_controller =
  fixes se :: "'c sim_env"
    and good :: "'c \<Rightarrow> bool"
    and state_of :: "'c \<Rightarrow> string \<Rightarrow> node_state option"
    and counters_of :: "'c \<Rightarrow> string \<Rightarrow> rule_counter list option"
  assumes connects: "se_connect se endpoint c = Inr ()"
    and registers: "good c \<Longrightarrow> \<exists>nid c'. se_register se req c =
          (Inr \<lparr> rp_node_id = nid, rp_accepted = True, rp_message = ''Node registered'' \<rparr>, c') \<and>
        state_of c nid = None \<and> good c' \<and> state_of c' = (state_of c)(nid \<mapsto> Registered) \<and>
        counters_of c' = counters_of c"
    and beats: "good c \<Longrightarrow> state_of c (hb_node_id hb) \<noteq> None \<Longrightarrow> \<exists>c'. se_heartbeat se hb c = (Inr True, c') \<and>
        good c' \<and> state_of c' = (state_of c)(hb_node_id hb \<mapsto> heartbeat_state hb) \<and>
        counters_of c' = counters_of c"
    and unknown: "good c \<Longrightarrow> state_of c (hb_node_id hb) = None \<Longrightarrow> \<exists>st c'. se_heartbeat se hb c = (Inl st, c') \<and>
        good c' \<and> state_of c' = state_of c \<and> counters_of c' = counters_of c"
    and reports: "good c \<Longrightarrow> \<exists>c'. se_report se rq c = (Inr True, c') \<and> good c' \<and>
        state_of c' = state_of c \<and>
        counters_of c' = (counters_of c)(rq_node_id rq \<mapsto> rq_counters rq)"
begin

text \<open>The three calls on the world of the simulator, which they leave alone.\<close>

lemma call_register_ok:
  assumes "good (sw_ctrl w)"
  obtains nid c where
    "call_register se req w = (Inr \<lparr> rp_node_id = nid, rp_accepted = True,
       rp_message = ''Node registered'' \<rparr>, w\<lparr> sw_ctrl := c \<rparr>)"
    "state_of (sw_ctrl w) nid = None" "good c" "state_of c = (state_of (sw_ctrl w))(nid \<mapsto> Registered)"
    "counters_of c = counters_of (sw_ctrl w)"
  using registers [OF assms, of req] by (auto simp: call_register_def)

lemma scenario_heartbeat_ok:
  assumes "good (sw_ctrl w)" and "state_of (sw_ctrl w) nid \<noteq> None"
  obtains c where
    "scenario_heartbeat se name nid st uptime w = (ack_step name (Inr True), w\<lparr> sw_ctrl := c \<rparr>)"
    "good c" "state_of c = (state_of (sw_ctrl w))(nid \<mapsto> node_state_from_proto st)"
    "counters_of c = counters_of (sw_ctrl w)"
  using beats [of "sw_ctrl w" "\<lparr> hb_node_id = nid, hb_state = proto_node_state_num st,
    hb_uptime_seconds = uptime \<rparr>"] assms
  by (cases st) (auto simp: scenario_heartbeat_def call_heartbeat_def heartbeat_state_def
      proto_node_state_of_num_def)

lemma scenario_report_ok:
  assumes "good (sw_ctrl w)"
  obtains c where
    "scenario_report se name nid cs w =
       (ack_step name (Inr True), w\<lparr> sw_reads := Suc (sw_reads w), sw_ctrl := c \<rparr>)"
    "good c" "state_of c = state_of (sw_ctrl w)"
    "counters_of c = (counters_of (sw_ctrl w))(nid \<mapsto> cs)"
  using reports [of "sw_ctrl w" "\<lparr> rq_node_id = nid, rq_counters = cs,
    rq_collected_at = Some (time_seconds (se_now se (sw_reads w))), rq_flow_counters = [] \<rparr>"] assms
  by (auto simp: scenario_report_def sim_now_def call_report_def)

text \<open>The scenarios, call by call.\<close>

lemma basic_scenario:
  assumes "good (sw_ctrl w)"
  shows "\<exists>r w' nid n. run_basic_scenario se a w = (r, w') \<and> ran_all 4 r \<and>
    state_of (sw_ctrl w) nid = None \<and> good (sw_ctrl w') \<and>
    state_of (sw_ctrl w') = (state_of (sw_ctrl w))(nid \<mapsto> Online) \<and>
    counters_of (sw_ctrl w') = (counters_of (sw_ctrl w))(nid \<mapsto> [rule_totals ''allow-web'' 450 51000]) \<and>
    sw_nodes w' = hm_insert nid n (sw_nodes w) \<and> si_counters n = []"
proof -
  obtain now w1 where n: "sim_now se w = (now, w1)" by (rule prod.exhaust)
  define suffix where "suffix = time_millis now"
  define req where "req = scenario_request (''sim-basic-'' @ show_int suffix)
      (''127.0.0.1:'' @ show_int (56000 + suffix smod 1000)) [(''sim'', ''true''), (''scenario'', ''basic'')]"
  have w1: "sw_ctrl w1 = sw_ctrl w" "sw_nodes w1 = sw_nodes w" using n by (auto simp: sim_now_def)
  then have "good (sw_ctrl w1)" using assms by simp
  from call_register_ok [OF this, of req] obtain nid c where
    r: "call_register se req w1 = (Inr \<lparr> rp_node_id = nid, rp_accepted = True,
       rp_message = ''Node registered'' \<rparr>, w1\<lparr> sw_ctrl := c \<rparr>)"
    and new: "state_of (sw_ctrl w1) nid = None" and g: "good c"
    and c: "state_of c = (state_of (sw_ctrl w1))(nid \<mapsto> Registered)"
      "counters_of c = counters_of (sw_ctrl w1)" .
  define w2 where "w2 = insert_sim_node (sim_node_of nid req) (w1\<lparr> sw_ctrl := c \<rparr>)"
  have w2: "sw_ctrl w2 = c" "sw_nodes w2 = hm_insert nid (sim_node_of nid req) (sw_nodes w)"
    by (simp_all add: w2_def insert_sim_node_def w1 sim_node_of_def)
  obtain c2 where b: "scenario_heartbeat se ''heartbeat'' nid POnline 5 w2 =
      (ack_step ''heartbeat'' (Inr True), w2\<lparr> sw_ctrl := c2 \<rparr>)" and g2: "good c2"
    and c2: "state_of c2 = (state_of c)(nid \<mapsto> Online)" "counters_of c2 = counters_of c"
    by (rule scenario_heartbeat_ok [of w2 nid "''heartbeat''" POnline 5]) (simp_all add: w2 g c)
  define w3 where "w3 = w2\<lparr> sw_ctrl := c2 \<rparr>"
  have g3: "good (sw_ctrl w3)" by (simp add: w3_def g2)
  obtain c3 where k1: "scenario_report se ''report_counters_1'' nid [rule_totals ''allow-web'' 100 12000] w3 =
      (ack_step ''report_counters_1'' (Inr True), w3\<lparr> sw_reads := Suc (sw_reads w3), sw_ctrl := c3 \<rparr>)"
    and g3': "good c3" and c3: "state_of c3 = state_of c2"
      "counters_of c3 = (counters_of c2)(nid \<mapsto> [rule_totals ''allow-web'' 100 12000])"
    by (rule scenario_report_ok [OF g3]) (auto simp: w3_def)
  define w4 where "w4 = w3\<lparr> sw_reads := Suc (sw_reads w3), sw_ctrl := c3 \<rparr>"
  have g4: "good (sw_ctrl w4)" by (simp add: w4_def g3')
  obtain c4 where k2: "scenario_report se ''report_counters_2'' nid [rule_totals ''allow-web'' 450 51000] w4 =
      (ack_step ''report_counters_2'' (Inr True), w4\<lparr> sw_reads := Suc (sw_reads w4), sw_ctrl := c4 \<rparr>)"
    and g4': "good c4" and c4: "state_of c4 = state_of c3"
      "counters_of c4 = (counters_of c3)(nid \<mapsto> [rule_totals ''allow-web'' 450 51000])"
    by (rule scenario_report_ok [OF g4]) (auto simp: w4_def)
  define w5 where "w5 = w4\<lparr> sw_reads := Suc (sw_reads w4), sw_ctrl := c4 \<rparr>"
  let ?reg = "\<lparr> rp_node_id = nid, rp_accepted = True, rp_message = ''Node registered'' \<rparr>"
  let ?steps = "[\<lparr> ss_step = ''register_node'', ss_ok = True,
      ss_detail = JObj [(''node_id'', JStr nid), (''accepted'', JBool True),
        (''message'', JStr ''Node registered'')] \<rparr>,
      ack_step ''heartbeat'' (Inr True), ack_step ''report_counters_1'' (Inr True),
      ack_step ''report_counters_2'' (Inr True)]"
  have run: "run_basic_scenario se a w =
      (scenario_done se a 30 ''Basic scenario executed'' ''basic'' ?steps w5, w5)"
    unfolding run_basic_scenario_def n Let_def prod.case suffix_def [symmetric] connects sum.case req_def [symmetric] r
    by (simp add: w2_def [symmetric] b w3_def [symmetric] k1 w4_def [symmetric] k2 w5_def [symmetric])
  show ?thesis
    unfolding run
    by (rule exI, rule exI, rule exI [of _ nid], rule exI [of _ "sim_node_of nid req"],
        intro conjI, rule refl)
      (simp_all add: w5_def w4_def w3_def w2 g4' c4 c3 c2 c
        new [unfolded w1] w1 sim_node_of_def)
qed

lemma flap_heartbeats_ok:
  assumes "good (sw_ctrl w)" and "state_of (sw_ctrl w) nid = Some st"
  shows "\<exists>ss c. flap_heartbeats se nid xs w = (ss, w\<lparr> sw_ctrl := c \<rparr>) \<and> length ss = length xs \<and>
    list_all ss_ok ss \<and> good c \<and> counters_of c = counters_of (sw_ctrl w) \<and>
    state_of c = (state_of (sw_ctrl w))(nid \<mapsto> last (st # map (\<lambda>x. node_state_from_proto (snd x)) xs))"
  using assms
proof (induction xs arbitrary: w st)
  case Nil
  then show ?case by (auto simp: fun_eq_iff intro!: exI [of _ "sw_ctrl w"])
next
  case (Cons x xs)
  define name where "name = ''heartbeat_state_'' @ show_nat (fst x + 1)"
  obtain c where h: "scenario_heartbeat se name nid (snd x) (15 + word_of_nat (fst x) * 5) w =
      (ack_step name (Inr True), w\<lparr> sw_ctrl := c \<rparr>)" and g: "good c"
    and c: "state_of c = (state_of (sw_ctrl w))(nid \<mapsto> node_state_from_proto (snd x))"
      "counters_of c = counters_of (sw_ctrl w)"
    by (rule scenario_heartbeat_ok [of w nid name "snd x" "15 + word_of_nat (fst x) * 5"])
      (use Cons.prems in simp_all)
  define w2 where "w2 = w\<lparr> sw_ctrl := c \<rparr>"
  have "good (sw_ctrl w2)" "state_of (sw_ctrl w2) nid = Some (node_state_from_proto (snd x))"
    using g c by (simp_all add: w2_def)
  from Cons.IH [OF this] obtain ss c' where IH: "flap_heartbeats se nid xs w2 = (ss, w2\<lparr> sw_ctrl := c' \<rparr>)"
    "length ss = length xs" "list_all ss_ok ss" "good c'" "counters_of c' = counters_of (sw_ctrl w2)"
    "state_of c' = (state_of (sw_ctrl w2))(nid \<mapsto>
       last (node_state_from_proto (snd x) # map (\<lambda>x. node_state_from_proto (snd x)) xs))" by blast
  have "flap_heartbeats se nid (x # xs) w = (ack_step name (Inr True) # ss, w\<lparr> sw_ctrl := c' \<rparr>)"
    by (simp only: flap_heartbeats.simps(2) name_def [symmetric] h Let_def prod.case w2_def [symmetric] IH(1))
      (simp add: w2_def)
  then show ?case using IH(2-) c by (intro exI conjI) (assumption, simp_all add: w2_def)
qed

lemma flap_scenario:
  assumes "good (sw_ctrl w)"
  shows "\<exists>r w' nid. run_flap_scenario se a w = (r, w') \<and> ran_all 6 r \<and>
    state_of (sw_ctrl w) nid = None \<and> good (sw_ctrl w') \<and>
    state_of (sw_ctrl w') = (state_of (sw_ctrl w))(nid \<mapsto> Active) \<and>
    counters_of (sw_ctrl w') = counters_of (sw_ctrl w)"
proof -
  obtain now w1 where n: "sim_now se w = (now, w1)" by (rule prod.exhaust)
  define suffix where "suffix = time_millis now"
  define req where "req = scenario_request (''sim-flap-'' @ show_int suffix)
      (''127.0.0.1:'' @ show_int (57500 + suffix smod 400))
      [(''sim'', ''true''), (''scenario'', ''flap''), (''role'', ''edge'')]"
  have w1: "sw_ctrl w1 = sw_ctrl w" using n by (auto simp: sim_now_def)
  then have "good (sw_ctrl w1)" using assms by simp
  from call_register_ok [OF this, of req] obtain nid c where
    r: "call_register se req w1 = (Inr \<lparr> rp_node_id = nid, rp_accepted = True,
       rp_message = ''Node registered'' \<rparr>, w1\<lparr> sw_ctrl := c \<rparr>)"
    and new: "state_of (sw_ctrl w1) nid = None" and g: "good c"
    and c: "state_of c = (state_of (sw_ctrl w1))(nid \<mapsto> Registered)"
      "counters_of c = counters_of (sw_ctrl w1)" .
  define w2 where "w2 = insert_sim_node (sim_node_of nid req) (w1\<lparr> sw_ctrl := c \<rparr>)"
  have w2: "sw_ctrl w2 = c" by (simp add: w2_def insert_sim_node_def)
  obtain ss c' where f: "flap_heartbeats se nid (List.enumerate 0 flap_states) w2 = (ss, w2\<lparr> sw_ctrl := c' \<rparr>)"
    "length ss = 5" "list_all ss_ok ss" "good c'" "counters_of c' = counters_of c"
    "state_of c' = (state_of c)(nid \<mapsto> Active)"
    using flap_heartbeats_ok [of w2 nid Registered "List.enumerate 0 flap_states"] w2 g c
    by (auto simp: flap_states_def)
  have run: "run_flap_scenario se a w =
      (scenario_done se a 40 ''Flap scenario executed'' ''flap''
         (registered_step ''register_node'' nid # ss) (w2\<lparr> sw_ctrl := c' \<rparr>), w2\<lparr> sw_ctrl := c' \<rparr>)"
    unfolding run_flap_scenario_def n Let_def prod.case suffix_def [symmetric] connects sum.case
      req_def [symmetric] r
    by (simp add: w2_def [symmetric] f(1))
  show ?thesis unfolding run
    by (rule exI, rule exI, rule exI [of _ nid], intro conjI, rule refl) (simp_all add: f(2-) c new [unfolded w1] w1)
qed

text \<open>Several nodes: the ids are new and pairwise different.\<close>

lemma burst_register_ok:
  assumes "good (sw_ctrl w)"
  shows "\<exists>created ss w'. burst_register se base is w = ((created, ss), w') \<and>
    length created = length is \<and> length ss = length is \<and> list_all ss_ok ss \<and> distinct created \<and>
    (\<forall>nid \<in> set created. state_of (sw_ctrl w) nid = None) \<and> good (sw_ctrl w') \<and>
    state_of (sw_ctrl w') = (\<lambda>k. if k \<in> set created then Some Registered else state_of (sw_ctrl w) k) \<and>
    counters_of (sw_ctrl w') = counters_of (sw_ctrl w)"
  using assms
proof (induction "is" arbitrary: w)
  case (Cons i "is")
  define req where "req = scenario_request (''sim-burst-'' @ show_int base @ ''-'' @ show_nat (i + 1))
      (''127.0.0.1:'' @ show_nat (57000 + i)) [(''sim'', ''true''), (''scenario'', ''burst''), (''group'', ''load'')]"
  from call_register_ok [OF Cons.prems, of req] obtain nid c where
    r: "call_register se req w = (Inr \<lparr> rp_node_id = nid, rp_accepted = True,
       rp_message = ''Node registered'' \<rparr>, w\<lparr> sw_ctrl := c \<rparr>)"
    and new: "state_of (sw_ctrl w) nid = None" and g: "good c"
    and c: "state_of c = (state_of (sw_ctrl w))(nid \<mapsto> Registered)"
      "counters_of c = counters_of (sw_ctrl w)" .
  define w2 where "w2 = insert_sim_node (sim_node_of nid req) (w\<lparr> sw_ctrl := c \<rparr>)"
  have w2: "sw_ctrl w2 = c" by (simp add: w2_def insert_sim_node_def)
  have "good (sw_ctrl w2)" using g w2 by simp
  from Cons.IH [OF this] obtain created ss w' where IH: "burst_register se base is w2 = ((created, ss), w')"
    "length created = length is" "length ss = length is" "list_all ss_ok ss" "distinct created"
    "\<forall>k \<in> set created. state_of (sw_ctrl w2) k = None" "good (sw_ctrl w')"
    "state_of (sw_ctrl w') = (\<lambda>k. if k \<in> set created then Some Registered else state_of (sw_ctrl w2) k)"
    "counters_of (sw_ctrl w') = counters_of (sw_ctrl w2)" by blast
  define name where "name = ''register_node_'' @ show_nat (i + 1)"
  have run: "burst_register se base (i # is) w = ((nid # created, registered_step name nid # ss), w')"
    by (simp only: burst_register.simps(2) req_def [symmetric] name_def [symmetric] Let_def r sum.case
        prod.case register_node_response.simps w2_def [symmetric] IH(1))
  have 1: "nid \<notin> set created" using IH(6) c(1) w2 by auto
  have 2: "\<forall>k \<in> set created. state_of (sw_ctrl w) k = None"
    using IH(6) c(1) w2 by (auto split: if_splits)
  show ?case unfolding run
    by (intro exI conjI, rule refl) (simp_all add: 1 2 IH(2-) w2 c new fun_eq_iff)
qed simp

lemma burst_heartbeats_ok:
  assumes "good (sw_ctrl w)" and "\<forall>nid \<in> set nids. state_of (sw_ctrl w) nid \<noteq> None"
  shows "\<exists>ss w'. burst_heartbeats se nids w = (ss, w') \<and> length ss = length nids \<and> list_all ss_ok ss \<and>
    good (sw_ctrl w') \<and> counters_of (sw_ctrl w') = counters_of (sw_ctrl w) \<and>
    state_of (sw_ctrl w') = (\<lambda>k. if k \<in> set nids then Some Online else state_of (sw_ctrl w) k)"
  using assms
proof (induction nids arbitrary: w)
  case (Cons nid nids)
  obtain c where h: "scenario_heartbeat se (''heartbeat_'' @ nid) nid POnline 20 w =
      (ack_step (''heartbeat_'' @ nid) (Inr True), w\<lparr> sw_ctrl := c \<rparr>)" and g: "good c"
    and c: "state_of c = (state_of (sw_ctrl w))(nid \<mapsto> Online)" "counters_of c = counters_of (sw_ctrl w)"
    by (rule scenario_heartbeat_ok [of w nid "''heartbeat_'' @ nid" POnline 20]) (use Cons.prems in simp_all)
  define w2 where "w2 = w\<lparr> sw_ctrl := c \<rparr>"
  have "good (sw_ctrl w2)" "\<forall>k \<in> set nids. state_of (sw_ctrl w2) k \<noteq> None"
    using g c Cons.prems by (simp_all add: w2_def)
  from Cons.IH [OF this] obtain ss w' where IH: "burst_heartbeats se nids w2 = (ss, w')"
    "length ss = length nids" "list_all ss_ok ss" "good (sw_ctrl w')"
    "counters_of (sw_ctrl w') = counters_of (sw_ctrl w2)"
    "state_of (sw_ctrl w') = (\<lambda>k. if k \<in> set nids then Some Online else state_of (sw_ctrl w2) k)" by blast
  then show ?case using h c by (simp add: w2_def [symmetric] fun_eq_iff) (simp add: w2_def)
qed simp

lemma burst_round_ok:
  assumes "good (sw_ctrl w)" and "distinct (map snd xs)"
  shows "\<exists>ss w'. burst_round se k xs w = (ss, w') \<and> length ss = length xs \<and> list_all ss_ok ss \<and>
    good (sw_ctrl w') \<and> state_of (sw_ctrl w') = state_of (sw_ctrl w) \<and>
    counters_of (sw_ctrl w') =
      counters_of (sw_ctrl w) ++ map_of (map (\<lambda>x. (snd x, burst_counters k (fst x))) xs)"
  using assms
proof (induction xs arbitrary: w)
  case (Cons x xs)
  define name where "name = ''counters_round'' @ show_nat k @ ''_'' @ snd x"
  obtain c where h: "scenario_report se name (snd x) (burst_counters k (fst x)) w =
      (ack_step name (Inr True), w\<lparr> sw_reads := Suc (sw_reads w), sw_ctrl := c \<rparr>)" and g: "good c"
    and c: "state_of c = state_of (sw_ctrl w)"
      "counters_of c = (counters_of (sw_ctrl w))(snd x \<mapsto> burst_counters k (fst x))"
    by (rule scenario_report_ok [OF Cons.prems(1)])
  define w2 where "w2 = w\<lparr> sw_reads := Suc (sw_reads w), sw_ctrl := c \<rparr>"
  have w2: "sw_ctrl w2 = c" by (simp add: w2_def)
  have "good (sw_ctrl w2)" "distinct (map snd xs)" using g w2 Cons.prems by simp_all
  from Cons.IH [OF this] obtain ss w' where IH: "burst_round se k xs w2 = (ss, w')"
    "length ss = length xs" "list_all ss_ok ss" "good (sw_ctrl w')"
    "state_of (sw_ctrl w') = state_of (sw_ctrl w2)"
    "counters_of (sw_ctrl w') =
      counters_of (sw_ctrl w2) ++ map_of (map (\<lambda>x. (snd x, burst_counters k (fst x))) xs)" by blast
  have run: "burst_round se k (x # xs) w = (ack_step name (Inr True) # ss, w')"
    by (simp only: burst_round.simps(2) name_def [symmetric] Let_def h prod.case w2_def [symmetric] IH(1))
  have "snd x \<notin> dom (map_of (map (\<lambda>x. (snd x, burst_counters k (fst x))) xs))"
    using Cons.prems(2) by (simp add: dom_map_of_conv_image_fst image_image)
  then have 1: "counters_of (sw_ctrl w') =
      counters_of (sw_ctrl w) ++ map_of (map (\<lambda>x. (snd x, burst_counters k (fst x))) (x # xs))"
    by (simp add: IH(6) w2 c map_add_upd_left)
  show ?case unfolding run
    by (intro exI conjI) (rule refl, simp add: IH(2), simp add: IH(3), rule IH(4),
      simp add: IH(5) w2 c, rule 1)
qed simp

lemma map_add_absorb: "dom f \<subseteq> dom g \<Longrightarrow> m ++ f ++ g = m ++ g"
  by (rule ext) (auto simp: map_add_def split: option.splits)

lemma burst_rounds_ok:
  assumes "good (sw_ctrl w)" and "distinct created"
  shows "\<exists>ss w'. burst_rounds se ks created w = (ss, w') \<and> length ss = length ks * length created \<and>
    list_all ss_ok ss \<and> good (sw_ctrl w') \<and> state_of (sw_ctrl w') = state_of (sw_ctrl w) \<and>
    counters_of (sw_ctrl w') = (if ks = [] then counters_of (sw_ctrl w)
      else counters_of (sw_ctrl w) ++
        map_of (map (\<lambda>x. (snd x, burst_counters (last ks) (fst x))) (List.enumerate 0 created)))"
  using assms(1)
proof (induction ks arbitrary: w)
  case (Cons k ks)
  have d: "distinct (map snd (List.enumerate 0 created))" using assms(2) by simp
  obtain s w2 where r: "burst_round se k (List.enumerate 0 created) w = (s, w2)"
    "length s = length created" "list_all ss_ok s" "good (sw_ctrl w2)"
    "state_of (sw_ctrl w2) = state_of (sw_ctrl w)"
    "counters_of (sw_ctrl w2) = counters_of (sw_ctrl w) ++
       map_of (map (\<lambda>x. (snd x, burst_counters k (fst x))) (List.enumerate 0 created))"
    using burst_round_ok [OF Cons.prems d, of k] by auto
  from Cons.IH [OF r(4)] obtain ss w' where IH: "burst_rounds se ks created w2 = (ss, w')"
    "length ss = length ks * length created" "list_all ss_ok ss" "good (sw_ctrl w')"
    "state_of (sw_ctrl w') = state_of (sw_ctrl w2)"
    "counters_of (sw_ctrl w') = (if ks = [] then counters_of (sw_ctrl w2)
      else counters_of (sw_ctrl w2) ++
        map_of (map (\<lambda>x. (snd x, burst_counters (last ks) (fst x))) (List.enumerate 0 created)))" by blast
  have run: "burst_rounds se (k # ks) created w = (s @ ss, w')"
    by (simp only: burst_rounds.simps(2) Let_def r(1) prod.case IH(1))
  have 1: "counters_of (sw_ctrl w') = counters_of (sw_ctrl w) ++
      map_of (map (\<lambda>x. (snd x, burst_counters (last (k # ks)) (fst x))) (List.enumerate 0 created))"
    by (simp add: IH(6) r(6), subst map_add_absorb)
      (simp_all add: dom_map_of_conv_image_fst image_image)
  show ?case unfolding run
    by (intro exI conjI) (rule refl, simp add: r(2) IH(2), simp add: r(3) IH(3), rule IH(4),
      simp add: r(5) IH(5), simp only: 1 list.distinct if_False)
qed simp

lemma burst_scenario:
  assumes "good (sw_ctrl w)"
  shows "\<exists>r w' n1 n2 n3. run_burst_scenario se a w = (r, w') \<and> ran_all 15 r \<and>
    distinct [n1, n2, n3] \<and> (\<forall>nid \<in> {n1, n2, n3}. state_of (sw_ctrl w) nid = None) \<and> good (sw_ctrl w') \<and>
    state_of (sw_ctrl w') = (state_of (sw_ctrl w))(n1 \<mapsto> Online, n2 \<mapsto> Online, n3 \<mapsto> Online) \<and>
    counters_of (sw_ctrl w') = (counters_of (sw_ctrl w))(n1 \<mapsto> burst_counters 3 0,
      n2 \<mapsto> burst_counters 3 1, n3 \<mapsto> burst_counters 3 2)"
proof -
  obtain now w1 where n: "sim_now se w = (now, w1)" by (rule prod.exhaust)
  have w1: "sw_ctrl w1 = sw_ctrl w" using n by (auto simp: sim_now_def)
  then have g1: "good (sw_ctrl w1)" using assms by simp
  obtain created s1 w2 where b: "burst_register se (time_millis now) [0, 1, 2] w1 = ((created, s1), w2)"
    "length created = 3" "length s1 = 3" "list_all ss_ok s1" "distinct created"
    "\<forall>nid \<in> set created. state_of (sw_ctrl w1) nid = None" "good (sw_ctrl w2)"
    "state_of (sw_ctrl w2) = (\<lambda>k. if k \<in> set created then Some Registered else state_of (sw_ctrl w1) k)"
    "counters_of (sw_ctrl w2) = counters_of (sw_ctrl w1)"
    using burst_register_ok [OF g1, of "time_millis now" "[0, 1, 2]"] by auto
  have known: "\<forall>nid \<in> set created. state_of (sw_ctrl w2) nid \<noteq> None" by (simp add: b(8))
  from burst_heartbeats_ok [OF b(7) known] obtain s2 w3 where h: "burst_heartbeats se created w2 = (s2, w3)"
    "length s2 = length created" "list_all ss_ok s2" "good (sw_ctrl w3)"
    "counters_of (sw_ctrl w3) = counters_of (sw_ctrl w2)"
    "state_of (sw_ctrl w3) = (\<lambda>k. if k \<in> set created then Some Online else state_of (sw_ctrl w2) k)" by blast
  from burst_rounds_ok [OF h(4) b(5), of "[1, 2, 3]"] obtain s3 w4 where
    k: "burst_rounds se [1, 2, 3] created w3 = (s3, w4)" "length s3 = 3 * length created"
    "list_all ss_ok s3" "good (sw_ctrl w4)" "state_of (sw_ctrl w4) = state_of (sw_ctrl w3)"
    "counters_of (sw_ctrl w4) = counters_of (sw_ctrl w3) ++
       map_of (map (\<lambda>x. (snd x, burst_counters 3 (fst x))) (List.enumerate 0 created))" by auto
  obtain n1 n2 n3 where cr: "created = [n1, n2, n3]"
    using b(2) by (auto simp: length_Suc_conv numeral_3_eq_3)
  have run: "run_burst_scenario se a w =
      (scenario_done se a 40 ''Burst scenario executed'' ''burst'' (s1 @ s2 @ s3) w4, w4)"
    by (simp only: run_burst_scenario_def connects sum.case n Let_def prod.case b(1) h(1) k(1))
  show ?thesis unfolding run
    by (rule exI, rule exI, rule exI [of _ n1], rule exI [of _ n2], rule exI [of _ n3],
        intro conjI, rule refl)
      (use b k h w1 cr in \<open>auto simp: fun_eq_iff map_add_def numeral_2_eq_2\<close>)
qed

lemma canary_register_ok:
  assumes "good (sw_ctrl w)"
  shows "\<exists>ids ss w'. canary_register se base xs w = ((map (\<lambda>(nid, x). (nid, snd x)) (zip ids xs), ss), w') \<and>
    length ids = length xs \<and> length ss = length xs \<and> list_all ss_ok ss \<and> distinct ids \<and>
    (\<forall>nid \<in> set ids. state_of (sw_ctrl w) nid = None) \<and> good (sw_ctrl w') \<and>
    state_of (sw_ctrl w') = (\<lambda>k. if k \<in> set ids then Some Registered else state_of (sw_ctrl w) k) \<and>
    counters_of (sw_ctrl w') = counters_of (sw_ctrl w)"
  using assms
proof (induction xs arbitrary: w)
  case (Cons x xs)
  obtain idx role weight where x: "x = (idx, role, weight)" by (rule prod_cases3)
  define req where "req = scenario_request (''sim-canary-'' @ role @ ''-'' @ show_int base)
      (''127.0.0.1:'' @ show_nat (57800 + idx)) [(''sim'', ''true''), (''scenario'', ''canary_traffic''),
      (''tier'', if role = ''canary'' then ''canary'' else ''stable''), (''role'', role)]"
  from call_register_ok [OF Cons.prems, of req] obtain nid c where
    r: "call_register se req w = (Inr \<lparr> rp_node_id = nid, rp_accepted = True,
       rp_message = ''Node registered'' \<rparr>, w\<lparr> sw_ctrl := c \<rparr>)"
    and new: "state_of (sw_ctrl w) nid = None" and g: "good c"
    and c: "state_of c = (state_of (sw_ctrl w))(nid \<mapsto> Registered)"
      "counters_of c = counters_of (sw_ctrl w)" .
  define w2 where "w2 = insert_sim_node (sim_node_of nid req) (w\<lparr> sw_ctrl := c \<rparr>)"
  have w2: "sw_ctrl w2 = c" by (simp add: w2_def insert_sim_node_def)
  have "good (sw_ctrl w2)" using g w2 by simp
  from Cons.IH [OF this] obtain ids ss w' where IH:
    "canary_register se base xs w2 = ((map (\<lambda>(nid, x). (nid, snd x)) (zip ids xs), ss), w')"
    "length ids = length xs" "length ss = length xs" "list_all ss_ok ss" "distinct ids"
    "\<forall>k \<in> set ids. state_of (sw_ctrl w2) k = None" "good (sw_ctrl w')"
    "state_of (sw_ctrl w') = (\<lambda>k. if k \<in> set ids then Some Registered else state_of (sw_ctrl w2) k)"
    "counters_of (sw_ctrl w') = counters_of (sw_ctrl w2)" by blast
  define name where "name = ''register_'' @ role"
  have run: "canary_register se base (x # xs) w =
      (((nid, role, weight) # map (\<lambda>(nid, x). (nid, snd x)) (zip ids xs), registered_step name nid # ss), w')"
    by (simp only: canary_register.simps(2) x req_def [symmetric] name_def [symmetric] Let_def r sum.case
        prod.case register_node_response.simps w2_def [symmetric] IH(1))
  have 1: "nid \<notin> set ids" using IH(6) c(1) w2 by auto
  have 2: "\<forall>k \<in> set ids. state_of (sw_ctrl w) k = None"
    using IH(6) c(1) w2 by (auto split: if_splits)
  show ?case unfolding run
    by (rule exI [of _ "nid # ids"], intro exI conjI, simp add: x)
      (simp_all add: 1 2 IH(2-) w2 c new fun_eq_iff)
qed simp

lemma canary_traffic_ok:
  assumes "good (sw_ctrl w)" and "\<forall>nid \<in> fst ` set xs. state_of (sw_ctrl w) nid \<noteq> None" and "distinct (map fst xs)"
  shows "\<exists>ss w'. canary_traffic se xs w = (ss, w') \<and> length ss = 2 * length xs \<and> list_all ss_ok ss \<and>
    good (sw_ctrl w') \<and>
    state_of (sw_ctrl w') = (\<lambda>k. if k \<in> fst ` set xs then Some Active else state_of (sw_ctrl w) k) \<and>
    counters_of (sw_ctrl w') =
      counters_of (sw_ctrl w) ++ map_of (map (\<lambda>(nid, role, weight). (nid, canary_counters role weight)) xs)"
  using assms
proof (induction xs arbitrary: w)
  case (Cons x xs)
  obtain nid role weight where x: "x = (nid, role, weight)" by (rule prod_cases3)
  define n1 where "n1 = ''heartbeat_'' @ role"
  define n2 where "n2 = ''counters_'' @ role"
  obtain c where h: "scenario_heartbeat se n1 nid PActive 40 w = (ack_step n1 (Inr True), w\<lparr> sw_ctrl := c \<rparr>)"
    and g: "good c" and c: "state_of c = (state_of (sw_ctrl w))(nid \<mapsto> Active)" "counters_of c = counters_of (sw_ctrl w)"
    by (rule scenario_heartbeat_ok [of w nid n1 PActive 40]) (use Cons.prems x in simp_all)
  define w2 where "w2 = w\<lparr> sw_ctrl := c \<rparr>"
  have w2: "sw_ctrl w2 = c" by (simp add: w2_def)
  then have g2: "good (sw_ctrl w2)" using g by simp
  obtain c' where k: "scenario_report se n2 nid (canary_counters role weight) w2 =
      (ack_step n2 (Inr True), w2\<lparr> sw_reads := Suc (sw_reads w2), sw_ctrl := c' \<rparr>)" and g': "good c'"
    and c': "state_of c' = state_of (sw_ctrl w2)"
      "counters_of c' = (counters_of (sw_ctrl w2))(nid \<mapsto> canary_counters role weight)"
    by (rule scenario_report_ok [OF g2])
  define w3 where "w3 = w2\<lparr> sw_reads := Suc (sw_reads w2), sw_ctrl := c' \<rparr>"
  have w3: "sw_ctrl w3 = c'" by (simp add: w3_def)
  have "good (sw_ctrl w3)" "\<forall>nid \<in> fst ` set xs. state_of (sw_ctrl w3) nid \<noteq> None" "distinct (map fst xs)"
    using g' w3 c' w2 c Cons.prems by simp_all
  from Cons.IH [OF this] obtain ss w' where IH: "canary_traffic se xs w3 = (ss, w')"
    "length ss = 2 * length xs" "list_all ss_ok ss" "good (sw_ctrl w')"
    "state_of (sw_ctrl w') = (\<lambda>k. if k \<in> fst ` set xs then Some Active else state_of (sw_ctrl w3) k)"
    "counters_of (sw_ctrl w') = counters_of (sw_ctrl w3) ++
       map_of (map (\<lambda>(nid, role, weight). (nid, canary_counters role weight)) xs)" by blast
  have run: "canary_traffic se (x # xs) w = (ack_step n1 (Inr True) # ack_step n2 (Inr True) # ss, w')"
    by (simp only: canary_traffic.simps(2) x n1_def [symmetric] n2_def [symmetric] Let_def prod.case h
        w2_def [symmetric] k w3_def [symmetric] IH(1))
  have "nid \<notin> dom (map_of (map (\<lambda>(nid, role, weight). (nid, canary_counters role weight)) xs))"
  proof -
    have "fst ` (\<lambda>(nid, role, weight). (nid, canary_counters role weight)) ` set xs = fst ` set xs"
      unfolding image_image by (rule image_cong) auto
    then show ?thesis using Cons.prems(3) x by (simp add: dom_map_of_conv_image_fst)
  qed
  then have 1: "counters_of (sw_ctrl w') = counters_of (sw_ctrl w) ++
      map_of (map (\<lambda>(nid, role, weight). (nid, canary_counters role weight)) (x # xs))"
    by (simp add: IH(6) w3 c' w2 c x map_add_upd_left)
  show ?case unfolding run
    by (intro exI conjI) (rule refl, simp add: IH(2), simp add: IH(3), rule IH(4),
      simp add: IH(5) w3 c' w2 c x fun_eq_iff, rule 1)
qed simp

lemma canary_scenario:
  assumes "good (sw_ctrl w)"
  shows "\<exists>r w' n1 n2 n3. run_canary_traffic_scenario se a w = (r, w') \<and> ran_all 9 r \<and>
    distinct [n1, n2, n3] \<and> (\<forall>nid \<in> {n1, n2, n3}. state_of (sw_ctrl w) nid = None) \<and> good (sw_ctrl w') \<and>
    state_of (sw_ctrl w') = (state_of (sw_ctrl w))(n1 \<mapsto> Active, n2 \<mapsto> Active, n3 \<mapsto> Active) \<and>
    counters_of (sw_ctrl w') = (counters_of (sw_ctrl w))(n1 \<mapsto> canary_counters ''canary'' 1,
      n2 \<mapsto> canary_counters ''stable-a'' 4, n3 \<mapsto> canary_counters ''stable-b'' 5)"
proof -
  obtain now w1 where n: "sim_now se w = (now, w1)" by (rule prod.exhaust)
  have w1: "sw_ctrl w1 = sw_ctrl w" using n by (auto simp: sim_now_def)
  then have g1: "good (sw_ctrl w1)" using assms by simp
  let ?plan = "List.enumerate 0 canary_plan"
  obtain ids s1 w2 where b: "canary_register se (time_millis now) ?plan w1 =
      ((map (\<lambda>(nid, x). (nid, snd x)) (zip ids ?plan), s1), w2)"
    "length ids = 3" "length s1 = 3" "list_all ss_ok s1" "distinct ids"
    "\<forall>nid \<in> set ids. state_of (sw_ctrl w1) nid = None" "good (sw_ctrl w2)"
    "state_of (sw_ctrl w2) = (\<lambda>k. if k \<in> set ids then Some Registered else state_of (sw_ctrl w1) k)"
    "counters_of (sw_ctrl w2) = counters_of (sw_ctrl w1)"
    using canary_register_ok [OF g1, of "time_millis now" ?plan] by (auto simp: canary_plan_def)
  obtain n1 n2 n3 where ids: "ids = [n1, n2, n3]"
    using b(2) by (auto simp: length_Suc_conv numeral_3_eq_3)
  define nodes where "nodes = [(n1, ''canary'', 1 :: u64), (n2, ''stable-a'', 4), (n3, ''stable-b'', 5)]"
  have nodes: "map (\<lambda>(nid, x). (nid, snd x)) (zip ids ?plan) = nodes"
    by (simp add: ids nodes_def canary_plan_def)
  have d: "distinct (map fst nodes)" "\<forall>nid \<in> fst ` set nodes. state_of (sw_ctrl w2) nid \<noteq> None"
    using b(5,8) ids by (simp_all add: nodes_def)
  from canary_traffic_ok [OF b(7) d(2,1)] obtain s2 w3 where t: "canary_traffic se nodes w2 = (s2, w3)"
    "length s2 = 2 * length nodes" "list_all ss_ok s2" "good (sw_ctrl w3)"
    "state_of (sw_ctrl w3) = (\<lambda>k. if k \<in> fst ` set nodes then Some Active else state_of (sw_ctrl w2) k)"
    "counters_of (sw_ctrl w3) = counters_of (sw_ctrl w2) ++
       map_of (map (\<lambda>(nid, role, weight). (nid, canary_counters role weight)) nodes)" by blast
  have run: "run_canary_traffic_scenario se a w =
      (scenario_done se a 50 ''Canary traffic scenario executed'' ''canary_traffic'' (s1 @ s2) w3, w3)"
    by (simp only: run_canary_traffic_scenario_def connects sum.case n Let_def prod.case b(1) nodes t(1))
  show ?thesis unfolding run
    by (rule exI, rule exI, rule exI [of _ n1], rule exI [of _ n2], rule exI [of _ n3],
        intro conjI, rule refl)
      (use b t w1 ids in \<open>auto simp: fun_eq_iff map_add_def nodes_def\<close>)
qed

text \<open>Deltas posted for a played node: its totals are what the controller then holds.\<close>

lemma report_reaches_controller:
  assumes "good (sw_ctrl w)" and "map_of (sw_nodes w) (cdb_node_id b) = Some n" and "cdb_counters b \<noteq> []"
  shows "\<exists>r w'. sim_report_counters se a b w = (r, w') \<and> sr_status r = 200 \<and>
    sw_nodes w' = hm_modify (cdb_node_id b)
      (\<lambda>n'. n'\<lparr> si_counters := fold add_delta (cdb_counters b) (si_counters n) \<rparr>) (sw_nodes w) \<and>
    state_of (sw_ctrl w') = state_of (sw_ctrl w) \<and>
    counters_of (sw_ctrl w') = (counters_of (sw_ctrl w))(cdb_node_id b \<mapsto>
      counters_report (fold add_delta (cdb_counters b) (si_counters n)))"
proof -
  obtain c where "se_report se \<lparr> rq_node_id = cdb_node_id b,
      rq_counters = counters_report (fold add_delta (cdb_counters b) (si_counters n)),
      rq_collected_at = Some (time_seconds (se_now se (sw_reads w))), rq_flow_counters = [] \<rparr> (sw_ctrl w) =
      (Inr True, c)" "state_of c = state_of (sw_ctrl w)" "counters_of c = (counters_of (sw_ctrl w))(cdb_node_id b \<mapsto>
      counters_report (fold add_delta (cdb_counters b) (si_counters n)))"
    using reports [OF assms(1), of "\<lparr> rq_node_id = cdb_node_id b,
      rq_counters = counters_report (fold add_delta (cdb_counters b) (si_counters n)),
      rq_collected_at = Some (time_seconds (se_now se (sw_reads w))), rq_flow_counters = [] \<rparr>"] by auto
  then show ?thesis using assms(2,3)
    by (simp add: sim_report_counters_def Let_def sim_now_def connects call_report_def json_ok_def)
qed

text \<open>Agreement is kept by every request, whatever the scenarios report.\<close>

abbreviation agree :: "'c sim_world \<Rightarrow> bool" where
  "agree \<equiv> sim_inv good state_of counters_of"

lemmas agreeI = conjI [THEN sim_inv_def [THEN iffD2]]
lemmas agreeD = sim_inv_def [THEN iffD1, THEN conjunct1] sim_inv_def [THEN iffD1, THEN conjunct2]

lemma agree_now: "sim_now se w = (t, w') \<Longrightarrow> agree w' = agree w \<and> sw_nodes w' = sw_nodes w"
  by (auto simp: sim_now_def sim_inv_def)

lemma agree_register:
  assumes "agree w" and "call_register se req w = (r, w1)"
  obtains reg where "r = Inr reg" and "agree (insert_sim_node (sim_node_of (rp_node_id reg) req) w1)"
    and "sw_nodes (insert_sim_node (sim_node_of (rp_node_id reg) req) w1) =
      hm_insert (rp_node_id reg) (sim_node_of (rp_node_id reg) req) (sw_nodes w)"
proof -
  from assms(1) have g: "good (sw_ctrl w)" by (rule agreeD)
  obtain nid c where "call_register se req w = (Inr \<lparr> rp_node_id = nid, rp_accepted = True,
       rp_message = ''Node registered'' \<rparr>, w\<lparr> sw_ctrl := c \<rparr>)" and "good c"
    "state_of c = (state_of (sw_ctrl w))(nid \<mapsto> Registered)" "counters_of c = counters_of (sw_ctrl w)"
    by (rule call_register_ok [OF g, of req])
  then show thesis using assms
    by (intro that) (auto simp: insert_sim_node_def sim_node_of_def agrees_def sim_inv_def)
qed

lemma agree_call_heartbeat:
  assumes "agree w" and "call_heartbeat se hb w = (r, w')"
  shows "agree w' \<and> sw_nodes w' = sw_nodes w"
proof (cases "state_of (sw_ctrl w) (hb_node_id hb)")
  case None
  then show ?thesis using unknown [of "sw_ctrl w" hb] assms by (auto simp: call_heartbeat_def sim_inv_def)
next
  case (Some st)
  with beats [of "sw_ctrl w" hb, OF agreeD(1) [OF assms(1)]] obtain c where
    c: "se_heartbeat se hb (sw_ctrl w) = (Inr True, c)" "good c" "counters_of c = counters_of (sw_ctrl w)"
    "state_of c = (state_of (sw_ctrl w))(hb_node_id hb \<mapsto> heartbeat_state hb)" by auto
  have "agrees (state_of c) (counters_of c) (sw_nodes w)"
    by (rule agrees_keep [OF agreeD(2) [OF assms(1)]]) (auto simp: c(3,4))
  then show ?thesis using assms(2) c(1,2) by (auto simp: call_heartbeat_def sim_inv_def)
qed

lemma agree_heartbeat:
  "agree w \<Longrightarrow> scenario_heartbeat se name nid st uptime w = (s, w') \<Longrightarrow> agree w' \<and> sw_nodes w' = sw_nodes w"
  using agree_call_heartbeat [of w "\<lparr> hb_node_id = nid, hb_state = proto_node_state_num st,
    hb_uptime_seconds = uptime \<rparr>"]
  by (simp add: scenario_heartbeat_def split: prod.splits)

lemma agree_report:
  assumes "agree w" and "unreported (sw_nodes w) nid" and "scenario_report se name nid cs w = (s, w')"
  shows "agree w' \<and> sw_nodes w' = sw_nodes w"
proof -
  from assms(1) have g: "good (sw_ctrl w)" by (rule agreeD)
  obtain c where c: "scenario_report se name nid cs w =
       (ack_step name (Inr True), w\<lparr> sw_reads := Suc (sw_reads w), sw_ctrl := c \<rparr>)"
    "good c" "state_of c = state_of (sw_ctrl w)" "counters_of c = (counters_of (sw_ctrl w))(nid \<mapsto> cs)"
    by (rule scenario_report_ok [OF g, of name nid cs])
  have "agrees (state_of c) (counters_of c) (sw_nodes w)"
    by (rule agrees_keep [OF agreeD(2) [OF assms(1)]]) (auto simp: c(3,4) assms(2))
  moreover have "w' = w\<lparr> sw_reads := Suc (sw_reads w), sw_ctrl := c \<rparr>" using assms(3) c(1) by simp
  ultimately show ?thesis using c(2) by (simp add: sim_inv_def)
qed

lemma unreported_insert:
  "unreported (hm_insert nid (sim_node_of nid req) ns) k \<longleftrightarrow> k = nid \<or> unreported ns k"
  by (auto simp: unreported_def sim_node_of_def)

lemma agree_flap:
  "agree w \<Longrightarrow> flap_heartbeats se nid xs w = (ss, w') \<Longrightarrow> agree w'"
proof (induction xs arbitrary: w ss)
  case (Cons x xs)
  from Cons.prems(2) obtain s w1 ss1 where
    s: "scenario_heartbeat se (''heartbeat_state_'' @ show_nat (fst x + 1)) nid (snd x)
       (15 + word_of_nat (fst x) * 5) w = (s, w1)" and r: "flap_heartbeats se nid xs w1 = (ss1, w')"
    by (simp only: flap_heartbeats.simps Let_def split: prod.splits) blast
  from Cons.IH [OF conjunct1 [OF agree_heartbeat [OF Cons.prems(1) s]] r] show ?case .
qed simp

lemma agree_burst_register:
  assumes "agree w" and "burst_register se base is w = ((created, ss), w')"
  shows "agree w' \<and> (\<forall>k. unreported (sw_nodes w') k \<longleftrightarrow> k \<in> set created \<or> unreported (sw_nodes w) k)"
  using assms
proof (induction "is" arbitrary: w w' created ss)
  case (Cons i "is")
  define req where "req = scenario_request (''sim-burst-'' @ show_int base @ ''-'' @ show_nat (i + 1))
      (''127.0.0.1:'' @ show_nat (57000 + i)) [(''sim'', ''true''), (''scenario'', ''burst''), (''group'', ''load'')]"
  obtain r w1 where r: "call_register se req w = (r, w1)" by (rule prod.exhaust)
  obtain reg where reg: "r = Inr reg" and w2: "agree (insert_sim_node (sim_node_of (rp_node_id reg) req) w1)"
    "sw_nodes (insert_sim_node (sim_node_of (rp_node_id reg) req) w1) =
       hm_insert (rp_node_id reg) (sim_node_of (rp_node_id reg) req) (sw_nodes w)"
    by (rule agree_register [OF Cons.prems(1) r])
  define w2 where "w2 = insert_sim_node (sim_node_of (rp_node_id reg) req) w1"
  obtain cr ss1 w3 where b: "burst_register se base is w2 = ((cr, ss1), w3)" by (metis prod.exhaust)
  have run: "burst_register se base (i # is) w =
      ((rp_node_id reg # cr, registered_step (''register_node_'' @ show_nat (i + 1)) (rp_node_id reg) # ss1), w3)"
    by (simp only: burst_register.simps(2) req_def [symmetric] Let_def r reg sum.case prod.case
        w2_def [symmetric] b)
  have ns: "sw_nodes w2 = hm_insert (rp_node_id reg) (sim_node_of (rp_node_id reg) req) (sw_nodes w)"
    by (simp only: w2_def w2(2))
  have out: "w' = w3" "created = rp_node_id reg # cr" using Cons.prems(2) run by simp_all
  from Cons.IH [OF w2(1) [folded w2_def] b] show ?case unfolding out
    by (simp add: ns unreported_insert ac_simps)
qed simp

lemma agree_burst_heartbeats:
  "agree w \<Longrightarrow> burst_heartbeats se nids w = (ss, w') \<Longrightarrow> agree w' \<and> sw_nodes w' = sw_nodes w"
proof (induction nids arbitrary: w ss)
  case (Cons nid nids)
  from Cons.prems(2) obtain s w1 ss1 where
    s: "scenario_heartbeat se (''heartbeat_'' @ nid) nid POnline 20 w = (s, w1)"
    and r: "burst_heartbeats se nids w1 = (ss1, w')"
    by (simp only: burst_heartbeats.simps Let_def split: prod.splits) blast
  from agree_heartbeat [OF Cons.prems(1) s] Cons.IH [OF _ r] show ?case by simp
qed simp

lemma agree_burst_round:
  assumes "agree w" and "\<forall>nid \<in> snd ` set xs. unreported (sw_nodes w) nid" and "burst_round se k xs w = (ss, w')"
  shows "agree w' \<and> sw_nodes w' = sw_nodes w"
  using assms
proof (induction xs arbitrary: w ss)
  case (Cons x xs)
  from Cons.prems(3) obtain s w1 ss1 where
    s: "scenario_report se (''counters_round'' @ show_nat k @ ''_'' @ snd x) (snd x)
          (burst_counters k (fst x)) w = (s, w1)"
    and r: "burst_round se k xs w1 = (ss1, w')"
    by (simp only: burst_round.simps Let_def split: prod.splits) blast
  from Cons.prems(2) have "unreported (sw_nodes w) (snd x)" by simp
  from agree_report [OF Cons.prems(1) this s] Cons.IH [OF _ _ r] Cons.prems(2) show ?case by simp
qed simp

lemma agree_burst_rounds:
  assumes "agree w" and "\<forall>nid \<in> set created. unreported (sw_nodes w) nid"
    and "burst_rounds se ks created w = (ss, w')"
  shows "agree w'"
  using assms
proof (induction ks arbitrary: w ss)
  case (Cons k ks)
  from Cons.prems(3) obtain s w1 ss1 where s: "burst_round se k (List.enumerate 0 created) w = (s, w1)"
    and r: "burst_rounds se ks created w1 = (ss1, w')"
    by (simp only: burst_rounds.simps Let_def split: prod.splits) blast
  have "snd ` set (List.enumerate 0 created) = set created" by (metis map_snd_enumerate set_map)
  then have "\<forall>nid \<in> snd ` set (List.enumerate 0 created). unreported (sw_nodes w) nid"
    using Cons.prems(2) by simp
  from agree_burst_round [OF Cons.prems(1) this s] Cons.IH [OF _ _ r] Cons.prems(2) show ?case by simp
qed simp

lemma agree_canary_register:
  assumes "agree w" and "canary_register se base xs w = ((nodes, ss), w')"
  shows "agree w' \<and> (\<forall>k. unreported (sw_nodes w') k \<longleftrightarrow> k \<in> fst ` set nodes \<or> unreported (sw_nodes w) k)"
  using assms
proof (induction xs arbitrary: w w' nodes ss)
  case (Cons x xs)
  obtain idx role weight where x: "x = (idx, role, weight)" by (rule prod_cases3)
  define req where "req = scenario_request (''sim-canary-'' @ role @ ''-'' @ show_int base)
      (''127.0.0.1:'' @ show_nat (57800 + idx)) [(''sim'', ''true''), (''scenario'', ''canary_traffic''),
      (''tier'', if role = ''canary'' then ''canary'' else ''stable''), (''role'', role)]"
  obtain r w1 where r: "call_register se req w = (r, w1)" by (rule prod.exhaust)
  obtain reg where reg: "r = Inr reg" and w2: "agree (insert_sim_node (sim_node_of (rp_node_id reg) req) w1)"
    "sw_nodes (insert_sim_node (sim_node_of (rp_node_id reg) req) w1) =
       hm_insert (rp_node_id reg) (sim_node_of (rp_node_id reg) req) (sw_nodes w)"
    by (rule agree_register [OF Cons.prems(1) r])
  define w2 where "w2 = insert_sim_node (sim_node_of (rp_node_id reg) req) w1"
  obtain ns ss1 w3 where b: "canary_register se base xs w2 = ((ns, ss1), w3)" by (metis prod.exhaust)
  have run: "canary_register se base (x # xs) w =
      (((rp_node_id reg, role, weight) # ns, registered_step (''register_'' @ role) (rp_node_id reg) # ss1), w3)"
    by (simp only: canary_register.simps(2) x req_def [symmetric] Let_def r reg sum.case prod.case
        w2_def [symmetric] b)
  have nodes: "sw_nodes w2 = hm_insert (rp_node_id reg) (sim_node_of (rp_node_id reg) req) (sw_nodes w)"
    by (simp only: w2_def w2(2))
  have out: "w' = w3" "nodes = (rp_node_id reg, role, weight) # ns" using Cons.prems(2) run by simp_all
  from Cons.IH [OF w2(1) [folded w2_def] b] show ?case unfolding out
    by (simp add: nodes unreported_insert ac_simps)
qed simp

lemma agree_canary_traffic:
  assumes "agree w" and "\<forall>nid \<in> fst ` set xs. unreported (sw_nodes w) nid"
    and "canary_traffic se xs w = (ss, w')"
  shows "agree w'"
  using assms
proof (induction xs arbitrary: w ss)
  case (Cons x xs)
  obtain nid role weight where x: "x = (nid, role, weight)" by (rule prod_cases3)
  from Cons.prems(3) obtain h w1 c w2 ss1 where
    h: "scenario_heartbeat se (''heartbeat_'' @ role) nid PActive 40 w = (h, w1)"
    and c: "scenario_report se (''counters_'' @ role) nid (canary_counters role weight) w1 = (c, w2)"
    and r: "canary_traffic se xs w2 = (ss1, w')"
    by (simp only: canary_traffic.simps Let_def x prod.case split: prod.splits) blast
  from agree_heartbeat [OF Cons.prems(1) h] have 1: "agree w1" "sw_nodes w1 = sw_nodes w" by simp_all
  then have "unreported (sw_nodes w1) nid" using Cons.prems(2) x by simp
  from agree_report [OF 1(1) this c] Cons.IH [OF _ _ r] Cons.prems(2) 1(2) show ?case by simp
qed simp

lemma agree_counters:
  assumes "agree w" shows "agree (snd (sim_report_counters se a b w))"
proof (cases "cdb_counters b = [] \<or> map_of (sw_nodes w) (cdb_node_id b) = None")
  case True
  then show ?thesis using assms by (auto simp: sim_report_counters_def)
next
  case False
  then obtain n where n: "map_of (sw_nodes w) (cdb_node_id b) = Some n" "cdb_counters b \<noteq> []" by auto
  define counters where "counters = fold add_delta (cdb_counters b) (si_counters n)"
  define rq where "rq = \<lparr> rq_node_id = cdb_node_id b, rq_counters = counters_report counters,
      rq_collected_at = Some (time_seconds (se_now se (sw_reads w))), rq_flow_counters = [] \<rparr>"
  obtain c where c: "se_report se rq (sw_ctrl w) = (Inr True, c)" "good c"
    "state_of c = state_of (sw_ctrl w)"
    "counters_of c = (counters_of (sw_ctrl w))(cdb_node_id b \<mapsto> counters_report counters)"
    using reports [OF agreeD(1) [OF assms], of rq] by (auto simp: rq_def)
  define ns where "ns = hm_modify (cdb_node_id b) (\<lambda>n'. n'\<lparr> si_counters := counters \<rparr>) (sw_nodes w)"
  have "agrees (state_of c) (counters_of c) ns"
    using agreeD(2) [OF assms] n by (auto simp: agrees_def ns_def c(3,4) split: if_splits)
  moreover have "sw_ctrl (snd (sim_report_counters se a b w)) = c"
    "sw_nodes (snd (sim_report_counters se a b w)) = ns"
    using n c(1)
    by (simp_all add: sim_report_counters_def Let_def sim_now_def connects call_report_def
        counters_def [symmetric] rq_def [symmetric] ns_def)
  ultimately show ?thesis using c(2) by (simp add: sim_inv_def)
qed

lemma agree_basic:
  assumes "agree w" shows "agree (snd (run_basic_scenario se a w))"
proof -
  obtain now w1 where n: "sim_now se w = (now, w1)" by (rule prod.exhaust)
  define suffix where "suffix = time_millis now"
  define req where "req = scenario_request (''sim-basic-'' @ show_int suffix)
      (''127.0.0.1:'' @ show_int (56000 + suffix smod 1000)) [(''sim'', ''true''), (''scenario'', ''basic'')]"
  have w1: "agree w1" using agree_now [OF n] assms by simp
  obtain r w2 where r: "call_register se req w1 = (r, w2)" by (rule prod.exhaust)
  obtain reg where reg: "r = Inr reg" and w3: "agree (insert_sim_node (sim_node_of (rp_node_id reg) req) w2)"
    "sw_nodes (insert_sim_node (sim_node_of (rp_node_id reg) req) w2) =
       hm_insert (rp_node_id reg) (sim_node_of (rp_node_id reg) req) (sw_nodes w1)"
    by (rule agree_register [OF w1 r])
  define w3 where "w3 = insert_sim_node (sim_node_of (rp_node_id reg) req) w2"
  let ?nid = "rp_node_id reg"
  obtain s2 w4 where s2: "scenario_heartbeat se ''heartbeat'' ?nid POnline 5 w3 = (s2, w4)" by (rule prod.exhaust)
  obtain s3 w5 where s3: "scenario_report se ''report_counters_1'' ?nid [rule_totals ''allow-web'' 100 12000] w4 = (s3, w5)"
    by (rule prod.exhaust)
  obtain s4 w6 where s4: "scenario_report se ''report_counters_2'' ?nid [rule_totals ''allow-web'' 450 51000] w5 = (s4, w6)"
    by (rule prod.exhaust)
  have u: "unreported (sw_nodes w3) ?nid" by (simp add: w3_def w3(2) unreported_insert)
  from agree_heartbeat [OF w3(1) [folded w3_def] s2] u
  have 4: "agree w4" "unreported (sw_nodes w4) ?nid" by simp_all
  from agree_report [OF 4 s3] 4 have 5: "agree w5" "unreported (sw_nodes w5) ?nid" by simp_all
  from agree_report [OF 5 s4] have "agree w6" ..
  moreover have "snd (run_basic_scenario se a w) = w6"
    by (simp only: run_basic_scenario_def n Let_def prod.case suffix_def [symmetric] connects sum.case
        req_def [symmetric] r reg w3_def [symmetric] s2 s3 s4 snd_conv)
  ultimately show ?thesis by simp
qed

lemma agree_flap_scenario:
  assumes "agree w" shows "agree (snd (run_flap_scenario se a w))"
proof -
  obtain now w1 where n: "sim_now se w = (now, w1)" by (rule prod.exhaust)
  define suffix where "suffix = time_millis now"
  define req where "req = scenario_request (''sim-flap-'' @ show_int suffix)
      (''127.0.0.1:'' @ show_int (57500 + suffix smod 400))
      [(''sim'', ''true''), (''scenario'', ''flap''), (''role'', ''edge'')]"
  have w1: "agree w1" using agree_now [OF n] assms by simp
  obtain r w2 where r: "call_register se req w1 = (r, w2)" by (rule prod.exhaust)
  obtain reg where reg: "r = Inr reg" and w3: "agree (insert_sim_node (sim_node_of (rp_node_id reg) req) w2)"
    by (rule agree_register [OF w1 r])
  obtain ss w4 where f: "flap_heartbeats se (rp_node_id reg) (List.enumerate 0 flap_states)
      (insert_sim_node (sim_node_of (rp_node_id reg) req) w2) = (ss, w4)" by (rule prod.exhaust)
  have "snd (run_flap_scenario se a w) = w4"
    by (simp only: run_flap_scenario_def n Let_def prod.case suffix_def [symmetric] connects sum.case
        req_def [symmetric] r reg f snd_conv)
  then show ?thesis using agree_flap [OF w3 f] by simp
qed

lemma agree_burst:
  assumes "agree w" shows "agree (snd (run_burst_scenario se a w))"
proof -
  obtain now w1 where n: "sim_now se w = (now, w1)" by (rule prod.exhaust)
  have w1: "agree w1" using agree_now [OF n] assms by simp
  obtain created s1 w2 where b: "burst_register se (time_millis now) [0, 1, 2] w1 = ((created, s1), w2)"
    by (metis prod.exhaust)
  from agree_burst_register [OF w1 b] have 2: "agree w2" "\<forall>k \<in> set created. unreported (sw_nodes w2) k" by auto
  obtain s2 w3 where h: "burst_heartbeats se created w2 = (s2, w3)" by (rule prod.exhaust)
  from agree_burst_heartbeats [OF 2(1) h] 2 have
    3: "agree w3" "\<forall>k \<in> set created. unreported (sw_nodes w3) k" by simp_all
  obtain s3 w4 where k: "burst_rounds se [1, 2, 3] created w3 = (s3, w4)" by (rule prod.exhaust)
  have "snd (run_burst_scenario se a w) = w4"
    by (simp only: run_burst_scenario_def connects sum.case n Let_def prod.case b h k snd_conv)
  then show ?thesis using agree_burst_rounds [OF 3 k] by simp
qed

lemma agree_canary:
  assumes "agree w" shows "agree (snd (run_canary_traffic_scenario se a w))"
proof -
  obtain now w1 where n: "sim_now se w = (now, w1)" by (rule prod.exhaust)
  have w1: "agree w1" using agree_now [OF n] assms by simp
  obtain nodes s1 w2 where b: "canary_register se (time_millis now) (List.enumerate 0 canary_plan) w1 =
      ((nodes, s1), w2)" by (metis prod.exhaust)
  from agree_canary_register [OF w1 b] have
    2: "agree w2" "\<forall>k \<in> fst ` set nodes. unreported (sw_nodes w2) k" by auto
  obtain s2 w3 where t: "canary_traffic se nodes w2 = (s2, w3)" by (rule prod.exhaust)
  have "snd (run_canary_traffic_scenario se a w) = w3"
    by (simp only: run_canary_traffic_scenario_def connects sum.case n Let_def prod.case b t snd_conv)
  then show ?thesis using agree_canary_traffic [OF 2 t] by simp
qed

lemma agreement_step: "sim_step se a w w' \<Longrightarrow> agree w \<Longrightarrow> agree w'"
proof (induction rule: sim_step.induct)
  case (register w rb)
  obtain r w1 where r: "call_register se (register_request_of rb) w = (r, w1)" by (rule prod.exhaust)
  show ?case
    by (rule agree_register [OF register r]) (simp add: sim_register_node_def connects Let_def r)
next
  case (beat w hb)
  show ?case
  proof (cases "parse_node_state (or_default default_state (hbb_state hb))")
    case (Some st)
    obtain r w1 where r: "call_heartbeat se \<lparr> hb_node_id = hbb_node_id hb, hb_state = proto_node_state_num st,
        hb_uptime_seconds = or_default default_uptime (hbb_uptime_seconds hb) \<rparr> w = (r, w1)" by (rule prod.exhaust)
    then have "snd (send_heartbeat se a hb w) = w1"
      by (simp add: send_heartbeat_def connects Some split: sum.split)
    then show ?thesis using agree_call_heartbeat [OF beat r] by simp
  qed (simp add: send_heartbeat_def beat)
qed (fact agree_counters agree_basic agree_burst agree_flap_scenario agree_canary)+

lemma agree_reachable: "(sim_step se a)\<^sup>*\<^sup>* w w' \<Longrightarrow> agree w \<Longrightarrow> agree w'"
  by (induction rule: rtranclp_induct) (auto intro: agreement_step)

end

subsection \<open>The controller of the development\<close>

definition played_by :: "'s storage_ops \<Rightarrow> env \<Rightarrow> 's world sim_env \<Rightarrow> 's world sim_env" where
  "played_by ops e se =
     se\<lparr> se_connect := \<lambda>_ _. Inr (), se_register := register_node ops e,
         se_heartbeat := heartbeat ops e, se_report := report_counters ops e \<rparr>"

text \<open>The identifiers still to come are not in use.\<close>

definition ids_fresh :: "env \<Rightarrow> mem_storage world \<Rightarrow> bool" where
  "ids_fresh e w \<longleftrightarrow> inj (e_uuid e) \<and> (\<forall>k \<ge> w_uuids w. map_of (ms_nodes (w_store w)) (e_uuid e k) = None)"

definition mem_state_of :: "mem_storage world \<Rightarrow> string \<Rightarrow> node_state option" where
  "mem_state_of w nid = map_option n_state (map_of (ms_nodes (w_store w)) nid)"

definition mem_counters_of :: "mem_storage world \<Rightarrow> string \<Rightarrow> rule_counter list option" where
  "mem_counters_of w = map_of (ms_counters (w_store w))"

interpretation played: played_controller "played_by memory_ops e se" "ids_fresh e" mem_state_of mem_counters_of
  for e se
proof
  fix endpoint c
  show "se_connect (played_by memory_ops e se) endpoint c = Inr ()" by (simp add: played_by_def)
next
  fix c req
  assume "ids_fresh e c"
  then show "\<exists>nid c'. se_register (played_by memory_ops e se) req c =
      (Inr \<lparr> rp_node_id = nid, rp_accepted = True, rp_message = ''Node registered'' \<rparr>, c') \<and>
    mem_state_of c nid = None \<and> ids_fresh e c' \<and> mem_state_of c' = (mem_state_of c)(nid \<mapsto> Registered) \<and>
    mem_counters_of c' = mem_counters_of c"
    by (simp add: played_by_def register_node_def Let_def clock_def new_uuid_def blocking_def
        mem_register_node_def emit_now_def emit_def mem_state_of_def mem_counters_of_def ids_fresh_def
        node_new_def fun_eq_iff inj_eq)
next
  fix c and hb :: heartbeat_request
  assume "ids_fresh e c" and "mem_state_of c (hb_node_id hb) \<noteq> None"
  then obtain n where "map_of (ms_nodes (w_store c)) (hb_node_id hb) = Some n" by (auto simp: mem_state_of_def)
  with \<open>ids_fresh e c\<close> show "\<exists>c'. se_heartbeat (played_by memory_ops e se) hb c = (Inr True, c') \<and>
      ids_fresh e c' \<and> mem_state_of c' = (mem_state_of c)(hb_node_id hb \<mapsto> heartbeat_state hb) \<and>
      mem_counters_of c' = mem_counters_of c"
    by (simp add: played_by_def heartbeat_def Let_def clock_def blocking_def mem_update_heartbeat_def
        ids_fresh_def mem_state_of_def mem_counters_of_def emit_now_def emit_def fun_eq_iff split: option.split)
      auto
next
  fix c and hb :: heartbeat_request
  assume "ids_fresh e c" and "mem_state_of c (hb_node_id hb) = None"
  then show "\<exists>st c'. se_heartbeat (played_by memory_ops e se) hb c = (Inl st, c') \<and> ids_fresh e c' \<and>
      mem_state_of c' = mem_state_of c \<and> mem_counters_of c' = mem_counters_of c"
    by (simp add: played_by_def heartbeat_def Let_def clock_def blocking_def mem_update_heartbeat_def
        ids_fresh_def mem_state_of_def mem_counters_of_def fun_eq_iff)
next
  fix c and rq :: report_counters_request
  assume "ids_fresh e c"
  then show "\<exists>c'. se_report (played_by memory_ops e se) rq c = (Inr True, c') \<and> ids_fresh e c' \<and>
      mem_state_of c' = mem_state_of c \<and>
      mem_counters_of c' = (mem_counters_of c)(rq_node_id rq \<mapsto> rq_counters rq)"
    by (simp add: played_by_def report_counters_def Let_def clock_def blocking_def mem_store_counters_def
        mem_store_flow_counters_def ids_fresh_def mem_state_of_def mem_counters_of_def emit_def
        fun_eq_iff split: option.split prod.split)
qed

subsection \<open>Properties\<close>

text \<open>Deltas posted for a played node are added to its totals rule by rule, and a total stops at the
  largest 64-bit value instead of wrapping; the totals of the other nodes stay.  This holds whatever
  the controller answers, also when it cannot be reached.\<close>

theorem sim_totals_saturate:
  assumes "map_of (sw_nodes w) (cdb_node_id b) = Some n" and "cdb_counters b \<noteq> []"
    and "sim_report_counters se a b w = (r, w')"
  shows "\<exists>n'. map_of (sw_nodes w') = (map_of (sw_nodes w))(cdb_node_id b \<mapsto> n') \<and>
    n' = n\<lparr> si_counters := si_counters n' \<rparr> \<and>
    (\<forall>rule. total_of sc_match_count rule (si_counters n') =
       min (total_of sc_match_count rule (si_counters n) + deltas_of cde_match_delta rule (cdb_counters b))
         (2 ^ 64 - 1)) \<and>
    (\<forall>rule. total_of sc_byte_count rule (si_counters n') =
       min (total_of sc_byte_count rule (si_counters n) + deltas_of cde_byte_delta rule (cdb_counters b))
         (2 ^ 64 - 1))"
proof -
  let ?n = "n\<lparr> si_counters := fold add_delta (cdb_counters b) (si_counters n) \<rparr>"
  have "map_of (sw_nodes (snd (sim_report_counters se a b w))) =
      (map_of (sw_nodes w))(cdb_node_id b \<mapsto> ?n)"
    using assms(1,2)
    by (simp add: sim_report_counters_def Let_def sim_now_def call_report_def fun_eq_iff case_prod_unfold
        split: sum.split)
  then show ?thesis using assms(3) by (intro exI [of _ ?n]) (simp add: totals_after)
qed

text \<open>Deltas whose report does not reach the controller stay in the totals: a client that is answered 502
  and repeats its request counts them twice.\<close>

lemma lost_report_keeps_deltas:
  assumes "map_of (sw_nodes w) (cdb_node_id b) = Some n" and "cdb_counters b \<noteq> []"
    and "se_connect se (ap_grpc_endpoint a) (sw_ctrl w) = Inl err"
  shows "\<exists>r w'. sim_report_counters se a b w = (r, w') \<and> sr_status r = 502 \<and> sw_ctrl w' = sw_ctrl w \<and>
    map_of (sw_nodes w') (cdb_node_id b) =
      Some (n\<lparr> si_counters := fold add_delta (cdb_counters b) (si_counters n) \<rparr>)"
  using assms by (simp add: sim_report_counters_def Let_def sim_now_def case_prod_unfold cannot_connect_def sim_error_def)

text \<open>C13: Against the controller of the development, which every call reaches, and one request after the
  other, every request to the simulator keeps its picture in agreement with the controller: a node it
  plays is registered there, and once the simulator has totals for it, which deltas posted for
  the node give it and the reports of a scenario do not, they are the counters the controller stores.\<close>

theorem played_totals_agree:
  assumes "ids_fresh e (sw_ctrl w0)" and "sw_nodes w0 = []"
    and "(sim_step (played_by memory_ops e se) a)\<^sup>*\<^sup>* w0 w" and "map_of (sw_nodes w) nid = Some n"
  shows "(\<exists>m. mem_get_node (w_store (sw_ctrl w)) nid = Inr (Some m)) \<and>
    (si_counters n = [] \<or>
      mem_get_counters (w_store (sw_ctrl w)) nid = Inr (Some (counters_report (si_counters n))))"
proof -
  have "sim_inv (ids_fresh e) mem_state_of mem_counters_of w0"
    using assms(1,2) by (simp add: sim_inv_def agrees_def)
  from played.agree_reachable [OF assms(3) this] assms(4)
  have *: "mem_state_of (sw_ctrl w) nid \<noteq> None"
    "si_counters n = [] \<or> mem_counters_of (sw_ctrl w) nid = Some (counters_report (si_counters n))"
    by (auto simp: sim_inv_def agrees_def)
  then show ?thesis by (auto simp: mem_state_of_def mem_get_node_def mem_counters_of_def mem_get_counters_def)
qed

text \<open>What the third round of the burst and the canary traffic report.\<close>

lemma scenario_numbers:
  "burst_counters 3 0 = [rule_totals ''allow-web'' 1200 144000, rule_totals ''allow-api'' 630 93000]"
  "burst_counters 3 1 = [rule_totals ''allow-web'' 2400 288000, rule_totals ''allow-api'' 1260 186000]"
  "burst_counters 3 2 = [rule_totals ''allow-web'' 3600 432000, rule_totals ''allow-api'' 1890 279000]"
  "canary_counters ''canary'' 1 = [rule_totals ''requests'' 900 120000, rule_totals ''errors'' 15 1900]"
  "canary_counters ''stable-a'' 4 = [rule_totals ''requests'' 3600 480000, rule_totals ''errors'' 16 2000]"
  "canary_counters ''stable-b'' 5 = [rule_totals ''requests'' 4500 600000, rule_totals ''errors'' 20 2500]"
  by (simp_all add: burst_counters_def canary_counters_def)

text \<open>C23: The four scenarios against the controller of the development succeed at every step: the basic one
  leaves a new node online with the second report; the burst three new nodes online with one, two and
  three times the numbers of the third round; the flap one new node that ends active; the canary
  traffic three new nodes active, whose requests are as one to four to five; nothing else about states
  and counters changes.\<close>

theorem scenarios_on_controller:
  fixes se a
  assumes "ids_fresh e (sw_ctrl w)"
  defines "c \<equiv> sw_ctrl w" and "sim \<equiv> played_by memory_ops e se"
  shows "(\<exists>r w' nid. run_basic_scenario sim a w = (r, w') \<and> ran_all 4 r \<and> mem_state_of c nid = None \<and>
      mem_state_of (sw_ctrl w') = (mem_state_of c)(nid \<mapsto> Online) \<and>
      mem_counters_of (sw_ctrl w') = (mem_counters_of c)(nid \<mapsto> [rule_totals ''allow-web'' 450 51000])) \<and>
    (\<exists>r w' n1 n2 n3. run_burst_scenario sim a w = (r, w') \<and> ran_all 15 r \<and> distinct [n1, n2, n3] \<and>
      (\<forall>nid \<in> {n1, n2, n3}. mem_state_of c nid = None) \<and>
      mem_state_of (sw_ctrl w') = (mem_state_of c)(n1 \<mapsto> Online, n2 \<mapsto> Online, n3 \<mapsto> Online) \<and>
      mem_counters_of (sw_ctrl w') = (mem_counters_of c)
        (n1 \<mapsto> [rule_totals ''allow-web'' 1200 144000, rule_totals ''allow-api'' 630 93000],
         n2 \<mapsto> [rule_totals ''allow-web'' 2400 288000, rule_totals ''allow-api'' 1260 186000],
         n3 \<mapsto> [rule_totals ''allow-web'' 3600 432000, rule_totals ''allow-api'' 1890 279000])) \<and>
    (\<exists>r w' nid. run_flap_scenario sim a w = (r, w') \<and> ran_all 6 r \<and> mem_state_of c nid = None \<and>
      mem_state_of (sw_ctrl w') = (mem_state_of c)(nid \<mapsto> Active) \<and>
      mem_counters_of (sw_ctrl w') = mem_counters_of c) \<and>
    (\<exists>r w' n1 n2 n3. run_canary_traffic_scenario sim a w = (r, w') \<and> ran_all 9 r \<and> distinct [n1, n2, n3] \<and>
      (\<forall>nid \<in> {n1, n2, n3}. mem_state_of c nid = None) \<and>
      mem_state_of (sw_ctrl w') = (mem_state_of c)(n1 \<mapsto> Active, n2 \<mapsto> Active, n3 \<mapsto> Active) \<and>
      mem_counters_of (sw_ctrl w') = (mem_counters_of c)
        (n1 \<mapsto> [rule_totals ''requests'' 900 120000, rule_totals ''errors'' 15 1900],
         n2 \<mapsto> [rule_totals ''requests'' 3600 480000, rule_totals ''errors'' 16 2000],
         n3 \<mapsto> [rule_totals ''requests'' 4500 600000, rule_totals ''errors'' 20 2500]))"
  unfolding c_def sim_def
  apply (intro conjI)
  subgoal using played.basic_scenario [OF assms(1), of se a] by blast
  subgoal using played.burst_scenario [OF assms(1), of se a] unfolding scenario_numbers by blast
  subgoal using played.flap_scenario [OF assms(1), of se a] by blast
  subgoal using played.canary_scenario [OF assms(1), of se a] unfolding scenario_numbers by blast
  done

text \<open>The scenarios report their own numbers and leave the totals of the simulator at nothing, so that
  deltas posted for the node of a scenario start again from zero: the counters of the controller fall.\<close>

lemma scenario_totals_restart:
  assumes "ids_fresh e (sw_ctrl w)"
  shows "\<exists>r nid w1. run_basic_scenario (played_by memory_ops e se) a w = (r, w1) \<and>
    mem_counters_of (sw_ctrl w1) nid = Some [rule_totals ''allow-web'' 450 51000] \<and>
    mem_counters_of (sw_ctrl (snd (sim_report_counters (played_by memory_ops e se) a
      \<lparr> cdb_node_id = nid, cdb_counters = [\<lparr> cde_rule_name = ''allow-web'', cde_match_delta = Some 1,
          cde_byte_delta = Some 60 \<rparr>] \<rparr> w1))) nid = Some [rule_totals ''allow-web'' 1 60]"
proof -
  obtain r w1 nid n where b: "run_basic_scenario (played_by memory_ops e se) a w = (r, w1)"
    "ids_fresh e (sw_ctrl w1)" "sw_nodes w1 = hm_insert nid n (sw_nodes w)" "si_counters n = []"
    "mem_counters_of (sw_ctrl w1) = (mem_counters_of (sw_ctrl w))(nid \<mapsto> [rule_totals ''allow-web'' 450 51000])"
    using played.basic_scenario [OF assms, of se a] by blast
  let ?b = "\<lparr> cdb_node_id = nid, cdb_counters = [\<lparr> cde_rule_name = ''allow-web'', cde_match_delta = Some 1,
      cde_byte_delta = Some 60 \<rparr>] \<rparr>"
  have "map_of (sw_nodes w1) (cdb_node_id ?b) = Some n" "cdb_counters ?b \<noteq> []" by (simp_all add: b(3))
  from played.report_reaches_controller [OF b(2) this, of se a] b(1,4,5) show ?thesis
    by (auto simp: add_delta_def zero_counter_def sat_add_def or_default_def counters_report_def
        rule_totals_def hm_insert_def)
qed

end
