(* ===== verification/Cli_Print.thy ===== *)
theory Cli_Print
  imports Management_Api Agent Sim_Sse Json_Value "HOL-Library.Char_ord" "HOL-Library.List_Lexorder"
begin

text \<open>
  What the command line prints, \<^verbatim>\<open>pacinet-cli/src/main.rs\<close>: labels, names of states, padded columns,
  shortened hashes, ages, tables and JSON values.  A printer is a function from a reply of the
  controller to the lines it writes and the way it ends.  Shortening cuts a string at a byte
  (\<open>&s[..n]\<close>), which panics inside a character: then the lines before are all that is printed.

  The texts of times (\<open>chrono\<close>'s format), of JSON values (\<open>serde_json\<close>) and of a difference of two
  files (\<open>similar\<close>) come from libraries and are arguments.
\<close>

subsection \<open>Output\<close>

datatype out_line = StdOut string | StdErr string | StdOutPart string
datatype cli_end = CliOk | CliFailed string | CliPanic

type_synonym printed = "out_line list \<times> cli_end"

definition say :: "string \<Rightarrow> printed" where
  "say l = ([StdOut l], CliOk)"

definition complain :: "string \<Rightarrow> printed" where
  "complain l = ([StdErr l], CliOk)"

definition quiet :: printed where
  "quiet = ([], CliOk)"

definition and_then :: "printed \<Rightarrow> printed \<Rightarrow> printed" where
  "and_then p q = (case p of (ls, CliOk) \<Rightarrow> (ls @ fst q, snd q) | _ \<Rightarrow> p)"

primrec each_line :: "('a \<Rightarrow> printed) \<Rightarrow> 'a list \<Rightarrow> printed" where
  "each_line f [] = quiet"
| "each_line f (x # xs) = and_then (f x) (each_line f xs)"

text \<open>A value whose computation may panic.\<close>

definition or_panic :: "'a option \<Rightarrow> ('a \<Rightarrow> printed) \<Rightarrow> printed" where
  "or_panic x k = (case x of Some a \<Rightarrow> k a | None \<Rightarrow> ([], CliPanic))"

record cli_format =
  cf_time :: "string \<Rightarrow> time \<Rightarrow> string"
  cf_pretty :: "json_value \<Rightarrow> string"
  cf_compact :: "json_value \<Rightarrow> string"

subsection \<open>Text\<close>

text \<open>\<open>splitn(2, c)\<close>: at most two pieces.\<close>

definition splitn2 :: "char \<Rightarrow> string \<Rightarrow> string list" where
  "splitn2 c s = (case split_once c s of Some (a, b) \<Rightarrow> [a, b] | None \<Rightarrow> [s])"

definition cli_parse_label :: "string \<Rightarrow> string + (string \<times> string)" where
  "cli_parse_label s =
     (let parts = splitn2 CHR ''='' s
      in if length parts \<noteq> 2 then Inl ''Label must be in key=value format''
         else Inr (parts ! 0, parts ! 1))"

definition state_name :: "int \<Rightarrow> string" where
  "state_name st =
     (case proto_node_state_of_num st of
        Some PUnspecified \<Rightarrow> ''unknown''
      | Some PRegistered \<Rightarrow> ''registered''
      | Some POnline \<Rightarrow> ''online''
      | Some PDeploying \<Rightarrow> ''deploying''
      | Some PActive \<Rightarrow> ''active''
      | Some PError \<Rightarrow> ''error''
      | Some POffline \<Rightarrow> ''offline''
      | None \<Rightarrow> ''unknown'')"

text \<open>The width of a column counts characters, that is, bytes that do not continue one.\<close>

definition char_count :: "string \<Rightarrow> nat" where
  "char_count s = length (filter (\<lambda>c. \<not> continuation c) s)"

definition pad_right :: "nat \<Rightarrow> string \<Rightarrow> string" where
  "pad_right n s = s @ replicate (n - char_count s) CHR '' ''"

definition pad_left :: "nat \<Rightarrow> string \<Rightarrow> string" where
  "pad_left n s = replicate (n - char_count s) CHR '' '' @ s"

definition slice_to :: "nat \<Rightarrow> string \<Rightarrow> string option" where
  "slice_to k s =
     (if k = length s \<or> k < length s \<and> \<not> continuation (s ! k) then Some (take k s) else None)"

text \<open>\<open>if s.len() > k \<open>{\<close> &s[..k] \<open>}\<close> else \<open>{\<close> s \<open>}\<close>\<close>, also with a suffix.\<close>

definition shortened :: "nat \<Rightarrow> string \<Rightarrow> string option" where
  "shortened k s = (if length s > k then slice_to k s else Some s)"

definition elided :: "nat \<Rightarrow> string \<Rightarrow> string option" where
  "elided k s = (if length s > k then map_option (\<lambda>t. t @ ''...'') (slice_to k s) else Some s)"

definition short_hash :: "string \<Rightarrow> string option" where
  "short_hash h = (if h = [] then Some ''-'' else shortened 12 h)"

text \<open>\<open>\<open>{\<close>:.p\<open>}\<close>\<close> of a float: the exact value rounded to \<open>p\<close> digits, ties to even.\<close>

definition fixed_digits :: "nat \<Rightarrow> nat \<Rightarrow> string" where
  "fixed_digits p n =
     (if p = 0 then show_nat n
      else (let frac = show_nat (n mod 10 ^ p)
            in show_nat (n div 10 ^ p) @ ''.'' @ replicate (p - length frac) CHR ''0'' @ frac))"

fun show_fixed :: "nat \<Rightarrow> f64 \<Rightarrow> string" where
  "show_fixed p (Fin q) =
     (if q < 0 then ''-'' else []) @ fixed_digits p (nat (round_half_even (\<bar>q\<bar> * 10 ^ p)))"
| "show_fixed p PosInf = ''inf''"
| "show_fixed p NegInf = ''-inf''"
| "show_fixed p NaN = ''NaN''"

definition f64_less :: "f64 \<Rightarrow> f64 \<Rightarrow> bool" where
  "f64_less a b \<longleftrightarrow> f64_le a b \<and> a \<noteq> b"

definition format_heartbeat_age :: "f64 \<Rightarrow> string" where
  "format_heartbeat_age age =
     (if f64_less age (Fin 60) then show_fixed 0 age @ ''s''
      else if f64_less age (Fin 3600) then show_fixed 0 (f64_div_fin age 60) @ ''m''
      else show_fixed 1 (f64_div_fin age 3600) @ ''h'')"

definition show_u64 :: "u64 \<Rightarrow> string" where
  "show_u64 n = show_nat (unat n)"

definition show_bool :: "bool \<Rightarrow> string" where
  "show_bool b = (if b then ''true'' else ''false'')"

text \<open>The text of a time that may be missing or out of range.\<close>

definition day_time :: string where "day_time = ''%Y-%m-%d %H:%M:%S''"
definition clock_time :: string where "clock_time = ''%H:%M:%S''"

definition when_deployed :: "cli_format \<Rightarrow> int option \<Rightarrow> string" where
  "when_deployed cf t =
     (case t of
        Some s \<Rightarrow> (case time_of_timestamp s of Some dt \<Rightarrow> cf_time cf day_time dt | None \<Rightarrow> ''?'')
      | None \<Rightarrow> ''-'')"

definition time_or :: "cli_format \<Rightarrow> string \<Rightarrow> string \<Rightarrow> int option \<Rightarrow> string" where
  "time_or cf pattern dflt t =
     (case Option.bind t time_of_timestamp of Some dt \<Rightarrow> cf_time cf pattern dt | None \<Rightarrow> dflt)"

subsection \<open>Nodes and counters\<close>

definition cli_node_to_json :: "node_info \<Rightarrow> json_value" where
  "cli_node_to_json n =
     JObj [(''node_id'', JStr (ni_node_id n)), (''hostname'', JStr (ni_hostname n)),
           (''agent_address'', JStr (ni_agent_address n)), (''labels'', json_strings (ni_labels n)),
           (''state'', JStr (state_name (ni_state n))),
           (''pacgate_version'', JStr (ni_pacgate_version n)),
           (''policy_hash'', JStr (ni_policy_hash n)),
           (''uptime_seconds'', json_u64 (ni_uptime_seconds n)),
           (''heartbeat_age_seconds'', JFloat (ni_last_heartbeat_age_seconds n))]"

definition counter_to_json :: "rule_counter \<Rightarrow> json_value" where
  "counter_to_json c =
     JObj [(''rule_name'', JStr (rc_rule_name c)), (''match_count'', json_u64 (rc_match_count c)),
           (''byte_count'', json_u64 (rc_byte_count c))]"

definition cli_node_row :: "string \<Rightarrow> string \<Rightarrow> string \<Rightarrow> string \<Rightarrow> string \<Rightarrow> string" where
  "cli_node_row a b c d f =
     pad_right 38 a @ '' '' @ pad_right 15 b @ '' '' @ pad_right 10 c @ '' '' @ pad_right 16 d @
     '' '' @ pad_left 5 f"

definition node_header :: string where
  "node_header = cli_node_row ''NODE ID'' ''HOSTNAME'' ''STATE'' ''POLICY HASH'' ''HB''"

definition print_node_row :: "node_info \<Rightarrow> printed" where
  "print_node_row n =
     or_panic (short_hash (ni_policy_hash n)) (\<lambda>h.
       say (cli_node_row (ni_node_id n) (ni_hostname n) (state_name (ni_state n)) h
              (format_heartbeat_age (ni_last_heartbeat_age_seconds n))))"

definition print_nodes :: "cli_format \<Rightarrow> bool \<Rightarrow> node_info list \<Rightarrow> printed" where
  "print_nodes cf as_json ns =
     (if as_json then say (cf_pretty cf (JArr (map cli_node_to_json ns)))
      else if ns = [] then say ''No nodes registered''
      else and_then (say node_header) (each_line print_node_row ns))"

definition print_pair :: "string \<times> string \<Rightarrow> printed" where
  "print_pair kv = say (''  '' @ fst kv @ ''='' @ snd kv)"

definition print_node :: "cli_format \<Rightarrow> bool \<Rightarrow> string \<Rightarrow> node_info option \<Rightarrow> printed" where
  "print_node cf as_json nid reply =
     (case reply of
        None \<Rightarrow> complain (''Node '' @ nid @ '' not found'')
      | Some n \<Rightarrow>
          if as_json then say (cf_pretty cf (cli_node_to_json n))
          else
            ([StdOut (''Node ID:      '' @ ni_node_id n), StdOut (''Hostname:     '' @ ni_hostname n),
              StdOut (''Address:      '' @ ni_agent_address n),
              StdOut (''PacGate:      '' @ ni_pacgate_version n),
              StdOut (''State:        '' @ state_name (ni_state n))] @
             (if ni_policy_hash n \<noteq> [] then [StdOut (''Policy Hash:  '' @ ni_policy_hash n)] else []) @
             (if ni_uptime_seconds n > 0
              then [StdOut (''Uptime:       '' @ show_u64 (ni_uptime_seconds n) @ ''s'')] else []) @
             [StdOut (''Heartbeat:    '' @ format_heartbeat_age (ni_last_heartbeat_age_seconds n) @ '' ago'')] @
             (if ni_labels n \<noteq> [] then StdOut ''Labels:'' # fst (each_line print_pair (ni_labels n)) else []) @
             (if ni_annotations n \<noteq> []
              then StdOut ''Annotations:'' # fst (each_line print_pair (ni_annotations n)) else []),
             CliOk))"

text \<open>An acknowledgement: the text for success, or the text of the server with a prefix.\<close>

definition print_ack :: "string \<Rightarrow> string \<Rightarrow> bool \<Rightarrow> string \<Rightarrow> printed" where
  "print_ack done_text failure_prefix success message =
     (if success then say done_text else complain (failure_prefix @ message))"

definition counter_row :: "string \<Rightarrow> string \<Rightarrow> string \<Rightarrow> string" where
  "counter_row a b c = ''  '' @ pad_right 30 a @ '' '' @ pad_left 12 b @ '' '' @ pad_left 12 c"

definition print_counters :: "rule_counter list \<Rightarrow> printed" where
  "print_counters cs =
     (if cs = [] then say ''  (no counters)''
      else and_then (say (counter_row ''RULE'' ''MATCHES'' ''BYTES''))
             (each_line (\<lambda>c. say (counter_row (rc_rule_name c) (show_u64 (rc_match_count c))
                                    (show_u64 (rc_byte_count c)))) cs))"

definition print_node_counters :: "cli_format \<Rightarrow> bool \<Rightarrow> node_counters \<Rightarrow> printed" where
  "print_node_counters cf as_json nc =
     (if as_json then say (cf_pretty cf (JArr (map counter_to_json (nc_counters nc))))
      else and_then (say (''Node: '' @ nc_node_id nc)) (print_counters (nc_counters nc)))"

definition print_aggregate :: "cli_format \<Rightarrow> bool \<Rightarrow> node_counters list \<Rightarrow> printed" where
  "print_aggregate cf as_json ncs =
     (if as_json then
        say (cf_pretty cf (JArr (map (\<lambda>nc. JObj [(''node_id'', JStr (nc_node_id nc)),
               (''counters'', JArr (map counter_to_json (nc_counters nc)))]) ncs)))
      else each_line (\<lambda>nc. and_then (say (''Node: '' @ nc_node_id nc))
             (and_then (print_counters (nc_counters nc)) (say []))) ncs)"

subsection \<open>Fleet status\<close>

definition cli_fleet_node_json :: "fleet_node_summary \<Rightarrow> json_value" where
  "cli_fleet_node_json n =
     JObj [(''node_id'', JStr (fn_node_id n)), (''hostname'', JStr (fn_hostname n)),
           (''state'', JStr (state_name (fn_state n))), (''policy_hash'', JStr (fn_policy_hash n)),
           (''uptime_seconds'', json_u64 (fn_uptime_seconds n)),
           (''heartbeat_age_seconds'', JFloat (fn_last_heartbeat_age_seconds n))]"

definition print_fleet_row :: "fleet_node_summary \<Rightarrow> printed" where
  "print_fleet_row n =
     or_panic (short_hash (fn_policy_hash n)) (\<lambda>h.
       say (cli_node_row (fn_node_id n) (fn_hostname n) (state_name (fn_state n)) h
              (format_heartbeat_age (fn_last_heartbeat_age_seconds n))))"

definition state_summary :: "(string, u32) hmap \<Rightarrow> string" where
  "state_summary by_state =
     join_with '', '' (map (\<lambda>(st, n). st @ ''='' @ show_u32 n) (sort_key fst by_state))"

definition print_fleet :: "cli_format \<Rightarrow> bool \<Rightarrow> string \<Rightarrow> fleet_status \<Rightarrow> printed" where
  "print_fleet cf as_json server fs =
     (if as_json then
        say (cf_pretty cf (JObj [(''controller'', JStr server),
          (''total_nodes'', json_u32 (fs_total_nodes fs)),
          (''nodes_by_state'', JObj (map (\<lambda>(k, n). (k, json_u32 n)) (fs_nodes_by_state fs))),
          (''nodes'', JArr (map cli_fleet_node_json (fs_nodes fs)))]))
      else
        and_then ([StdOut (''Controller:  '' @ server @ '' (connected)''),
                   StdOut (''Total nodes: '' @ show_u32 (fs_total_nodes fs))] @
                  (if fs_nodes_by_state fs \<noteq> []
                   then [StdOut (''By state:    '' @ state_summary (fs_nodes_by_state fs))] else []), CliOk)
          (if fs_nodes fs \<noteq> []
           then and_then ([StdOut [], StdOut node_header], CliOk) (each_line print_fleet_row (fs_nodes fs))
           else quiet))"

end
