(* ===== verification/Cli_Reports.thy ===== *)
theory Cli_Reports
  imports Cli_Print
begin

text \<open>
  The second half of what the command line prints: deploys and dry runs, policies and their
  histories, state machines, the three event streams, the audit log and templates.
\<close>

subsection \<open>Deploys\<close>

text \<open>The reply of a deploy as it is on the wire, where a result of a dry run may be present.\<close>

record cli_dry_run_node =
  dy_node_id :: string
  dy_hostname :: string
  dy_current_policy_hash :: string
  dy_new_policy_hash :: string
  dy_policy_changed :: bool

record cli_dry_run_result =
  dz_valid :: bool
  dz_validation_errors :: "string list"
  dz_target_nodes :: "cli_dry_run_node list"

record deploy_reply = deploy_policy_response +
  dx_dry_run_result :: "cli_dry_run_result option"

definition dry_run_row :: "string \<Rightarrow> string \<Rightarrow> string \<Rightarrow> string \<Rightarrow> string \<Rightarrow> string" where
  "dry_run_row a b c d f =
     ''  '' @ pad_right 38 a @ '' '' @ pad_right 15 b @ '' '' @ pad_right 16 c @ '' '' @ pad_right 16 d @
     '' '' @ f"

definition print_dry_run_node :: "cli_dry_run_node \<Rightarrow> printed" where
  "print_dry_run_node n =
     or_panic (short_hash (dy_current_policy_hash n)) (\<lambda>cur.
     or_panic (shortened 12 (dy_new_policy_hash n)) (\<lambda>new_h.
       say (dry_run_row (dy_node_id n) (dy_hostname n) cur new_h
              (if dy_policy_changed n then ''yes'' else ''no''))))"

definition newline_text :: string where
  "newline_text = [newline]"

definition print_dry_run :: "cli_dry_run_result option \<Rightarrow> printed" where
  "print_dry_run reply =
     (case reply of
        None \<Rightarrow> say ''Dry-run completed (no details returned)''
      | Some dr \<Rightarrow>
          and_then ([StdOut ''Dry-run result:'', StdOut (''  Valid: '' @ show_bool (dz_valid dr))] @
                    (if dz_validation_errors dr \<noteq> []
                     then StdOut ''  Errors:'' #
                       map (\<lambda>m. StdOut (''    - '' @ m)) (dz_validation_errors dr) else []), CliOk)
            (if dz_target_nodes dr \<noteq> []
             then and_then (say (newline_text @ dry_run_row ''NODE ID'' ''HOSTNAME'' ''CURRENT HASH'' ''NEW HASH'' ''CHANGED''))
                    (each_line print_dry_run_node (dz_target_nodes dr))
             else quiet))"

definition print_deploy :: "bool \<Rightarrow> string \<Rightarrow> deploy_reply \<Rightarrow> printed" where
  "print_deploy dry_run nid resp =
     (if dry_run then print_dry_run (dx_dry_run_result resp)
      else ([if ds_success resp then StdOut (''Policy deployed to '' @ nid)
             else StdErr (''Deployment failed: '' @ ds_message resp)] @
            map (\<lambda>m. StdErr (''  warning: '' @ m)) (ds_warnings resp), CliOk))"

definition batch_row :: "string \<Rightarrow> string \<Rightarrow> string \<Rightarrow> string \<Rightarrow> string" where
  "batch_row a b c d =
     pad_right 38 a @ '' '' @ pad_right 15 b @ '' '' @ pad_right 10 c @ '' '' @ d"

definition print_batch_result :: "node_deploy_result \<Rightarrow> out_line list" where
  "print_batch_result r =
     StdOut (batch_row (nr_node_id r) (nr_hostname r) (if nr_success r then ''OK'' else ''FAILED'')
               (nr_message r)) #
     map (\<lambda>m. StdOut (''  warning: '' @ m)) (nr_warnings r)"

definition print_batch :: "batch_deploy_response \<Rightarrow> printed" where
  "print_batch resp =
     (if bs_total_nodes resp = 0 then say ''No nodes matched the label filter''
      else ([StdOut (batch_row ''NODE ID'' ''HOSTNAME'' ''RESULT'' ''MESSAGE'')] @
            concat (map print_batch_result (bs_results resp)) @
            [StdOut (newline_text @ show_u32 (bs_succeeded resp) @ ''/'' @
               show_u32 (bs_total_nodes resp) @ '' succeeded, '' @ show_u32 (bs_failed resp) @ '' failed'')],
            CliOk))"

subsection \<open>Policies\<close>

definition print_policy :: "cli_format \<Rightarrow> bool \<Rightarrow> bool \<Rightarrow> policy_info \<Rightarrow> printed" where
  "print_policy cf as_json pretty p =
     (if as_json \<and> \<not> pretty then
        say (cf_pretty cf (JObj [(''node_id'', JStr (pi_node_id p)), (''rules_yaml'', JStr (pi_rules_yaml p)),
               (''policy_hash'', JStr (pi_policy_hash p))]))
      else ([StdOut (''Node:   '' @ pi_node_id p), StdOut (''Hash:   '' @ pi_policy_hash p),
             StdOut ''---'', StdOut (pi_rules_yaml p)], CliOk))"

text \<open>A difference is a list of changes, each with the line it is about.\<close>

datatype change_tag = ChangeDelete | ChangeInsert | ChangeEqual

fun change_sign :: "change_tag \<Rightarrow> string" where
  "change_sign ChangeDelete = ''-''"
| "change_sign ChangeInsert = ''+''"
| "change_sign ChangeEqual = '' ''"

definition print_diff ::
  "(string \<Rightarrow> string \<Rightarrow> (change_tag \<times> string) list) \<Rightarrow> string \<Rightarrow> string \<Rightarrow> policy_info \<Rightarrow> policy_info \<Rightarrow>
     printed" where
  "print_diff text_diff node_a node_b a b =
     (if pi_rules_yaml a = pi_rules_yaml b
      then say (''Policies are identical (hash: '' @ pi_policy_hash a @ '')'')
      else ([StdOut (''--- '' @ node_a @ '' ('' @ pi_policy_hash a @ '')''),
             StdOut (''+++ '' @ node_b @ '' ('' @ pi_policy_hash b @ '')'')] @
            map (\<lambda>(tag, line). StdOutPart (change_sign tag @ line))
              (text_diff (pi_rules_yaml a) (pi_rules_yaml b)), CliOk))"

definition cli_version_row :: "string \<Rightarrow> string \<Rightarrow> string \<Rightarrow> string" where
  "cli_version_row a b c = pad_right 8 a @ '' '' @ pad_right 16 b @ '' '' @ c"

definition print_version_row :: "cli_format \<Rightarrow> policy_version_info \<Rightarrow> printed" where
  "print_version_row cf v =
     or_panic (shortened 12 (vi_policy_hash v)) (\<lambda>h.
       say (cli_version_row (show_u64 (vi_version v)) h (when_deployed cf (Some (vi_deployed_at v)))))"

definition print_history :: "cli_format \<Rightarrow> bool \<Rightarrow> string \<Rightarrow> policy_version_info list \<Rightarrow> printed" where
  "print_history cf as_json nid vs =
     (if as_json then
        say (cf_pretty cf (JArr (map (\<lambda>v. JObj [(''version'', json_u64 (vi_version v)),
               (''policy_hash'', JStr (vi_policy_hash v)),
               (''deployed_at'', json_seconds (Some (vi_deployed_at v)))]) vs)))
      else if vs = [] then say (''No policy history for node '' @ nid)
      else and_then (say (cli_version_row ''VERSION'' ''HASH'' ''DEPLOYED AT'')) (each_line (print_version_row cf) vs))"

definition print_rollback :: "string \<Rightarrow> rollback_response \<Rightarrow> printed" where
  "print_rollback nid resp =
     (if rb_success resp
      then say (''Rolled back node '' @ nid @ '' to version '' @ show_u64 (rb_version resp))
      else complain (''Rollback failed: '' @ rb_message resp))"

definition deployed_row :: "string \<Rightarrow> string \<Rightarrow> string \<Rightarrow> string \<Rightarrow> string \<Rightarrow> string" where
  "deployed_row a b c d f =
     pad_right 20 a @ '' '' @ pad_right 8 b @ '' '' @ pad_right 16 c @ '' '' @ pad_right 12 d @ '' '' @ f"

definition print_deployment_row :: "cli_format \<Rightarrow> deployment_info \<Rightarrow> printed" where
  "print_deployment_row cf d =
     or_panic (shortened 12 (di_policy_hash d)) (\<lambda>h.
       say (deployed_row (when_deployed cf (Some (di_deployed_at d))) (show_u64 (di_policy_version d)) h
              (di_result d) (di_message d)))"

definition print_deployments :: "cli_format \<Rightarrow> bool \<Rightarrow> string \<Rightarrow> deployment_info list \<Rightarrow> printed" where
  "print_deployments cf as_json nid ds =
     (if as_json then
        say (cf_pretty cf (JArr (map (\<lambda>d. JObj [(''id'', JStr (di_id d)),
               (''policy_version'', json_u64 (di_policy_version d)),
               (''policy_hash'', JStr (di_policy_hash d)), (''result'', JStr (di_result d)),
               (''message'', JStr (di_message d)),
               (''deployed_at'', json_seconds (Some (di_deployed_at d)))]) ds)))
      else if ds = [] then say (''No deployment history for node '' @ nid)
      else and_then (say (deployed_row ''TIME'' ''VERSION'' ''HASH'' ''RESULT'' ''MESSAGE''))
             (each_line (print_deployment_row cf) ds))"

subsection \<open>State machines\<close>

definition cli_definition_row :: "string \<Rightarrow> string \<Rightarrow> string \<Rightarrow> string \<Rightarrow> string \<Rightarrow> string" where
  "cli_definition_row a b c d f =
     pad_right 25 a @ '' '' @ pad_right 15 b @ '' '' @ pad_right 6 c @ '' '' @ pad_right 12 d @ '' '' @ f"

definition print_fsm_definitions :: "cli_format \<Rightarrow> bool \<Rightarrow> definition_summary list \<Rightarrow> printed" where
  "print_fsm_definitions cf as_json ds =
     (if as_json then
        say (cf_pretty cf (JArr (map (\<lambda>d. JObj [(''name'', JStr (dm_name d)), (''kind'', JStr (dm_kind d)),
               (''description'', JStr (dm_description d)), (''states'', json_u32 (dm_state_count d)),
               (''initial'', JStr (dm_initial_state d))]) ds)))
      else if ds = [] then say ''No FSM definitions''
      else (StdOut (cli_definition_row ''NAME'' ''KIND'' ''STATES'' ''INITIAL'' ''DESCRIPTION'') #
            map (\<lambda>d. StdOut (cli_definition_row (dm_name d) (dm_kind d) (show_u32 (dm_state_count d))
                               (dm_initial_state d) (dm_description d))) ds, CliOk))"

definition print_fsm_definition :: "cli_format \<Rightarrow> bool \<Rightarrow> definition_info \<Rightarrow> printed" where
  "print_fsm_definition cf as_json d =
     (if as_json then
        say (cf_pretty cf (JObj [(''name'', JStr (dn_name d)), (''kind'', JStr (dn_kind d)),
               (''description'', JStr (dn_description d))]))
      else ([StdOut (''Name:        '' @ dn_name d), StdOut (''Kind:        '' @ dn_kind d),
             StdOut (''Description: '' @ dn_description d), StdOut ''---'', StdOut (dn_yaml d)], CliOk))"

definition cli_instance_to_json :: "instance_info \<Rightarrow> json_value" where
  "cli_instance_to_json i =
     JObj [(''instance_id'', JStr (ii_instance_id i)), (''definition_name'', JStr (ii_definition_name i)),
           (''current_state'', JStr (ii_current_state i)), (''status'', JStr (ii_status i)),
           (''deployed_nodes'', json_u32 (ii_deployed_nodes i)),
           (''failed_nodes'', json_u32 (ii_failed_nodes i)),
           (''target_nodes'', json_u32 (ii_target_nodes i))]"

definition transition_line :: "cli_format \<Rightarrow> transition_info \<Rightarrow> string" where
  "transition_line cf t =
     ''  '' @ time_or cf clock_time ''?'' (Some (ti_timestamp t)) @ '' '' @
     (if ti_from_state t = [] then [] else ti_from_state t @ '' '') @ ''-> '' @ ti_to_state t @
     '' ['' @ ti_trigger t @ ''] '' @ ti_message t"

definition print_instance :: "cli_format \<Rightarrow> bool \<Rightarrow> string \<Rightarrow> instance_info option \<Rightarrow> printed" where
  "print_instance cf as_json iid reply =
     (case reply of
        None \<Rightarrow> complain (''Instance '' @ iid @ '' not found'')
      | Some i \<Rightarrow>
          if as_json then say (cf_pretty cf (cli_instance_to_json i))
          else
            ([StdOut (''Instance:    '' @ ii_instance_id i), StdOut (''Definition:  '' @ ii_definition_name i),
              StdOut (''State:       '' @ ii_current_state i), StdOut (''Status:      '' @ ii_status i),
              StdOut (''Nodes:       '' @ show_u32 (ii_deployed_nodes i) @ '' deployed, '' @
                show_u32 (ii_failed_nodes i) @ '' failed, '' @ show_u32 (ii_target_nodes i) @ '' target'')] @
             (if ii_history i \<noteq> []
              then StdOut (newline_text @ ''Transition History:'') #
                map (\<lambda>t. StdOut (transition_line cf t)) (ii_history i)
              else []), CliOk))"

definition cli_instance_row :: "string \<Rightarrow> string \<Rightarrow> string \<Rightarrow> string \<Rightarrow> string \<Rightarrow> string \<Rightarrow> string" where
  "cli_instance_row a b c d f g =
     pad_right 38 a @ '' '' @ pad_right 20 b @ '' '' @ pad_right 12 c @ '' '' @ pad_right 10 d @ '' '' @
     pad_left 3 f @ ''/'' @ pad_left 3 g"

definition print_instances :: "cli_format \<Rightarrow> bool \<Rightarrow> instance_info list \<Rightarrow> printed" where
  "print_instances cf as_json xs =
     (if as_json then say (cf_pretty cf (JArr (map cli_instance_to_json xs)))
      else if xs = [] then say ''No FSM instances''
      else (StdOut (cli_instance_row ''INSTANCE ID'' ''DEFINITION'' ''STATE'' ''STATUS'' ''OK'' ''FAIL'') #
            map (\<lambda>i. StdOut (cli_instance_row (ii_instance_id i) (ii_definition_name i) (ii_current_state i)
                   (ii_status i) (show_u32 (ii_deployed_nodes i)) (show_u32 (ii_failed_nodes i)))) xs, CliOk))"

subsection \<open>Event streams\<close>

fun fsm_event_type_num :: "fsm_event_type \<Rightarrow> int" where
  "fsm_event_type_num FsmEventUnspecified = 0"
| "fsm_event_type_num FsmEventTransition = 1"
| "fsm_event_type_num FsmEventDeployProgress = 2"
| "fsm_event_type_num FsmEventInstanceCompleted = 3"

fun node_event_kind_num :: "node_event_kind \<Rightarrow> int" where
  "node_event_kind_num NodeEventUnspecified = 0"
| "node_event_kind_num NodeEventRegistered = 1"
| "node_event_kind_num NodeEventStateChanged = 2"
| "node_event_kind_num NodeEventHeartbeatStale = 3"
| "node_event_kind_num NodeEventRemoved = 4"

definition cli_fsm_event_json :: "proto_fsm_event \<Rightarrow> json_value" where
  "cli_fsm_event_json v =
     JObj [(''event_type'', JNum (fsm_event_type_num (pf_event_type v))),
           (''instance_id'', JStr (pf_instance_id v)), (''definition_name'', JStr (pf_definition_name v)),
           (''from_state'', JStr (pf_from_state v)), (''to_state'', JStr (pf_to_state v)),
           (''trigger'', JStr (pf_trigger v)), (''message'', JStr (pf_message v)),
           (''deployed_nodes'', json_u32 (pf_deployed_nodes v)),
           (''failed_nodes'', json_u32 (pf_failed_nodes v)),
           (''target_nodes'', json_u32 (pf_target_nodes v)), (''final_status'', JStr (pf_final_status v))]"

definition fsm_event_text :: "proto_fsm_event \<Rightarrow> string" where
  "fsm_event_text v =
     (case pf_event_type v of
        FsmEventTransition \<Rightarrow>
          pf_from_state v @ '' -> '' @ pf_to_state v @ '' ('' @ pf_trigger v @ '') '' @ pf_message v
      | FsmEventDeployProgress \<Rightarrow>
          ''deploy progress: '' @ show_u32 (pf_deployed_nodes v) @ ''/'' @ show_u32 (pf_target_nodes v) @
          '' succeeded, '' @ show_u32 (pf_failed_nodes v) @ '' failed''
      | FsmEventInstanceCompleted \<Rightarrow> ''instance completed: '' @ pf_final_status v
      | FsmEventUnspecified \<Rightarrow> ''unknown event'')"

definition print_fsm_event :: "cli_format \<Rightarrow> bool \<Rightarrow> proto_fsm_event \<Rightarrow> printed" where
  "print_fsm_event cf as_json v =
     (if as_json then say (cf_compact cf (cli_fsm_event_json v))
      else or_panic (shortened 8 (pf_instance_id v)) (\<lambda>id_short.
        say (time_or cf clock_time ''?'' (Some (pf_timestamp v)) @ '' ['' @ id_short @ ''] '' @ fsm_event_text v)))"

definition counter_rate_json :: "counter_rate_data \<Rightarrow> json_value" where
  "counter_rate_json c =
     JObj [(''rule_name'', JStr (crd_rule_name c)), (''match_count'', json_u64 (crd_match_count c)),
           (''byte_count'', json_u64 (crd_byte_count c)),
           (''matches_per_second'', JFloat (crd_matches_per_second c)),
           (''bytes_per_second'', JFloat (crd_bytes_per_second c))]"

definition counter_rate_line :: "counter_rate_data \<Rightarrow> string" where
  "counter_rate_line c =
     ''  '' @ pad_right 30 (crd_rule_name c) @ '' '' @ pad_left 8 (show_u64 (crd_match_count c)) @
     '' matches ('' @ show_fixed 1 (crd_matches_per_second c) @ ''/s)  '' @
     pad_left 10 (show_u64 (crd_byte_count c)) @ '' bytes ('' @
     show_fixed 1 (crd_bytes_per_second c) @ ''/s)''"

definition print_counter_event :: "cli_format \<Rightarrow> bool \<Rightarrow> counter_update \<Rightarrow> printed" where
  "print_counter_event cf as_json v =
     (if as_json then
        say (cf_compact cf (JObj [(''node_id'', JStr (cu_node_id v)),
               (''counters'', JArr (map counter_rate_json (cu_counters v)))]))
      else (StdOut (time_or cf clock_time ''?'' (Some (cu_collected_at v)) @ '' node='' @ cu_node_id v) #
            map (\<lambda>c. StdOut (counter_rate_line c)) (cu_counters v), CliOk))"

definition cli_node_event_json :: "proto_node_event \<Rightarrow> json_value" where
  "cli_node_event_json v =
     JObj [(''event_type'', JNum (node_event_kind_num (pn_event_type v))),
           (''node_id'', JStr (pn_node_id v)), (''hostname'', JStr (pn_hostname v)),
           (''labels'', json_strings (pn_labels v)), (''old_state'', JNum (pn_old_state v)),
           (''new_state'', JNum (pn_new_state v))]"

definition node_event_line :: "string \<Rightarrow> string \<Rightarrow> proto_node_event \<Rightarrow> string" where
  "node_event_line tm id_short v =
     (let line = (\<lambda>mark rest. tm @ '' '' @ mark @ '' '' @ id_short @ '' ('' @ pn_hostname v @ '') '' @ rest)
      in case pn_event_type v of
           NodeEventRegistered \<Rightarrow> line ''+'' ''registered''
         | NodeEventStateChanged \<Rightarrow>
             line ''~'' (state_name (pn_old_state v) @ '' -> '' @ state_name (pn_new_state v))
         | NodeEventHeartbeatStale \<Rightarrow> line ''!'' ''heartbeat stale''
         | NodeEventRemoved \<Rightarrow> line ''-'' ''removed''
         | NodeEventUnspecified \<Rightarrow> line ''?'' ''unknown event'')"

definition print_node_event :: "cli_format \<Rightarrow> bool \<Rightarrow> proto_node_event \<Rightarrow> printed" where
  "print_node_event cf as_json v =
     (if as_json then say (cf_compact cf (cli_node_event_json v))
      else or_panic (shortened 8 (pn_node_id v)) (\<lambda>id_short.
        say (node_event_line (time_or cf clock_time ''?'' (Some (pn_timestamp v))) id_short v)))"

text \<open>A stream is printed as it arrives, up to its end or its first error.\<close>

primrec print_stream :: "(status \<Rightarrow> string) \<Rightarrow> ('a \<Rightarrow> printed) \<Rightarrow> (status + 'a) list \<Rightarrow> printed" where
  "print_stream show_status f [] = quiet"
| "print_stream show_status f (x # xs) =
     (case x of
        Inl st \<Rightarrow> ([], CliFailed (show_status st))
      | Inr v \<Rightarrow> and_then (f v) (print_stream show_status f xs))"

subsection \<open>Audit log and templates\<close>

definition audit_row :: "string \<Rightarrow> string \<Rightarrow> string \<Rightarrow> string \<Rightarrow> string \<Rightarrow> string \<Rightarrow> string" where
  "audit_row a b c d f g =
     pad_right 20 a @ '' '' @ pad_right 10 b @ '' '' @ pad_right 16 c @ '' '' @ pad_right 12 d @ '' '' @
     pad_right 38 f @ '' '' @ g"

definition print_audit_row :: "cli_format \<Rightarrow> audit_info \<Rightarrow> printed" where
  "print_audit_row cf a =
     or_panic (elided 40 (ai_details a)) (\<lambda>details.
       say (audit_row (time_or cf day_time ''-'' (Some (ai_timestamp a))) (ai_actor a) (ai_action a)
              (ai_resource_type a) (ai_resource_id a) details))"

definition print_audit :: "cli_format \<Rightarrow> bool \<Rightarrow> audit_info list \<Rightarrow> printed" where
  "print_audit cf as_json xs =
     (if as_json then
        say (cf_pretty cf (JArr (map (\<lambda>a. JObj [(''id'', JStr (ai_id a)),
               (''timestamp'', json_seconds (Some (ai_timestamp a))), (''actor'', JStr (ai_actor a)),
               (''action'', JStr (ai_action a)), (''resource_type'', JStr (ai_resource_type a)),
               (''resource_id'', JStr (ai_resource_id a)), (''details'', JStr (ai_details a))]) xs)))
      else if xs = [] then say ''No audit entries found''
      else and_then (say (audit_row ''TIMESTAMP'' ''ACTOR'' ''ACTION'' ''TYPE'' ''RESOURCE ID'' ''DETAILS''))
             (each_line (print_audit_row cf) xs))"

definition template_row :: "string \<Rightarrow> string \<Rightarrow> string \<Rightarrow> string" where
  "template_row a b c = pad_right 25 a @ '' '' @ pad_right 30 b @ '' '' @ c"

definition print_template_row :: "template_summary \<Rightarrow> printed" where
  "print_template_row t =
     or_panic (elided 28 (ts_description t)) (\<lambda>desc.
       say (template_row (ts_name t) desc (join_with '', '' (ts_tags t))))"

definition print_templates :: "cli_format \<Rightarrow> bool \<Rightarrow> template_summary list \<Rightarrow> printed" where
  "print_templates cf as_json ts =
     (if as_json then
        say (cf_pretty cf (JArr (map (\<lambda>t. JObj [(''name'', JStr (ts_name t)),
               (''description'', JStr (ts_description t)), (''tags'', JArr (map JStr (ts_tags t))),
               (''created_at'', json_seconds (Some (ts_created_at t))),
               (''updated_at'', json_seconds (Some (ts_updated_at t)))]) ts)))
      else if ts = [] then say ''No templates found''
      else and_then (say (template_row ''NAME'' ''DESCRIPTION'' ''TAGS'')) (each_line print_template_row ts))"

definition print_template :: "cli_format \<Rightarrow> bool \<Rightarrow> bool \<Rightarrow> template_info \<Rightarrow> printed" where
  "print_template cf as_json pretty t =
     (if as_json \<and> \<not> pretty then
        say (cf_pretty cf (JObj [(''name'', JStr (tf_name t)), (''description'', JStr (tf_description t)),
               (''tags'', JArr (map JStr (tf_tags t))), (''rules_yaml'', JStr (tf_rules_yaml t)),
               (''created_at'', json_seconds (Some (tf_created_at t))),
               (''updated_at'', json_seconds (Some (tf_updated_at t)))]))
      else ([StdOut (''Name:        '' @ tf_name t), StdOut (''Description: '' @ tf_description t)] @
            (if tf_tags t \<noteq> [] then [StdOut (''Tags:        '' @ join_with '', '' (tf_tags t))] else []) @
            [StdOut ''---'', StdOut (tf_rules_yaml t)], CliOk))"

definition print_template_deploy :: "bool \<Rightarrow> string \<Rightarrow> string \<Rightarrow> deploy_reply \<Rightarrow> printed" where
  "print_template_deploy dry_run name nid resp =
     (if dry_run then
        (case dx_dry_run_result resp of
           Some dr \<Rightarrow>
             ([StdOut (''Dry-run from template '' @ quoted name @ '':''),
               StdOut (''  Valid: '' @ show_bool (dz_valid dr))] @
              map (\<lambda>m. StdOut (''    - '' @ m)) (dz_validation_errors dr) @
              map (\<lambda>n. StdOut (''  '' @ dy_node_id n @ '' ('' @ dy_hostname n @ ''): '' @
                     (if dy_policy_changed n then ''changed'' else ''unchanged''))) (dz_target_nodes dr), CliOk)
         | None \<Rightarrow> say ''Dry-run completed'')
      else if ds_success resp
      then say (''Template '' @ quoted name @ '' deployed to '' @ nid)
      else complain (''Deploy failed: '' @ ds_message resp))"

end
