(* ===== verification/Cli.thy ===== *)
theory Cli
  imports Cli_Reports
begin

text \<open>
  The commands of the command line, \<^verbatim>\<open>pacinet-cli/src/main.rs\<close>: each reads what it needs, calls the
  management service of the controller and prints the reply.  The arguments arrive parsed (by
  \<open>clap\<close>).  The generated gRPC client is a record of functions on the controller's state \<open>'c\<close>;
  \<^verbatim>\<open>Cli_Run.thy\<close> instantiates it with the management service of the development.
\<close>

subsection \<open>Arguments\<close>

type_synonym label_args = "(string \<times> string) list"

datatype node_command =
    NodeList label_args
  | NodeShow string
  | NodeRemove string
  | NodeAnnotate string label_args "string list"

datatype policy_command =
    PolicyShow string
  | PolicyDiff string string
  | PolicyHistory string u32
  | PolicyRollback string u64

record fsm_start_args =
  sa_name :: string
  sa_rules :: "string option"
  sa_counters :: bool
  sa_rate_limit :: bool
  sa_conntrack :: bool
  sa_label :: label_args

datatype fsm_command =
    FsmCreate string
  | FsmList "string option"
  | FsmShow string
  | FsmDelete string
  | FsmStart fsm_start_args
  | FsmInstanceStatus string
  | FsmInstances "string option" "string option"
  | FsmAdvance string "string option"
  | FsmCancel string

datatype watch_command =
    WatchFsm "string option"
  | WatchCounters "string option"
  | WatchNodes label_args

record template_create_args =
  ta_file :: string
  ta_name :: string
  ta_description :: string
  ta_tags :: string

record template_deploy_args =
  td_name :: string
  td_node :: string
  td_counters :: bool
  td_dry_run :: bool

datatype template_command =
    TemplateCreate template_create_args
  | TemplateList "string option"
  | TemplateShow string
  | TemplateDelete string
  | TemplateDeploy template_deploy_args

record deploy_args =
  da_rules_file :: string
  da_node :: "string option"
  da_label :: label_args
  da_counters :: bool
  da_rate_limit :: bool
  da_conntrack :: bool
  da_dry_run :: bool

datatype command =
    CmdNode node_command
  | CmdDeploy deploy_args
  | CmdPolicy policy_command
  | CmdCounters "string option" bool label_args
  | CmdDeployHistory string u32
  | CmdStatus label_args
  | CmdFsm fsm_command
  | CmdWatch watch_command
  | CmdAudit "string option" "string option" u32
  | CmdTemplate template_command
  | CmdVersion

record cli_args =
  cl_server :: string
  cl_json :: bool
  cl_pretty :: bool
  cl_ca_cert :: "string option"
  cl_tls_cert :: "string option"
  cl_tls_key :: "string option"
  cl_command :: command

subsection \<open>The outside\<close>

record 'c mgmt_client =
  mc_list_nodes :: "(string, string) hmap \<Rightarrow> 'c \<Rightarrow> (status + node_info list) \<times> 'c"
  mc_get_node :: "string \<Rightarrow> 'c \<Rightarrow> (status + node_info option) \<times> 'c"
  mc_remove_node :: "string \<Rightarrow> 'c \<Rightarrow> (status + ack) \<times> 'c"
  mc_set_node_annotations ::
    "string \<Rightarrow> (string, string) hmap \<Rightarrow> string list \<Rightarrow> 'c \<Rightarrow> (status + ack) \<times> 'c"
  mc_deploy_policy :: "deploy_policy_request \<Rightarrow> 'c \<Rightarrow> (status + deploy_reply) \<times> 'c"
  mc_batch_deploy_policy :: "batch_deploy_request \<Rightarrow> 'c \<Rightarrow> (status + batch_deploy_response) \<times> 'c"
  mc_get_policy :: "string \<Rightarrow> 'c \<Rightarrow> (status + policy_info) \<times> 'c"
  mc_get_policy_history :: "string \<Rightarrow> u32 \<Rightarrow> 'c \<Rightarrow> (status + policy_version_info list) \<times> 'c"
  mc_rollback_policy :: "string \<Rightarrow> u64 \<Rightarrow> 'c \<Rightarrow> (status + rollback_response) \<times> 'c"
  mc_get_deployment_history :: "string \<Rightarrow> u32 \<Rightarrow> 'c \<Rightarrow> (status + deployment_info list) \<times> 'c"
  mc_get_node_counters :: "string \<Rightarrow> 'c \<Rightarrow> (status + node_counters) \<times> 'c"
  mc_get_aggregate_counters :: "(string, string) hmap \<Rightarrow> 'c \<Rightarrow> (status + node_counters list) \<times> 'c"
  mc_get_fleet_status :: "(string, string) hmap \<Rightarrow> 'c \<Rightarrow> (status + fleet_status) \<times> 'c"
  mc_create_fsm_definition :: "string \<Rightarrow> 'c \<Rightarrow> (status + create_response) \<times> 'c"
  mc_list_fsm_definitions :: "string \<Rightarrow> 'c \<Rightarrow> (status + definition_summary list) \<times> 'c"
  mc_get_fsm_definition :: "string \<Rightarrow> 'c \<Rightarrow> (status + definition_info) \<times> 'c"
  mc_delete_fsm_definition :: "string \<Rightarrow> 'c \<Rightarrow> (status + ack) \<times> 'c"
  mc_start_fsm :: "start_fsm_request \<Rightarrow> 'c \<Rightarrow> (status + start_fsm_response) \<times> 'c"
  mc_get_fsm_instance :: "string \<Rightarrow> 'c \<Rightarrow> (status + instance_info option) \<times> 'c"
  mc_list_fsm_instances :: "string \<Rightarrow> string \<Rightarrow> 'c \<Rightarrow> (status + instance_info list) \<times> 'c"
  mc_advance_fsm :: "string \<Rightarrow> string \<Rightarrow> 'c \<Rightarrow> (status + advance_response) \<times> 'c"
  mc_cancel_fsm :: "string \<Rightarrow> string \<Rightarrow> 'c \<Rightarrow> (status + ack) \<times> 'c"
  mc_watch_fsm_events :: "string \<Rightarrow> 'c \<Rightarrow> (status + (status + proto_fsm_event) list) \<times> 'c"
  mc_watch_counters :: "string \<Rightarrow> 'c \<Rightarrow> (status + (status + counter_update) list) \<times> 'c"
  mc_watch_node_events ::
    "(string, string) hmap \<Rightarrow> 'c \<Rightarrow> (status + (status + proto_node_event) list) \<times> 'c"
  mc_query_audit_log ::
    "string \<Rightarrow> string \<Rightarrow> string \<Rightarrow> (int \<times> int) option \<Rightarrow> u32 \<Rightarrow> 'c \<Rightarrow> (status + audit_info list) \<times> 'c"
  mc_create_policy_template :: "template_request \<Rightarrow> 'c \<Rightarrow> (status + create_response) \<times> 'c"
  mc_list_policy_templates :: "string \<Rightarrow> 'c \<Rightarrow> (status + template_summary list) \<times> 'c"
  mc_get_policy_template :: "string \<Rightarrow> 'c \<Rightarrow> (status + template_info) \<times> 'c"
  mc_delete_policy_template :: "string \<Rightarrow> 'c \<Rightarrow> (status + ack) \<times> 'c"

datatype connect_failure = TlsLoad string | InvalidUri string | TlsConfiguration string | Unreachable

record 'c cli_env =
  cn_format :: cli_format
  cn_connect :: "string \<Rightarrow> tls_config option \<Rightarrow> 'c \<Rightarrow> connect_failure + unit"
  cn_read_file :: "string \<Rightarrow> string + string"
  cn_show_status :: "status \<Rightarrow> string"
  cn_text_diff :: "string \<Rightarrow> string \<Rightarrow> (change_tag \<times> string) list"
  cn_version :: string
  cn_client :: "'c mgmt_client"

type_synonym 'c cli = "'c \<Rightarrow> printed \<times> 'c"

definition cli_print :: "printed \<Rightarrow> 'c cli" where
  "cli_print p = (\<lambda>c. (p, c))"

definition cli_fail :: "string \<Rightarrow> 'c cli" where
  "cli_fail msg = cli_print ([], CliFailed msg)"

text \<open>A call whose error ends the command, and a file that must be readable.\<close>

definition cli_call ::
  "'c cli_env \<Rightarrow> ('c \<Rightarrow> (status + 'a) \<times> 'c) \<Rightarrow> ('a \<Rightarrow> 'c cli) \<Rightarrow> 'c cli" where
  "cli_call ce call k = (\<lambda>c. case call c of
       (Inl st, c) \<Rightarrow> cli_fail (cn_show_status ce st) c
     | (Inr r, c) \<Rightarrow> k r c)"

definition cli_show ::
  "'c cli_env \<Rightarrow> ('c \<Rightarrow> (status + 'a) \<times> 'c) \<Rightarrow> ('a \<Rightarrow> printed) \<Rightarrow> 'c cli" where
  "cli_show ce call f = cli_call ce call (\<lambda>r. cli_print (f r))"

definition cli_read :: "'c cli_env \<Rightarrow> string \<Rightarrow> string \<Rightarrow> (string \<Rightarrow> 'c cli) \<Rightarrow> 'c cli" where
  "cli_read ce what path k =
     (case cn_read_file ce path of
        Inl _ \<Rightarrow> cli_fail (''Failed to read '' @ what @ '': '' @ path)
      | Inr text \<Rightarrow> k text)"

definition cli_tls :: "cli_args \<Rightarrow> string + tls_config option" where
  "cli_tls a =
     (case (cl_ca_cert a, cl_tls_cert a, cl_tls_key a) of
        (Some ca, Some cert, Some key) \<Rightarrow> Inr (Some \<lparr> tc_ca_cert = ca, tc_cert = cert, tc_key = key \<rparr>)
      | (None, None, None) \<Rightarrow> Inr None
      | _ \<Rightarrow> Inl ''TLS requires all three: --ca-cert, --tls-cert, --tls-key'')"

definition connect_message :: "string \<Rightarrow> tls_config option \<Rightarrow> connect_failure \<Rightarrow> string" where
  "connect_message server tls f =
     (case f of
        TlsLoad e \<Rightarrow> ''TLS load error: '' @ e
      | InvalidUri e \<Rightarrow> ''Invalid server URI: '' @ e
      | TlsConfiguration e \<Rightarrow> ''TLS config error: '' @ e
      | Unreachable \<Rightarrow>
          (case tls of
             Some _ \<Rightarrow> ''TLS connect to '' @ server @ '' failed''
           | None \<Rightarrow> ''Failed to connect to controller at '' @ server))"

definition cli_connect :: "'c cli_env \<Rightarrow> string \<Rightarrow> tls_config option \<Rightarrow> 'c \<Rightarrow> string + unit" where
  "cli_connect ce server tls c = map_err (connect_message server tls) (cn_connect ce server tls c)"

definition with_client :: "'c cli_env \<Rightarrow> string \<Rightarrow> tls_config option \<Rightarrow> 'c cli \<Rightarrow> 'c cli" where
  "with_client ce server tls k = (\<lambda>c. case cli_connect ce server tls c of
       Inl msg \<Rightarrow> cli_fail msg c
     | Inr _ \<Rightarrow> k c)"

definition collect_labels :: "label_args \<Rightarrow> (string, string) hmap" where
  "collect_labels ls = hm_extend [] ls"

definition or_empty :: "string option \<Rightarrow> string" where
  "or_empty x = (case x of Some s \<Rightarrow> s | None \<Rightarrow> [])"

subsection \<open>The commands\<close>

definition handle_node ::
  "'c cli_env \<Rightarrow> node_command \<Rightarrow> string \<Rightarrow> bool \<Rightarrow> tls_config option \<Rightarrow> 'c cli" where
  "handle_node ce action server as_json tls =
     with_client ce server tls
       (let m = cn_client ce; cf = cn_format ce in
        case action of
          NodeList ls \<Rightarrow> cli_show ce (mc_list_nodes m (collect_labels ls)) (print_nodes cf as_json)
        | NodeShow nid \<Rightarrow> cli_show ce (mc_get_node m nid) (print_node cf as_json nid)
        | NodeRemove nid \<Rightarrow>
            cli_show ce (mc_remove_node m nid) (\<lambda>r.
              print_ack (''Node '' @ nid @ '' removed'') [] (ack_success r) (ack_message r))
        | NodeAnnotate nid annotations remove \<Rightarrow>
            cli_show ce (mc_set_node_annotations m nid (collect_labels annotations) remove) (\<lambda>r.
              print_ack (''Annotations updated for node '' @ nid) [] (ack_success r) (ack_message r)))"

text \<open>The options every command sends, with three of the flags from the arguments.\<close>

definition cli_options :: "bool \<Rightarrow> bool \<Rightarrow> bool \<Rightarrow> compile_options" where
  "cli_options counters rate_limit conntrack =
     \<lparr> co_counters = counters, co_rate_limit = rate_limit, co_conntrack = conntrack, co_axi = False,
       co_ports = 1, co_target = ''standalone'', co_dynamic = False, co_dynamic_entries = 16,
       co_width = 8, co_ptp = False, co_rss = False, co_rss_queues = 4, co_int_enabled = False,
       co_int_switch_id = 0 \<rparr>"

definition handle_deploy ::
  "'c cli_env \<Rightarrow> string \<Rightarrow> deploy_args \<Rightarrow> tls_config option \<Rightarrow> 'c cli" where
  "handle_deploy ce server a tls =
     cli_read ce ''rules file'' (da_rules_file a) (\<lambda>rules_yaml.
       with_client ce server tls
         (let opts = Some (cli_options (da_counters a) (da_rate_limit a) (da_conntrack a)) in
          case da_node a of
            Some nid \<Rightarrow>
              cli_show ce (mc_deploy_policy (cn_client ce)
                \<lparr> dq_node_id = nid, dq_rules_yaml = rules_yaml, dq_options = opts,
                  dq_dry_run = da_dry_run a \<rparr>)
                (print_deploy (da_dry_run a) nid)
          | None \<Rightarrow>
              cli_show ce (mc_batch_deploy_policy (cn_client ce)
                \<lparr> bq_label_filter = collect_labels (da_label a), bq_rules_yaml = rules_yaml,
                  bq_options = opts, bq_dry_run = da_dry_run a \<rparr>)
                print_batch))"

definition handle_policy ::
  "'c cli_env \<Rightarrow> policy_command \<Rightarrow> string \<Rightarrow> bool \<Rightarrow> bool \<Rightarrow> tls_config option \<Rightarrow> 'c cli" where
  "handle_policy ce action server as_json pretty tls =
     with_client ce server tls
       (let m = cn_client ce; cf = cn_format ce in
        case action of
          PolicyShow nid \<Rightarrow> cli_show ce (mc_get_policy m nid) (print_policy cf as_json pretty)
        | PolicyDiff node_a node_b \<Rightarrow>
            cli_call ce (mc_get_policy m node_a) (\<lambda>a.
              cli_show ce (mc_get_policy m node_b) (print_diff (cn_text_diff ce) node_a node_b a))
        | PolicyHistory nid limit \<Rightarrow>
            cli_show ce (mc_get_policy_history m nid limit) (print_history cf as_json nid)
        | PolicyRollback nid version \<Rightarrow>
            cli_show ce (mc_rollback_policy m nid version) (print_rollback nid))"

definition handle_deploy_history ::
  "'c cli_env \<Rightarrow> string \<Rightarrow> string \<Rightarrow> u32 \<Rightarrow> bool \<Rightarrow> tls_config option \<Rightarrow> 'c cli" where
  "handle_deploy_history ce server nid limit as_json tls =
     with_client ce server tls
       (cli_show ce (mc_get_deployment_history (cn_client ce) nid limit)
         (print_deployments (cn_format ce) as_json nid))"

definition handle_counters ::
  "'c cli_env \<Rightarrow> string \<Rightarrow> string option \<Rightarrow> bool \<Rightarrow> label_args \<Rightarrow> bool \<Rightarrow> tls_config option \<Rightarrow> 'c cli" where
  "handle_counters ce server node_id aggregate ls as_json tls =
     with_client ce server tls
       (case (aggregate, node_id) of
          (False, Some nid) \<Rightarrow>
            cli_show ce (mc_get_node_counters (cn_client ce) nid)
              (print_node_counters (cn_format ce) as_json)
        | _ \<Rightarrow>
            cli_show ce (mc_get_aggregate_counters (cn_client ce) (collect_labels ls))
              (print_aggregate (cn_format ce) as_json))"

definition handle_status ::
  "'c cli_env \<Rightarrow> string \<Rightarrow> label_args \<Rightarrow> bool \<Rightarrow> tls_config option \<Rightarrow> 'c cli" where
  "handle_status ce server ls as_json tls = (\<lambda>c.
     case cli_connect ce server tls c of
       Inl msg \<Rightarrow>
         cli_print ([StdOut (''Controller:  '' @ server @ '' (unreachable)''),
                     StdOut (''Error:       '' @ msg)], CliOk) c
     | Inr _ \<Rightarrow>
         cli_show ce (mc_get_fleet_status (cn_client ce) (collect_labels ls))
           (print_fleet (cn_format ce) as_json server) c)"

definition handle_fsm ::
  "'c cli_env \<Rightarrow> fsm_command \<Rightarrow> string \<Rightarrow> bool \<Rightarrow> tls_config option \<Rightarrow> 'c cli" where
  "handle_fsm ce action server as_json tls =
     with_client ce server tls
       (let m = cn_client ce; cf = cn_format ce in
        case action of
          FsmCreate file \<Rightarrow>
            cli_read ce ''FSM definition'' file (\<lambda>yaml.
              cli_show ce (mc_create_fsm_definition m yaml) (\<lambda>r.
                print_ack (''FSM definition '' @ quoted (cp_name r) @ '' created'') ''Failed: ''
                  (cp_success r) (cp_message r)))
        | FsmList kind \<Rightarrow>
            cli_show ce (mc_list_fsm_definitions m (or_empty kind)) (print_fsm_definitions cf as_json)
        | FsmShow name \<Rightarrow> cli_show ce (mc_get_fsm_definition m name) (print_fsm_definition cf as_json)
        | FsmDelete name \<Rightarrow>
            cli_show ce (mc_delete_fsm_definition m name) (\<lambda>r.
              print_ack (''FSM definition '' @ quoted name @ '' deleted'') [] (ack_success r) (ack_message r))
        | FsmStart a \<Rightarrow>
            (case sa_rules a of
               Some path \<Rightarrow> cli_read ce ''rules file'' path
             | None \<Rightarrow> (\<lambda>k. k [])) (\<lambda>rules_yaml.
              cli_show ce (mc_start_fsm m
                \<lparr> sq_definition_name = sa_name a, sq_rules_yaml = rules_yaml,
                  sq_options = Some (cli_options (sa_counters a) (sa_rate_limit a) (sa_conntrack a)),
                  sq_target_label_filter = collect_labels (sa_label a) \<rparr>) (\<lambda>r.
                print_ack (''FSM instance started: '' @ sp_instance_id r) ''Failed: ''
                  (sp_success r) (sp_message r)))
        | FsmInstanceStatus iid \<Rightarrow>
            cli_show ce (mc_get_fsm_instance m iid) (print_instance cf as_json iid)
        | FsmInstances dname st \<Rightarrow>
            cli_show ce (mc_list_fsm_instances m (or_empty dname) (or_empty st)) (print_instances cf as_json)
        | FsmAdvance iid target \<Rightarrow>
            cli_show ce (mc_advance_fsm m iid (or_empty target)) (\<lambda>r.
              print_ack (''FSM advanced to state: '' @ ap_current_state r) ''Failed: ''
                (ap_success r) (ap_message r))
        | FsmCancel iid \<Rightarrow>
            cli_show ce (mc_cancel_fsm m iid ''Cancelled by operator'') (\<lambda>r.
              print_ack (''FSM instance '' @ iid @ '' cancelled'') ''Failed: ''
                (ack_success r) (ack_message r)))"

definition handle_watch ::
  "'c cli_env \<Rightarrow> watch_command \<Rightarrow> string \<Rightarrow> bool \<Rightarrow> tls_config option \<Rightarrow> 'c cli" where
  "handle_watch ce action server as_json tls =
     with_client ce server tls
       (let m = cn_client ce; cf = cn_format ce; sh = cn_show_status ce in
        case action of
          WatchFsm iid \<Rightarrow>
            cli_show ce (mc_watch_fsm_events m (or_empty iid))
              (print_stream sh (print_fsm_event cf as_json))
        | WatchCounters nid \<Rightarrow>
            cli_show ce (mc_watch_counters m (or_empty nid))
              (print_stream sh (print_counter_event cf as_json))
        | WatchNodes ls \<Rightarrow>
            cli_show ce (mc_watch_node_events m (collect_labels ls))
              (print_stream sh (print_node_event cf as_json)))"

definition handle_audit ::
  "'c cli_env \<Rightarrow> string \<Rightarrow> string option \<Rightarrow> string option \<Rightarrow> u32 \<Rightarrow> bool \<Rightarrow> tls_config option \<Rightarrow> 'c cli" where
  "handle_audit ce server action resource_type limit as_json tls =
     with_client ce server tls
       (cli_show ce (mc_query_audit_log (cn_client ce) (or_empty action) (or_empty resource_type) [] None limit)
         (print_audit (cn_format ce) as_json))"

definition tag_list :: "string \<Rightarrow> string list" where
  "tag_list tags = (if tags = [] then [] else map trim (split_on CHR '','' tags))"

definition handle_template ::
  "'c cli_env \<Rightarrow> template_command \<Rightarrow> string \<Rightarrow> bool \<Rightarrow> bool \<Rightarrow> tls_config option \<Rightarrow> 'c cli" where
  "handle_template ce action server as_json pretty tls =
     with_client ce server tls
       (let m = cn_client ce; cf = cn_format ce in
        case action of
          TemplateCreate a \<Rightarrow>
            cli_read ce ''rules file'' (ta_file a) (\<lambda>rules_yaml.
              cli_show ce (mc_create_policy_template m
                \<lparr> tq_name = ta_name a, tq_description = ta_description a, tq_rules_yaml = rules_yaml,
                  tq_tags = tag_list (ta_tags a) \<rparr>) (\<lambda>r.
                print_ack (''Template '' @ quoted (cp_name r) @ '' created'') ''Failed: ''
                  (cp_success r) (cp_message r)))
        | TemplateList tag \<Rightarrow>
            cli_show ce (mc_list_policy_templates m (or_empty tag)) (print_templates cf as_json)
        | TemplateShow name \<Rightarrow>
            cli_show ce (mc_get_policy_template m name) (print_template cf as_json pretty)
        | TemplateDelete name \<Rightarrow>
            cli_show ce (mc_delete_policy_template m name) (\<lambda>r.
              print_ack (''Template '' @ quoted name @ '' deleted'') [] (ack_success r) (ack_message r))
        | TemplateDeploy a \<Rightarrow>
            cli_call ce (mc_get_policy_template m (td_name a)) (\<lambda>t.
              if tf_rules_yaml t = []
              then cli_print (complain (''Template '' @ quoted (td_name a) @ '' not found or has no rules''))
              else
                cli_show ce (mc_deploy_policy m
                  \<lparr> dq_node_id = td_node a, dq_rules_yaml = tf_rules_yaml t,
                    dq_options = Some (cli_options (td_counters a) False False),
                    dq_dry_run = td_dry_run a \<rparr>)
                  (print_template_deploy (td_dry_run a) (td_name a) (td_node a))))"

definition run_cli :: "'c cli_env \<Rightarrow> cli_args \<Rightarrow> 'c cli" where
  "run_cli ce a =
     (case cli_tls a of
        Inl msg \<Rightarrow> cli_fail msg
      | Inr tls \<Rightarrow>
          (let server = cl_server a; as_json = cl_json a in
           case cl_command a of
             CmdNode x \<Rightarrow> handle_node ce x server as_json tls
           | CmdDeploy d \<Rightarrow> handle_deploy ce server d tls
           | CmdPolicy x \<Rightarrow> handle_policy ce x server as_json (cl_pretty a) tls
           | CmdDeployHistory nid limit \<Rightarrow> handle_deploy_history ce server nid limit as_json tls
           | CmdCounters nid aggregate ls \<Rightarrow> handle_counters ce server nid aggregate ls as_json tls
           | CmdStatus ls \<Rightarrow> handle_status ce server ls as_json tls
           | CmdFsm x \<Rightarrow> handle_fsm ce x server as_json tls
           | CmdWatch x \<Rightarrow> handle_watch ce x server as_json tls
           | CmdAudit action resource_type limit \<Rightarrow>
               handle_audit ce server action resource_type limit as_json tls
           | CmdTemplate x \<Rightarrow> handle_template ce x server as_json (cl_pretty a) tls
           | CmdVersion \<Rightarrow> cli_print (say (''pacinet '' @ cn_version ce))))"

end
