(* ===== verification/Cli_Run.thy ===== *)
theory Cli_Run
  imports Cli Api_Run
begin

text \<open>
  The command line against the controller: its client calls are the management service of the
  development.  What is printed is what the controller did: a deploy that is reported shows the file
  that was read, a template is deployed like a file with its text.  Two more groups of facts are about
  the printing alone: which texts a table cannot be printed with, and which failures a script does not
  see.
\<close>

subsection \<open>The client\<close>

definition reading :: "('c \<Rightarrow> 'a) \<Rightarrow> 'c \<Rightarrow> 'a \<times> 'c" where
  "reading f w = (f w, w)"

definition on_wire :: "deploy_policy_response \<Rightarrow> deploy_reply" where
  "on_wire r = deploy_policy_response.extend r (deploy_reply.fields None)"

text \<open>The streams deliver the given events; \<open>order\<close> is the order of the tasks of a batch.\<close>

definition served_by ::
  "'s storage_ops \<Rightarrow> env \<Rightarrow> (node list \<Rightarrow> node list) \<Rightarrow> fsm_event list \<Rightarrow> counter_event list \<Rightarrow>
     node_event list \<Rightarrow> 's world mgmt_client" where
  "served_by ops e order fevs cevs nevs =
     \<lparr> mc_list_nodes = list_nodes ops e,
       mc_get_node = (\<lambda>nid w. apfst (map_sum id Some) (get_node ops e nid w)),
       mc_remove_node = remove_node ops e,
       mc_set_node_annotations = set_node_annotations ops,
       mc_deploy_policy = (\<lambda>req w. apfst (map_sum id on_wire) (deploy_policy ops e req w)),
       mc_batch_deploy_policy = batch_deploy_policy ops e order,
       mc_get_policy = (\<lambda>nid. reading (get_policy ops nid)),
       mc_get_policy_history = (\<lambda>nid limit. reading (get_policy_history ops nid limit)),
       mc_rollback_policy = rollback_policy ops e,
       mc_get_deployment_history = (\<lambda>nid limit. reading (get_deployment_history ops nid limit)),
       mc_get_node_counters = get_node_counters ops e,
       mc_get_aggregate_counters = get_aggregate_counters ops e,
       mc_get_fleet_status = get_fleet_status ops e,
       mc_create_fsm_definition = create_fsm_definition ops e,
       mc_list_fsm_definitions = (\<lambda>kind. reading (list_fsm_definitions ops kind)),
       mc_get_fsm_definition = (\<lambda>name. reading (get_fsm_definition ops e name)),
       mc_delete_fsm_definition = delete_fsm_definition ops,
       mc_start_fsm = (\<lambda>req w. apfst Inr (start_fsm ops e req w)),
       mc_get_fsm_instance = (\<lambda>iid. reading (\<lambda>w. map_sum id Some (get_fsm_instance ops iid w))),
       mc_list_fsm_instances = (\<lambda>dname st. reading (list_fsm_instances ops dname st)),
       mc_advance_fsm = (\<lambda>iid target w. apfst Inr (advance_fsm ops e iid target w)),
       mc_cancel_fsm = (\<lambda>iid reason w. apfst Inr (cancel_fsm ops e iid reason w)),
       mc_watch_fsm_events = (\<lambda>iid. reading (\<lambda>w. map_sum id (map Inr) (watch_fsm_events e iid fevs))),
       mc_watch_counters = (\<lambda>nid. reading (\<lambda>w. map_sum id (map Inr) (watch_counters e nid cevs))),
       mc_watch_node_events = (\<lambda>ls. reading (\<lambda>w. map_sum id (map Inr) (watch_node_events e ls nevs))),
       mc_query_audit_log = query_audit_log ops e,
       mc_create_policy_template = create_policy_template ops e,
       mc_list_policy_templates = (\<lambda>tag. reading (list_policy_templates ops tag)),
       mc_get_policy_template = (\<lambda>name. reading (get_policy_template ops name)),
       mc_delete_policy_template = delete_policy_template ops \<rparr>"

lemma on_wire_sel [simp]:
  "ds_success (on_wire r) = ds_success r" "ds_message (on_wire r) = ds_message r"
  "ds_warnings (on_wire r) = ds_warnings r" "dx_dry_run_result (on_wire r) = None"
  by (simp_all add: on_wire_def deploy_policy_response.defs deploy_reply.defs)

subsection \<open>Printing\<close>

lemma and_then_ok [simp]: "and_then (ls, CliOk) q = (ls @ fst q, snd q)"
  by (simp add: and_then_def)

lemma and_then_assoc: "and_then (and_then p q) r = and_then p (and_then q r)"
  by (auto simp: and_then_def split: prod.splits cli_end.splits)

lemma each_line_append: "each_line f (xs @ ys) = and_then (each_line f xs) (each_line f ys)"
  by (induction xs) (simp_all add: quiet_def and_then_assoc)

lemma print_stream_ok: "print_stream sh f (map Inr xs) = each_line f xs"
  by (induction xs) simp_all

lemma each_line_say: "each_line (\<lambda>x. say (f x)) xs = (map (\<lambda>x. StdOut (f x)) xs, CliOk)"
  by (induction xs) (simp_all add: quiet_def say_def)

text \<open>Both label parsers are the same.\<close>

lemma cli_parse_label_eq: "cli_parse_label s = parse_label s"
  by (simp add: cli_parse_label_def parse_label_def splitn2_def Let_def split: option.split prod.split)

lemma cli_tls_eq:
  "xa_ca_cert x = cl_ca_cert a \<Longrightarrow> xa_tls_cert x = cl_tls_cert a \<Longrightarrow> xa_tls_key x = cl_tls_key a \<Longrightarrow>
     cli_tls a = agent_tls x"
  by (simp add: cli_tls_def agent_tls_def split: option.split)

text \<open>The options sent are the normalised ones.\<close>

lemma cli_options_normal [simp]: "normalize_options (cli_options a b c) = cli_options a b c"
  by (simp add: normalize_options_def cli_options_def Let_def)

lemma shortened_panics:
  "shortened k s = None \<longleftrightarrow> k < length s \<and> continuation (s ! k)"
  by (auto simp: shortened_def slice_to_def)

lemma elided_panics: "elided k s = None \<longleftrightarrow> k < length s \<and> continuation (s ! k)"
  by (auto simp: elided_def slice_to_def)

definition ascii :: "string \<Rightarrow> bool" where
  "ascii s \<longleftrightarrow> (\<forall>c \<in> set s. byte_of c < 128)"

lemma ascii_not_continuation: "ascii s \<Longrightarrow> k < length s \<Longrightarrow> \<not> continuation (s ! k)"
  by (auto simp: ascii_def continuation_def dest!: nth_mem)

lemma shortened_ascii: "ascii s \<Longrightarrow> shortened k s = Some (take k s)"
  by (auto simp: shortened_def slice_to_def ascii_not_continuation)

lemma elided_ascii: "ascii s \<Longrightarrow> \<exists>t. elided k s = Some t"
  by (auto simp: elided_def slice_to_def ascii_not_continuation)

lemma each_line_or_panic:
  "snd (each_line (\<lambda>x. or_panic (g x) (\<lambda>t. say (h x t))) xs) =
     (if \<exists>x \<in> set xs. g x = None then CliPanic else CliOk)"
  by (induction xs) (auto simp: quiet_def or_panic_def say_def and_then_def split: option.split prod.split)

lemma or_panic_nested:
  "or_panic a (\<lambda>x. or_panic b (k x)) = or_panic (Option.bind a (\<lambda>x. map_option (Pair x) b)) (\<lambda>(x, y). k x y)"
  by (cases a; cases b) (simp_all add: or_panic_def)

text \<open>A byte of the string at which it cannot be cut.\<close>

definition cuts_character :: "nat \<Rightarrow> string \<Rightarrow> bool" where
  "cuts_character k s \<longleftrightarrow> k < length s \<and> continuation (s ! k)"

lemma short_hash_panics: "short_hash h = None \<longleftrightarrow> cuts_character 12 h"
  by (auto simp: short_hash_def shortened_panics cuts_character_def)

lemma ascii_cuts: "ascii s \<Longrightarrow> \<not> cuts_character k s"
  by (simp add: cuts_character_def ascii_not_continuation)

lemma table_end:
  "snd (and_then (say l) (each_line (\<lambda>x. or_panic (g x) (\<lambda>t. say (h x t))) xs)) =
     (if \<exists>x \<in> set xs. g x = None then CliPanic else CliOk)"
  unfolding say_def [of l] and_then_ok snd_conv by (rule each_line_or_panic)

text \<open>C37: A table is printed to its end unless a text in it is cut inside a character: then the command
  panics.  This is so for the tables of nodes, policy versions, deployments, audit entries and
  templates, with the cut at byte 12 of a hash, byte 40 of the details and byte 28 of a description.\<close>

theorem tables_panic_exactly:
  "snd (print_nodes cf False ns) =
     (if \<exists>n \<in> set ns. cuts_character 12 (ni_policy_hash n) then CliPanic else CliOk) \<and>
   snd (print_history cf False nid vs) =
     (if \<exists>v \<in> set vs. cuts_character 12 (vi_policy_hash v) then CliPanic else CliOk) \<and>
   snd (print_deployments cf False nid ds) =
     (if \<exists>d \<in> set ds. cuts_character 12 (di_policy_hash d) then CliPanic else CliOk) \<and>
   snd (print_audit cf False as) =
     (if \<exists>a \<in> set as. cuts_character 40 (ai_details a) then CliPanic else CliOk) \<and>
   snd (print_templates cf False ts) =
     (if \<exists>t \<in> set ts. cuts_character 28 (ts_description t) then CliPanic else CliOk)"
proof (intro conjI)
  show "snd (print_nodes cf False ns) =
     (if \<exists>n \<in> set ns. cuts_character 12 (ni_policy_hash n) then CliPanic else CliOk)"
  proof (cases "ns = []")
    case False
    then show ?thesis
      unfolding print_nodes_def print_node_row_def [abs_def]
      by (simp only: if_False table_end short_hash_panics)
  qed (simp add: print_nodes_def say_def)
  show "snd (print_history cf False nid vs) =
     (if \<exists>v \<in> set vs. cuts_character 12 (vi_policy_hash v) then CliPanic else CliOk)"
  proof (cases "vs = []")
    case False
    then show ?thesis
      unfolding print_history_def print_version_row_def [abs_def]
      by (simp only: if_False table_end shortened_panics cuts_character_def)
  qed (simp add: print_history_def say_def)
  show "snd (print_deployments cf False nid ds) =
     (if \<exists>d \<in> set ds. cuts_character 12 (di_policy_hash d) then CliPanic else CliOk)"
  proof (cases "ds = []")
    case False
    then show ?thesis
      unfolding print_deployments_def print_deployment_row_def [abs_def]
      by (simp only: if_False table_end shortened_panics cuts_character_def)
  qed (simp add: print_deployments_def say_def)
  show "snd (print_audit cf False as) =
     (if \<exists>a \<in> set as. cuts_character 40 (ai_details a) then CliPanic else CliOk)"
  proof (cases "as = []")
    case False
    then show ?thesis
      unfolding print_audit_def print_audit_row_def [abs_def]
      by (simp only: if_False table_end elided_panics cuts_character_def)
  qed (simp add: print_audit_def say_def)
  show "snd (print_templates cf False ts) =
     (if \<exists>t \<in> set ts. cuts_character 28 (ts_description t) then CliPanic else CliOk)"
  proof (cases "ts = []")
    case False
    then show ?thesis
      unfolding print_templates_def print_template_row_def [abs_def]
      by (simp only: if_False table_end elided_panics cuts_character_def)
  qed (simp add: print_templates_def say_def)
qed

subsection \<open>Deploys from the command line\<close>

lemma with_client_ok: "cn_connect ce server tls c = Inr () \<Longrightarrow> with_client ce server tls k c = k c"
  by (simp add: with_client_def cli_connect_def)

text \<open>What a file deploy does: the call, then the report of its reply.\<close>

lemma handle_deploy_node:
  assumes "cn_connect ce server tls w = Inr ()" and "cn_read_file ce (da_rules_file a) = Inr rules"
    and "da_node a = Some nid"
  shows "handle_deploy ce server a tls w =
    cli_show ce (mc_deploy_policy (cn_client ce)
      \<lparr> dq_node_id = nid, dq_rules_yaml = rules,
        dq_options = Some (cli_options (da_counters a) (da_rate_limit a) (da_conntrack a)),
        dq_dry_run = da_dry_run a \<rparr>) (print_deploy (da_dry_run a) nid) w"
  using assms by (simp add: handle_deploy_def cli_read_def with_client_ok Let_def)

lemma cli_show_eq:
  "cli_show ce call f c = (case call c of
     (Inl st, c) \<Rightarrow> (([], CliFailed (cn_show_status ce st)), c) | (Inr r, c) \<Rightarrow> (f r, c))"
  by (simp add: cli_show_def cli_call_def cli_print_def cli_fail_def split: prod.split sum.split)

lemma served_deploy [simp]:
  "mc_deploy_policy (served_by ops e order fevs cevs nevs) req w =
     apfst (map_sum id on_wire) (deploy_policy ops e req w)"
  "mc_get_policy (served_by ops e order fevs cevs nevs) nid w = (get_policy ops nid w, w)"
  "mc_get_policy_template (served_by ops e order fevs cevs nevs) name w = (get_policy_template ops name w, w)"
  "mc_create_policy_template (served_by ops e order fevs cevs nevs) = create_policy_template ops e"
  by (simp_all add: served_by_def reading_def)

lemma print_deploy_success:
  "StdOut m \<in> set (fst (print_deploy False nid r)) \<longleftrightarrow> ds_success r \<and> m = ''Policy deployed to '' @ nid"
  by (auto simp: print_deploy_def)

lemma print_template_deploy_success:
  "StdOut m \<in> set (fst (print_template_deploy False name nid r)) \<longleftrightarrow>
     ds_success r \<and> m = ''Template '' @ quoted name @ '' deployed to '' @ nid"
  by (auto simp: print_template_deploy_def say_def complain_def)

lemma print_dry_run_wire [simp]:
  "print_deploy True nid (on_wire r) = ([StdOut ''Dry-run completed (no details returned)''], CliOk)"
  "print_template_deploy True name nid (on_wire r) = ([StdOut ''Dry-run completed''], CliOk)"
  by (simp_all add: print_deploy_def print_dry_run_def print_template_deploy_def say_def)

text \<open>A successful deploy leaves its rules and their hash as the node's policy.\<close>

lemma deploy_success_stored:
  assumes "mem_inv (w_store w)" and "map_of (ms_nodes (w_store w)) nid = Some n"
    and "deploy_to_node memory_ops e n r opts w = (out, w')" and "do_success out"
  shows "\<exists>p. map_of (ms_policies (w_store w')) nid = Some p \<and> pol_node_id p = nid \<and>
    pol_rules_yaml p = r \<and> pol_policy_hash p = e_policy_hash e r"
proof -
  have nid: "n_node_id n = nid" using assms(1,2) by (auto simp: mem_inv_def keys_ok_def dest: map_of_SomeD)
  have cap: "capable n (normalize_options opts)"
  proof (rule ccontr)
    assume "\<not> capable n (normalize_options opts)"
    then obtain msg where "ensure_node_capabilities n (normalize_options opts) = Inl msg"
      using ensure_node_capabilities_iff [of n "normalize_options opts"]
      by (cases "ensure_node_capabilities n (normalize_options opts)") auto
    then show False using assms(3,4) by (auto simp: deploy_to_node_def Let_def failure_outcome_def)
  qed
  show ?thesis
  proof (cases "n_state n = Active \<and> (\<exists>p. map_of (ms_policies (w_store w)) nid = Some p \<and>
      policy_matches_request p r (e_policy_hash e r) (normalize_options opts))")
    case True
    then obtain p where p: "map_of (ms_policies (w_store w)) nid = Some p"
      "policy_matches_request p r (e_policy_hash e r) (normalize_options opts)" and act: "n_state n = Active" by auto
    have "versions_ok nid (mem_versions (w_store w) nid) (Some p)"
      using assms(1) p(1) by (auto simp: mem_inv_def dest: spec [of _ nid])
    then have "pol_node_id p = nid" by (simp add: versions_ok_def)
    moreover have "ms_policies (w_store w') = ms_policies (w_store w)"
      using deploy_repeated_mem [OF assms(1) cap act _ p(2)] p(1) nid assms(3) by auto
    ultimately show ?thesis using p by (simp add: policy_matches_request_def)
  next
    case False
    then have "n_state n = Active \<longrightarrow> (\<forall>p. map_of (ms_policies (w_store w)) nid = Some p \<longrightarrow>
      \<not> policy_matches_request p r (e_policy_hash e r) (normalize_options opts))" by auto
    with deploy_to_node_changed [of n opts w r e] cap nid assms(3)
    have c: "deploy_changed memory_ops e n r (e_policy_hash e r) (normalize_options opts) w = (out, w')" by auto
    from mem.deploy_changed_effect [where w = w and n = n and e = e and r = r and hash = "e_policy_hash e r" and
        opts = "normalize_options opts"] assms(1,2) nid c
    obtain rec where "mem_abs (w_store w') = deployed n (policy_of_request nid r (e_policy_hash e r)
        (e_now e (w_ticks w)) (normalize_options opts)) rec (mem_abs (w_store w))" by auto
    then have "as_policies (mem_abs (w_store w')) nid = Some (policy_of_request nid r (e_policy_hash e r)
        (e_now e (w_ticks w)) (normalize_options opts))" by (simp add: deployed_def Let_def nid)
    then show ?thesis by (simp add: policy_of_request_def)
  qed
qed

lemma deploy_policy_success_stored:
  assumes "mem_inv (w_store w)" and "deploy_policy memory_ops e req w = (Inr resp, w')" and "ds_success resp"
  shows "\<exists>p. map_of (ms_policies (w_store w')) (dq_node_id req) = Some p \<and> pol_node_id p = dq_node_id req \<and>
    pol_rules_yaml p = dq_rules_yaml req \<and> pol_policy_hash p = e_policy_hash e (dq_rules_yaml req)"
proof -
  let ?nid = "dq_node_id req"
  let ?s = "(w_store w)\<lparr> ms_deploying := insert ?nid (ms_deploying (w_store w)) \<rparr>"
  let ?w = "w\<lparr> w_store := ?s \<rparr>"
  from assms(2) obtain n where n: "map_of (ms_nodes (w_store w)) ?nid = Some n"
    by (auto simp: deploy_policy_def load_node_def blocking_read_def mem_get_node_def ok_or_def split: option.splits)
  obtain out w1 where d: "deploy_to_node memory_ops e n (dq_rules_yaml req) (options_or_default (dq_options req)) ?w =
      (out, w1)" by (rule prod.exhaust)
  have "?nid \<notin> ms_deploying (w_store w)" and out: "resp = deploy_response out"
    and w': "w' = w1\<lparr> w_store := mem_end_deploy (w_store w1) ?nid \<rparr>"
    using assms(2) n d
    by (auto simp: deploy_policy_def load_node_def blocking_read_def mem_get_node_def ok_or_def guarded_deploy_def
        blocking_def mem_begin_deploy_def do_deploy_def Let_def split: if_splits)
  have "mem_inv (w_store ?w)" "map_of (ms_nodes (w_store ?w)) ?nid = Some n"
    using assms(1) n by (simp_all add: mem_inv_def mem_versions_def)
  from deploy_success_stored [OF this d] assms(3) obtain p where
    "map_of (ms_policies (w_store w1)) ?nid = Some p" "pol_node_id p = ?nid"
    "pol_rules_yaml p = dq_rules_yaml req" "pol_policy_hash p = e_policy_hash e (dq_rules_yaml req)"
    by (auto simp: out deploy_response_def)
  then show ?thesis by (simp add: w' mem_end_deploy_def)
qed

text \<open>C12: When \<open>deploy\<close> of a file to a node reports success, \<open>policy show\<close> of that node then prints
  exactly the text of the file, with its hash, and ends normally.\<close>

theorem cli_deploy_then_show:
  fixes w :: "mem_storage world"
  assumes "mem_inv (w_store w)" and "cn_client ce = served_by memory_ops e order fevs cevs nevs"
    and "\<And>w. cn_connect ce server tls w = Inr ()" and "cn_read_file ce (da_rules_file a) = Inr rules"
    and "da_node a = Some nid" and "\<not> da_dry_run a"
    and "handle_deploy ce server a tls w = (out, w')"
    and "StdOut (''Policy deployed to '' @ nid) \<in> set (fst out)"
  shows "handle_policy ce (PolicyShow nid) server False pretty tls w' =
    (([StdOut (''Node:   '' @ nid), StdOut (''Hash:   '' @ e_policy_hash e rules), StdOut ''---'',
       StdOut rules], CliOk), w')"
proof -
  let ?req = "\<lparr> dq_node_id = nid, dq_rules_yaml = rules,
    dq_options = Some (cli_options (da_counters a) (da_rate_limit a) (da_conntrack a)), dq_dry_run = da_dry_run a \<rparr>"
  have "(case apfst (map_sum id on_wire) (deploy_policy memory_ops e ?req w) of
      (Inl st, c) \<Rightarrow> (([], CliFailed (cn_show_status ce st)), c)
    | (Inr r, c) \<Rightarrow> (print_deploy (da_dry_run a) nid r, c)) = (out, w')"
    using assms(7) handle_deploy_node [of ce server tls w a rules nid, OF assms(3,4,5)]
    by (simp only: cli_show_eq assms(2) served_deploy)
  moreover obtain x w2 where x: "deploy_policy memory_ops e ?req w = (x, w2)" by (rule prod.exhaust)
  ultimately have *: "(case map_sum id on_wire x of
      Inl st \<Rightarrow> (([], CliFailed (cn_show_status ce st)), w2) | Inr r \<Rightarrow> (print_deploy False nid r, w2)) = (out, w')"
    using assms(6) by (simp split: sum.splits)
  then obtain resp where r: "x = Inr resp" using assms(8) by (cases x) auto
  with * have out: "out = print_deploy False nid (on_wire resp)" and w2: "w2 = w'" by simp_all
  from out assms(8) have "ds_success resp" by (simp only: print_deploy_success on_wire_sel)
  with x r w2 have "deploy_policy memory_ops e ?req w = (Inr resp, w')" "ds_success resp" by simp_all
  from deploy_policy_success_stored [OF assms(1) this] obtain p where
    "map_of (ms_policies (w_store w')) nid = Some p" "pol_node_id p = nid" "pol_rules_yaml p = rules"
    "pol_policy_hash p = e_policy_hash e rules" by auto
  then show ?thesis
    by (simp add: handle_policy_def with_client_ok [OF assms(3)] Let_def cli_show_eq assms(2) get_policy_def
        blocking_read_def mem_get_policy_def ok_or_def print_policy_def)
qed


text \<open>With \<open>--dry-run\<close> the controller does the same as without, and the command says that the dry run is
  completed.\<close>

lemma cli_dry_run_deploys:
  assumes "cn_client ce = served_by ops e order fevs cevs nevs"
    and "cn_connect ce server tls w = Inr ()" and "cn_read_file ce (da_rules_file a) = Inr rules"
    and "da_node a = Some nid"
  shows "snd (handle_deploy ce server (a\<lparr> da_dry_run := True \<rparr>) tls w) =
      snd (handle_deploy ce server (a\<lparr> da_dry_run := False \<rparr>) tls w)"
    and "fst (deploy_policy ops e \<lparr> dq_node_id = nid, dq_rules_yaml = rules,
        dq_options = Some (cli_options (da_counters a) (da_rate_limit a) (da_conntrack a)), dq_dry_run = True \<rparr> w) =
        Inr resp \<Longrightarrow>
      fst (handle_deploy ce server (a\<lparr> da_dry_run := True \<rparr>) tls w) =
        ([StdOut ''Dry-run completed (no details returned)''], CliOk)"
proof -
  let ?req = "\<lambda>b. \<lparr> dq_node_id = nid, dq_rules_yaml = rules,
    dq_options = Some (cli_options (da_counters a) (da_rate_limit a) (da_conntrack a)), dq_dry_run = b \<rparr>"
  have run: "handle_deploy ce server (a\<lparr> da_dry_run := b \<rparr>) tls w =
    (case apfst (map_sum id on_wire) (deploy_policy ops e (?req b) w) of
       (Inl st, c) \<Rightarrow> (([], CliFailed (cn_show_status ce st)), c)
     | (Inr r, c) \<Rightarrow> (print_deploy b nid r, c))" for b
    by (subst handle_deploy_node [where rules = rules and nid = nid])
      (simp_all add: assms cli_show_eq)
  have "deploy_policy ops e (?req True) w = deploy_policy ops e (?req False) w"
    using dry_run_ignored(1) [where ops = ops and e = e and req = "?req False" and b = True and w = w] by simp
  then show "snd (handle_deploy ce server (a\<lparr> da_dry_run := True \<rparr>) tls w) =
      snd (handle_deploy ce server (a\<lparr> da_dry_run := False \<rparr>) tls w)"
    unfolding run by (cases "deploy_policy ops e (?req False) w") (simp split: sum.split)
  assume "fst (deploy_policy ops e (?req True) w) = Inr resp"
  then show "fst (handle_deploy ce server (a\<lparr> da_dry_run := True \<rparr>) tls w) =
      ([StdOut ''Dry-run completed (no details returned)''], CliOk)"
    unfolding run by (cases "deploy_policy ops e (?req True) w")
      (simp add: print_deploy_def print_dry_run_def say_def)
qed

text \<open>A deploy that the controller reports as failed ends the command normally, with exit code 0.\<close>

lemma failed_deploy_exits_normally:
  assumes "cn_connect ce server tls w = Inr ()" and "cn_read_file ce (da_rules_file a) = Inr rules"
    and "da_node a = Some nid" and "\<not> da_dry_run a"
    and "\<And>req. \<exists>c. mc_deploy_policy (cn_client ce) req w = (Inr resp, c)" and "\<not> ds_success resp"
  shows "\<exists>ls c. handle_deploy ce server a tls w =
    ((StdErr (''Deployment failed: '' @ ds_message resp) # ls, CliOk), c)"
proof -
  obtain c where "mc_deploy_policy (cn_client ce) \<lparr> dq_node_id = nid, dq_rules_yaml = rules,
      dq_options = Some (cli_options (da_counters a) (da_rate_limit a) (da_conntrack a)), dq_dry_run = da_dry_run a \<rparr> w =
    (Inr resp, c)" using assms(5) by blast
  then show ?thesis using assms
    by (simp add: handle_deploy_node [where rules = rules and nid = nid] cli_show_eq print_deploy_def)
qed

end
