(* ===== verification/Fsm_Liveness.thy ===== *)
theory Fsm_Liveness
  imports Fsm_Run
begin

text \<open>
  Progress of state machines: when nothing but the evaluation loop runs (\<open>evaluate_all\<close>, called
  again and again by \<^verbatim>\<open>main.rs\<close>), an instance does not stay for ever in a state that has a timer.
  The clock must not go back and must pass every point of time.
\<close>

subsection \<open>Looking for a transition\<close>

lemma only_ticks_later: "only_ticks w w' \<Longrightarrow> later w w'"
  by (auto simp: only_ticks_def later_def)

lemma same_run_updated_at: "same_run i i' \<Longrightarrow> fi_updated_at i' = fi_updated_at i"
  by (auto simp: same_run_def)

text \<open>A transition on a timer and its duration.\<close>

definition timer_of :: "transition_definition \<Rightarrow> time option" where
  "timer_of td =
     (case (td_when td, td_after td) of
        (None, Some after) \<Rightarrow>
          (case parse_duration after of Inr d \<Rightarrow> Some (chrono_from_std d) | Inl _ \<Rightarrow> None)
      | _ \<Rightarrow> None)"

lemma should_fire_timer:
  assumes "timer_of td = Some t"
  shows "should_fire e td st ti i w = ((t \<le> e_now e (w_ticks w) - fi_updated_at i, i), snd (clock e w))"
  using assms
  by (auto simp: timer_of_def should_fire_def timer_due_def clock_def Let_def split: option.splits sum.splits)

text \<open>When no transition fires, the timer was read after the start and not due.\<close>

lemma find_transition_timer:
  assumes "td \<in> set tds" and "timer_of td = Some t" and "mono (e_now e)"
    and "find_transition e st ti tds i w = ((None, i'), w')"
  shows "w_ticks w < w_ticks w' \<and> e_now e (w_ticks w) - fi_updated_at i < t"
  using assms(1,4)
proof (induction tds arbitrary: ti i w)
  case (Cons td' tds)
  obtain b i1 w1 where s: "should_fire e td' st ti i w = ((b, i1), w1)" by (metis surj_pair)
  have b: "\<not> b" and r: "find_transition e st (Suc ti) tds i1 w1 = ((None, i'), w')"
    using Cons.prems(2) s by (auto split: if_splits)
  have "same_run i i1" and "later w w1"
    using should_fire_frame [OF s] by (auto intro: only_ticks_later)
  note rest = find_transition_frame [OF r]
  show ?case
  proof (cases "td' = td")
    case True
    then have "w1 = snd (clock e w)" "\<not> t \<le> e_now e (w_ticks w) - fi_updated_at i"
      using s b should_fire_timer [OF assms(2), of e st ti i w] by auto
    moreover have "later w1 w'" using rest by (auto intro: only_ticks_later)
    ultimately show ?thesis by (auto simp: clock_def later_def)
  next
    case False
    with Cons.IH [OF _ r] Cons.prems(1)
    have IH: "w_ticks w1 < w_ticks w'" "e_now e (w_ticks w1) - fi_updated_at i1 < t" by auto
    have "w_ticks w \<le> w_ticks w1" using \<open>later w w1\<close> by (simp add: later_def)
    then have "e_now e (w_ticks w) \<le> e_now e (w_ticks w1)" using assms(3) by (simp add: monoD)
    with IH \<open>w_ticks w \<le> w_ticks w1\<close> same_run_updated_at [OF \<open>same_run i i1\<close>] show ?thesis by simp
  qed
qed simp

lemma later_evaluate_instance: "later w (evaluate_instance ops e i d w)"
proof (cases "map_of (fd_states d) (fi_current_state i)")
  case (Some sd)
  show ?thesis
  proof (cases "sd_terminal sd")
    case False
    obtain x i1 w1 where f: "find_transition e (fi_current_state i) 0 (sd_transitions sd) i w = ((x, i1), w1)"
      by (metis surj_pair)
    have "later w w1" using find_transition_frame [OF f] by (auto intro: only_ticks_later)
    moreover have "later w1 (snd (fire_transition ops e i1 (td_to td) (transition_trigger_of td) d w1))" for td
      by (rule later_fire_transition)
    ultimately show ?thesis using Some False f
      by (auto simp: evaluate_instance_def Let_def case_prod_unfold split: option.split intro: later_trans)
  qed (simp add: evaluate_instance_def Some Let_def case_prod_unfold)
qed (simp add: evaluate_instance_def)

lemma later_evaluate_instances: "later w (evaluate_instances ops e xs w)"
proof (induction xs arbitrary: w)
  case (Cons i xs)
  show ?case
    unfolding evaluate_instances.simps
    by (rule later_trans [OF _ Cons.IH]) (simp add: later_evaluate_instance split: sum.split option.split)
qed simp

lemma later_evaluate_all: "later w (evaluate_all ops e w)"
  by (simp add: evaluate_all_def later_evaluate_instances split: sum.split)

text \<open>A step of the evaluation for an instance that waits for a timer: it moved along a transition, or
  it is as it was but for its context, the timer was not due, and time has passed.\<close>

definition left_or_waits ::
  "env \<Rightarrow> time \<Rightarrow> fsm_definition \<Rightarrow> fsm_instance \<Rightarrow> nat \<Rightarrow> nat \<Rightarrow> fsm_instance \<Rightarrow> bool" where
  "left_or_waits e t d i k k' i' \<longleftrightarrow>
     (\<exists>to_state trigger. edge d (fi_current_state i) to_state \<and> moved d to_state trigger i i') \<or>
     same_run i i' \<and> k < k' \<and> e_now e k - fi_updated_at i < t"

lemma moved_same_run: "same_run i i1 \<Longrightarrow> moved d to_state trigger i1 i' = moved d to_state trigger i i'"
  using same_run_simps [of i i1] by (simp add: moved_def)

context storage
begin

lemma evaluate_instance_waits:
  assumes "engine_inv abs inv e w" and "as_instances (abs (w_store w)) (fi_instance_id i) = Some i"
    and "is_running i" and "as_definitions (abs (w_store w)) (fi_definition_name i) = Some d"
    and "map_of (fd_states d) (fi_current_state i) = Some sd" and "\<not> sd_terminal sd"
    and "td \<in> set (sd_transitions sd)" and "timer_of td = Some t" and "mono (e_now e)"
  defines "w' \<equiv> evaluate_instance ops e i d w"
  shows "\<exists>i'. as_instances (abs (w_store w')) (fi_instance_id i) = Some i' \<and>
    left_or_waits e t d i (w_ticks w) (w_ticks w') i'"
proof -
  have inst: "instance_inv d i" using assms(1,2,4) unfolding engine_inv_def by (metis option.inject)
  obtain x i1 w1 where f: "find_transition e (fi_current_state i) 0 (sd_transitions sd) i w = ((x, i1), w1)"
    by (metis surj_pair)
  note fr = find_transition_frame [OF f]
  have run: "same_run i i1" and tk: "only_ticks w w1" using fr by auto
  note w1 = engine_inv_only_ticks [OF assms(1) tk]
  note same = same_run_simps [OF run]
  have stored: "as_instances (abs (w_store w1)) (fi_instance_id i1) = Some i"
    "as_definitions (abs (w_store w1)) (fi_definition_name i1) = Some d"
    using assms(2,4) by (simp_all add: w1 same)
  show ?thesis
  proof (cases x)
    case None
    have "instance_inv d i1" using inst instance_inv_cong [OF run] by simp
    from engine_inv_save(4) [OF w1(1) stored(1) assms(3) stored(2) this]
    have "as_instances (abs (w_store w')) (fi_instance_id i) = Some i1"
      using f assms(5,6) None by (simp add: w'_def evaluate_instance_def save_instance_def same)
    moreover have "w_ticks w' = w_ticks w1"
      using f assms(5,6) None
      by (simp add: w'_def evaluate_instance_def save_instance_def blocking_def case_prod_unfold)
    ultimately show ?thesis
      using find_transition_timer [OF assms(7,8,9) f [unfolded None]] run by (auto simp: left_or_waits_def)
  next
    case t: (Some td')
    obtain i2 w2 where g: "fire_transition ops e i1 (td_to td') (transition_trigger_of td') d w1 = (i2, w2)"
      by (metis surj_pair)
    have edge: "edge d (fi_current_state i1) (td_to td')"
      using fr t assms(5) by (auto simp: edge_def same)
    note fire = engine_inv_fire [OF w1(1) stored(1) assms(3) run stored(2) edge g]
    have "as_instances (abs (w_store w')) (fi_instance_id i) = Some i2"
      using fire(4) f assms(5,6) t g by (simp add: w'_def evaluate_instance_def save_instance_def same)
    moreover have "moved d (td_to td') (transition_trigger_of td') i i2"
      using fire(6) moved_same_run [OF run] by simp
    ultimately show ?thesis using edge by (auto simp: left_or_waits_def same)
  qed
qed

lemma evaluate_instances_others:
  assumes "engine_inv abs inv e w" and "distinct (map fi_instance_id xs)"
    and "\<And>i. i \<in> set xs \<Longrightarrow> as_instances (abs (w_store w)) (fi_instance_id i) = Some i \<and> is_running i"
  shows "(iid \<notin> fi_instance_id ` set xs \<longrightarrow>
      as_instances (abs (w_store (evaluate_instances ops e xs w))) iid = as_instances (abs (w_store w)) iid) \<and>
    as_definitions (abs (w_store (evaluate_instances ops e xs w))) = as_definitions (abs (w_store w))"
  using assms
proof (induction xs arbitrary: w)
  case (Cons i xs)
  have s: "inv (w_store w)" using Cons.prems(1) by (simp add: engine_inv_def)
  have i: "as_instances (abs (w_store w)) (fi_instance_id i) = Some i" "is_running i"
    using Cons.prems(3) by auto
  obtain d where d: "as_definitions (abs (w_store w)) (fi_definition_name i) = Some d"
    using engine_inv_instance [OF Cons.prems(1) i(1)] by blast
  note step = evaluate_instance_step [OF Cons.prems(1) i d]
  have "as_instances (abs (w_store (evaluate_instance ops e i d w))) (fi_instance_id j) = Some j \<and> is_running j"
    if "j \<in> set xs" for j
    using Cons.prems(2,3) that step by (auto simp: image_iff)
  with Cons.IH [of "evaluate_instance ops e i d w"] Cons.prems(2) step show ?case
    using get_fsm_definition [OF s, of "fi_definition_name i"] d by (auto simp: blocking_read_def)
qed simp

lemma left_or_waits_widen:
  "left_or_waits e t d i k k' i' \<Longrightarrow> k0 \<le> k \<Longrightarrow> k' \<le> k1 \<Longrightarrow> mono (e_now e) \<Longrightarrow> left_or_waits e t d i k0 k1 i'"
  by (auto simp: left_or_waits_def dest: monoD [of "e_now e" k0 k])

text \<open>The instances evaluated before this one leave it alone, and those after it too.\<close>

lemma evaluate_instances_wait:
  assumes "engine_inv abs inv e w" and "distinct (map fi_instance_id xs)"
    and "\<And>i. i \<in> set xs \<Longrightarrow> as_instances (abs (w_store w)) (fi_instance_id i) = Some i \<and> is_running i"
    and "i \<in> set xs" and "as_definitions (abs (w_store w)) (fi_definition_name i) = Some d"
    and "map_of (fd_states d) (fi_current_state i) = Some sd" and "\<not> sd_terminal sd"
    and "td \<in> set (sd_transitions sd)" and "timer_of td = Some t" and "mono (e_now e)"
  defines "w' \<equiv> evaluate_instances ops e xs w"
  shows "\<exists>i'. as_instances (abs (w_store w')) (fi_instance_id i) = Some i' \<and>
    left_or_waits e t d i (w_ticks w) (w_ticks w') i'"
  using assms(1-5) unfolding w'_def
proof (induction xs arbitrary: w)
  case (Cons j xs)
  have s: "inv (w_store w)" using Cons.prems(1) by (simp add: engine_inv_def)
  have j: "as_instances (abs (w_store w)) (fi_instance_id j) = Some j" "is_running j"
    using Cons.prems(3) by auto
  obtain dj where dj: "as_definitions (abs (w_store w)) (fi_definition_name j) = Some dj"
    using engine_inv_instance [OF Cons.prems(1) j(1)] by blast
  let ?w1 = "evaluate_instance ops e j dj w"
  note step = evaluate_instance_step [OF Cons.prems(1) j dj]
  have eval: "evaluate_instances ops e (j # xs) w = evaluate_instances ops e xs ?w1"
    using get_fsm_definition [OF s, of "fi_definition_name j"] dj by (simp add: blocking_read_def)
  have rest: "as_instances (abs (w_store ?w1)) (fi_instance_id k) = Some k \<and> is_running k" if "k \<in> set xs" for k
    using Cons.prems(2,3) that step by (auto simp: image_iff)
  have "later w ?w1" and l1: "later ?w1 (evaluate_instances ops e xs ?w1)"
    by (rule later_evaluate_instance, rule later_evaluate_instances)
  show ?case
  proof (cases "i = j")
    case True
    with Cons.prems(5) dj have d: "dj = d" by simp
    obtain i' where i': "as_instances (abs (w_store ?w1)) (fi_instance_id i) = Some i'"
      "left_or_waits e t d i (w_ticks w) (w_ticks ?w1) i'"
      using evaluate_instance_waits [OF Cons.prems(1) j dj, of sd td t] assms(6-10) True d by auto
    have "fi_instance_id i \<notin> fi_instance_id ` set xs" using Cons.prems(2) True by auto
    with evaluate_instances_others [of e ?w1 xs "fi_instance_id i"] step rest Cons.prems(2) i'(1)
    have "as_instances (abs (w_store (evaluate_instances ops e xs ?w1))) (fi_instance_id i) = Some i'" by simp
    with i'(2) left_or_waits_widen [OF i'(2) order_refl _ assms(10)] l1 show ?thesis
      unfolding eval by (auto simp: later_def)
  next
    case False
    then have i: "i \<in> set xs" using Cons.prems(4) by simp
    have "as_definitions (abs (w_store ?w1)) (fi_definition_name i) = Some d" using step Cons.prems(5) by simp
    from Cons.IH [OF _ _ rest i this] step Cons.prems(2) obtain i' where
      "as_instances (abs (w_store (evaluate_instances ops e xs ?w1))) (fi_instance_id i) = Some i'"
      "left_or_waits e t d i (w_ticks ?w1) (w_ticks (evaluate_instances ops e xs ?w1)) i'" by auto
    with left_or_waits_widen [OF this(2) _ order_refl assms(10)] \<open>later w ?w1\<close> show ?thesis
      unfolding eval by (auto simp: later_def)
  qed
qed simp

lemma evaluate_all_waits:
  assumes "engine_inv abs inv e w" and "as_instances (abs (w_store w)) iid = Some i" and "is_running i"
    and "as_definitions (abs (w_store w)) (fi_definition_name i) = Some d"
    and "map_of (fd_states d) (fi_current_state i) = Some sd" and "\<not> sd_terminal sd"
    and "td \<in> set (sd_transitions sd)" and "timer_of td = Some t" and "mono (e_now e)"
  defines "w' \<equiv> evaluate_all ops e w"
  shows "(\<exists>i'. as_instances (abs (w_store w')) iid = Some i' \<and>
      left_or_waits e t d i (w_ticks w) (w_ticks w') i') \<and>
    as_definitions (abs (w_store w')) = as_definitions (abs (w_store w))"
proof -
  have s: "inv (w_store w)" using assms(1) by (simp add: engine_inv_def)
  obtain xs where xs: "so_list_fsm_instances ops (w_store w) None (Some Running) = Inr xs"
    "distinct (map fi_instance_id xs)"
    "\<And>i. i \<in> set xs \<longleftrightarrow> as_instances (abs (w_store w)) (fi_instance_id i) = Some i \<and> is_running i"
    using list_fsm_instances [OF s, of "Some Running"] by (auto simp: is_running_def)
  have "fi_instance_id i = iid" using instance_key [OF s assms(2)] .
  with assms(2,3) xs(3) have i: "i \<in> set xs" by simp
  from evaluate_instances_wait [OF assms(1) xs(2) _ i assms(4-9)] evaluate_instances_others [OF assms(1) xs(2)] xs(3)
  show ?thesis
    by (simp add: w'_def evaluate_all_def blocking_read_def xs(1) \<open>fi_instance_id i = iid\<close>)
qed

lemma timer_left_eventually:
  assumes "engine_inv abs inv e w" and "as_instances (abs (w_store w)) iid = Some i" and "is_running i"
    and "as_definitions (abs (w_store w)) (fi_definition_name i) = Some d"
    and "map_of (fd_states d) (fi_current_state i) = Some sd" and "\<not> sd_terminal sd"
    and "td \<in> set (sd_transitions sd)" and "timer_of td = Some t"
    and "mono (e_now e)" and "\<And>x. \<exists>k. x \<le> e_now e k"
  defines "run \<equiv> \<lambda>n. (evaluate_all ops e ^^ n) w"
  shows "\<exists>n i' to_state trigger. as_instances (abs (w_store (run n))) iid = Some i' \<and>
    edge d (fi_current_state i) to_state \<and> moved d to_state trigger i i'"
proof (rule ccontr)
  assume never: "\<not> ?thesis"
  have next_world: "run (Suc n) = evaluate_all ops e (run n)" for n by (simp add: run_def)
  have waits: "engine_inv abs inv e (run n) \<and> w_ticks w + n \<le> w_ticks (run n) \<and>
      as_definitions (abs (w_store (run n))) = as_definitions (abs (w_store w)) \<and>
      (\<exists>i'. as_instances (abs (w_store (run n))) iid = Some i' \<and> same_run i i')" for n
  proof (induction n)
    case 0
    show ?case using assms(1,2) by (auto simp: run_def)
  next
    case (Suc n)
    then obtain i1 where i1: "as_instances (abs (w_store (run n))) iid = Some i1" "same_run i i1"
      and g: "engine_inv abs inv e (run n)"
      and defs: "as_definitions (abs (w_store (run n))) = as_definitions (abs (w_store w))" by blast
    note same = same_run_simps [OF i1(2)]
    have "is_running i1" using assms(3) by (simp add: is_running_def same)
    from evaluate_all_waits [OF g i1(1) this, of d sd td t] assms(4-9) obtain i2 where
      i2: "as_instances (abs (w_store (run (Suc n)))) iid = Some i2"
        "left_or_waits e t d i1 (w_ticks (run n)) (w_ticks (run (Suc n))) i2"
      and defs': "as_definitions (abs (w_store (run (Suc n)))) = as_definitions (abs (w_store w))"
      unfolding next_world by (auto simp: same defs)
    have "\<not> (edge d (fi_current_state i1) to_state \<and> moved d to_state trigger i1 i2)" for to_state trigger
      using never i2(1) moved_same_run [OF i1(2)] by (auto simp: same)
    with i2(2) have "same_run i1 i2" "w_ticks (run n) < w_ticks (run (Suc n))"
      by (auto simp: left_or_waits_def)
    moreover have "engine_inv abs inv e (run (Suc n))"
      unfolding next_world using evaluate_all_step [OF g] by blast
    ultimately show ?case using Suc i2(1) defs' same_run_trans [OF i1(2)] by auto
  qed
  obtain k where k: "t + fi_updated_at i \<le> e_now e k" using assms(10) by blast
  obtain i1 where i1: "as_instances (abs (w_store (run k))) iid = Some i1" "same_run i i1"
    and g: "engine_inv abs inv e (run k)" "w_ticks w + k \<le> w_ticks (run k)"
    and defs: "as_definitions (abs (w_store (run k))) = as_definitions (abs (w_store w))"
    using waits [of k] by blast
  note same = same_run_simps [OF i1(2)]
  have "is_running i1" using assms(3) by (simp add: is_running_def same)
  from evaluate_all_waits [OF g(1) i1(1) this, of d sd td t] assms(4-9) obtain i2 where
    i2: "as_instances (abs (w_store (run (Suc k)))) iid = Some i2"
      "left_or_waits e t d i1 (w_ticks (run k)) (w_ticks (run (Suc k))) i2"
    unfolding next_world by (auto simp: same defs)
  have "e_now e k \<le> e_now e (w_ticks (run k))" using g(2) assms(9) by (simp add: monoD)
  then have "\<not> e_now e (w_ticks (run k)) - fi_updated_at i1 < t"
    using k same_run_updated_at [OF i1(2)] by simp
  with i2(2) obtain to_state trigger where
    "edge d (fi_current_state i) to_state" "moved d to_state trigger i1 i2"
    by (auto simp: left_or_waits_def same)
  then show False using never i2(1) moved_same_run [OF i1(2)] by auto
qed

end

subsection \<open>Property\<close>

text \<open>C8: A running instance does not stay for ever in a state with a timer: when the evaluation loop runs
  again and again, with a clock that does not go back and passes every time, the instance moves along
  a transition of its state after some round.\<close>

theorem timer_state_is_left:
  assumes "engine_inv mem_abs mem_inv e w" and "mem_get_fsm_instance (w_store w) iid = Inr (Some i)"
    and "fi_status i = Running"
    and "mem_get_fsm_definition (w_store w) (fi_definition_name i) = Inr (Some d)"
    and "map_of (fd_states d) (fi_current_state i) = Some sd" and "\<not> sd_terminal sd"
    and "td \<in> set (sd_transitions sd)" and "timer_of td = Some t"
    and "mono (e_now e)" and "\<And>x. \<exists>k. x \<le> e_now e k"
  shows "\<exists>n i' to_state trigger.
    mem_get_fsm_instance (w_store ((evaluate_all memory_ops e ^^ n) w)) iid = Inr (Some i') \<and>
    edge d (fi_current_state i) to_state \<and> moved d to_state trigger i i'"
  using mem.timer_left_eventually [OF assms(1) _ _ _ assms(5-10), of iid] assms(2-4)
  by (simp add: mem_get_fsm_instance_def mem_get_fsm_definition_def is_running_def)

end
