(* ===== verification/Scenario_Tools.thy ===== *)
theory Scenario_Tools
  imports Scenario Sim_Run Cli_Run Fsm_Liveness
begin

text \<open>
  The deployment of \<open>Scenario\<close> seen from its tools: a simulator that plays nodes against its
  controller, the command line that deploys to its node, and the evaluation loop that runs its state
  machine on.
\<close>

subsection \<open>The event-stream proxy\<close>

definition demo_sse :: "sse_event list" where
  "demo_sse = [\<lparr> se_event = Some ''node'', se_data = ''up'' \<rparr>, \<lparr> se_event = None, se_data = ''x'' \<rparr>]"

lemma utf8_valid_ascii: "list_all (\<lambda>c. byte_of c < 128) s \<Longrightarrow> utf8_valid s"
  by (induction s) (simp_all add: utf8_width_def)

lemma sse_render_demo: "list_all (\<lambda>c. byte_of c < 128) (concat (map sse_render demo_sse))"
  by (simp add: demo_sse_def sse_render_def newline_def)


definition visible :: "char \<Rightarrow> bool" where
  "visible c \<longleftrightarrow> 33 \<le> byte_of c \<and> byte_of c \<le> 126"

lemma white_space_visible:
  "list_all (\<lambda>w. \<not> visible (hd w) \<and> \<not> visible (last w) \<and> (hd w = CHR '' '' \<longrightarrow> w = '' '') \<and> w \<noteq> [])
     ('' '' # white_space)"
  by code_simp

lemma white_space_no_visible:
  "w \<in> set white_space \<Longrightarrow> \<not> visible (hd w) \<and> \<not> visible (hd (rev w)) \<and> (hd w = CHR '' '' \<longrightarrow> w = '' '') \<and> w \<noteq> []"
  using white_space_visible by (auto simp: list_all_iff hd_rev)

lemma space_is_white: "'' '' \<in> set white_space"
  by code_simp

lemma drop_ws_space: "drop_ws white_space (CHR '' '' # s) = drop_ws white_space s"
proof (cases "List.find (\<lambda>w. w \<noteq> [] \<and> starts_with w (CHR '' '' # s)) white_space")
  case None
  then show ?thesis using space_is_white by (auto simp: find_None_iff starts_with_iff)
next
  case (Some w)
  then have "w \<in> set white_space" "w \<noteq> []" "starts_with w (CHR '' '' # s)"
    by (auto simp: find_Some_iff)
  then have "w \<in> set white_space" "hd w = CHR '' ''" by (auto simp: starts_with_iff neq_Nil_conv)
  with white_space_no_visible have "w = '' ''" by blast
  with Some show ?thesis by (subst drop_ws.simps) simp
qed

lemma drop_ws_visible: "visible c \<Longrightarrow> drop_ws white_space (c # s) = c # s"
  by (rule drop_ws_id) (use white_space_no_visible in blast)

lemma drop_ws_rev_visible: "visible c \<Longrightarrow> drop_ws (map rev white_space) (c # s) = c # s"
  by (rule drop_ws_id) (use white_space_no_visible in force)

lemma line_ends: "newline = CHR 0x0A" "carriage_return = CHR 0x0D"
  by code_simp+

lemma demo_sse_facts:
  "list_all plain_event demo_sse" "list_all utf8_valid [concat (map sse_render demo_sse)]"
  "list_all utf8_valid (map (\<lambda>c. [c]) (concat (map sse_render demo_sse)))"
  subgoal by (simp add: demo_sse_def plain_event_def is_none_or_def line_ends trim_end_cr_def
      trim_def trim_start_def drop_ws_space drop_ws_visible drop_ws_rev_visible visible_def)
  subgoal using utf8_valid_ascii [OF sse_render_demo] by simp
  subgoal using sse_render_demo by (simp add: list_all_iff utf8_width_def)
  done

lemma sse_proxy_forwards_events_witness:
  "sse_stream id sse_start (map Inr [concat (map sse_render demo_sse)]) = demo_sse"
  using sse_proxy_forwards_events [OF demo_sse_facts(1,2), of id] by simp

lemma sse_proxy_chunking_irrelevant_witness:
  "sse_stream id sse_start (map Inr (map (\<lambda>c. [c]) (concat (map sse_render demo_sse))) @ []) =
   sse_stream id sse_start (map Inr [concat (map sse_render demo_sse)] @ [])"
  by (rule sse_proxy_chunking_irrelevant [OF demo_sse_facts(3,2)]) (simp add: concat_map_singleton)

subsection \<open>The simulator\<close>

definition demo_sim :: "mem_storage world sim_env" where
  "demo_sim =
     \<lparr> se_now = (\<lambda>k. secs (int k)), se_connect = (\<lambda>_ _. Inr ()),
       se_register = register_node memory_ops demo_env, se_heartbeat = heartbeat memory_ops demo_env,
       se_report = report_counters memory_ops demo_env, se_get = (\<lambda>_ _ _. SendFailed ''no network''),
       se_show_code = show_nat, se_parse_json = (\<lambda>_. Inr JNull), se_run = (\<lambda>_ _ _. Inl ''none'') \<rparr>"

definition demo_app :: app_state where
  "demo_app =
     \<lparr> ap_grpc_endpoint = ''http://c'', ap_rest_base = ''http://c/'', ap_api_key = None,
       ap_pacgate_bin = ''pacgate'', ap_pacgate_repo = ''.'' \<rparr>"

definition demo_sim_world :: "mem_storage world sim_world" where
  "demo_sim_world = \<lparr> sw_nodes = [], sw_ctrl = world_of mem_default, sw_reads = 0 \<rparr>"

lemma demo_ids_fresh: "ids_fresh demo_env (sw_ctrl demo_sim_world)"
  by (simp add: ids_fresh_def demo_sim_world_def) (simp add: mem_default_def)

lemma scenarios_on_controller_witness:
  "\<exists>r w' nid. run_flap_scenario (played_by memory_ops demo_env demo_sim) demo_app demo_sim_world = (r, w') \<and>
    ran_all 6 r \<and> mem_state_of (sw_ctrl w') nid = Some Active"
proof -
  obtain r w' nid where "run_flap_scenario (played_by memory_ops demo_env demo_sim) demo_app demo_sim_world = (r, w')"
    "ran_all 6 r" "mem_state_of (sw_ctrl w') = (mem_state_of (sw_ctrl demo_sim_world))(nid \<mapsto> Active)"
    using scenarios_on_controller [OF demo_ids_fresh, of demo_sim demo_app,
        THEN conjunct2, THEN conjunct2, THEN conjunct1] by blast
  then show ?thesis by auto
qed

text \<open>A node that is registered and reports once.\<close>

definition demo_register :: register_node_body where
  "demo_register =
     \<lparr> rnb_hostname = Some ''edge'', rnb_agent_address = None, rnb_labels = None, rnb_pacgate_version = None \<rparr>"

definition demo_deltas :: counter_delta_body where
  "demo_deltas =
     \<lparr> cdb_node_id = [], cdb_counters = [\<lparr> cde_rule_name = ''r'', cde_match_delta = Some 3,
         cde_byte_delta = None \<rparr>] \<rparr>"

definition demo_played :: "mem_storage world sim_world" where
  "demo_played = snd (sim_register_node (played_by memory_ops demo_env demo_sim) demo_app demo_register demo_sim_world)"

lemma demo_played_nodes: "\<exists>n. map_of (sw_nodes demo_played) [] = Some n \<and> si_counters n = []"
  by (simp add: demo_played_def sim_register_node_def played_by_def demo_sim_def call_register_def register_node_def
      demo_sim_world_def clock_def new_uuid_def world_of_def Let_def blocking_def mem_register_node_def
      insert_sim_node_def sim_node_of_def node_new_def)

lemma played_totals_agree_witness:
  "mem_get_counters (w_store (sw_ctrl (snd (sim_report_counters (played_by memory_ops demo_env demo_sim)
      demo_app demo_deltas demo_played)))) [] =
    Inr (Some [\<lparr> rc_rule_name = ''r'', rc_match_count = 3, rc_byte_count = 0 \<rparr>])"
proof -
  let ?se = "played_by memory_ops demo_env demo_sim"
  let ?w = "snd (sim_report_counters ?se demo_app demo_deltas demo_played)"
  obtain n where n: "map_of (sw_nodes demo_played) (cdb_node_id demo_deltas) = Some n" "si_counters n = []"
    using demo_played_nodes by (auto simp: demo_deltas_def)
  have step: "sim_step ?se demo_app demo_sim_world demo_played" unfolding demo_played_def by (rule sim_step.register)
  have "sim_step ?se demo_app demo_played ?w" by (rule sim_step.counters)
  with step have steps: "(sim_step ?se demo_app)\<^sup>*\<^sup>* demo_sim_world ?w" by (rule rtranclp.rtrancl_into_rtrancl [OF r_into_rtranclp])
  have totals: "fold add_delta (cdb_counters demo_deltas) [] =
      [(''r'', \<lparr> sc_match_count = 3, sc_byte_count = 0 \<rparr>)]"
    by (simp add: demo_deltas_def add_delta_def zero_counter_def sat_add_def or_default_def hm_insert_def)
  have "cdb_counters demo_deltas \<noteq> []" by (simp add: demo_deltas_def)
  moreover have "ids_fresh demo_env (sw_ctrl demo_played)"
    using played.agreement_step [OF step] demo_ids_fresh by (auto simp: sim_inv_def agrees_def demo_sim_world_def)
  ultimately have t: "map_of (sw_nodes ?w) (cdb_node_id demo_deltas) = Some (n\<lparr> si_counters :=
      [(''r'', \<lparr> sc_match_count = 3, sc_byte_count = 0 \<rparr>)] \<rparr>)"
    using played.report_reaches_controller [OF _ n(1), of demo_env demo_sim demo_app] by (auto simp: n totals)
  from played_totals_agree [OF demo_ids_fresh _ steps t] show ?thesis
    by (simp add: demo_sim_world_def counters_report_def demo_deltas_def)
qed

subsection \<open>The command line\<close>

definition demo_cli :: "mem_storage world cli_env" where
  "demo_cli =
     \<lparr> cn_format = \<lparr> cf_time = (\<lambda>_ _. ''time''), cf_pretty = (\<lambda>_. ''{}''), cf_compact = (\<lambda>_. ''{}'') \<rparr>,
       cn_connect = (\<lambda>_ _ _. Inr ()), cn_read_file = (\<lambda>_. Inr ''r''), cn_show_status = st_message,
       cn_text_diff = (\<lambda>_ _. []), cn_version = ''0.1.0'',
       cn_client = served_by memory_ops demo_env id [] [] [] \<rparr>"

lemma demo_cli_sel [simp]:
  "cn_client demo_cli = served_by memory_ops demo_env id [] [] []" "cn_connect demo_cli s t w = Inr ()"
  "cn_read_file demo_cli f = Inr ''r''"
  by (simp_all add: demo_cli_def)

definition demo_deploy_args :: deploy_args where
  "demo_deploy_args =
     \<lparr> da_rules_file = ''rules.yaml'', da_node = Some ''n1'', da_label = [], da_counters = False,
       da_rate_limit = False, da_conntrack = False, da_dry_run = False \<rparr>"

lemma demo_cli_deploys:
  "\<exists>resp w'. deploy_policy memory_ops demo_env
      \<lparr> dq_node_id = ''n1'', dq_rules_yaml = ''r'', dq_options = Some (cli_options False False False),
        dq_dry_run = False \<rparr> (world_of demo_store) = (Inr resp, w') \<and> ds_success resp"
proof -
  let ?w = "world_of (demo_store\<lparr> ms_deploying := {''n1''} \<rparr>)"
  have c: "capable demo_node (cli_options False False False)"
    by (simp add: capable_def capability_needs_def cli_options_def)
  have "mem_inv (w_store ?w)"
    by (simp add: mem_inv_def keys_ok_def versions_ok_def demo_store_def mem_default_def hm_ok_def
        mem_versions_def)
  then obtain v w1 where "deploy_to_node memory_ops demo_env demo_node ''r'' (cli_options False False False) ?w =
      (reply_outcome demo_env (AgentResponse True ''ok'' []) v, w1)"
    using mem.deploy_changed_effect [where w = ?w and n = demo_node and e = demo_env
        and r = "''r''" and hash = "''hr''" and opts = "cli_options False False False"]
      deploy_to_node_changed [of demo_node "cli_options False False False" ?w "''r''" demo_env] c by auto
  then show ?thesis
    by (simp add: deploy_policy_def load_node_def blocking_read_def mem_get_node_def ok_or_def guarded_deploy_def
        blocking_def mem_begin_deploy_def do_deploy_def options_or_default_def world_of_def reply_outcome_def
        deploy_response_def)
qed

lemma cli_deploy_then_show_witness:
  "\<exists>out w'. handle_deploy demo_cli ''c'' demo_deploy_args None (world_of demo_store) = (out, w') \<and>
    handle_policy demo_cli (PolicyShow ''n1'') ''c'' False False None w' =
      (([StdOut ''Node:   n1'', StdOut ''Hash:   hr'', StdOut ''---'', StdOut ''r''], CliOk), w')"
proof -
  obtain resp w' where d: "deploy_policy memory_ops demo_env
      \<lparr> dq_node_id = ''n1'', dq_rules_yaml = ''r'', dq_options = Some (cli_options False False False),
        dq_dry_run = False \<rparr> (world_of demo_store) = (Inr resp, w')" "ds_success resp"
    using demo_cli_deploys by blast
  have h: "handle_deploy demo_cli ''c'' demo_deploy_args None (world_of demo_store) =
      (print_deploy False ''n1'' (on_wire resp), w')"
    by (subst handle_deploy_node [where rules = "''r''" and nid = "''n1''"])
      (simp_all add: demo_deploy_args_def cli_show_eq d)
  have args: "da_node demo_deploy_args = Some ''n1''" "\<not> da_dry_run demo_deploy_args"
    by (simp_all add: demo_deploy_args_def)
  have inv: "mem_inv (w_store (world_of demo_store))" by simp
  have ok: "StdOut (''Policy deployed to '' @ ''n1'') \<in> set (fst (print_deploy False ''n1'' (on_wire resp)))"
    unfolding print_deploy_success by (simp add: d)
  from cli_deploy_then_show [OF inv demo_cli_sel(1-3) args h ok, of False] h show ?thesis by simp
qed

definition demo_template_args :: template_create_args where
  "demo_template_args = \<lparr> ta_file = ''rules.yaml'', ta_name = ''t'', ta_description = [], ta_tags = [] \<rparr>"


subsection \<open>The evaluation loop\<close>

lemma timer_state_is_left_witness:
  "\<exists>n i' to_state trigger.
    mem_get_fsm_instance (w_store ((evaluate_all memory_ops demo_env ^^ n) demo_started)) [] = Inr (Some i') \<and>
    edge demo_machine ''canary'' to_state \<and> moved demo_machine to_state trigger demo_instance i'"
proof -
  let ?td = "\<lparr> td_to = ''done'', td_when = None, td_after = Some ''5m'' \<rparr>"
  have d: "mem_get_fsm_definition (w_store demo_started) (fi_definition_name demo_instance) = Inr (Some demo_machine)"
    by (simp add: demo_started_store mem_get_fsm_definition_def)
  have sd: "map_of (fd_states demo_machine) (fi_current_state demo_instance) =
      Some \<lparr> sd_action = None, sd_transitions = [?td], sd_terminal = False \<rparr>" by simp
  have t: "timer_of ?td = Some (chrono_from_std 300)" by (simp add: timer_of_def)
  have m: "mono (e_now demo_env)" by (rule monoI) simp
  have u: "\<exists>k. x \<le> e_now demo_env k" for x
    by (rule exI [of _ "nat x"]) simp
  from timer_state_is_left [OF demo_engine_inv demo_started_instance demo_instance_sel(3) d sd _ _ t m u]
  show ?thesis by simp
qed

end
