(* ===== verification/Rest_Router.thy ===== *)
theory Rest_Router
  imports Rest_Run
begin

text \<open>
  The REST service as a whole: \<open>router\<close> of \<^verbatim>\<open>pacinet-server/src/rest.rs\<close> with its table of routes,
  the authentication in front of all of them but the health check, and the handlers of \<open>Rest_Api\<close>
  and \<open>Rest_Records\<close> behind it.  A request has a path of decoded segments; its query and its body are
  taken apart by \<open>axum\<close> and \<open>serde\<close>, whose functions are arguments (\<open>rest_extract\<close>), while the
  defaults of missing fields are those of the source.  A request that no route takes is left to the
  fallback (static files) and reaches no handler.  The methods are those the routes name; a HEAD request,
  which \<open>axum\<close> answers like a GET without its body, is left out.

  \<^verbatim>\<open>Rest_Router_Run.thy\<close> shows that the order of the routes does not matter, that each handler has
  its own address, and which requests can change the controller.
\<close>

subsection \<open>The table of routes\<close>

datatype http_method = MGet | MPost | MPut | MDelete

datatype endpoint =
    EHealth | EListNodes | EGetNode string | ERemoveNode string | EGetPolicy string
  | EGetCounters string | EGetFlowCounters string | EPolicyHistory string | EDeployHistory string
  | ERollback string | ESetAnnotations string | EFleet | EGetTheme | ESetTheme | EAllCounters
  | EAllFlowCounters | EDeploy | EBatchDeploy | EListDefinitions | ECreateDefinition
  | EGetDefinition string | EDeleteDefinition string | EListInstances | EStart
  | EGetInstance string | EAdvance string | ECancel string | ENodeEvents | ECounterEvents
  | EFsmEvents | EEventHistory | EAudit | EListTemplates | ECreateTemplate | EGetTemplate string
  | EDeleteTemplate string | EWebhookHistory

text \<open>A pattern is a list of segments, of which one may be a parameter.\<close>

datatype segment = Lit string | Param

type_synonym rest_route = "segment list \<times> (http_method \<times> (string \<Rightarrow> endpoint)) list"

definition health_routes :: "rest_route list" where
  "health_routes = [([Lit ''api'', Lit ''health''], [(MGet, \<lambda>_. EHealth)])]"

definition api_routes :: "rest_route list" where
  "api_routes =
     [([Lit ''api'', Lit ''nodes''], [(MGet, \<lambda>_. EListNodes)]),
      ([Lit ''api'', Lit ''nodes'', Param], [(MGet, EGetNode), (MDelete, ERemoveNode)]),
      ([Lit ''api'', Lit ''nodes'', Param, Lit ''policy''], [(MGet, EGetPolicy)]),
      ([Lit ''api'', Lit ''nodes'', Param, Lit ''counters''], [(MGet, EGetCounters)]),
      ([Lit ''api'', Lit ''nodes'', Param, Lit ''flow-counters''], [(MGet, EGetFlowCounters)]),
      ([Lit ''api'', Lit ''nodes'', Param, Lit ''policy'', Lit ''history''], [(MGet, EPolicyHistory)]),
      ([Lit ''api'', Lit ''nodes'', Param, Lit ''deploy'', Lit ''history''], [(MGet, EDeployHistory)]),
      ([Lit ''api'', Lit ''nodes'', Param, Lit ''policy'', Lit ''rollback''], [(MPost, ERollback)]),
      ([Lit ''api'', Lit ''nodes'', Param, Lit ''annotations''], [(MPut, ESetAnnotations)]),
      ([Lit ''api'', Lit ''fleet''], [(MGet, \<lambda>_. EFleet)]),
      ([Lit ''api'', Lit ''ui'', Lit ''theme''], [(MGet, \<lambda>_. EGetTheme), (MPost, \<lambda>_. ESetTheme)]),
      ([Lit ''api'', Lit ''counters''], [(MGet, \<lambda>_. EAllCounters)]),
      ([Lit ''api'', Lit ''flow-counters''], [(MGet, \<lambda>_. EAllFlowCounters)]),
      ([Lit ''api'', Lit ''deploy''], [(MPost, \<lambda>_. EDeploy)]),
      ([Lit ''api'', Lit ''deploy'', Lit ''batch''], [(MPost, \<lambda>_. EBatchDeploy)]),
      ([Lit ''api'', Lit ''fsm'', Lit ''definitions''],
        [(MGet, \<lambda>_. EListDefinitions), (MPost, \<lambda>_. ECreateDefinition)]),
      ([Lit ''api'', Lit ''fsm'', Lit ''definitions'', Param],
        [(MGet, EGetDefinition), (MDelete, EDeleteDefinition)]),
      ([Lit ''api'', Lit ''fsm'', Lit ''instances''], [(MGet, \<lambda>_. EListInstances), (MPost, \<lambda>_. EStart)]),
      ([Lit ''api'', Lit ''fsm'', Lit ''instances'', Param], [(MGet, EGetInstance)]),
      ([Lit ''api'', Lit ''fsm'', Lit ''instances'', Param, Lit ''advance''], [(MPost, EAdvance)]),
      ([Lit ''api'', Lit ''fsm'', Lit ''instances'', Param, Lit ''cancel''], [(MPost, ECancel)]),
      ([Lit ''api'', Lit ''events'', Lit ''nodes''], [(MGet, \<lambda>_. ENodeEvents)]),
      ([Lit ''api'', Lit ''events'', Lit ''counters''], [(MGet, \<lambda>_. ECounterEvents)]),
      ([Lit ''api'', Lit ''events'', Lit ''fsm''], [(MGet, \<lambda>_. EFsmEvents)]),
      ([Lit ''api'', Lit ''events'', Lit ''history''], [(MGet, \<lambda>_. EEventHistory)]),
      ([Lit ''api'', Lit ''audit''], [(MGet, \<lambda>_. EAudit)]),
      ([Lit ''api'', Lit ''templates''], [(MGet, \<lambda>_. EListTemplates), (MPost, \<lambda>_. ECreateTemplate)]),
      ([Lit ''api'', Lit ''templates'', Param], [(MGet, EGetTemplate), (MDelete, EDeleteTemplate)]),
      ([Lit ''api'', Lit ''webhooks'', Lit ''history''], [(MGet, \<lambda>_. EWebhookHistory)])]"

text \<open>The parameters a pattern finds in a path.\<close>

fun match_path :: "segment list \<Rightarrow> string list \<Rightarrow> string list option" where
  "match_path [] [] = Some []"
| "match_path (Lit l # ps) (s # ss) = (if l = s then match_path ps ss else None)"
| "match_path (Param # ps) (s # ss) = (if s = [] then None else map_option ((#) s) (match_path ps ss))"
| "match_path _ _ = None"

definition the_param :: "string list \<Rightarrow> string" where
  "the_param args = (case args of a # _ \<Rightarrow> a | [] \<Rightarrow> [])"

definition route_in :: "rest_route list \<Rightarrow> http_method \<Rightarrow> string list \<Rightarrow> endpoint option" where
  "route_in table meth path =
     (case List.find (\<lambda>r. match_path (fst r) path \<noteq> None) table of
        None \<Rightarrow> None
      | Some (pat, by_method) \<Rightarrow>
          map_option (\<lambda>h. h (case match_path pat path of Some args \<Rightarrow> the_param args | None \<Rightarrow> []))
            (map_of by_method meth))"

definition route :: "http_method \<Rightarrow> string list \<Rightarrow> endpoint option" where
  "route = route_in (health_routes @ api_routes)"

subsection \<open>Requests\<close>

record http_request =
  hq_method :: http_method
  hq_path :: "string list"
  hq_query :: "string option"
  hq_auth :: "string option"
  hq_body :: string

text \<open>The bodies with fields that may be missing.\<close>

record annotations_body =
  ab_annotations :: "(string, string) hmap option"
  ab_remove_keys :: "string list option"

record template_body =
  tb_name :: string
  tb_description :: "string option"
  tb_rules_yaml :: string
  tb_tags :: "string list option"

text \<open>What \<open>axum\<close> and \<open>serde\<close> extract from a request: the values of the given fields in the query string, a
  number among them, and the bodies, or the rejection of the request.\<close>

record rest_extract =
  rt_query :: "string list \<Rightarrow> string option \<Rightarrow> app_error + (string \<Rightarrow> string option)"
  rt_number :: "string \<Rightarrow> app_error + u32"
  rt_theme :: "string \<Rightarrow> app_error + string"
  rt_rollback :: "string \<Rightarrow> app_error + u64 option"
  rt_annotations :: "string \<Rightarrow> app_error + annotations_body"
  rt_deploy :: "string \<Rightarrow> app_error + rest_deploy_request"
  rt_batch :: "string \<Rightarrow> app_error + rest_batch_request"
  rt_definition :: "string \<Rightarrow> app_error + string"
  rt_start :: "string \<Rightarrow> app_error + rest_start_request"
  rt_advance :: "string \<Rightarrow> app_error + string option"
  rt_cancel :: "string \<Rightarrow> app_error + string option"
  rt_template :: "string \<Rightarrow> app_error + template_body"

definition default_limit :: u32 where "default_limit = 10"
definition default_audit_limit :: u32 where "default_audit_limit = 50"
definition default_history_limit :: u32 where "default_history_limit = 50"

text \<open>The state of the service: the controller and the theme.\<close>

record 's rest_state =
  rs_world :: "'s world"
  rs_theme :: string

text \<open>The answers of the handlers, by the type of their JSON.\<close>

datatype rest_answer =
    AnsHealth health_response | AnsTheme theme_response | AnsAck ack
  | AnsNodes "node_json list" | AnsNode node_json | AnsFleet fleet_status_json
  | AnsPolicy policy_json | AnsVersions "policy_version_json list"
  | AnsDeployments "deployment_json list" | AnsRollback rollback_response
  | AnsCounters counter_json | AnsAllCounters "counter_json list"
  | AnsFlowCounters flow_counter_set_json | AnsAllFlowCounters "flow_counter_set_json list"
  | AnsDeploy rest_deploy_response | AnsBatch batch_deploy_result_json
  | AnsDefinitions "definition_summary list" | AnsDefinition definition_info
  | AnsCreated create_response | AnsInstances "fsm_instance_json list"
  | AnsInstance fsm_instance_json | AnsStarted start_fsm_response | AnsAdvanced advance_response
  | AnsAudit "audit_entry_json list" | AnsTemplates "template_summary_json list"
  | AnsTemplate template_json | AnsWebhooks "webhook_delivery_json list"
  | AnsEvents "persistent_event_json list" | AnsNodeEvents "node_event_json list"
  | AnsCounterEvents "counter_event_json list" | AnsFsmEvents "fsm_event_json list"

type_synonym 's rest_handler = "'s rest_state \<Rightarrow> (app_error + rest_answer) \<times> 's rest_state"

definition on_world :: "('a \<Rightarrow> rest_answer) \<Rightarrow> ('s world \<Rightarrow> (app_error + 'a) \<times> 's world) \<Rightarrow> 's rest_handler" where
  "on_world c h st =
     (case h (rs_world st) of (r, w) \<Rightarrow> (map_sum (\<lambda>x. x) c r, st\<lparr> rs_world := w \<rparr>))"

definition on_read :: "('a \<Rightarrow> rest_answer) \<Rightarrow> ('s world \<Rightarrow> app_error + 'a) \<Rightarrow> 's rest_handler" where
  "on_read c h st = (map_sum (\<lambda>x. x) c (h (rs_world st)), st)"

definition extracted :: "app_error + 'a \<Rightarrow> ('a \<Rightarrow> 's rest_handler) \<Rightarrow> 's rest_handler" where
  "extracted x k st = (case x of Inl err \<Rightarrow> (Inl err, st) | Inr a \<Rightarrow> k a st)"

text \<open>A handler behind the fields of its query, and behind a limit among them.\<close>

definition queried ::
  "rest_extract \<Rightarrow> http_request \<Rightarrow> string list \<Rightarrow> ((string \<Rightarrow> string option) \<Rightarrow> 's rest_handler) \<Rightarrow>
     's rest_handler" where
  "queried t q names k = extracted (rt_query t names (hq_query q)) k"

definition query_limit :: "rest_extract \<Rightarrow> (string \<Rightarrow> string option) \<Rightarrow> u32 \<Rightarrow> app_error + u32" where
  "query_limit t field dflt = (case field ''limit'' of None \<Rightarrow> Inr dflt | Some s \<Rightarrow> rt_number t s)"

definition limited ::
  "rest_extract \<Rightarrow> http_request \<Rightarrow> string list \<Rightarrow> u32 \<Rightarrow>
     ((string \<Rightarrow> string option) \<Rightarrow> u32 \<Rightarrow> 's rest_handler) \<Rightarrow> 's rest_handler" where
  "limited t q names dflt k =
     queried t q (names @ [''limit'']) (\<lambda>field. extracted (query_limit t field dflt) (k field))"

subsection \<open>Dispatch\<close>

text \<open>What the three streams have received is given with the request.\<close>

record rest_received =
  rv_nodes :: "node_event list"
  rv_counters :: "counter_event list"
  rv_fsm :: "fsm_event list"

definition template_of_body :: "template_body \<Rightarrow> template_request" where
  "template_of_body b =
     \<lparr> tq_name = tb_name b, tq_description = or_default [] (tb_description b),
       tq_rules_yaml = tb_rules_yaml b, tq_tags = or_default [] (tb_tags b) \<rparr>"

definition dispatch ::
  "'s storage_ops \<Rightarrow> env \<Rightarrow> rest_context \<Rightarrow> rest_extract \<Rightarrow> rest_received \<Rightarrow> http_request \<Rightarrow> endpoint \<Rightarrow>
     's rest_handler" where
  "dispatch ops e x t rv q ep =
     (let body = hq_body q in
      case ep of
        EHealth \<Rightarrow> on_read AnsHealth (\<lambda>w. Inr (health_check x))
      | EListNodes \<Rightarrow>
          queried t q [''label''] (\<lambda>field.
            on_world AnsNodes (rest_list_nodes ops e x (field ''label'')))
      | EGetNode nid \<Rightarrow> on_world AnsNode (rest_get_node ops e x nid)
      | ERemoveNode nid \<Rightarrow> on_world AnsAck (rest_remove_node ops e x nid)
      | EGetPolicy nid \<Rightarrow> on_read AnsPolicy (rest_get_policy ops x nid)
      | EGetCounters nid \<Rightarrow> on_world AnsCounters (rest_get_node_counters ops e x nid)
      | EGetFlowCounters nid \<Rightarrow> on_world AnsFlowCounters (rest_get_node_flow_counters ops e x nid)
      | EPolicyHistory nid \<Rightarrow>
          limited t q [] default_limit (\<lambda>_ limit.
            on_read AnsVersions (rest_get_policy_history ops x nid limit))
      | EDeployHistory nid \<Rightarrow>
          limited t q [] default_limit (\<lambda>_ limit.
            on_read AnsDeployments (rest_get_deployment_history ops x nid limit))
      | ERollback nid \<Rightarrow>
          extracted (rt_rollback t body) (\<lambda>target.
            on_world AnsRollback (rest_rollback_policy ops e x nid (or_default 0 target)))
      | ESetAnnotations nid \<Rightarrow>
          extracted (rt_annotations t body) (\<lambda>b.
            on_world AnsAck (rest_set_annotations ops e x nid (or_default [] (ab_annotations b))
              (or_default [] (ab_remove_keys b))))
      | EFleet \<Rightarrow>
          queried t q [''label''] (\<lambda>field.
            on_world AnsFleet (rest_get_fleet_status ops e x (field ''label'')))
      | EGetTheme \<Rightarrow> (\<lambda>st. (Inr (AnsTheme (get_ui_theme (rs_theme st))), st))
      | ESetTheme \<Rightarrow>
          extracted (rt_theme t body) (\<lambda>theme st.
            case set_ui_theme theme (rs_theme st) of
              (r, slot) \<Rightarrow> (map_sum (\<lambda>x. x) AnsAck r, st\<lparr> rs_theme := slot \<rparr>))
      | EAllCounters \<Rightarrow>
          queried t q [''label''] (\<lambda>field.
            on_world AnsAllCounters (rest_get_aggregate_counters ops e x (field ''label'')))
      | EAllFlowCounters \<Rightarrow>
          queried t q [''label''] (\<lambda>field.
            on_world AnsAllFlowCounters (rest_get_aggregate_flow_counters ops e x (field ''label'')))
      | EDeploy \<Rightarrow> extracted (rt_deploy t body) (\<lambda>b. on_world AnsDeploy (rest_deploy_policy ops e x b))
      | EBatchDeploy \<Rightarrow>
          extracted (rt_batch t body) (\<lambda>b. on_world AnsBatch (rest_batch_deploy_policy ops e x b))
      | EListDefinitions \<Rightarrow>
          queried t q [''kind''] (\<lambda>field.
            on_read AnsDefinitions (rest_list_fsm_definitions ops (field ''kind'')))
      | ECreateDefinition \<Rightarrow>
          extracted (rt_definition t body) (\<lambda>yaml.
            on_world AnsCreated (rest_create_fsm_definition ops e x yaml))
      | EGetDefinition name \<Rightarrow> on_read AnsDefinition (rest_get_fsm_definition ops e name)
      | EDeleteDefinition name \<Rightarrow> on_world AnsAck (rest_delete_fsm_definition ops x name)
      | EListInstances \<Rightarrow>
          queried t q [''status'', ''definition''] (\<lambda>field.
            on_read AnsInstances (rest_list_fsm_instances ops x (field ''status'') (field ''definition'')))
      | EStart \<Rightarrow> extracted (rt_start t body) (\<lambda>b. on_world AnsStarted (rest_start_fsm ops e x b))
      | EGetInstance iid \<Rightarrow> on_read AnsInstance (rest_get_fsm_instance ops x iid)
      | EAdvance iid \<Rightarrow>
          extracted (rt_advance t body) (\<lambda>target.
            on_world AnsAdvanced (rest_advance_fsm ops e x iid target))
      | ECancel iid \<Rightarrow>
          extracted (rt_cancel t body) (\<lambda>reason.
            on_world AnsAck (rest_cancel_fsm ops e x iid (or_default [] reason)))
      | ENodeEvents \<Rightarrow>
          queried t q [''label''] (\<lambda>field.
            on_read AnsNodeEvents (\<lambda>w. Inr (sse_node_events x (field ''label'') (rv_nodes rv))))
      | ECounterEvents \<Rightarrow>
          queried t q [''node''] (\<lambda>field.
            on_read AnsCounterEvents (\<lambda>w. Inr (sse_counter_events x (field ''node'') (rv_counters rv))))
      | EFsmEvents \<Rightarrow>
          queried t q [''instance''] (\<lambda>field.
            on_read AnsFsmEvents (\<lambda>w. Inr (sse_fsm_events x (field ''instance'') (rv_fsm rv))))
      | EEventHistory \<Rightarrow>
          limited t q [''type'', ''source'', ''since'', ''until'', ''token''] default_history_limit (\<lambda>field limit.
            on_read AnsEvents (rest_get_event_history ops x (field ''type'') (field ''source'')
              (field ''since'') (field ''until'') limit))
      | EAudit \<Rightarrow>
          limited t q [''action'', ''resource_type'', ''resource_id'', ''since''] default_audit_limit (\<lambda>field limit.
            on_read AnsAudit (rest_get_audit_log ops x (field ''action'') (field ''resource_type'')
              (field ''resource_id'') (field ''since'') limit))
      | EListTemplates \<Rightarrow>
          queried t q [''tag''] (\<lambda>field.
            on_read AnsTemplates (rest_list_templates ops x (field ''tag'')))
      | ECreateTemplate \<Rightarrow>
          extracted (rt_template t body) (\<lambda>b.
            on_world AnsAck (rest_create_template ops e x (template_of_body b)))
      | EGetTemplate name \<Rightarrow> on_read AnsTemplate (rest_get_template ops x name)
      | EDeleteTemplate name \<Rightarrow> on_world AnsAck (rest_delete_template ops e x name)
      | EWebhookHistory \<Rightarrow>
          limited t q [''instance_id''] default_audit_limit (\<lambda>field limit.
            on_read AnsWebhooks (rest_get_webhook_history ops x (field ''instance_id'') limit)))"

text \<open>A request that no handler takes is left to the fallback, or answered by \<open>axum\<close> when only its method
  is wrong.\<close>

datatype rest_reply = Unrouted | Answered "app_error + rest_answer"

definition serve ::
  "'s storage_ops \<Rightarrow> env \<Rightarrow> rest_context \<Rightarrow> rest_extract \<Rightarrow> rest_received \<Rightarrow> http_request \<Rightarrow>
     's rest_state \<Rightarrow> rest_reply \<times> 's rest_state" where
  "serve ops e x t rv q st =
     (case route (hq_method q) (hq_path q) of
        None \<Rightarrow> (Unrouted, st)
      | Some ep \<Rightarrow>
          apfst Answered
            (if ep = EHealth then dispatch ops e x t rv q ep st
             else auth_middleware x (hq_auth q) (hq_query q) (dispatch ops e x t rv q ep) st))"

end
