(* ===== verification/Rest_Router_Run.thy ===== *)
theory Rest_Router_Run
  imports Rest_Router "HOL-Library.Multiset"
begin

text \<open>
  What the REST service as a whole guarantees.  No two patterns of the table of routes match a path,
  so that the order in which they are tried does not matter and a handler is reached at exactly one
  address; a \<open>GET\<close> changes nothing; and what does change the controller is an authorised request to
  a leader.
\<close>

subsection \<open>Routes\<close>

text \<open>Two patterns that may match the same path.\<close>

fun overlap :: "segment list \<Rightarrow> segment list \<Rightarrow> bool" where
  "overlap [] [] = True"
| "overlap (Lit a # ps) (Lit b # qs) = (a = b \<and> overlap ps qs)"
| "overlap (Lit a # ps) (Param # qs) = (a \<noteq> [] \<and> overlap ps qs)"
| "overlap (Param # ps) (Lit b # qs) = (b \<noteq> [] \<and> overlap ps qs)"
| "overlap (Param # ps) (Param # qs) = overlap ps qs"
| "overlap _ _ = False"

lemma match_overlap:
  assumes "match_path p path \<noteq> None" and "match_path q path \<noteq> None" shows "overlap p q"
  using assms
proof (induction p path arbitrary: q rule: match_path.induct)
  case (2 l ps s ss)
  then show ?case by (cases "(q, s # ss)" rule: match_path.cases) (auto split: if_splits)
next
  case (3 ps s ss)
  then show ?case by (cases "(q, s # ss)" rule: match_path.cases) (auto split: if_splits)
next
  case 1
  then show ?case by (cases "(q, [] :: string list)" rule: match_path.cases) auto
qed auto

primrec apart :: "segment list list \<Rightarrow> bool" where
  "apart [] = True"
| "apart (p # ps) = (list_all (\<lambda>q. \<not> overlap p q) ps \<and> apart ps)"

lemma routes_apart: "apart (map fst (health_routes @ api_routes))"
  by (simp add: health_routes_def api_routes_def)


lemma find_only:
  assumes "a \<in> set xs" and "P a" and "\<And>b. b \<in> set xs \<Longrightarrow> P b \<Longrightarrow> b = a"
  shows "List.find P xs = Some a"
proof (cases "List.find P xs")
  case None
  then show ?thesis using assms(1,2) by (auto simp: find_None_iff)
next
  case (Some b)
  then have "b \<in> set xs" "P b" by (auto simp: find_Some_iff)
  with Some assms(3) show ?thesis by simp
qed

lemma apart_only:
  assumes "apart (map fst rs)" and "r \<in> set rs" and "r' \<in> set rs" and "overlap (fst r) (fst r')"
    and "overlap (fst r') (fst r)"
  shows "r = r'"
  using assms(1-3)
proof (induction rs)
  case (Cons a rs)
  have "\<forall>p \<in> fst ` set rs. \<not> overlap (fst a) p" and "apart (map fst rs)"
    using Cons.prems(1) by (simp_all add: list_all_iff)
  moreover have "r = a \<or> r \<in> set rs" "r' = a \<or> r' \<in> set rs" using Cons.prems(2,3) by simp_all
  ultimately show ?case using Cons.IH assms(4,5) by (metis imageI)
qed simp

lemma route_in_match:
  assumes "apart (map fst rs)" and "(pat, by_method) \<in> set table" and "set table = set rs"
    and "match_path pat path = Some args"
  shows "route_in table meth path = map_option (\<lambda>h. h (the_param args)) (map_of by_method meth)"
proof -
  have "List.find (\<lambda>r. match_path (fst r) path \<noteq> None) table = Some (pat, by_method)"
  proof (rule find_only [OF assms(2)])
    show "match_path (fst (pat, by_method)) path \<noteq> None" using assms(4) by simp
    fix r assume r: "r \<in> set table" "match_path (fst r) path \<noteq> None"
    show "r = (pat, by_method)"
    proof (rule apart_only [OF assms(1)])
      show "r \<in> set rs" "(pat, by_method) \<in> set rs" using r(1) assms(2,3) by simp_all
      show "overlap (fst r) (fst (pat, by_method))" "overlap (fst (pat, by_method)) (fst r)"
        using match_overlap [OF r(2)] match_overlap [OF _ r(2)] assms(4) by simp_all
    qed
  qed
  then show ?thesis using assms(4) by (simp add: route_in_def)
qed

lemma route_in_none:
  assumes "\<forall>r \<in> set table. match_path (fst r) path = None"
  shows "route_in table meth path = None"
proof -
  have "List.find (\<lambda>r. match_path (fst r) path \<noteq> None) table = None"
    using assms by (auto simp: find_None_iff simp del: split_paired_All split_paired_Ex)
  then show ?thesis by (simp add: route_in_def)
qed

lemma route_in_iff:
  assumes "apart (map fst rs)" and "set table = set rs"
  shows "route_in table meth path = Some ep \<longleftrightarrow>
    (\<exists>pat by_method args h. (pat, by_method) \<in> set rs \<and> match_path pat path = Some args \<and>
       map_of by_method meth = Some h \<and> ep = h (the_param args))"
    (is "_ \<longleftrightarrow> ?r")
proof (cases "\<exists>r \<in> set table. match_path (fst r) path \<noteq> None")
  case True
  then obtain r args where "r \<in> set table" "match_path (fst r) path = Some args" by blast
  then have r: "(fst r, snd r) \<in> set table" "match_path (fst r) path = Some args" by simp_all
  note eq = route_in_match [OF assms(1) r(1) assms(2) r(2), of meth]
  show ?thesis
  proof
    assume *: "route_in table meth path = Some ep"
    from * [unfolded eq] obtain h where "map_of (snd r) meth = Some h" "ep = h (the_param args)" by auto
    with r assms(2) show ?r by blast
  next
    assume ?r
    then obtain pat' by_method' args' h where *: "(pat', by_method') \<in> set table" "match_path pat' path = Some args'"
      "map_of by_method' meth = Some h" "ep = h (the_param args')" using assms(2) by auto
    show "route_in table meth path = Some ep"
      using route_in_match [OF assms(1) *(1) assms(2) *(2), of meth] *(3,4) by simp
  qed
next
  case False
  then have "\<not> ?r" using assms(2) by force
  with False route_in_none [of table path meth] show ?thesis by auto
qed

lemmas route_iff = route_in_iff [OF routes_apart refl, folded route_def]

text \<open>Whatever the order in which the table is searched, the same handler is found.\<close>

lemma route_order_irrelevant:
  assumes "mset table = mset (health_routes @ api_routes)"
  shows "route_in table meth path = route meth path"
proof -
  have "set table = set (health_routes @ api_routes)" using assms by (rule mset_eq_setD)
  note iff = route_in_iff [OF routes_apart this, of meth path] 
  show ?thesis by (rule option.expand) (metis iff route_iff not_None_eq, metis iff route_iff option.collapse)
qed

text \<open>Where a handler is reached, and its parameter.\<close>

fun address :: "endpoint \<Rightarrow> http_method \<times> string list" where
  "address EHealth = (MGet, [''api'', ''health''])"
| "address EListNodes = (MGet, [''api'', ''nodes''])"
| "address (EGetNode a) = (MGet, [''api'', ''nodes'', a])"
| "address (ERemoveNode a) = (MDelete, [''api'', ''nodes'', a])"
| "address (EGetPolicy a) = (MGet, [''api'', ''nodes'', a, ''policy''])"
| "address (EGetCounters a) = (MGet, [''api'', ''nodes'', a, ''counters''])"
| "address (EGetFlowCounters a) = (MGet, [''api'', ''nodes'', a, ''flow-counters''])"
| "address (EPolicyHistory a) = (MGet, [''api'', ''nodes'', a, ''policy'', ''history''])"
| "address (EDeployHistory a) = (MGet, [''api'', ''nodes'', a, ''deploy'', ''history''])"
| "address (ERollback a) = (MPost, [''api'', ''nodes'', a, ''policy'', ''rollback''])"
| "address (ESetAnnotations a) = (MPut, [''api'', ''nodes'', a, ''annotations''])"
| "address EFleet = (MGet, [''api'', ''fleet''])"
| "address EGetTheme = (MGet, [''api'', ''ui'', ''theme''])"
| "address ESetTheme = (MPost, [''api'', ''ui'', ''theme''])"
| "address EAllCounters = (MGet, [''api'', ''counters''])"
| "address EAllFlowCounters = (MGet, [''api'', ''flow-counters''])"
| "address EDeploy = (MPost, [''api'', ''deploy''])"
| "address EBatchDeploy = (MPost, [''api'', ''deploy'', ''batch''])"
| "address EListDefinitions = (MGet, [''api'', ''fsm'', ''definitions''])"
| "address ECreateDefinition = (MPost, [''api'', ''fsm'', ''definitions''])"
| "address (EGetDefinition a) = (MGet, [''api'', ''fsm'', ''definitions'', a])"
| "address (EDeleteDefinition a) = (MDelete, [''api'', ''fsm'', ''definitions'', a])"
| "address EListInstances = (MGet, [''api'', ''fsm'', ''instances''])"
| "address EStart = (MPost, [''api'', ''fsm'', ''instances''])"
| "address (EGetInstance a) = (MGet, [''api'', ''fsm'', ''instances'', a])"
| "address (EAdvance a) = (MPost, [''api'', ''fsm'', ''instances'', a, ''advance''])"
| "address (ECancel a) = (MPost, [''api'', ''fsm'', ''instances'', a, ''cancel''])"
| "address ENodeEvents = (MGet, [''api'', ''events'', ''nodes''])"
| "address ECounterEvents = (MGet, [''api'', ''events'', ''counters''])"
| "address EFsmEvents = (MGet, [''api'', ''events'', ''fsm''])"
| "address EEventHistory = (MGet, [''api'', ''events'', ''history''])"
| "address EAudit = (MGet, [''api'', ''audit''])"
| "address EListTemplates = (MGet, [''api'', ''templates''])"
| "address ECreateTemplate = (MPost, [''api'', ''templates''])"
| "address (EGetTemplate a) = (MGet, [''api'', ''templates'', a])"
| "address (EDeleteTemplate a) = (MDelete, [''api'', ''templates'', a])"
| "address EWebhookHistory = (MGet, [''api'', ''webhooks'', ''history''])"

text \<open>Each route leads to the handler whose address it is.\<close>

lemma match_path_iff:
  "match_path [] path = Some args \<longleftrightarrow> path = [] \<and> args = []"
  "match_path (Lit l # ps) path = Some args \<longleftrightarrow> (\<exists>ss. path = l # ss \<and> match_path ps ss = Some args)"
  "match_path (Param # ps) path = Some args \<longleftrightarrow>
     (\<exists>s ss as. path = s # ss \<and> s \<noteq> [] \<and> match_path ps ss = Some as \<and> args = s # as)"
  by (cases path; auto)+

lemma the_param_Cons [simp]: "the_param (a # as) = a"
  by (simp add: the_param_def)

lemma route_table:
  "list_all (\<lambda>(pat, by_method). \<forall>path args. match_path pat path = Some args \<longrightarrow> [] \<notin> set path \<and>
     list_all (\<lambda>(meth, h). address (h (the_param args)) = (meth, path)) by_method) (health_routes @ api_routes)"
  by (auto simp: health_routes_def api_routes_def match_path_iff)

lemma route_address: "[] \<notin> set (snd (address ep)) \<Longrightarrow> route (fst (address ep)) (snd (address ep)) = Some ep"
  by (cases ep) (simp_all add: route_def route_in_def health_routes_def api_routes_def)

lemma routes_reach:
  assumes "route meth path = Some ep" shows "address ep = (meth, path) \<and> [] \<notin> set path"
proof
  from assms obtain pat by_method args h where *: "(pat, by_method) \<in> set (health_routes @ api_routes)"
    "match_path pat path = Some args" "(meth, h) \<in> set by_method" "ep = h (the_param args)"
    unfolding route_iff by (blast dest: map_of_SomeD)
  then have m: "[] \<notin> set path"
    "list_all (\<lambda>(meth, h). address (h (the_param args)) = (meth, path)) by_method"
    using route_table unfolding list_all_iff by fast+
  then show "[] \<notin> set path" by simp
  from m(2) *(3) have "address (h (the_param args)) = (meth, path)" unfolding list_all_iff by (drule_tac bspec) auto
  then show "address ep = (meth, path)" by (simp add: *(4))
qed

text \<open>C19: Each handler of the REST service is reached by exactly the requests to its address, whatever the
  order in which the routes are tried: no route hides another, none leads to the wrong handler, and a
  parameter of a path arrives as it was sent.\<close>

theorem routes_reach_their_handlers:
  "(mset table = mset (health_routes @ api_routes) \<longrightarrow> route_in table meth path = route meth path) \<and>
   (route meth path = Some ep \<longleftrightarrow> address ep = (meth, path) \<and> [] \<notin> set path)"
proof (intro conjI impI iffI)
  show "route_in table meth path = route meth path" if "mset table = mset (health_routes @ api_routes)"
    using that by (rule route_order_irrelevant)
  assume "route meth path = Some ep"
  from routes_reach [OF this] show "address ep = (meth, path)" "[] \<notin> set path" by blast+
next
  assume "address ep = (meth, path) \<and> [] \<notin> set path"
  then show "route meth path = Some ep" using route_address [of ep] by simp
qed

subsection \<open>Reads\<close>

text \<open>Only time has passed.\<close>

definition unchanged :: "'s rest_state \<Rightarrow> 's rest_state \<Rightarrow> bool" where
  "unchanged st st' \<longleftrightarrow> only_ticks (rs_world st) (rs_world st') \<and> rs_theme st' = rs_theme st"

lemma unchanged_refl [simp]: "unchanged st st"
  by (simp add: unchanged_def)

lemma on_read_unchanged [simp]: "unchanged st (snd (on_read c h st))"
  by (simp add: on_read_def)

lemma on_world_state: "snd (on_world c h st) = st\<lparr> rs_world := snd (h (rs_world st)) \<rparr>"
  by (simp add: on_world_def split: prod.split)

lemma on_world_unchanged: "only_ticks (rs_world st) (snd (h (rs_world st))) \<Longrightarrow> unchanged st (snd (on_world c h st))"
  by (simp add: on_world_state unchanged_def)

lemma extracted_unchanged: "(\<And>a. unchanged st (snd (k a st))) \<Longrightarrow> unchanged st (snd (extracted x k st))"
  by (simp add: extracted_def split: sum.split)

lemma queried_unchanged:
  "(\<And>field. unchanged st (snd (k field st))) \<Longrightarrow> unchanged st (snd (queried t q names k st))"
  "(\<And>field n. unchanged st (snd (k' field n st))) \<Longrightarrow> unchanged st (snd (limited t q names dflt k' st))"
  by (simp_all add: queried_def limited_def extracted_unchanged)

lemma collect_only_ticks:
  "only_ticks w (snd (rest_collect_counters ops e x ns w))"
  "only_ticks w (snd (rest_collect_flow_counters ops e x ns w))"
  by (induction ns arbitrary: w)
    (auto simp: Let_def case_prod_unfold split: sum.split option.split intro: only_ticks_trans [OF only_ticks_clock])

lemma reads_only_tick:
  "only_ticks w (snd (rest_list_nodes ops e x label w))"
  "only_ticks w (snd (rest_get_node ops e x nid w))"
  "only_ticks w (snd (rest_get_node_counters ops e x nid w))"
  "only_ticks w (snd (rest_get_node_flow_counters ops e x nid w))"
  "only_ticks w (snd (rest_get_fleet_status ops e x label w))"
  "only_ticks w (snd (rest_get_aggregate_counters ops e x label w))"
  "only_ticks w (snd (rest_get_aggregate_flow_counters ops e x label w))"
  by (simp_all add: rest_list_nodes_def rest_get_node_def rest_get_node_counters_def rest_get_node_flow_counters_def
      rest_get_fleet_status_def rest_get_aggregate_counters_def rest_get_aggregate_flow_counters_def Let_def
      case_prod_unfold collect_only_ticks split: sum.split)

lemma dispatch_read: "fst (address ep) = MGet \<Longrightarrow> unchanged st (snd (dispatch ops e x t rv q ep st))"
  by (cases ep) (simp_all add: dispatch_def Let_def extracted_unchanged queried_unchanged on_world_unchanged reads_only_tick)

subsection \<open>Writes\<close>

lemma leader_only_refused: "\<not> rx_leader x \<Longrightarrow> snd (leader_only x h w) = w"
  by (simp add: leader_only_standby)

lemma dispatch_standby:
  "\<not> rx_leader x \<Longrightarrow> ep \<noteq> ESetTheme \<Longrightarrow> unchanged st (snd (dispatch ops e x t rv q ep st))"
  by (cases ep)
    (simp_all add: dispatch_def Let_def extracted_unchanged queried_unchanged on_world_unchanged reads_only_tick leader_only_refused
      rest_remove_node_def rest_set_annotations_def rest_rollback_policy_def
        rest_deploy_policy_def rest_batch_deploy_policy_def rest_create_fsm_definition_def
        rest_delete_fsm_definition_def rest_start_fsm_def rest_advance_fsm_def rest_cancel_fsm_def
        rest_create_template_def rest_delete_template_def)

lemma set_theme_world: "rs_world (snd (dispatch ops e x t rv q ESetTheme st)) = rs_world st"
  by (simp add: dispatch_def Let_def extracted_def case_prod_unfold split: sum.split)

subsection \<open>Who changes the controller\<close>

definition authorised :: "rest_context \<Rightarrow> http_request \<Rightarrow> bool" where
  "authorised x q \<longleftrightarrow>
     (case rx_api_key x of
        None \<Rightarrow> True
      | Some key \<Rightarrow> hq_auth q = Some (''Bearer '' @ key) \<or>
          (\<exists>s pre post. hq_query q = Some s \<and> split_on (CHR ''&'') s = pre @ (''token='' @ key) # post \<and>
             \<not> list_ex (starts_with ''token='') pre))"

lemma auth_middleware_cases:
  "auth_middleware x (hq_auth q) (hq_query q) h st =
     (if authorised x q then h st else (Inl (AppError 401 ''Unauthorized''), st))"
  by (cases "rx_api_key x")
    (auto simp: auth_middleware_def authorised_def header_ok_iff token_ok_iff simp del: append.simps)

text \<open>C6: A request to the REST service changes the controller only when it is not a \<open>GET\<close>, carries the
  configured key, and is sent to a leader; apart from that only the theme of the dashboard can
  change.  Without the key, every request but the health check is answered 401, or by the fallback,
  and changes nothing.\<close>

theorem rest_changes_are_authorised:
  "case serve ops e x t rv q st of (reply, st') \<Rightarrow>
     (unchanged st st' \<or>
        authorised x q \<and> hq_method q \<noteq> MGet \<and> (rx_leader x \<or> rs_world st' = rs_world st)) \<and>
     (authorised x q \<or> route (hq_method q) (hq_path q) = Some EHealth \<or>
        reply \<in> {Unrouted, Answered (Inl (AppError 401 ''Unauthorized''))} \<and> st' = st)"
proof (cases "route (hq_method q) (hq_path q)")
  case (Some ep)
  then have a: "fst (address ep) = hq_method q" using routes_reach [of "hq_method q" "hq_path q" ep] by simp
  have d: "unchanged st (snd (dispatch ops e x t rv q ep st)) \<or>
      hq_method q \<noteq> MGet \<and> (rx_leader x \<or> rs_world (snd (dispatch ops e x t rv q ep st)) = rs_world st)"
    using dispatch_read [of ep st ops e x t rv q] dispatch_standby [of x ep st ops e t rv q]
      set_theme_world [of ops e x t rv q st] a by metis
  show ?thesis
  proof (cases "ep = EHealth")
    case True
    with a d have "unchanged st (snd (dispatch ops e x t rv q ep st))" by auto
    then show ?thesis using True by (simp add: serve_def Some case_prod_unfold)
  next
    case False
    then show ?thesis using d by (simp add: serve_def Some case_prod_unfold auth_middleware_cases)
  qed
qed (simp add: serve_def)

end
