(* ===== verification/Server_Start.thy ===== *)
theory Server_Start
  imports Rest_Router_Run Main_Loops Agent
begin

text \<open>
  The controller process, \<open>main\<close> of \<^verbatim>\<open>pacinet-server/src/main.rs\<close>: the checks of the arguments and
  the parts that are built from them, in the order of the source, and the process that then runs:
  REST requests, gRPC calls of both services, the FSM loop, the persistence of events, the reaper and the
  leader loop, in any order.  Opening the database, the metrics endpoint, the sockets and the TLS files are
  outside; each may fail.  The static files and the signal handler only wrap what is modelled.

  The table of leases lies in the same database as everything else, but no other operation reads or
  writes it, so it is kept beside the storage.  The lemmas show when the process starts, what it then runs
  with, and that a controller that was started with a cluster id changes nothing but its lease on its
  own or through REST, while gRPC calls, which check no leadership, go on changing it.
\<close>

subsection \<open>Start\<close>

record server_args =
  xs_port :: u16
  xs_host :: string
  xs_db :: "string option"
  xs_deploy_timeout :: u64
  xs_heartbeat_expect_interval :: u64
  xs_heartbeat_miss_threshold :: u32
  xs_metrics_port :: u16
  xs_counter_retention_secs :: u64
  xs_counter_max_per_node :: nat
  xs_ca_cert :: "string option"
  xs_tls_cert :: "string option"
  xs_tls_key :: "string option"
  xs_web_port :: u16
  xs_static_dir :: "string option"
  xs_api_key :: "string option"
  xs_cluster_id :: "string option"
  xs_lease_duration :: u64
  xs_persist_counter_events :: bool
  xs_event_max_age_days :: u64

record start_outside =
  su_open_db :: "string \<Rightarrow> pacinet_error + unit"
  su_install_metrics :: "u16 \<Rightarrow> string + unit"
  su_parse_addr :: "string \<Rightarrow> string + unit"
  su_dir_exists :: "string \<Rightarrow> bool"
  su_bind :: "string \<Rightarrow> string + unit"
  su_load_server_tls :: "tls_config \<Rightarrow> string + unit"

datatype storage_backend = SqliteAt string | InMemory

record web_setup =
  wb_addr :: string
  wb_static_dir :: "string option"

record server_setup =
  st_backend :: storage_backend
  st_tls :: "tls_config option"
  st_addr :: string
  st_cache :: counter_cache
  st_stale_threshold :: time
  st_controller :: controller
  st_web :: "web_setup option"
  st_reaper_runs :: bool

datatype start_stop = StartFailed string | StartPanic

definition check_ha :: "server_args \<Rightarrow> start_stop + unit" where
  "check_ha a =
     (if xs_cluster_id a \<noteq> None \<and> xs_db a = None
      then Inl (StartFailed ''--cluster-id requires --db (SQLite) for shared lease storage'')
      else Inr ())"

definition open_backend :: "start_outside \<Rightarrow> server_args \<Rightarrow> start_stop + storage_backend" where
  "open_backend su a =
     (case xs_db a of
        Some path \<Rightarrow>
          res_bind (map_err (\<lambda>err. StartFailed (pacinet_error_to_string err)) (su_open_db su path))
            (\<lambda>_. Inr (SqliteAt path))
      | None \<Rightarrow> Inr InMemory)"

definition start_metrics :: "start_outside \<Rightarrow> server_args \<Rightarrow> start_stop + unit" where
  "start_metrics su a =
     (if xs_metrics_port a > 0 then map_err StartFailed (su_install_metrics su (xs_metrics_port a))
      else Inr ())"

definition server_tls :: "server_args \<Rightarrow> start_stop + tls_config option" where
  "server_tls a =
     (case (xs_ca_cert a, xs_tls_cert a, xs_tls_key a) of
        (Some ca, Some cert, Some key) \<Rightarrow> Inr (Some \<lparr> tc_ca_cert = ca, tc_cert = cert, tc_key = key \<rparr>)
      | (None, None, None) \<Rightarrow> Inr None
      | _ \<Rightarrow> Inl (StartFailed ''TLS requires all three: --ca-cert, --tls-cert, --tls-key''))"

definition socket_text :: "string \<Rightarrow> u16 \<Rightarrow> string" where
  "socket_text host port = host @ '':'' @ show_nat (unat port)"

text \<open>\<open>chrono::Duration::seconds(n as i64)\<close> panics when the milliseconds do not fit in 64 bits.\<close>

definition chrono_seconds :: "u64 \<Rightarrow> start_stop + time" where
  "chrono_seconds n =
     (if \<bar>sint n\<bar> \<le> (2 ^ 63 - 1) div 1000 then Inr (secs (sint n)) else Inl StartPanic)"

definition start_web :: "start_outside \<Rightarrow> server_args \<Rightarrow> start_stop + web_setup option" where
  "start_web su a =
     (if xs_web_port a > 0 then
        (let dir = (case xs_static_dir a of Some d \<Rightarrow> d | None \<Rightarrow> ''pacinet-web/dist'');
             addr = socket_text (xs_host a) (xs_web_port a)
         in res_bind (map_err StartFailed (su_parse_addr su addr)) (\<lambda>_.
            res_bind (map_err StartFailed (su_bind su addr)) (\<lambda>_.
              Inr (Some \<lparr> wb_addr = addr, wb_static_dir = (if su_dir_exists su dir then Some dir else None) \<rparr>))))
      else Inr None)"

definition load_tls :: "start_outside \<Rightarrow> tls_config option \<Rightarrow> start_stop + unit" where
  "load_tls su tls =
     (case tls of Some t \<Rightarrow> map_err StartFailed (su_load_server_tls su t) | None \<Rightarrow> Inr ())"

text \<open>The interval of the reaper is a \<open>tokio\<close> interval, which panics in its task when it is zero.\<close>

definition server_start :: "start_outside \<Rightarrow> server_args \<Rightarrow> start_stop + server_setup" where
  "server_start su a =
     res_bind (check_ha a) (\<lambda>_.
     res_bind (open_backend su a) (\<lambda>backend.
     res_bind (start_metrics su a) (\<lambda>_.
     res_bind (server_tls a) (\<lambda>tls.
     let addr = socket_text (xs_host a) (xs_port a) in
     res_bind (map_err StartFailed (su_parse_addr su addr)) (\<lambda>_.
     res_bind (chrono_seconds (xs_counter_retention_secs a)) (\<lambda>retention.
     res_bind (chrono_seconds (xs_heartbeat_expect_interval a * ucast (xs_heartbeat_miss_threshold a)))
       (\<lambda>threshold.
     res_bind (start_web su a) (\<lambda>web.
     res_bind (load_tls su tls) (\<lambda>_.
       Inr \<lparr> st_backend = backend, st_tls = tls, st_addr = addr,
             st_cache = cache_new retention (xs_counter_max_per_node a),
             st_stale_threshold = threshold,
             st_controller = start_controller (xs_cluster_id a) (xs_lease_duration a),
             st_web = web, st_reaper_runs = (xs_heartbeat_expect_interval a > 0) \<rparr>)))))))))"

text \<open>The configuration the services of a started process read, and the state of its REST service.\<close>

definition started_env :: "server_args \<Rightarrow> server_setup \<Rightarrow> env \<Rightarrow> env" where
  "started_env a st e =
     e\<lparr> e_deploy_timeout := xs_deploy_timeout a,
        e_heartbeat_expect_interval := xs_heartbeat_expect_interval a,
        e_heartbeat_miss_threshold := xs_heartbeat_miss_threshold a,
        e_tls := (st_tls st \<noteq> None), e_event_bus := True \<rparr>"

definition started_rest :: "server_args \<Rightarrow> controller \<Rightarrow> rest_context \<Rightarrow> rest_context" where
  "started_rest a c x = x\<lparr> rx_leader := ctl_config_is_leader c, rx_api_key := xs_api_key a \<rparr>"

subsection \<open>The running process\<close>

record ('s, 'l) server =
  vr_rest :: "'s rest_state"
  vr_ctl :: controller
  vr_lease :: 'l

definition on_store :: "('s world \<Rightarrow> 's world) \<Rightarrow> ('s, 'l) server \<Rightarrow> ('s, 'l) server" where
  "on_store f v = v\<lparr> vr_rest := (vr_rest v)\<lparr> rs_world := f (rs_world (vr_rest v)) \<rparr> \<rparr>"

text \<open>What the process does by itself and on REST requests; a call of the leader loop is one of \<open>calls\<close>, on
  the table of leases that all controllers share.\<close>

inductive own_step ::
  "'s storage_ops \<Rightarrow> env \<Rightarrow> rest_context \<Rightarrow> rest_extract \<Rightarrow> server_args \<Rightarrow>
     ('l \<Rightarrow> string \<Rightarrow> u64 \<Rightarrow> bool outcome \<times> 'l) set \<Rightarrow> ('s, 'l) server \<Rightarrow> ('s, 'l) server \<Rightarrow> bool"
  for ops e x t a calls where
  request: "own_step ops e x t a calls v
     (v\<lparr> vr_rest := snd (serve ops e (started_rest a (vr_ctl v) x) t rv q (vr_rest v)) \<rparr>)"
| evaluate: "own_step ops e x t a calls v (on_store (fsm_tick ops e (ctl_config_is_leader (vr_ctl v))) v)"
| persist: "own_step ops e x t a calls v
     (on_store (persist_event ops e (ctl_config_is_leader (vr_ctl v)) (xs_persist_counter_events a) ev) v)"
| reap: "xs_heartbeat_expect_interval a > 0 \<Longrightarrow> own_step ops e x t a calls v
     (on_store (reaper_tick ops e (ctl_config_is_leader (vr_ctl v)) (xs_event_max_age_days a)) v)"
| elect: "acquire \<in> calls \<Longrightarrow> controller_tick acquire (vr_ctl v) (vr_lease v) = (c, l) \<Longrightarrow>
     own_step ops e x t a calls v (v\<lparr> vr_ctl := c, vr_lease := l \<rparr>)"
| outside: "own_step ops e x t a calls v (v\<lparr> vr_lease := l \<rparr>)"

text \<open>The calls of the two gRPC services, with what they do to the world; the calls that only read the
  storage are one.  No call looks at the leadership.\<close>

datatype grpc_call =
    GRegister register_node_request
  | GHeartbeat heartbeat_request
  | GReport report_counters_request
  | GListNodes "(string, string) hmap"
  | GGetNode string
  | GRemoveNode string
  | GAnnotate string "(string, string) hmap" "string list"
  | GFleet "(string, string) hmap"
  | GDeploy deploy_policy_request
  | GRollback string u64
  | GBatchDeploy "node list \<Rightarrow> node list" batch_deploy_request
  | GCreateFsm string
  | GDeleteFsm string
  | GStartFsm start_fsm_request
  | GAdvanceFsm string string
  | GCancelFsm string string
  | GAudit string string string "(int \<times> int) option" u32
  | GCreateTemplate template_request
  | GDeleteTemplate string
  | GRead

fun grpc_effect :: "'s storage_ops \<Rightarrow> env \<Rightarrow> grpc_call \<Rightarrow> 's world \<Rightarrow> 's world" where
  "grpc_effect ops e (GRegister req) w = snd (register_node ops e req w)"
| "grpc_effect ops e (GHeartbeat req) w = snd (heartbeat ops e req w)"
| "grpc_effect ops e (GReport req) w = snd (report_counters ops e req w)"
| "grpc_effect ops e (GListNodes label_filter) w = snd (list_nodes ops e label_filter w)"
| "grpc_effect ops e (GGetNode nid) w = snd (get_node ops e nid w)"
| "grpc_effect ops e (GRemoveNode nid) w = snd (remove_node ops e nid w)"
| "grpc_effect ops e (GAnnotate nid sets removes) w = snd (set_node_annotations ops nid sets removes w)"
| "grpc_effect ops e (GFleet label_filter) w = snd (get_fleet_status ops e label_filter w)"
| "grpc_effect ops e (GDeploy req) w = snd (deploy_policy ops e req w)"
| "grpc_effect ops e (GRollback nid target) w = snd (rollback_policy ops e nid target w)"
| "grpc_effect ops e (GBatchDeploy order req) w = snd (batch_deploy_policy ops e order req w)"
| "grpc_effect ops e (GCreateFsm yaml) w = snd (create_fsm_definition ops e yaml w)"
| "grpc_effect ops e (GDeleteFsm name) w = snd (delete_fsm_definition ops name w)"
| "grpc_effect ops e (GStartFsm req) w = snd (start_fsm ops e req w)"
| "grpc_effect ops e (GAdvanceFsm iid state) w = snd (advance_fsm ops e iid state w)"
| "grpc_effect ops e (GCancelFsm iid reason) w = snd (cancel_fsm ops e iid reason w)"
| "grpc_effect ops e (GAudit action kind rid since limit) w =
     snd (query_audit_log ops e action kind rid since limit w)"
| "grpc_effect ops e (GCreateTemplate req) w = snd (create_policy_template ops e req w)"
| "grpc_effect ops e (GDeleteTemplate name) w = snd (delete_policy_template ops name w)"
| "grpc_effect ops e GRead w = w"

text \<open>The whole process.\<close>

inductive server_step ::
  "'s storage_ops \<Rightarrow> env \<Rightarrow> rest_context \<Rightarrow> rest_extract \<Rightarrow> server_args \<Rightarrow>
     ('l \<Rightarrow> string \<Rightarrow> u64 \<Rightarrow> bool outcome \<times> 'l) set \<Rightarrow> ('s, 'l) server \<Rightarrow> ('s, 'l) server \<Rightarrow> bool"
  for ops e x t a calls where
  own: "own_step ops e x t a calls v v' \<Longrightarrow> server_step ops e x t a calls v v'"
| grpc: "server_step ops e x t a calls v (on_store (grpc_effect ops e g) v)"

subsection \<open>Properties of the start\<close>

lemma res_bind_Inr: "res_bind x f = Inr y \<longleftrightarrow> (\<exists>a. x = Inr a \<and> f a = Inr y)"
  by (cases x) auto

lemma map_err_Inr [simp]: "map_err f x = Inr a \<longleftrightarrow> x = Inr a"
  by (cases x) auto

lemma start_checks:
  "check_ha a = Inr u \<longleftrightarrow> (xs_cluster_id a \<noteq> None \<longrightarrow> xs_db a \<noteq> None)"
  "open_backend su a = Inr b \<longleftrightarrow>
     (case xs_db a of None \<Rightarrow> b = InMemory | Some path \<Rightarrow> su_open_db su path = Inr () \<and> b = SqliteAt path)"
  "start_metrics su a = Inr u \<longleftrightarrow>
     (xs_metrics_port a > 0 \<longrightarrow> su_install_metrics su (xs_metrics_port a) = Inr ())"
  "server_tls a = Inr tls \<longleftrightarrow>
     (case tls of
        None \<Rightarrow> xs_ca_cert a = None \<and> xs_tls_cert a = None \<and> xs_tls_key a = None
      | Some c \<Rightarrow> xs_ca_cert a = Some (tc_ca_cert c) \<and> xs_tls_cert a = Some (tc_cert c) \<and>
          xs_tls_key a = Some (tc_key c))"
  "load_tls su tls = Inr u \<longleftrightarrow> (\<forall>c. tls = Some c \<longrightarrow> su_load_server_tls su c = Inr ())"
  by (auto simp: check_ha_def open_backend_def start_metrics_def server_tls_def load_tls_def res_bind_Inr
      split: option.splits)

lemma chrono_seconds_Inr: "chrono_seconds n = Inr d \<longleftrightarrow> \<bar>sint n\<bar> \<le> (2 ^ 63 - 1) div 1000 \<and> d = secs (sint n)"
  by (auto simp: chrono_seconds_def)

lemma start_inv:
  assumes "server_start su a = Inr st"
  obtains backend tls threshold where "check_ha a = Inr ()" and "open_backend su a = Inr backend"
    and "chrono_seconds (xs_heartbeat_expect_interval a * ucast (xs_heartbeat_miss_threshold a)) = Inr threshold"
    and "server_tls a = Inr tls" and "load_tls su tls = Inr ()"
    and "st_backend st = backend" and "st_stale_threshold st = threshold" and "st_tls st = tls"
    and "st_controller st = start_controller (xs_cluster_id a) (xs_lease_duration a)"
  using assms unfolding server_start_def Let_def res_bind_Inr by (elim exE conjE) auto

text \<open>The services read the configuration that was checked.\<close>

lemma started_threshold:
  assumes "server_start su a = Inr st" shows "stale_threshold (started_env a st e) = st_stale_threshold st"
  using assms by (rule start_inv) (simp add: chrono_seconds_Inr stale_threshold_def started_env_def)

lemma started_cluster:
  assumes "server_start su a = Inr st" and "xs_cluster_id a = Some cid"
  obtains path where "st_backend st = SqliteAt path" and "su_open_db su path = Inr ()"
    and "\<not> ctl_config_is_leader (st_controller st)"
  using assms(1)
  by (rule start_inv) (auto simp: start_checks assms(2) start_controller_def intro!: that split: option.splits)

subsection \<open>Properties of the running process\<close>

text \<open>Nothing but the clock, the cache of counters, the theme and the lease has changed.\<close>

definition inert :: "('s, 'l) server \<Rightarrow> ('s, 'l) server \<Rightarrow> bool" where
  "inert v v' \<longleftrightarrow>
     (let w = rs_world (vr_rest v); w' = rs_world (vr_rest v')
      in w_store w' = w_store w \<and> w_events w' = w_events w \<and> w_requests w' = w_requests w \<and>
         w_tasks w' = w_tasks w \<and> w_uuids w' = w_uuids w)"

lemma inert_refl [simp]: "inert v v"
  by (simp add: inert_def)

lemma inert_trans: "inert u v \<Longrightarrow> inert v w \<Longrightarrow> inert u w"
  by (simp add: inert_def Let_def)

lemma serve_standby:
  assumes "\<not> rx_leader x" shows "only_ticks (rs_world st) (rs_world (snd (serve ops e x t rv q st)))"
proof (cases "route (hq_method q) (hq_path q)")
  case (Some ep)
  have "only_ticks (rs_world st) (rs_world (snd (dispatch ops e x t rv q ep st)))"
    using dispatch_standby [OF assms, of ep st] set_theme_world [of ops e x t rv q st]
    by (cases "ep = ESetTheme") (auto simp: unchanged_def)
  then show ?thesis by (auto simp: serve_def Some auth_middleware_cases)
qed (simp add: serve_def)

lemma standby_step:
  assumes "own_step ops e x t a calls v v'" and "\<not> ctl_config_is_leader (vr_ctl v)"
  shows "inert v v' \<and> \<not> ctl_config_is_leader (vr_ctl v')"
  using assms
proof (induction rule: own_step.induct)
  case (request v rv q)
  have "only_ticks (rs_world (vr_rest v))
      (rs_world (snd (serve ops e (started_rest a (vr_ctl v) x) t rv q (vr_rest v))))"
    by (rule serve_standby) (simp add: started_rest_def request)
  then show ?case using request by (auto simp: inert_def only_ticks_def)
next
  case (elect acquire v c l)
  then show ?case by (auto simp: inert_def controller_tick_def split: option.splits prod.splits)
qed (simp_all add: inert_def on_store_def fsm_tick_def persist_event_def reaper_tick_def Let_def case_prod_unfold
    clock_def split: domain_event.split)

lemma standby_steps:
  "(own_step ops e x t a calls)\<^sup>*\<^sup>* v v' \<Longrightarrow> \<not> ctl_config_is_leader (vr_ctl v) \<Longrightarrow>
     inert v v' \<and> \<not> ctl_config_is_leader (vr_ctl v')"
  by (induction rule: rtranclp_induct) (auto dest: standby_step intro: inert_trans)

lemma served_standby:
  "(server_step ops e x t a calls)\<^sup>*\<^sup>* v v' \<Longrightarrow> \<not> ctl_config_is_leader (vr_ctl v) \<Longrightarrow>
     \<not> ctl_config_is_leader (vr_ctl v')"
proof (induction rule: rtranclp_induct)
  case (step v1 v2)
  show ?case using step(2) step.IH [OF step.prems]
    by (cases rule: server_step.cases) (auto dest: standby_step simp: on_store_def)
qed simp

text \<open>C10: A controller that starts with a cluster id has the database that holds the leases, and whatever
  its process has done since, gRPC calls included, it then does nothing on its own or through REST:
  whatever its lease calls return, no REST request, no round of the state
  machines, of the persistence of events or of the reaper changes its storage, announces an event,
  calls an agent or starts a webhook, even while it holds the lease.  The one thing its loops
  write is the row of its lease, which is kept beside the storage here.\<close>

theorem cluster_controller_is_inert:
  assumes "server_start su a = Inr st" and "xs_cluster_id a = Some cid"
    and "vr_ctl v0 = st_controller st" and "(server_step ops e x t a calls)\<^sup>*\<^sup>* v0 v"
    and "(own_step ops e x t a calls)\<^sup>*\<^sup>* v v'"
  shows "(\<exists>path. st_backend st = SqliteAt path \<and> su_open_db su path = Inr ()) \<and> inert v v'"
proof -
  obtain path where db: "st_backend st = SqliteAt path" "su_open_db su path = Inr ()"
    and "\<not> ctl_config_is_leader (st_controller st)"
    using started_cluster [OF assms(1,2)] .
  then have "\<not> ctl_config_is_leader (vr_ctl v)" using served_standby [OF assms(4)] assms(3) by simp
  from standby_steps [OF assms(5) this] db show ?thesis by blast
qed

text \<open>A gRPC call changes such a controller all the same: an agent registers.\<close>

lemma grpc_changes_standby:
  "\<exists>n. mem_get_node (w_store (rs_world (vr_rest (on_store (grpc_effect memory_ops e (GRegister req)) v))))
     (e_uuid e (w_uuids (rs_world (vr_rest v)))) = Inr (Some n) \<and> n_hostname n = rr_hostname req"
  by (simp add: on_store_def register_node_def Let_def case_prod_unfold blocking_def mem_register_node_def
      clock_def new_uuid_def mem_get_node_def node_new_def)

end
