(* ===== verification/Scenario_Start.thy ===== *)
theory Scenario_Start
  imports Scenario Server_Start
begin

text \<open>
  The controller process of the deployment of \<open>Scenario\<close>: the table of routes tried in another order,
  and a process started with a cluster id to which a request is sent that would remove its node.
\<close>

lemma routes_reach_their_handlers_witness:
  "route_in (api_routes @ health_routes) MDelete [''api'', ''nodes'', ''n1''] = Some (ERemoveNode ''n1'')"
proof -
  have order: "mset (api_routes @ health_routes) = mset (health_routes @ api_routes)" by simp
  have address: "address (ERemoveNode ''n1'') = (MDelete, [''api'', ''nodes'', ''n1'']) \<and>
      [] \<notin> set [''api'', ''nodes'', ''n1'']" by simp
  note reach = routes_reach_their_handlers [of "api_routes @ health_routes" MDelete "[''api'', ''nodes'', ''n1'']"
      "ERemoveNode ''n1''"]
  from reach [THEN conjunct1, rule_format, OF order] reach [THEN conjunct2, THEN iffD2, OF address]
  show ?thesis by (rule trans)
qed

subsection \<open>A process with a cluster id\<close>

definition demo_outside :: start_outside where
  "demo_outside =
     \<lparr> su_open_db = (\<lambda>_. Inr ()), su_install_metrics = (\<lambda>_. Inr ()), su_parse_addr = (\<lambda>_. Inr ()),
       su_dir_exists = (\<lambda>_. False), su_bind = (\<lambda>_. Inr ()), su_load_server_tls = (\<lambda>_. Inr ()) \<rparr>"

definition demo_server_args :: server_args where
  "demo_server_args =
     \<lparr> xs_port = 50054, xs_host = ''0.0.0.0'', xs_db = Some ''pacinet.db'', xs_deploy_timeout = 30,
       xs_heartbeat_expect_interval = 30, xs_heartbeat_miss_threshold = 3, xs_metrics_port = 0,
       xs_counter_retention_secs = 3600, xs_counter_max_per_node = 120, xs_ca_cert = None, xs_tls_cert = None,
       xs_tls_key = None, xs_web_port = 8081, xs_static_dir = None, xs_api_key = Some ''key'',
       xs_cluster_id = Some ''a'', xs_lease_duration = 30, xs_persist_counter_events = False,
       xs_event_max_age_days = 7 \<rparr>"

lemma demo_port: "show_nat 50054 = ''50054''"
  by (simp add: show_nat.simps digit_char_def) code_simp

lemma demo_server_starts:
  "\<exists>st. server_start demo_outside demo_server_args = Inr st \<and> st_addr st = ''0.0.0.0:50054'' \<and>
     st_stale_threshold st = secs 90 \<and> st_reaper_runs st"
  by (simp add: server_start_def demo_server_args_def demo_outside_def check_ha_def open_backend_def
      start_metrics_def server_tls_def chrono_seconds_def start_web_def load_tls_def socket_text_def
      Let_def demo_port)

definition demo_removal :: http_request where
  "demo_removal =
     \<lparr> hq_method = MDelete, hq_path = [''api'', ''nodes'', ''n1''], hq_query = None,
       hq_auth = Some ''Bearer key'', hq_body = [] \<rparr>"

definition demo_agent_registers :: register_node_request where
  "demo_agent_registers =
     \<lparr> rr_hostname = ''edge'', rr_agent_address = ''10.0.0.2:50055'', rr_labels = [], rr_pacgate_version = [],
       rr_capabilities = [] \<rparr>"

definition demo_process :: "controller \<Rightarrow> (mem_storage, unit) server" where
  "demo_process c =
     \<lparr> vr_rest = \<lparr> rs_world = world_of demo_store, rs_theme = ''dark'' \<rparr>, vr_ctl = c, vr_lease = () \<rparr>"

text \<open>An agent registers at the process, and a request to remove a node of it does nothing.\<close>

lemma cluster_controller_is_inert_witness:
  "\<exists>st v. server_start demo_outside demo_server_args = Inr st \<and>
     v = on_store (grpc_effect memory_ops demo_env (GRegister demo_agent_registers)) (demo_process (st_controller st)) \<and>
     (\<forall>t rv. inert v (v\<lparr> vr_rest := snd (serve memory_ops demo_env
        (started_rest demo_server_args (vr_ctl v) (demo_rest False)) t rv demo_removal (vr_rest v)) \<rparr>))"
proof -
  obtain st where st: "server_start demo_outside demo_server_args = Inr st" using demo_server_starts by blast
  have cid: "xs_cluster_id demo_server_args = Some ''a''" by (simp add: demo_server_args_def)
  have ctl: "vr_ctl (demo_process (st_controller st)) = st_controller st" by (simp add: demo_process_def)
  let ?v = "on_store (grpc_effect memory_ops demo_env (GRegister demo_agent_registers)) (demo_process (st_controller st))"
  have served: "(server_step memory_ops demo_env (demo_rest False) t demo_server_args {})\<^sup>*\<^sup>*
      (demo_process (st_controller st)) ?v" for t
    by (rule r_into_rtranclp, rule server_step.grpc)
  have asked: "(own_step memory_ops demo_env (demo_rest False) t demo_server_args {})\<^sup>*\<^sup>* v
      (v\<lparr> vr_rest := snd (serve memory_ops demo_env
        (started_rest demo_server_args (vr_ctl v) (demo_rest False)) t rv demo_removal (vr_rest v)) \<rparr>)"
    for v :: "(mem_storage, unit) server" and t rv
    by (rule r_into_rtranclp, rule own_step.request)
  from cluster_controller_is_inert [OF st cid ctl served asked, THEN conjunct2] st show ?thesis by blast
qed

end
