(* ===== verification/Spec2Isabelle.thy ===== *)
theory Spec2Isabelle
  imports Scenario_Systems Scenario_Tools Scenario_Start
begin

text \<open>
  PaciNet: a controller that rolls packet-filter policies out to a fleet of agents.

  The program.  Agents register with the controller, send heartbeats and counters, and receive
  policies.  Operators talk to the management service or its REST twin: they deploy and roll back
  policies, read the state of the fleet, and start state machines that run rollouts, react to counters
  or call webhooks.  All parts of the controller share one \<open>Storage\<close>, in memory or in SQLite.  An agent
  validates, lints and compiles what it is sent before it makes it active.  Background loops of the
  controller evaluate the state machines, take nodes offline that miss heartbeats, persist events, and
  (in HA mode) compete for a lease.  Two tools talk to the controller: a command line over gRPC, and a
  simulator that plays nodes against it, runs scenarios and relays its event streams.

  The model.  The state of the controller is a \<open>world\<close> (theory World): the storage, the counter
  cache, and what the controller has done to its surroundings so far (clock readings, fresh UUIDs,
  agent requests, events on the bus, spawned tasks).  What is not code of the repository is
  a field of \<open>env\<close>: the clock, the UUIDs, what an agent answers, the hash of a policy text, the YAML
  and JSON libraries, the printing of gRPC statuses.  Every handler is a function from a request and
  a world to a result and a world; errors are the left values of a sum.  The storage trait is a
  record of operations, so handlers work on any backend.

  \<^item> Prelude: type synonyms, hash maps as association lists, results, decimal numerals.
  \<^item> Core_Model (\<^verbatim>\<open>pacinet-core/src/model.rs\<close>, \<^verbatim>\<open>error.rs\<close>, \<^verbatim>\<open>fsm/error.rs\<close>): nodes, policies, errors.
  \<^item> Durations (\<^verbatim>\<open>pacinet-core/src/fsm/mod.rs\<close>): \<open>parse_duration\<close>.
  \<^item> Float64: the part of IEEE double arithmetic the program uses, rounding to nearest even.
  \<^item> Fsm_Def, Fsm_Inst (\<^verbatim>\<open>fsm/definition.rs\<close>, \<^verbatim>\<open>fsm/instance.rs\<close>): definitions, their validation, instances.
  \<^item> Storage_Trait (\<^verbatim>\<open>pacinet-core/src/storage.rs\<close>): the operations, an abstract store, and the contract of
    each group of operations as a locale over the abstract store.
  \<^item> Mem_Storage (\<^verbatim>\<open>pacinet-server/src/storage/memory.rs\<close>): every method of the in-memory backend, its
    invariant, and the proof that it meets every contract.
  \<^item> Mem_Run (\<^verbatim>\<open>memory.rs\<close>): the refinement of all methods that change the state to maps and logs; \<open>remove_node\<close>
    in its six steps, with other calls in between.
  \<^item> Counters (\<^verbatim>\<open>counter_cache.rs\<close>, \<^verbatim>\<open>counter_rate.rs\<close>): the sliding window of snapshots and the rates.
  \<^item> World (\<^verbatim>\<open>events.rs\<close>, \<^verbatim>\<open>config.rs\<close>, \<^verbatim>\<open>storage/mod.rs\<close>): events, environment, effects.
  \<^item> Deploying (\<^verbatim>\<open>deploy.rs\<close>): the deploy to one node and to a list of nodes.
  \<^item> Fsm_Eval, Fsm_Engine, Fsm_Run (\<^verbatim>\<open>fsm_engine.rs\<close>): conditions; actions, transitions and the operations on
    instances; the engine as a step relation with its invariant.
  \<^item> Main_Loops (\<^verbatim>\<open>leader.rs\<close>, the lease of \<^verbatim>\<open>storage/sqlite.rs\<close>, the loops of \<^verbatim>\<open>main.rs\<close>).
  \<^item> Controller_Api, Management_Api, Api_Run (\<^verbatim>\<open>service.rs\<close>): the RPCs of both services; what they keep.
  \<^item> Deploy_Tasks (\<open>deploy_policy\<close> of \<^verbatim>\<open>service.rs\<close>, \<^verbatim>\<open>deploy.rs\<close>): a deploy cut at every storage and agent call,
    and any number of deploys, interleaved and dropped, as a step relation.
  \<^item> Engine_Overlap (\<^verbatim>\<open>fsm_engine.rs\<close>): evaluations and operations on instances cut where they wait, and their
    overlap as a step relation.
  \<^item> Json_Value: JSON values and their readings, for the REST service and the tools.
  \<^item> Rest_Api, Rest_Records, Rest_Run (\<^verbatim>\<open>rest.rs\<close>): the HTTP handlers, the authentication and the leader
    check; where they agree with the gRPC handlers and where they do not.
  \<^item> Rest_Router, Rest_Router_Run (\<open>router\<close> of \<^verbatim>\<open>rest.rs\<close>): the table of routes, the layers and the dispatch
    from a request to its handler; which request reaches which handler and which can change anything.
  \<^item> Server_Start (\<^verbatim>\<open>pacinet-server/src/main.rs\<close>): the start of the process from its arguments, and the
    running process as a step relation over REST requests, calls of the gRPC services, the loops and the
    leader loop.
  \<^item> Sqlite_Storage, Sqlite_Run, Sqlite_Api (\<^verbatim>\<open>storage/sqlite.rs\<close>, \<^verbatim>\<open>storage/schema.sql\<close>): the tables as
    lists of rows and every method of the SQLite backend; its integrity, the proof that it meets the
    contract, the comparison with the in-memory backend; the handlers on it.
  \<^item> Webhooks (\<^verbatim>\<open>webhook.rs\<close>): the retry loop as the trace of its effects.
  \<^item> Agent_Pacgate, Agent, Agent_Run (\<^verbatim>\<open>pacinet-agent/src/pacgate.rs\<close>, \<^verbatim>\<open>service.rs\<close>, \<^verbatim>\<open>main.rs\<close>): the
    runs of the compiler and their flags; the service, the start and the heartbeats; the interleaving
    of deploys as a step relation, and the agent together with the controller.
  \<^item> Fsm_Liveness: repeated rounds of the evaluation loop on one instance.
  \<^item> Sim_Sse, Sim, Sim_Run (\<^verbatim>\<open>pacinet-sim/src/main.rs\<close>): the reader of server-sent events from bytes to
    events; the requests of the simulator and its scenarios over an environment that answers its
    calls; the simulator on the handlers of the controller, as a step relation.
  \<^item> Cli_Print, Cli_Reports, Cli, Cli_Run (\<^verbatim>\<open>pacinet-cli/src/main.rs\<close>): the lines the commands print, the
    panics of byte slicing included; every command over a client of the controller; the commands on
    the handlers of the controller.
  \<^item> Scenario, Scenario_Systems, Scenario_Tools, Scenario_Start: a small deployment on which every
    property with hypotheses is instantiated.

  What is shown.  The storage lemmas give a refinement of the abstract store, the numbering of
  policy versions and the bounds of the logs.  The deploy lemmas say what a deploy does on each branch,
  that it is idempotent, and that a list of deploys is accounted for.  The engine lemmas show that
  every run follows its definition, that a finished run is frozen unless a task holds a copy from
  before its end, that batches partition the
  selected nodes, and when a sustained condition fires.  The loops: leases exclude, and HA mode never
  leads.  The services: a guard is held by one task at a time and given back, unless the task is dropped; refusals change nothing, rollbacks restore, and REST and
  gRPC agree.  SQLite: no orphan rows in any reachable database, the handlers keep that, and the two
  backends are interchangeable up to the differences stated.  The agent runs only rules that passed
  every check, and after a deploy it and the controller agree on what runs; a webhook is tried a
  bounded number of times and every try is recorded.  A state with a timer is left after finitely many
  rounds.  REST: each handler has its own address, only authorised writes to a leader change the
  controller, and a process started with a cluster id changes nothing on its own or through REST, apart from the
  row of its lease.  The tools: what the
  command line deploys is what it shows, templates deploy like their files, tables panic in exactly
  the cases stated; the simulator and the controller agree on the nodes it plays, its scenarios end
  where they should, and its relay hands on the events it was sent.

  Bounds.  Integers keep their width: \<open>u32\<close> and \<open>u64\<close> are words and wrap as in a release build.  The
  batch size is exact for up to \<open>2\<^sup>3\<^sup>2\<close> nodes, rates for readings less than \<open>2\<^sup>5\<^sup>3\<close> milliseconds apart.
  Loops of the code run over lists and are structural recursions, so no fuel is needed; \<open>batches\<close>, the
  sequence of batches of a rollout, takes one unit per node, which is enough because no batch is empty.
  SQLite keeps version numbers in signed columns, so its contract on them is for fewer than
  \<open>2\<^sup>6\<^sup>3 - 1\<close> versions of a node.

  The reader of server-sent events consumes its buffer, which is the measure of its recursion.

  Not modelled.  The migrations of old databases and faults of the database; the reading and printing
  of JSON and YAML and the parsing of arguments, queries and bodies, which are libraries; metrics,
  the loading of TLS files, hashing, timers, signals and the runtime around the loops; CORS and the
  static files of the web servers; the CPU reading of a heartbeat; the generated protobuf code; the
  dashboard, which is TypeScript.  Of HTTP, the methods the routes name: a HEAD request, which the web
  framework answers like a GET, is left out, and paths are matched after decoding.

  Concurrency.  A storage call is one step.  This is what the locks make of it, with one exception: \<open>remove_node\<close>
  of the in-memory backend, which locks one map after the other and is cut accordingly in Mem_Run.  A
  call of the SQLite backend is one step within its process; what another process that opens the same file, or a crash,
  could see between the statements of one call is not modelled, and a transaction whose COMMIT fails counts as
  rolled back.  A handler runs without interruption in the theories that say what it does; what interruptions and
  dropped requests do to the deploy guard, to the instances of the engine, and to the policy of an agent is in
  Deploy_Tasks, Engine_Overlap and Agent_Run.  The records of a webhook delivery are stored in the order of the
  attempts, although each is written by a task of its own.
\<close>

end
